(* ===== verification/Prelude.thy ===== *)
theory Prelude
  imports Main "HOL-Library.Word" "HOL-Library.List_Lexorder" "HOL-Library.Char_ord"
begin

text \<open>
  Shared vocabulary of the development: the machine integers, results and outcomes of
  fallible code, file-system paths, and the two map containers of the Rust standard
  library that the sources use (\<open>BTreeMap\<close> and \<open>HashMap\<close>), with the laws the
  components rely on stated once as locales.
\<close>

section \<open>Collections of facts\<close>

named_theorems result_simps \<open>rewriting of results, outcomes and their combinators\<close>
named_theorems store_simps \<open>what a lookup returns after an update of a map container\<close>

section \<open>Machine integers\<close>

type_synonym byte = "8 word"
type_synonym i32 = "32 word"
type_synonym u32 = "32 word"
type_synonym i64 = "64 word"
type_synonym u64 = "64 word"

text \<open>\<open>Ord::max\<close> on a signed machine integer: the operands compare as two's complement.\<close>

definition smax :: "'w::len word \<Rightarrow> 'w word \<Rightarrow> 'w word" where
  "smax a b = (if sint a \<le> sint b then b else a)"

lemma sint_smax [simp]: "sint (smax a b) = max (sint a) (sint b)"
  by (simp add: smax_def)

lemma smax_0_id: "0 \<le> sint a \<Longrightarrow> smax a 0 = a"
  by (auto simp: smax_def intro!: signed_word_eqI)

text \<open>
  A signed increment below some other value of the type, and a signed decrement of a
  non-negative value, do not wrap around.
\<close>

lemma sint_in_range:
  "- (2 ^ (LENGTH('w) - 1)) \<le> x \<Longrightarrow> x < 2 ^ (LENGTH('w) - 1) \<Longrightarrow>
    sint (word_of_int x :: 'w::len word) = x"
  by (simp add: signed_take_bit_int_eq_self sint_sbintrunc')

lemma sint_bounds:
  "- (2 ^ (LENGTH('w) - 1)) \<le> sint (a :: 'w::len word)" "sint a < 2 ^ (LENGTH('w) - 1)"
  using sint_greater_eq [of a] sint_less [of a] by auto

lemma sint_succ:
  fixes a b :: "'w::len word"
  assumes "sint a < sint b"
  shows "sint (a + 1) = sint a + 1"
proof -
  have "sint (word_of_int (sint a + 1) :: 'w word) = sint a + 1"
    using assms sint_bounds [of a] sint_bounds [of b] by (intro sint_in_range) linarith+
  then show ?thesis by simp
qed

lemma sint_pred:
  assumes "0 \<le> sint (a :: 'w::len word)"
  shows "sint (a - 1) = sint a - 1"
proof -
  have "(1 :: int) \<le> 2 ^ (LENGTH('w) - 1)" by simp
  then have "sint (word_of_int (sint a - 1) :: 'w word) = sint a - 1"
    using assms sint_bounds [of a] by (intro sint_in_range) linarith+
  then show ?thesis by simp
qed

section \<open>Results and outcomes\<close>

type_synonym ('e, 'a) result = "'e + 'a"

abbreviation Ok :: "'a \<Rightarrow> ('e, 'a) result" where "Ok \<equiv> Inr"
abbreviation Err :: "'e \<Rightarrow> ('e, 'a) result" where "Err \<equiv> Inl"

text \<open>The early return \<open>?\<close>, \<open>Result::map_err\<close> and \<open>Option::ok_or_else\<close>.\<close>

definition and_then :: "('e, 'a) result \<Rightarrow> ('a \<Rightarrow> ('e, 'b) result) \<Rightarrow> ('e, 'b) result" where
  "and_then r f = (case r of Err e \<Rightarrow> Err e | Ok a \<Rightarrow> f a)"

definition map_err :: "('e \<Rightarrow> 'f) \<Rightarrow> ('e, 'a) result \<Rightarrow> ('f, 'a) result" where
  "map_err f r = (case r of Err e \<Rightarrow> Err (f e) | Ok a \<Rightarrow> Ok a)"

definition ok_or :: "'e \<Rightarrow> 'a option \<Rightarrow> ('e, 'a) result" where
  "ok_or e x = (case x of None \<Rightarrow> Err e | Some a \<Rightarrow> Ok a)"

definition unwrap_or :: "'a \<Rightarrow> 'a option \<Rightarrow> 'a" where
  "unwrap_or d x = (case x of None \<Rightarrow> d | Some a \<Rightarrow> a)"

lemma and_then_simps [simp, result_simps]:
  "and_then (Ok a) f = f a" "and_then (Err e) f = Err e"
  by (simp_all add: and_then_def)

lemma map_err_simps [simp, result_simps]:
  "map_err f (Ok a) = Ok a" "map_err f (Err e) = Err (f e)"
  by (simp_all add: map_err_def)

lemma ok_or_simps [simp, result_simps]:
  "ok_or e (Some a) = Ok a" "ok_or e None = Err e"
  by (simp_all add: ok_or_def)

lemma unwrap_or_simps [simp, result_simps]:
  "unwrap_or d (Some a) = a" "unwrap_or d None = d"
  by (simp_all add: unwrap_or_def)

lemma and_then_eq_Ok [result_simps]:
  "and_then r f = Ok b \<longleftrightarrow> (\<exists>a. r = Ok a \<and> f a = Ok b)"
  by (cases r) auto

lemma map_err_eq_Ok [result_simps]: "map_err f r = Ok a \<longleftrightarrow> r = Ok a"
  by (cases r) auto

lemma map_err_eq_Err [result_simps]: "map_err f r = Err e \<longleftrightarrow> (\<exists>d. r = Err d \<and> e = f d)"
  by (cases r) auto

lemma ok_or_eq_Ok [result_simps]: "ok_or e x = Ok a \<longleftrightarrow> x = Some a"
  by (cases x) auto

text \<open>
  An asynchronous call that comes back returns, fails with an error or panics. A call that
  never comes back is the \<open>None\<close> of an \<open>outcome option\<close>.
\<close>

datatype ('e, 'a) outcome = Return 'a | Fail 'e | Panic

section \<open>Loops\<close>

text \<open>
  A Rust \<open>loop\<close> whose body either leaves the loop with a value (\<open>Some\<close>) or goes round
  again (\<open>None\<close>); the index counts the rounds. A loop that goes round for ever has the
  value \<open>None\<close>.
\<close>

partial_function (option) loop_from :: "(nat \<Rightarrow> 'a option) \<Rightarrow> nat \<Rightarrow> 'a option" where
  "loop_from body i = (case body i of Some r \<Rightarrow> Some r | None \<Rightarrow> loop_from body (Suc i))"

lemma loop_from_skip:
  assumes "i \<le> n" "\<And>j. i \<le> j \<Longrightarrow> j < n \<Longrightarrow> body j = None"
  shows "loop_from body i = loop_from body n"
  using assms
proof (induction "n - i" arbitrary: i)
  case 0
  then show ?case by simp
next
  case (Suc d)
  then have "body i = None" and "loop_from body (Suc i) = loop_from body n" by auto
  then show ?case by (simp add: loop_from.simps [of body i])
qed

lemma loop_from_exits:
  assumes "loop_from body i = Some r"
  shows "\<exists>n \<ge> i. body n = Some r \<and> (\<forall>j. i \<le> j \<and> j < n \<longrightarrow> body j = None)"
proof (rule loop_from.raw_induct
    [where P = "\<lambda>body i r. \<exists>n \<ge> i. body n = Some r \<and> (\<forall>j. i \<le> j \<and> j < n \<longrightarrow> body j = None)",
      OF _ assms])
  fix f and body :: "nat \<Rightarrow> 'a option" and i r
  assume IH: "\<And>body i r. f body i = Some r \<Longrightarrow>
      \<exists>n \<ge> i. body n = Some r \<and> (\<forall>j. i \<le> j \<and> j < n \<longrightarrow> body j = None)"
    and eq: "(case body i of Some r \<Rightarrow> Some r | None \<Rightarrow> f body (Suc i)) = Some r"
  show "\<exists>n \<ge> i. body n = Some r \<and> (\<forall>j. i \<le> j \<and> j < n \<longrightarrow> body j = None)"
  proof (cases "body i")
    case None
    with eq IH [of body "Suc i" r] obtain n where
      "Suc i \<le> n" "body n = Some r" "\<forall>j. Suc i \<le> j \<and> j < n \<longrightarrow> body j = None"
      by auto
    with None show ?thesis by (metis Suc_leD Suc_le_eq le_neq_implies_less)
  next
    case (Some a)
    with eq show ?thesis by auto
  qed
qed

text \<open>The loop leaves with the value of the first round that leaves it, if there is one.\<close>

lemma loop_from_eq_Some:
  "loop_from body i = Some r \<longleftrightarrow>
    (\<exists>n \<ge> i. body n = Some r \<and> (\<forall>j. i \<le> j \<and> j < n \<longrightarrow> body j = None))"
proof
  assume "\<exists>n \<ge> i. body n = Some r \<and> (\<forall>j. i \<le> j \<and> j < n \<longrightarrow> body j = None)"
  then obtain n where n: "i \<le> n" "body n = Some r" "\<forall>j. i \<le> j \<and> j < n \<longrightarrow> body j = None" by blast
  then have "loop_from body i = loop_from body n" by (intro loop_from_skip) auto
  with n(2) show "loop_from body i = Some r" by (simp add: loop_from.simps [of body n])
qed (rule loop_from_exits)

lemma loop_from_eq_None: "loop_from body i = None \<longleftrightarrow> (\<forall>n \<ge> i. body n = None)"
proof
  assume "loop_from body i = None"
  show "\<forall>n \<ge> i. body n = None"
  proof (rule ccontr)
    assume "\<not> ?thesis"
    then have ex: "\<exists>n. i \<le> n \<and> body n \<noteq> None" by blast
    define n where "n = (LEAST n. i \<le> n \<and> body n \<noteq> None)"
    have "i \<le> n \<and> body n \<noteq> None" unfolding n_def by (rule LeastI_ex [OF ex])
    moreover have "body j = None" if "i \<le> j" "j < n" for j
      using that not_less_Least [of j "\<lambda>n. i \<le> n \<and> body n \<noteq> None"] unfolding n_def by blast
    ultimately have "\<exists>r. loop_from body i = Some r"
      unfolding loop_from_eq_Some by (metis option.exhaust)
    with \<open>loop_from body i = None\<close> show False by simp
  qed
next
  assume "\<forall>n \<ge> i. body n = None"
  then show "loop_from body i = None"
    by (metis loop_from_exits not_None_eq)
qed

section \<open>Paths\<close>

text \<open>
  \<open>std::path::Path\<close> up to its own equality, which compares components: whether the path
  starts at the root, and its components.
\<close>

datatype path = Path (is_absolute: bool) (components: "string list")

fun parent :: "path \<Rightarrow> path option" where
  "parent (Path a []) = None"
| "parent (Path a (c # cs)) = Some (Path a (butlast (c # cs)))"

fun join :: "path \<Rightarrow> path \<Rightarrow> path" where
  "join (Path a cs) (Path b ds) = (if b then Path b ds else Path a (cs @ ds))"

abbreviation name_path :: "string \<Rightarrow> path" where
  "name_path c \<equiv> Path False [c]"

lemma parent_join_name [simp]: "parent (join p (name_path c)) = Some p"
  by (cases p; cases "components p") (auto simp: butlast_append)

lemma join_name_inject [simp]: "join p (name_path c) = join q (name_path d) \<longleftrightarrow> p = q \<and> c = d"
  by (cases p; cases q) auto

lemma parent_eq_Some: "parent p = Some d \<Longrightarrow> \<exists>c. p = join d (name_path c)"
proof (cases p rule: parent.cases)
  case (2 a c cs)
  assume "parent p = Some d"
  with 2 have "p = join d (name_path (last (c # cs)))"
    by (metis append_butlast_last_id join.simps list.distinct(1) option.inject parent.simps(2))
  then show ?thesis ..
qed simp

section \<open>Map containers\<close>

text \<open>
  The interface of a keyed store with lookup and insertion: an empty store, a
  well-formedness condition that insertion keeps, and what a lookup returns afterwards.
\<close>

locale lookup_store =
  fixes get :: "'m \<Rightarrow> 'k \<Rightarrow> 'v option"
    and put :: "'k \<Rightarrow> 'v \<Rightarrow> 'm \<Rightarrow> 'm"
    and nothing :: 'm
    and ok :: "'m \<Rightarrow> bool"
  assumes ok_nothing: "ok nothing"
    and get_nothing: "get nothing k = None"
    and ok_put: "ok m \<Longrightarrow> ok (put k v m)"
    and get_put: "ok m \<Longrightarrow> get (put k v m) k' = (if k' = k then Some v else get m k')"
    and finite_keys: "ok m \<Longrightarrow> finite {k. get m k \<noteq> None}"
begin

text \<open>A store filled from a list of entries: the last entry of a key is the one found.\<close>

lemma ok_fold_put: "ok m \<Longrightarrow> ok (fold (\<lambda>(k, v). put k v) es m)"
  by (induction es arbitrary: m) (auto intro: ok_put)

lemma get_fold_put:
  "ok m \<Longrightarrow> get (fold (\<lambda>(k, v). put k v) es m) k =
    (case map_of (rev es) k of None \<Rightarrow> get m k | Some v \<Rightarrow> Some v)"
proof (induction es arbitrary: m)
  case Nil
  then show ?case by simp
next
  case (Cons e es)
  obtain a b where e: "e = (a, b)" by (cases e)
  have "ok (put a b m)" using Cons.prems by (rule ok_put)
  from Cons.IH [OF this] show ?case
    using get_put [OF Cons.prems, of a b k]
    by (auto simp: e map_add_def split: option.splits)
qed

lemma put_put: "ok m \<Longrightarrow> get (put k v' (put k v m)) = get (put k v' m)"
  by (rule ext) (simp add: get_put ok_put)

end

text \<open>How many keys of a finite map hold a value with a property.\<close>

definition tally :: "('k \<Rightarrow> 'v option) \<Rightarrow> ('v \<Rightarrow> bool) \<Rightarrow> nat" where
  "tally f P = card {k. \<exists>v. f k = Some v \<and> P v}"

text \<open>A store that also removes keys, and the tallies over it.\<close>

locale removable_store = lookup_store get put nothing ok
  for get :: "'m \<Rightarrow> 'k \<Rightarrow> 'v option" and put nothing ok +
  fixes del :: "'k \<Rightarrow> 'm \<Rightarrow> 'm"
  assumes ok_del: "ok m \<Longrightarrow> ok (del k m)"
    and get_del: "ok m \<Longrightarrow> get (del k m) k' = (if k' = k then None else get m k')"
begin

lemma finite_matching: "ok m \<Longrightarrow> finite {k. \<exists>v. get m k = Some v \<and> P v}"
  by (rule finite_subset [OF _ finite_keys]) auto

lemma tally_nothing [simp]: "tally (get nothing) P = 0"
  by (simp add: tally_def get_nothing)

lemma tally_put_fresh:
  assumes "ok m" "get m k = None"
  shows "tally (get (put k v m)) P = tally (get m) P + (if P v then 1 else 0)"
proof -
  have "{j. \<exists>w. get (put k v m) j = Some w \<and> P w} =
      (if P v then insert k {j. \<exists>w. get m j = Some w \<and> P w}
       else {j. \<exists>w. get m j = Some w \<and> P w})"
    using assms by (auto simp: get_put)
  then show ?thesis
    using assms by (simp add: tally_def finite_matching)
qed

lemma tally_del_present:
  assumes "ok m" "get m k = Some v"
  shows "tally (get (del k m)) P = tally (get m) P - (if P v then 1 else 0)"
proof -
  have "{j. \<exists>w. get (del k m) j = Some w \<and> P w} = {j. \<exists>w. get m j = Some w \<and> P w} - {k}"
    using assms by (auto simp: get_del)
  then show ?thesis
    using assms by (auto simp: tally_def finite_matching)
qed

lemma tally_pos: "ok m \<Longrightarrow> get m k = Some v \<Longrightarrow> P v \<Longrightarrow> 0 < tally (get m) P"
  unfolding tally_def by (subst card_gt_0_iff) (auto simp: finite_matching)

lemma tally_zeroD: "ok m \<Longrightarrow> tally (get m) P = 0 \<Longrightarrow> get m k = Some v \<Longrightarrow> \<not> P v"
  using tally_pos [of m k v P] by auto

end

subsection \<open>\<open>BTreeMap\<close>\<close>

text \<open>
  A \<open>BTreeMap\<close> is its sequence of entries in strictly increasing key order, which is what
  iteration and encoding see. Two maps with the same entries are the same value.
\<close>

type_synonym ('k, 'v) btree_map = "('k \<times> 'v) list"

definition btree_ok :: "('k::linorder, 'v) btree_map \<Rightarrow> bool" where
  "btree_ok m \<longleftrightarrow> sorted_wrt (<) (map fst m)"

definition btree_get :: "('k, 'v) btree_map \<Rightarrow> 'k \<Rightarrow> 'v option" where
  "btree_get m = map_of m"

definition btree_insert ::
  "'k::linorder \<Rightarrow> 'v \<Rightarrow> ('k, 'v) btree_map \<Rightarrow> ('k, 'v) btree_map" where
  "btree_insert k v m = takeWhile (\<lambda>e. fst e < k) m @ (k, v) # dropWhile (\<lambda>e. fst e \<le> k) m"

lemma btree_insert_Nil [simp]: "btree_insert k v [] = [(k, v)]"
  by (simp add: btree_insert_def)

lemma btree_insert_Cons:
  "btree_insert k v (e # m) =
    (if fst e < k then e # btree_insert k v m
     else (k, v) # (if fst e = k then dropWhile (\<lambda>e. fst e \<le> k) m else e # m))"
  by (auto simp: btree_insert_def)

lemma btree_ok_Cons [simp]:
  "btree_ok (e # m) \<longleftrightarrow> (\<forall>x \<in> set m. fst e < fst x) \<and> btree_ok m"
  by (auto simp: btree_ok_def)

lemma btree_ok_Nil [simp]: "btree_ok []"
  by (simp add: btree_ok_def)

lemma dropWhile_above [simp]:
  "\<forall>x \<in> set m. k < fst x \<Longrightarrow> dropWhile (\<lambda>e. fst e \<le> (k::'k::linorder)) m = m"
  by (cases m) auto

lemma set_btree_insert:
  "btree_ok m \<Longrightarrow> set (btree_insert k v m) = insert (k, v) {e \<in> set m. fst e \<noteq> k}"
  by (induction m) (force simp: btree_insert_Cons)+

lemma btree_ok_insert: "btree_ok m \<Longrightarrow> btree_ok (btree_insert k v m)"
proof (induction m)
  case Nil
  then show ?case by simp
next
  case (Cons e m)
  show ?case
  proof (cases "fst e < k")
    case True
    with Cons show ?thesis by (auto simp: btree_insert_Cons set_btree_insert)
  next
    case False
    with Cons.prems show ?thesis by (force simp: btree_insert_Cons)
  qed
qed

lemma btree_get_insert:
  "btree_ok m \<Longrightarrow> btree_get (btree_insert k v m) j = (if j = k then Some v else btree_get m j)"
  by (induction m) (auto simp: btree_get_def btree_insert_Cons)

lemma btree_ok_distinct: "btree_ok m \<Longrightarrow> distinct (map fst m)"
  by (induction m) auto

text \<open>Entry order is canonical: well-formed maps with the same lookups are equal.\<close>

lemma btree_eqI:
  assumes "btree_ok m" "btree_ok n" "btree_get m = btree_get n"
  shows "m = n"
proof -
  have "set m = set n"
    using assms by (metis btree_get_def btree_ok_distinct map_of_inject_set)
  moreover have "sorted (map fst m)" "sorted (map fst n)"
    using assms by (auto simp: btree_ok_def strict_sorted_imp_sorted)
  ultimately show ?thesis
    using assms(1,2) btree_ok_distinct
    by (intro map_sorted_distinct_set_unique [of fst]) (auto intro!: inj_onI, metis eq_key_imp_eq_value)
qed

interpretation btree: lookup_store btree_get btree_insert "[] :: ('k::linorder, 'v) btree_map" btree_ok
proof unfold_locales
  fix m :: "('k, 'v) btree_map"
  show "finite {k. btree_get m k \<noteq> None}"
    using finite_dom_map_of [of m] by (simp add: btree_get_def dom_def)
qed (simp_all add: btree_get_insert btree_ok_insert, simp add: btree_get_def)

subsection \<open>\<open>HashMap\<close>\<close>

text \<open>
  A \<open>HashMap\<close> is a finite partial function: the sources look keys up, insert and remove
  them and never depend on its iteration order.
\<close>

type_synonym ('k, 'v) hash_map = "'k \<rightharpoonup> 'v"

definition hash_get :: "('k, 'v) hash_map \<Rightarrow> 'k \<Rightarrow> 'v option" where
  "hash_get m k = m k"

definition hash_insert :: "'k \<Rightarrow> 'v \<Rightarrow> ('k, 'v) hash_map \<Rightarrow> ('k, 'v) hash_map" where
  "hash_insert k v m = m(k \<mapsto> v)"

definition hash_remove :: "'k \<Rightarrow> ('k, 'v) hash_map \<Rightarrow> ('k, 'v) hash_map" where
  "hash_remove k m = m(k := None)"

definition hash_ok :: "('k, 'v) hash_map \<Rightarrow> bool" where
  "hash_ok m \<longleftrightarrow> finite (dom m)"

interpretation hash: removable_store hash_get hash_insert "\<lambda>_. None" hash_ok hash_remove
proof unfold_locales
  fix m :: "('a, 'b) hash_map"
  show "hash_ok m \<Longrightarrow> finite {k. hash_get m k \<noteq> None}"
    by (simp add: hash_ok_def hash_get_def dom_def)
qed (auto simp: hash_get_def hash_insert_def hash_remove_def hash_ok_def)

lemma hash_get_insert [simp, store_simps]:
  "hash_get (hash_insert k v m) j = (if j = k then Some v else hash_get m j)"
  by (simp add: hash_get_def hash_insert_def)

lemma hash_get_remove [simp, store_simps]:
  "hash_get (hash_remove k m) j = (if j = k then None else hash_get m j)"
  by (simp add: hash_get_def hash_remove_def)

lemma hash_ok_simps [simp]:
  "hash_ok (\<lambda>_. None)" "hash_ok m \<Longrightarrow> hash_ok (hash_insert k v m)"
  "hash_ok m \<Longrightarrow> hash_ok (hash_remove k m)" "hash_get (\<lambda>_. None) k = None"
  by (auto simp: hash_ok_def hash_insert_def hash_remove_def hash_get_def)

section \<open>Transition systems\<close>

text \<open>
  Runs of a labelled step relation, and the contract of an inductive invariant: every step
  with a permitted label keeps it. With all labels permitted it holds on every run.
\<close>

inductive run :: "('s \<Rightarrow> 'e \<Rightarrow> 's \<Rightarrow> bool) \<Rightarrow> 's \<Rightarrow> 'e list \<Rightarrow> 's \<Rightarrow> bool" for step where
  run_Nil: "run step s [] s"
| run_Cons: "step s e s' \<Longrightarrow> run step s' es s'' \<Longrightarrow> run step s (e # es) s''"

inductive_simps run_Nil_iff [simp]: "run step s [] s'"
inductive_simps run_Cons_iff: "run step s (e # es) s'"

lemma run_append: "run step s es s' \<Longrightarrow> run step s' fs s'' \<Longrightarrow> run step s (es @ fs) s''"
  by (induction rule: run.induct) (auto intro: run_Cons)

lemma run_single: "step s e s' \<Longrightarrow> run step s [e] s'"
  by (rule run_Cons) (auto intro: run_Nil)

locale inductive_invariant =
  fixes step :: "'s \<Rightarrow> 'e \<Rightarrow> 's \<Rightarrow> bool"
    and permitted :: "'e \<Rightarrow> bool"
    and inv :: "'s \<Rightarrow> bool"
  assumes step_keeps: "inv s \<Longrightarrow> step s e s' \<Longrightarrow> permitted e \<Longrightarrow> inv s'"
begin

lemma run_keeps: "run step s es s' \<Longrightarrow> list_all permitted es \<Longrightarrow> inv s \<Longrightarrow> inv s'"
  by (induction rule: run.induct) (auto intro: step_keeps)

end

text \<open>
  A simulation: on the states of an invariant, a permitted step is a step of the abstract system
  with the label it is given, or no step at all. Runs are then runs of the abstract system.
\<close>

locale simulation = inductive_invariant step permitted inv
  for step :: "'s \<Rightarrow> 'e \<Rightarrow> 's \<Rightarrow> bool" and permitted inv +
  fixes abs_step :: "'a \<Rightarrow> 'l \<Rightarrow> 'a \<Rightarrow> bool"
    and label :: "'e \<Rightarrow> 'l option"
    and abs :: "'s \<Rightarrow> 'a"
  assumes step_labelled: "inv s \<Longrightarrow> step s e s' \<Longrightarrow> permitted e \<Longrightarrow> label e = Some x \<Longrightarrow> abs_step (abs s) x (abs s')"
    and step_silent: "inv s \<Longrightarrow> step s e s' \<Longrightarrow> permitted e \<Longrightarrow> label e = None \<Longrightarrow> abs s' = abs s"
begin

lemma run_simulated:
  "run step s es s' \<Longrightarrow> list_all permitted es \<Longrightarrow> inv s \<Longrightarrow>
    run abs_step (abs s) (List.map_filter label es) (abs s')"
proof (induction rule: run.induct)
  case (run_Cons s e s' es s'')
  then have "run abs_step (abs s') (List.map_filter label es) (abs s'')" by (simp add: step_keeps)
  then show ?case
    using run_Cons step_labelled [of s e s'] step_silent [of s e s']
    by (cases "label e") (auto simp: map_filter_simps intro: run.run_Cons)
qed (simp add: map_filter_simps)

end

text \<open>An invariant of the state and of the labels that led to it.\<close>

locale history_invariant =
  fixes step :: "'s \<Rightarrow> 'e \<Rightarrow> 's \<Rightarrow> bool"
    and inv :: "'e list \<Rightarrow> 's \<Rightarrow> bool"
  assumes step_extends: "inv hs s \<Longrightarrow> step s e s' \<Longrightarrow> inv (hs @ [e]) s'"
begin

lemma run_extends: "run step s es s' \<Longrightarrow> inv hs s \<Longrightarrow> inv (hs @ es) s'"
proof (induction arbitrary: hs rule: run.induct)
  case (run_Cons s e s' es s'')
  then show ?case using step_extends [of hs s e s'] run_Cons.IH [of "hs @ [e]"] by simp
qed simp

end

section \<open>Injective partial maps\<close>

definition map_inj :: "('a \<rightharpoonup> 'b) \<Rightarrow> bool" where
  "map_inj m \<longleftrightarrow> (\<forall>x y p. m x = Some p \<and> m y = Some p \<longrightarrow> x = y)"

lemma map_inj_update: "map_inj m \<Longrightarrow> p \<notin> ran m \<Longrightarrow> map_inj (m(x \<mapsto> p))"
  by (auto simp: map_inj_def ran_def)

lemma map_inj_delete: "map_inj m \<Longrightarrow> map_inj (m(x := None))"
  by (auto simp: map_inj_def)

lemma ran_update: "map_inj m \<Longrightarrow> ran (m(x \<mapsto> p)) = insert p (ran m - set_option (m x))"
  by (auto simp: map_inj_def ran_def)

lemma ran_delete: "map_inj m \<Longrightarrow> ran (m(x := None)) = ran m - set_option (m x)"
  by (auto simp: map_inj_def ran_def)

end
