(* ===== verification/Proto.thy ===== *)
theory Proto
  imports Prelude
begin

text \<open>
  The message types of the protocol, as the generated crate
  \<^verbatim>\<open>src/proto/systemtestrs/src/lib.rs\<close> declares them: one record per message, one
  datatype per \<open>oneof\<close> and per enumeration, with the source's field order. Field names
  carry the initials of their message, because several messages share field names.
  Enumeration fields are raw \<open>i32\<close> values on the struct, as in the source; the
  conversions between an enumeration, its number and its name are below, with the laws
  they share stated as a locale.
\<close>

section \<open>Values\<close>

record SchemaBlob =
  sb_schema_id :: string
  sb_contents :: "byte list"

datatype ValueKind =
    Str string
  | Data "byte list"
  | SchemaBlob SchemaBlob
  | IntValue i32

record Value =
  v_value :: "ValueKind option"

datatype Empty = Empty

section \<open>Fixture descriptions\<close>

datatype UseScope =
    Unrestricted Empty
  | ClientRestricted Empty
  | SingleUse Empty

record Sharing =
  s_maximum_concurrent_connections :: i64
  s_use_scope :: "UseScope option"

datatype FixturePlugin =
    BinaryPath string
  | ContainerRef string

record FixtureDescription =
  fd_impl_id :: string
  fd_inputs :: "(string, Value) btree_map"
  fd_image_inputs :: "string list"
  fd_file_inputs :: "string list"
  fd_sharing :: "Sharing option"
  fd_startup_timeout_seconds :: i64
  fd_name :: string
  fd_plugin :: "FixturePlugin option"

section \<open>Runner and coordinator\<close>

record TakeLeaseRequest =
  tlq_fixture :: "FixtureDescription option"
  tlq_client_id :: string
  tlq_owner :: string
  tlq_ttl_seconds :: i64
  tlq_associated_tests_count :: u32

record TakeLeaseResponse =
  tlr_status :: i32
  tlr_lease_id :: string
  tlr_outputs :: "(string, Value) btree_map"
  tlr_messages :: "string list"

record KeepaliveRequest =
  kq_lease_id :: string

datatype KeepaliveResponse = KeepaliveResponse

record ReleaseRequest =
  rq_lease_id :: string

datatype ReleaseResponse = ReleaseResponse

record StatusRequest =
  sq_lease_id :: string

record StatusResponse =
  sr_status :: i32
  sr_outputs :: "(string, Value) btree_map"
  sr_messages :: "string list"

section \<open>Coordinator and plugin\<close>

record DescribeResponse =
  dr_impl_id :: string
  dr_version :: string
  dr_schemas :: "(string, string) btree_map"

record DescribeResponses =
  drs_responses :: "DescribeResponse list"

record CreationMetadata =
  cm_fixture_id :: string
  cm_client_id :: string
  cm_owner :: string
  cm_labels :: "(string, string) btree_map"

record CreateRequest =
  cq_impl_id :: string
  cq_inputs :: "(string, Value) btree_map"
  cq_metadata :: "CreationMetadata option"

record ResourceAmount =
  ra_name :: string
  ra_unit :: string
  ra_quantity :: i64

record ResourcePool =
  rp_pool_id :: string
  rp_resources :: "ResourceAmount list"

record ResourceRequests =
  rr_consumes :: "ResourcePool list"

record FixtureElementStatusInfo =
  fe_element_name :: string
  fe_status :: i32
  fe_messages :: "string list"

record FixtureResult =
  fr_outputs :: "(string, Value) btree_map"
  fr_idle_timeout_seconds :: i64
  fr_instance_data :: "byte list"
  fr_consumed :: "ResourcePool list"

record CreateProgress =
  cp_status :: i32
  cp_element_infos :: "FixtureElementStatusInfo list"
  cp_result :: "FixtureResult option"

record DestroyRequest =
  dq_impl_id :: string
  dq_instance_data :: "byte list"

datatype DestroyResponse = DestroyResponse

record HealthCheckRequest =
  hq_impl_id :: string
  hq_instance_data :: "byte list"

record HealthCheckResponse =
  hr_healthy :: bool
  hr_message :: string

section \<open>Enumerations\<close>

text \<open>
  What an enumeration of the protocol promises: a number and a name for every variant, and
  partial functions back that accept exactly those. \<open>accessor\<close> is the field accessor
  prost derives for a field of enumeration type: an unknown number reads as the default,
  the variant numbered zero.
\<close>

definition accessor :: "(i32 \<Rightarrow> 'e option) \<Rightarrow> 'e \<Rightarrow> i32 \<Rightarrow> 'e" where
  "accessor try_from dflt i = unwrap_or dflt (try_from i)"

locale proto_enum =
  fixes as_i32 :: "'e \<Rightarrow> i32"
    and try_from :: "i32 \<Rightarrow> 'e option"
    and as_str_name :: "'e \<Rightarrow> string"
    and from_str_name :: "string \<Rightarrow> 'e option"
    and dflt :: 'e
  assumes try_from_iff: "try_from i = Some e \<longleftrightarrow> i = as_i32 e"
    and from_str_name_iff: "from_str_name s = Some e \<longleftrightarrow> s = as_str_name e"
    and dflt_zero: "as_i32 dflt = 0"
begin

lemma as_i32_eq_iff: "as_i32 a = as_i32 b \<longleftrightarrow> a = b"
  using try_from_iff [of "as_i32 a" a] try_from_iff [of "as_i32 a" b] by auto

lemma as_str_name_eq_iff: "as_str_name a = as_str_name b \<longleftrightarrow> a = b"
  using from_str_name_iff [of "as_str_name a" a] from_str_name_iff [of "as_str_name a" b] by auto

lemma from_as_str_name: "from_str_name (as_str_name e) = Some e"
  by (simp add: from_str_name_iff)

lemma accessor_as_i32: "accessor try_from dflt (as_i32 e) = e"
  by (simp add: accessor_def try_from_iff [THEN iffD2])

lemma accessor_unknown: "i \<notin> range as_i32 \<Longrightarrow> accessor try_from dflt i = dflt"
  by (cases "try_from i") (auto simp: accessor_def try_from_iff)

lemma accessor_eq_iff:
  "accessor try_from dflt i = e \<longleftrightarrow> i = as_i32 e \<or> e = dflt \<and> i \<notin> range as_i32"
  by (metis accessor_as_i32 accessor_unknown rangeE)

end

subsection \<open>\<open>LeaseStatus\<close>\<close>

datatype LeaseStatus = Unknown | Pending | Succeeded | Failed

fun LeaseStatus_as_i32 :: "LeaseStatus \<Rightarrow> i32" where
  "LeaseStatus_as_i32 Unknown = 0"
| "LeaseStatus_as_i32 Pending = 1"
| "LeaseStatus_as_i32 Succeeded = 2"
| "LeaseStatus_as_i32 Failed = 3"

definition LeaseStatus_try_from :: "i32 \<Rightarrow> LeaseStatus option" where
  "LeaseStatus_try_from i =
    (if i = 0 then Some Unknown else if i = 1 then Some Pending
     else if i = 2 then Some Succeeded else if i = 3 then Some Failed else None)"

fun LeaseStatus_as_str_name :: "LeaseStatus \<Rightarrow> string" where
  "LeaseStatus_as_str_name Unknown = ''LEASE_STATUS_UNKNOWN''"
| "LeaseStatus_as_str_name Pending = ''PENDING''"
| "LeaseStatus_as_str_name Succeeded = ''SUCCEEDED''"
| "LeaseStatus_as_str_name Failed = ''FAILED''"

definition LeaseStatus_from_str_name :: "string \<Rightarrow> LeaseStatus option" where
  "LeaseStatus_from_str_name value =
    (if value = ''LEASE_STATUS_UNKNOWN'' then Some Unknown
     else if value = ''PENDING'' then Some Pending
     else if value = ''SUCCEEDED'' then Some Succeeded
     else if value = ''FAILED'' then Some Failed
     else None)"

interpretation lease_status: proto_enum LeaseStatus_as_i32 LeaseStatus_try_from
    LeaseStatus_as_str_name LeaseStatus_from_str_name Unknown
proof unfold_locales
  fix i e show "LeaseStatus_try_from i = Some e \<longleftrightarrow> i = LeaseStatus_as_i32 e"
    by (cases e) (simp_all add: LeaseStatus_try_from_def)
next
  fix s e show "LeaseStatus_from_str_name s = Some e \<longleftrightarrow> s = LeaseStatus_as_str_name e"
    by (cases e) (simp_all add: LeaseStatus_from_str_name_def)
qed simp

subsection \<open>\<open>CreateProgressStatus\<close>\<close>

datatype CreateProgressStatus =
    CreateProgressUnknown
  | CreateProgressEnqueued
  | CreateProgressCreating
  | CreateProgressRunning
  | CreateProgressSucceeded
  | CreateProgressError

fun CreateProgressStatus_as_i32 :: "CreateProgressStatus \<Rightarrow> i32" where
  "CreateProgressStatus_as_i32 CreateProgressUnknown = 0"
| "CreateProgressStatus_as_i32 CreateProgressEnqueued = 1"
| "CreateProgressStatus_as_i32 CreateProgressCreating = 2"
| "CreateProgressStatus_as_i32 CreateProgressRunning = 3"
| "CreateProgressStatus_as_i32 CreateProgressSucceeded = 4"
| "CreateProgressStatus_as_i32 CreateProgressError = 5"

definition CreateProgressStatus_try_from :: "i32 \<Rightarrow> CreateProgressStatus option" where
  "CreateProgressStatus_try_from i =
    (if i = 0 then Some CreateProgressUnknown else if i = 1 then Some CreateProgressEnqueued
     else if i = 2 then Some CreateProgressCreating else if i = 3 then Some CreateProgressRunning
     else if i = 4 then Some CreateProgressSucceeded else if i = 5 then Some CreateProgressError
     else None)"

fun CreateProgressStatus_as_str_name :: "CreateProgressStatus \<Rightarrow> string" where
  "CreateProgressStatus_as_str_name CreateProgressUnknown = ''CREATE_PROGRESS_UNKNOWN''"
| "CreateProgressStatus_as_str_name CreateProgressEnqueued = ''CREATE_PROGRESS_ENQUEUED''"
| "CreateProgressStatus_as_str_name CreateProgressCreating = ''CREATE_PROGRESS_CREATING''"
| "CreateProgressStatus_as_str_name CreateProgressRunning = ''CREATE_PROGRESS_RUNNING''"
| "CreateProgressStatus_as_str_name CreateProgressSucceeded = ''CREATE_PROGRESS_SUCCEEDED''"
| "CreateProgressStatus_as_str_name CreateProgressError = ''CREATE_PROGRESS_ERROR''"

definition CreateProgressStatus_from_str_name :: "string \<Rightarrow> CreateProgressStatus option" where
  "CreateProgressStatus_from_str_name value =
    (if value = ''CREATE_PROGRESS_UNKNOWN'' then Some CreateProgressUnknown
     else if value = ''CREATE_PROGRESS_ENQUEUED'' then Some CreateProgressEnqueued
     else if value = ''CREATE_PROGRESS_CREATING'' then Some CreateProgressCreating
     else if value = ''CREATE_PROGRESS_RUNNING'' then Some CreateProgressRunning
     else if value = ''CREATE_PROGRESS_SUCCEEDED'' then Some CreateProgressSucceeded
     else if value = ''CREATE_PROGRESS_ERROR'' then Some CreateProgressError
     else None)"

interpretation progress_status: proto_enum CreateProgressStatus_as_i32 CreateProgressStatus_try_from
    CreateProgressStatus_as_str_name CreateProgressStatus_from_str_name CreateProgressUnknown
proof unfold_locales
  fix i e show "CreateProgressStatus_try_from i = Some e \<longleftrightarrow> i = CreateProgressStatus_as_i32 e"
    by (cases e) (simp_all add: CreateProgressStatus_try_from_def)
next
  fix s e
  show "CreateProgressStatus_from_str_name s = Some e \<longleftrightarrow> s = CreateProgressStatus_as_str_name e"
    by (cases e) (simp_all add: CreateProgressStatus_from_str_name_def)
qed simp

text \<open>The accessor \<open>CreateProgress::status\<close> that \<open>create_fixture\<close> matches on.\<close>

definition CreateProgress_status :: "CreateProgress \<Rightarrow> CreateProgressStatus" where
  "CreateProgress_status p =
    accessor CreateProgressStatus_try_from CreateProgressUnknown (cp_status p)"

subsection \<open>\<open>FixtureElementStatus\<close>\<close>

datatype FixtureElementStatus =
    FixtureElementUnknown
  | FixtureElementCreating
  | FixtureElementRunning
  | FixtureElementError

fun FixtureElementStatus_as_i32 :: "FixtureElementStatus \<Rightarrow> i32" where
  "FixtureElementStatus_as_i32 FixtureElementUnknown = 0"
| "FixtureElementStatus_as_i32 FixtureElementCreating = 1"
| "FixtureElementStatus_as_i32 FixtureElementRunning = 2"
| "FixtureElementStatus_as_i32 FixtureElementError = 3"

definition FixtureElementStatus_try_from :: "i32 \<Rightarrow> FixtureElementStatus option" where
  "FixtureElementStatus_try_from i =
    (if i = 0 then Some FixtureElementUnknown else if i = 1 then Some FixtureElementCreating
     else if i = 2 then Some FixtureElementRunning else if i = 3 then Some FixtureElementError
     else None)"

fun FixtureElementStatus_as_str_name :: "FixtureElementStatus \<Rightarrow> string" where
  "FixtureElementStatus_as_str_name FixtureElementUnknown = ''FIXTURE_ELEMENT_UNKNOWN''"
| "FixtureElementStatus_as_str_name FixtureElementCreating = ''FIXTURE_ELEMENT_CREATING''"
| "FixtureElementStatus_as_str_name FixtureElementRunning = ''FIXTURE_ELEMENT_RUNNING''"
| "FixtureElementStatus_as_str_name FixtureElementError = ''FIXTURE_ELEMENT_ERROR''"

definition FixtureElementStatus_from_str_name :: "string \<Rightarrow> FixtureElementStatus option" where
  "FixtureElementStatus_from_str_name value =
    (if value = ''FIXTURE_ELEMENT_UNKNOWN'' then Some FixtureElementUnknown
     else if value = ''FIXTURE_ELEMENT_CREATING'' then Some FixtureElementCreating
     else if value = ''FIXTURE_ELEMENT_RUNNING'' then Some FixtureElementRunning
     else if value = ''FIXTURE_ELEMENT_ERROR'' then Some FixtureElementError
     else None)"

interpretation element_status: proto_enum FixtureElementStatus_as_i32 FixtureElementStatus_try_from
    FixtureElementStatus_as_str_name FixtureElementStatus_from_str_name FixtureElementUnknown
proof unfold_locales
  fix i e show "FixtureElementStatus_try_from i = Some e \<longleftrightarrow> i = FixtureElementStatus_as_i32 e"
    by (cases e) (simp_all add: FixtureElementStatus_try_from_def)
next
  fix s e
  show "FixtureElementStatus_from_str_name s = Some e \<longleftrightarrow> s = FixtureElementStatus_as_str_name e"
    by (cases e) (simp_all add: FixtureElementStatus_from_str_name_def)
qed simp

section \<open>Properties\<close>

text \<open>
  C40. The enumerations of the protocol survive their encodings: for each of them, the number and
  the name of a variant lead back to it, numbers and names of no variant are rejected, and the
  accessor on a message field reads an unknown number as the variant numbered zero.
\<close>

theorem enumerations_roundtrip:
  "(LeaseStatus_try_from i = Some a \<longleftrightarrow> i = LeaseStatus_as_i32 a) \<and>
   (LeaseStatus_from_str_name n = Some a \<longleftrightarrow> n = LeaseStatus_as_str_name a) \<and>
   (FixtureElementStatus_try_from i = Some b \<longleftrightarrow> i = FixtureElementStatus_as_i32 b) \<and>
   (FixtureElementStatus_from_str_name n = Some b \<longleftrightarrow> n = FixtureElementStatus_as_str_name b) \<and>
   (CreateProgressStatus_try_from i = Some c \<longleftrightarrow> i = CreateProgressStatus_as_i32 c) \<and>
   (CreateProgressStatus_from_str_name n = Some c \<longleftrightarrow> n = CreateProgressStatus_as_str_name c) \<and>
   (CreateProgress_status p = c \<longleftrightarrow>
     cp_status p = CreateProgressStatus_as_i32 c \<or>
     c = CreateProgressUnknown \<and> cp_status p \<notin> range CreateProgressStatus_as_i32)"
  by (simp add: lease_status.try_from_iff lease_status.from_str_name_iff
      element_status.try_from_iff element_status.from_str_name_iff
      progress_status.try_from_iff progress_status.from_str_name_iff
      CreateProgress_status_def progress_status.accessor_eq_iff)

end
