(* ===== verification/Effects.thy ===== *)
theory Effects
  imports Proto
begin

text \<open>
  Errors, and the effects of the coordinator on the world outside it. Errors are values:
  \<open>Status\<close> is the gRPC status a handler returns, \<open>Error\<close> an \<open>anyhow::Error\<close> with the
  context the sources attach to it. Effects are recorded in a trace, in the order the calls
  are issued, so that which child processes are still running is a function of the trace.
\<close>

section \<open>Errors\<close>

text \<open>The gRPC status codes the sources construct, with their numbers on the wire.\<close>

datatype Code = CodeUnknown | InvalidArgument | NotFound | Unimplemented | Internal

fun Code_as_i32 :: "Code \<Rightarrow> i32" where
  "Code_as_i32 CodeUnknown = 2"
| "Code_as_i32 InvalidArgument = 3"
| "Code_as_i32 NotFound = 5"
| "Code_as_i32 Unimplemented = 12"
| "Code_as_i32 Internal = 13"

type_synonym exit_status = i32

text \<open>The contexts the sources attach with \<open>context\<close> and \<open>with_context\<close>.\<close>

datatype Ctx =
    ReadingPluginBinary string
  | CreatingPluginSocketDir path
  | SpawningPluginBinary string
  | PollingPluginProcess
  | PluginExited exit_status path
  | TimedOutConnecting
  | OpeningLockFile path
  | LockingFile path
  | CreatingSocketDirectory path
  | BindingSocket path
  | ServerExited

text \<open>
  A status carries a fixed text, or a text followed by the rendering of an error
  (\<^verbatim>\<open>format!("spawning plugin: {e:#}")\<close>). An error is an error of the operating system, of
  the transport, a status of a remote call, a message made with \<open>anyhow!\<close>, or any of them
  in a context.
\<close>

datatype Status = Status (code: Code) (detail: Detail)
  and Detail = Text string | Prefixed string Error
  and Error =
    Io string
  | Transport string
  | Rpc Status
  | Anyhow string
  | CreateFixtureFailed "FixtureElementStatusInfo list"
  | WithContext Ctx Error

section \<open>Effects\<close>

type_synonym pid = nat

datatype effect =
    CreateDirAll path
  | RemoveFile path
  | SpawnChild string path pid
  | Sleep nat
  | StartKill pid
  | ChildExited pid
  | BindSocket path

type_synonym trace = "effect list"

text \<open>
  The children whose process id is in use: started, and neither killed nor reaped since. A child
  is reaped when \<open>try_wait\<close> reports its exit, or by the runtime when it exits after its handle was
  dropped; both are \<open>ChildExited\<close>. Dropping a \<open>Child\<close> without \<open>start_kill\<close> does not stop its
  process, and a child that exits while its handle is held keeps its id.
\<close>

fun live_after :: "effect \<Rightarrow> pid set \<Rightarrow> pid set" where
  "live_after (SpawnChild b s p) L = insert p L"
| "live_after (StartKill p) L = L - {p}"
| "live_after (ChildExited p) L = L - {p}"
| "live_after _ L = L"

definition live :: "trace \<Rightarrow> pid set" where
  "live w = fold live_after w {}"

lemma live_Nil [simp]: "live [] = {}"
  by (simp add: live_def)

lemma live_append [simp]: "live (w @ u) = fold live_after u (live w)"
  by (simp add: live_def)

lemma live_after_sleeps [simp]: "(live_after (Sleep k) ^^ n) L = L"
  by (induction n) simp_all

text \<open>
  An asynchronous computation over the trace: \<open>None\<close> if it never comes back, and otherwise
  its outcome and the trace it leaves.
\<close>

type_synonym ('e, 'a) io = "trace \<Rightarrow> (('e, 'a) outcome \<times> trace) option"

definition io_return :: "'a \<Rightarrow> ('e, 'a) io" where
  "io_return a w = Some (Return a, w)"

definition io_lift :: "('e, 'a) result \<Rightarrow> ('e, 'a) io" where
  "io_lift r w = Some (case r of Err e \<Rightarrow> Fail e | Ok a \<Rightarrow> Return a, w)"

text \<open>An answer from outside that may never come.\<close>

definition io_await :: "('e, 'a) result option \<Rightarrow> ('e, 'a) io" where
  "io_await r w = (case r of None \<Rightarrow> None | Some r \<Rightarrow> io_lift r w)"

definition io_emit :: "effect \<Rightarrow> ('e, unit) io" where
  "io_emit e w = Some (Return (), w @ [e])"

definition io_bind :: "('e, 'a) io \<Rightarrow> ('a \<Rightarrow> ('e, 'b) io) \<Rightarrow> ('e, 'b) io" where
  "io_bind m f w =
    (case m w of
       None \<Rightarrow> None
     | Some (Return a, w') \<Rightarrow> f a w'
     | Some (Fail e, w') \<Rightarrow> Some (Fail e, w')
     | Some (Panic, w') \<Rightarrow> Some (Panic, w'))"

definition io_map_err :: "('e \<Rightarrow> 'f) \<Rightarrow> ('e, 'a) io \<Rightarrow> ('f, 'a) io" where
  "io_map_err g m w =
    (case m w of
       None \<Rightarrow> None
     | Some (Return a, w') \<Rightarrow> Some (Return a, w')
     | Some (Fail e, w') \<Rightarrow> Some (Fail (g e), w')
     | Some (Panic, w') \<Rightarrow> Some (Panic, w'))"

text \<open>
  A scope that owns a value whose destructor has the effect \<open>d\<close>: when the scope is left
  without handing the value on, by an early return or by unwinding, the destructor runs.
\<close>

definition io_dropping :: "effect \<Rightarrow> ('e, 'a) io \<Rightarrow> ('e, 'a) io" where
  "io_dropping d m w =
    (case m w of
       None \<Rightarrow> None
     | Some (Return a, w') \<Rightarrow> Some (Return a, w')
     | Some (Fail e, w') \<Rightarrow> Some (Fail e, w' @ [d])
     | Some (Panic, w') \<Rightarrow> Some (Panic, w' @ [d]))"

lemma io_simps [result_simps]:
  "io_return a w = Some (Return a, w)"
  "io_lift (Ok a) w = Some (Return a, w)"
  "io_lift (Err e) w = Some (Fail e, w)"
  "io_emit x w = Some (Return (), w @ [x])"
  by (simp_all add: io_return_def io_lift_def io_emit_def)

lemma io_bind_return [simp]: "io_bind (io_return a) f = f a"
  by (rule ext) (simp add: io_bind_def io_return_def)

lemma io_bind_simps [simp]:
  "io_bind (io_emit x) f w = f () (w @ [x])"
  "io_bind (io_lift (Ok a)) g w = g a w"
  "io_bind (io_lift (Err e)) h w = Some (Fail e, w)"
  by (simp_all add: io_bind_def io_simps)

lemma io_bind_assoc: "io_bind (io_bind m f) g = io_bind m (\<lambda>a. io_bind (f a) g)"
  by (rule ext) (auto simp: io_bind_def split: option.splits outcome.splits prod.splits)

lemma io_bind_eq_Return [result_simps]:
  "io_bind m f w = Some (Return b, w'') \<longleftrightarrow>
    (\<exists>a w'. m w = Some (Return a, w') \<and> f a w' = Some (Return b, w''))"
  by (auto simp: io_bind_def split: option.splits outcome.splits prod.splits)

lemma io_bind_eq_Some:
  "io_bind m f w = Some (x, w'') \<longleftrightarrow>
    (\<exists>a w'. m w = Some (Return a, w') \<and> f a w' = Some (x, w'')) \<or>
    (\<exists>e. m w = Some (Fail e, w'') \<and> x = Fail e) \<or> m w = Some (Panic, w'') \<and> x = Panic"
  by (auto simp: io_bind_def split: option.splits outcome.splits prod.splits)

lemma io_map_err_eq_Some:
  "io_map_err g m w = Some (x, w') \<longleftrightarrow>
    (\<exists>a. m w = Some (Return a, w') \<and> x = Return a) \<or>
    (\<exists>e. m w = Some (Fail e, w') \<and> x = Fail (g e)) \<or> m w = Some (Panic, w') \<and> x = Panic"
  by (auto simp: io_map_err_def split: option.splits outcome.splits prod.splits)

lemma io_dropping_eq_Some:
  "io_dropping d m w = Some (x, w') \<longleftrightarrow>
    (\<exists>a. m w = Some (Return a, w') \<and> x = Return a) \<or>
    (\<exists>e w''. m w = Some (Fail e, w'') \<and> x = Fail e \<and> w' = w'' @ [d]) \<or>
    (\<exists>w''. m w = Some (Panic, w'') \<and> x = Panic \<and> w' = w'' @ [d])"
  by (auto simp: io_dropping_def split: option.splits outcome.splits prod.splits)

lemma io_lift_eq_Some:
  "io_lift r w = Some (x, w') \<longleftrightarrow>
    w' = w \<and> ((\<exists>a. r = Ok a \<and> x = Return a) \<or> (\<exists>e. r = Err e \<and> x = Fail e))"
  by (cases r) (auto simp: io_lift_def)

lemma io_await_eq_Some:
  "io_await r w = Some (x, w') \<longleftrightarrow>
    w' = w \<and> ((\<exists>a. r = Some (Ok a) \<and> x = Return a) \<or> (\<exists>e. r = Some (Err e) \<and> x = Fail e))"
  by (cases r) (auto simp: io_await_def io_lift_eq_Some)

lemma io_await_eq_Return [result_simps]:
  "io_await r w = Some (Return a, w') \<longleftrightarrow> r = Some (Ok a) \<and> w' = w"
  by (auto simp: io_await_eq_Some)

lemma io_await_eq_None [simp]: "io_await r w = None \<longleftrightarrow> r = None"
  by (cases r) (auto simp: io_await_def io_lift_def)

lemma io_bind_eq_None:
  "io_bind m f w = None \<longleftrightarrow> m w = None \<or> (\<exists>a w'. m w = Some (Return a, w') \<and> f a w' = None)"
  by (auto simp: io_bind_def split: option.splits outcome.splits prod.splits)

lemma io_map_err_eq_None [simp]: "io_map_err g m w = None \<longleftrightarrow> m w = None"
  by (auto simp: io_map_err_def split: option.splits outcome.splits prod.splits)

lemma io_dropping_eq_None [simp]: "io_dropping d m w = None \<longleftrightarrow> m w = None"
  by (auto simp: io_dropping_def split: option.splits outcome.splits prod.splits)

lemma io_lift_not_None [simp]: "io_lift r w \<noteq> None" "io_return a w \<noteq> None"
  by (simp_all add: io_lift_def io_return_def)

lemma io_return_eq_Some:
  "io_return a w = Some (x, w') \<longleftrightarrow> x = Return a \<and> w' = w"
  by (auto simp: io_return_def)

lemma io_map_err_eq_Return [result_simps]:
  "io_map_err g m w = Some (Return b, w') \<longleftrightarrow> m w = Some (Return b, w')"
  by (auto simp: io_map_err_def split: option.splits outcome.splits prod.splits)

lemma io_dropping_eq_Return [result_simps]:
  "io_dropping d m w = Some (Return b, w') \<longleftrightarrow> m w = Some (Return b, w')"
  by (auto simp: io_dropping_def split: option.splits outcome.splits prod.splits)

lemma io_emit_eq [result_simps]:
  "io_emit e w = Some (r, w') \<longleftrightarrow> r = Return () \<and> w' = w @ [e]"
  by (auto simp: io_emit_def)

lemmas io_cases = io_bind_eq_Some io_map_err_eq_Some io_dropping_eq_Some io_lift_eq_Some
  io_await_eq_Some io_return_eq_Some io_emit_eq

lemma io_lift_eq_Return [result_simps]:
  "io_lift r w = Some (Return a, w') \<longleftrightarrow> r = Ok a \<and> w' = w"
  by (cases r) (auto simp: io_lift_def)

end
