(* ===== verification/Plugin_Client.thy ===== *)
theory Plugin_Client
  imports Effects
begin

text \<open>
  Model of \<^verbatim>\<open>src/coordinator/src/plugin_client.rs\<close>: spawning a plugin process, connecting to
  its socket, the health check and the drained \<open>CreateFixture\<close> stream. The operating system,
  the transport and the plugin are outside this repository's coordinator: what they answer
  is the argument \<open>plugin_env\<close> of the definitions.
\<close>

section \<open>The environment of one provisioning\<close>

text \<open>
  Times are milliseconds. \<open>env_start\<close> is the clock when \<open>connect_with_retry\<close> is entered,
  \<open>env_now i\<close> the clock read after the failed attempt \<open>i\<close>, and \<open>env_instant_max\<close> the last
  instant the platform can represent (adding a duration past it panics). \<open>env_connect i\<close>
  and \<open>env_try_wait i\<close> are the answers to the connection attempt \<open>i\<close> and to the poll of the
  child after it: system calls and connection attempts come back. Calls to the plugin have no
  timeout in the code, so their answers may never come (\<open>None\<close>). The response stream of
  \<open>CreateFixture\<close> is what each successive \<open>message()\<close> call returns, or \<open>None\<close> where the plugin
  keeps the stream open and sends nothing more.
\<close>

type_synonym progress_stream = "nat \<Rightarrow> (Status, CreateProgress option) result option"

record plugin_env =
  env_create_dir_all :: "path \<Rightarrow> (Error, unit) result"
  env_spawn :: "string \<Rightarrow> path \<Rightarrow> (Error, pid) result"
  env_start :: nat
  env_now :: "nat \<Rightarrow> nat"
  env_instant_max :: nat
  env_connect :: "path \<Rightarrow> nat \<Rightarrow> (Error, unit) result"
  env_try_wait :: "nat \<Rightarrow> (Error, exit_status option) result"
  env_describe_plugin :: "Empty \<Rightarrow> (Status, DescribeResponses) result option"
  env_create_fixture :: "CreateRequest \<Rightarrow> (Status, progress_stream) result option"

section \<open>Connecting\<close>

datatype Channel = Channel path

record PluginProcess =
  pp_child :: pid
  pp_client :: Channel

definition try_connect :: "plugin_env \<Rightarrow> path \<Rightarrow> nat \<Rightarrow> (Error, Channel) result" where
  "try_connect env socket_path i =
    and_then (env_connect env socket_path i) (\<lambda>_. Ok (Channel socket_path))"

text \<open>
  One round of the retry loop: \<open>Some\<close> when it returns, with what the poll of the child did to
  it, \<open>None\<close> when it sleeps and goes on. A poll that reports an exit status has reaped the child.
\<close>

definition connect_round ::
  "plugin_env \<Rightarrow> pid \<Rightarrow> path \<Rightarrow> nat \<Rightarrow> nat \<Rightarrow> (trace \<times> (Error, Channel) result) option" where
  "connect_round env child socket_path deadline i =
    (case try_connect env socket_path i of
       Ok channel \<Rightarrow> Some ([], Ok channel)
     | Err err \<Rightarrow>
         (case map_err (WithContext PollingPluginProcess) (env_try_wait env i) of
            Err e \<Rightarrow> Some ([], Err e)
          | Ok (Some status) \<Rightarrow>
              Some ([ChildExited child], Err (WithContext (PluginExited status socket_path) err))
          | Ok None \<Rightarrow>
              if deadline \<le> env_now env i then Some ([], Err (WithContext TimedOutConnecting err))
              else None))"

definition retry_interval :: nat where
  "retry_interval = 50"

definition connect_with_retry :: "plugin_env \<Rightarrow> pid \<Rightarrow> path \<Rightarrow> nat \<Rightarrow> (Error, Channel) io" where
  "connect_with_retry env child socket_path timeout w =
    (let deadline = env_start env + timeout in
     if env_instant_max env < deadline then Some (Panic, w)
     else
       (case loop_from (\<lambda>i. map_option (Pair i) (connect_round env child socket_path deadline i)) 0 of
          None \<Rightarrow> None
        | Some (i, u, r) \<Rightarrow> io_lift r (w @ replicate i (Sleep retry_interval) @ u)))"

section \<open>Spawning\<close>

text \<open>
  \<open>PluginProcess::spawn\<close> up to the running child, the rest of it, and the whole. What \<open>start_child\<close>
  returns is a bare \<open>Child\<close> handle: until the \<open>PluginProcess\<close> is built around it, dropping it
  kills nothing.
\<close>

definition start_child :: "plugin_env \<Rightarrow> string \<Rightarrow> path \<Rightarrow> (Error, pid) io" where
  "start_child env binary_path socket_path =
    io_bind
      (case parent socket_path of
         None \<Rightarrow> io_return ()
       | Some dir \<Rightarrow>
           io_bind (io_emit (CreateDirAll dir)) (\<lambda>_.
             io_lift (map_err (WithContext (CreatingPluginSocketDir dir)) (env_create_dir_all env dir))))
      (\<lambda>_. io_bind (io_emit (RemoveFile socket_path)) (\<lambda>_.
         io_bind (io_lift (map_err (WithContext (SpawningPluginBinary binary_path))
                    (env_spawn env binary_path socket_path))) (\<lambda>child.
         io_bind (io_emit (SpawnChild binary_path socket_path child)) (\<lambda>_. io_return child))))"

definition connect_child :: "plugin_env \<Rightarrow> pid \<Rightarrow> path \<Rightarrow> nat \<Rightarrow> (Error, PluginProcess) io" where
  "connect_child env child socket_path startup_timeout =
    io_bind (connect_with_retry env child socket_path startup_timeout) (\<lambda>channel.
      io_return \<lparr>pp_child = child, pp_client = channel\<rparr>)"

definition PluginProcess_spawn ::
  "plugin_env \<Rightarrow> string \<Rightarrow> path \<Rightarrow> nat \<Rightarrow> (Error, PluginProcess) io" where
  "PluginProcess_spawn env binary_path socket_path startup_timeout =
    io_bind (start_child env binary_path socket_path)
      (\<lambda>child. connect_child env child socket_path startup_timeout)"

text \<open>Dropping a \<open>PluginProcess\<close> kills its child.\<close>

definition PluginProcess_drop :: "PluginProcess \<Rightarrow> effect" where
  "PluginProcess_drop p = StartKill (pp_child p)"

section \<open>Calls\<close>

definition describe :: "plugin_env \<Rightarrow> (Error, DescribeResponses) result option" where
  "describe env = map_option (map_err Rpc) (env_describe_plugin env Empty)"

text \<open>
  What awaiting one message of the stream means: \<open>None\<close> for a message that is drained, and
  otherwise what the call comes to, which is \<open>Some None\<close> if the message never arrives.
\<close>

definition progress_round ::
  "progress_stream \<Rightarrow> nat \<Rightarrow> (Error, FixtureResult) result option option" where
  "progress_round stream i =
    (case stream i of
       None \<Rightarrow> Some None
     | Some (Err s) \<Rightarrow> Some (Some (Err (Rpc s)))
     | Some (Ok None) \<Rightarrow>
         Some (Some (Err (Anyhow ''plugin closed CreateFixture stream without a terminal message'')))
     | Some (Ok (Some progress)) \<Rightarrow>
         (case CreateProgress_status progress of
            CreateProgressSucceeded \<Rightarrow>
              Some (Some (ok_or (Anyhow ''CREATE_PROGRESS_SUCCEEDED with no result'') (cp_result progress)))
          | CreateProgressError \<Rightarrow> Some (Some (Err (CreateFixtureFailed (cp_element_infos progress))))
          | _ \<Rightarrow> None))"

definition create_fixture ::
  "plugin_env \<Rightarrow> CreateRequest \<Rightarrow> (Error, FixtureResult) result option" where
  "create_fixture env request =
    (case env_create_fixture env request of
       None \<Rightarrow> None
     | Some (Err s) \<Rightarrow> Some (Err (Rpc s))
     | Some (Ok stream) \<Rightarrow> Option.bind (loop_from (progress_round stream) 0) (\<lambda>r. r))"

section \<open>Connecting ends and returns the first success\<close>

lemma retry_loop_iff:
  "loop_from (\<lambda>i. map_option (Pair i) (f i)) 0 = Some (n, r) \<longleftrightarrow>
    f n = Some r \<and> (\<forall>j < n. f j = None)"
  by (auto simp: loop_from_eq_Some)

lemma connect_round_Ok [simp]:
  "connect_round env p s d i = Some (u, Ok ch) \<longleftrightarrow>
    u = [] \<and> env_connect env s i = Ok () \<and> ch = Channel s"
  by (auto simp: connect_round_def try_connect_def and_then_def map_err_def
      split: sum.splits option.splits if_splits)

lemma connect_round_Err:
  assumes "connect_round env p s d i = Some (u, Err e)"
  shows "u = (if \<exists>status e'. e = WithContext (PluginExited status s) e' then [ChildExited p] else [])"
  using assms by (auto simp: connect_round_def map_err_def split: sum.splits option.splits if_splits)

lemma connect_round_None:
  "connect_round env p s d i = None \<longleftrightarrow>
    (\<exists>e. env_connect env s i = Err e) \<and> env_try_wait env i = Ok None \<and> env_now env i < d"
  by (auto simp: connect_round_def try_connect_def and_then_def map_err_def
      split: sum.splits option.splits if_splits)

lemma connect_with_retry_eq:
  assumes "env_start env + t \<le> env_instant_max env"
  shows "connect_with_retry env p s t w = Some (x, w') \<longleftrightarrow>
    (\<exists>n u r. connect_round env p s (env_start env + t) n = Some (u, r) \<and>
      (\<forall>j < n. connect_round env p s (env_start env + t) j = None) \<and>
      io_lift r (w @ replicate n (Sleep retry_interval) @ u) = Some (x, w'))"
proof -
  define f where "f = connect_round env p s (env_start env + t)"
  have "connect_with_retry env p s t w = Some (x, w') \<longleftrightarrow>
      (\<exists>n u r. loop_from (\<lambda>i. map_option (Pair i) (f i)) 0 = Some (n, u, r) \<and>
        io_lift r (w @ replicate n (Sleep retry_interval) @ u) = Some (x, w'))"
    using assms by (auto simp: connect_with_retry_def f_def split: option.splits)
  then show ?thesis unfolding retry_loop_iff by (simp add: f_def)
qed

text \<open>
  What the coordinator knows when the connection is given up: whether the poll reported that the
  child had exited.
\<close>

definition exit_reported :: "path \<Rightarrow> (Error, 'a) outcome \<Rightarrow> bool" where
  "exit_reported s x \<longleftrightarrow> (\<exists>status e. x = Fail (WithContext (PluginExited status s) e))"

lemma exit_reported_simps [simp]:
  "\<not> exit_reported s (Return a)" "\<not> exit_reported s Panic"
  by (simp_all add: exit_reported_def)

lemma connect_with_retry_trace:
  assumes "connect_with_retry env p s t w = Some (x, w')"
  shows "\<exists>n. w' = w @ replicate n (Sleep retry_interval) @
    (if exit_reported s x then [ChildExited p] else [])"
proof (cases "env_start env + t \<le> env_instant_max env")
  case True
  from assms [unfolded connect_with_retry_eq [OF True]] show ?thesis
    by (auto simp: io_lift_eq_Some exit_reported_def dest!: connect_round_Err)
next
  case False
  with assms show ?thesis by (auto simp: connect_with_retry_def intro!: exI [of _ 0])
qed

lemma connect_with_retry_live:
  "connect_with_retry env p s t w = Some (x, w') \<Longrightarrow>
    live w' = live w - (if exit_reported s x then {p} else {})"
  by (auto dest!: connect_with_retry_trace split: if_splits)

text \<open>
  A clock that has not gone backwards when the loop is entered and advances by at least the
  retry interval over every sleep, as \<open>tokio::time::sleep\<close> documents.
\<close>

definition sleeping_clock :: "plugin_env \<Rightarrow> bool" where
  "sleeping_clock env \<longleftrightarrow>
    env_start env \<le> env_now env 0 \<and> (\<forall>i. env_now env i + retry_interval \<le> env_now env (Suc i))"

lemma sleeping_clock_now:
  assumes "sleeping_clock env"
  shows "env_start env + retry_interval * i \<le> env_now env i"
proof (induction i)
  case 0
  then show ?case using assms by (simp add: sleeping_clock_def)
next
  case (Suc i)
  have "env_now env i + retry_interval \<le> env_now env (Suc i)"
    using assms by (simp add: sleeping_clock_def)
  with Suc show ?case by simp
qed

lemma connect_rounds_bound:
  assumes "sleeping_clock env" "\<forall>j < n. connect_round env p s (env_start env + t) j = None"
  shows "retry_interval * n < t + retry_interval"
proof (cases n)
  case 0
  then show ?thesis by (simp add: retry_interval_def)
next
  case (Suc m)
  with assms(2) have "env_now env m < env_start env + t" by (simp add: connect_round_None)
  with sleeping_clock_now [OF assms(1), of m] show ?thesis by (simp add: Suc)
qed

lemma connect_loop_leaves:
  assumes "sleeping_clock env"
  shows "\<exists>n r. connect_round env p s (env_start env + t) n = Some r \<and>
    (\<forall>j < n. connect_round env p s (env_start env + t) j = None)"
proof -
  define f where "f = connect_round env p s (env_start env + t)"
  have "\<exists>n. f n \<noteq> None"
  proof (rule ccontr)
    assume "\<not> ?thesis"
    then have "\<forall>j < Suc t. f j = None" by (simp only: not_ex not_not) blast
    then have "retry_interval * Suc t < t + retry_interval"
      using connect_rounds_bound [OF assms, of "Suc t" p s t] by (simp add: f_def)
    then show False by (simp add: retry_interval_def)
  qed
  then have "f (LEAST n. f n \<noteq> None) \<noteq> None" by (rule LeastI_ex)
  moreover have "\<forall>j < (LEAST n. f n \<noteq> None). f j = None"
    using not_less_Least [of _ "\<lambda>n. f n \<noteq> None"] by blast
  ultimately show ?thesis unfolding f_def by blast
qed

section \<open>Spawning\<close>

lemma connect_with_retry_Return:
  "connect_with_retry env p s t w = Some (Return ch, w') \<Longrightarrow> ch = Channel s \<and> live w' = live w"
  by (frule connect_with_retry_live)
    (auto simp: connect_with_retry_def Let_def io_lift_eq_Return retry_loop_iff
      split: if_splits option.splits)

text \<open>The calls made before connecting, once the child has been spawned.\<close>

definition spawn_calls :: "string \<Rightarrow> path \<Rightarrow> pid \<Rightarrow> trace" where
  "spawn_calls b s pid =
    (case parent s of None \<Rightarrow> [] | Some d \<Rightarrow> [CreateDirAll d]) @ [RemoveFile s, SpawnChild b s pid]"

definition socket_dir_ready :: "plugin_env \<Rightarrow> path \<Rightarrow> bool" where
  "socket_dir_ready env s = (case parent s of None \<Rightarrow> True | Some d \<Rightarrow> env_create_dir_all env d = Ok ())"

lemma live_spawn_calls [simp]: "fold live_after (spawn_calls b s pid) L = insert pid L"
  by (simp add: spawn_calls_def split: option.splits)

lemma start_child_Return:
  "start_child env b s w = Some (Return pid, w') \<longleftrightarrow>
    socket_dir_ready env s \<and> env_spawn env b s = Ok pid \<and> w' = w @ spawn_calls b s pid"
  by (cases "parent s")
    (auto simp: start_child_def spawn_calls_def socket_dir_ready_def io_bind_assoc result_simps)

lemma start_child_fails:
  assumes "\<nexists>pid. socket_dir_ready env s \<and> env_spawn env b s = Ok pid"
  shows "\<exists>e w'. start_child env b s w = Some (Fail e, w') \<and> live w' = live w"
  using assms
  by (cases "parent s"; cases "env_spawn env b s"; cases "env_create_dir_all env (the (parent s))")
    (auto simp: start_child_def socket_dir_ready_def io_bind_assoc)

lemma start_child_cases:
  obtains pid where "socket_dir_ready env s" "env_spawn env b s = Ok pid"
      "start_child env b s w = Some (Return pid, w @ spawn_calls b s pid)"
  | e w' where "start_child env b s w = Some (Fail e, w')" "live w' = live w"
    "\<nexists>pid. socket_dir_ready env s \<and> env_spawn env b s = Ok pid"
  using start_child_fails [of env s b w] start_child_Return [of env b s w] by blast

lemma connect_child_connects:
  assumes "connect_child env pid s t w = Some (x, w')"
  obtains y where "connect_with_retry env pid s t w = Some (y, w')" "exit_reported s x = exit_reported s y"
  using assms by (fastforce simp: connect_child_def io_bind_eq_Some io_return_eq_Some exit_reported_def)

lemma connect_child_live:
  assumes "connect_child env pid s t w = Some (x, w')"
  shows "live w' = live w - (if exit_reported s x then {pid} else {})"
proof -
  obtain y where "connect_with_retry env pid s t w = Some (y, w')" "exit_reported s x = exit_reported s y"
    using assms by (rule connect_child_connects)
  then show ?thesis by (simp only: connect_with_retry_live)
qed

lemma connect_child_Return:
  "connect_child env pid s t w = Some (Return p, w') \<Longrightarrow>
    p = \<lparr>pp_child = pid, pp_client = Channel s\<rparr> \<and> live w' = live w"
  by (auto simp: connect_child_def result_simps dest: connect_with_retry_Return)

lemma spawn_reaches_connect:
  assumes "socket_dir_ready env s" "env_spawn env b s = Ok pid"
  shows "PluginProcess_spawn env b s t w = connect_child env pid s t (w @ spawn_calls b s pid)"
proof -
  have "start_child env b s w = Some (Return pid, w @ spawn_calls b s pid)"
    using assms by (simp add: start_child_Return)
  then show ?thesis by (simp add: PluginProcess_spawn_def io_bind_def)
qed

lemma spawn_fails_early:
  assumes "\<nexists>pid. socket_dir_ready env s \<and> env_spawn env b s = Ok pid"
  shows "\<exists>e w'. PluginProcess_spawn env b s t w = Some (Fail e, w') \<and> live w' = live w"
  using start_child_fails [OF assms, of w] by (auto simp: PluginProcess_spawn_def io_bind_def)

lemma spawn_live:
  assumes "PluginProcess_spawn env b s t w = Some (x, w')"
  shows "live w' = live w \<and> (\<nexists>p. x = Return p) \<or>
    (\<exists>pid. env_spawn env b s = Ok pid \<and>
      live w' = insert pid (live w) - (if exit_reported s x then {pid} else {}))"
proof (cases "\<exists>pid. socket_dir_ready env s \<and> env_spawn env b s = Ok pid")
  case True
  then obtain pid where "socket_dir_ready env s" "env_spawn env b s = Ok pid" by blast
  with assms show ?thesis by (auto simp: spawn_reaches_connect dest: connect_child_live)
next
  case False
  with assms spawn_fails_early [OF False, of t w] show ?thesis by auto
qed

lemma spawn_Return:
  assumes "PluginProcess_spawn env b s t w = Some (Return p, w')"
  shows "socket_dir_ready env s \<and> env_spawn env b s = Ok (pp_child p) \<and> pp_client p = Channel s \<and>
    live w' = insert (pp_child p) (live w)"
proof -
  obtain pid where "socket_dir_ready env s" and pid: "env_spawn env b s = Ok pid"
    using assms spawn_fails_early [of env s b t w] by fastforce
  with assms connect_child_Return [of env pid s t "w @ spawn_calls b s pid" p w']
  show ?thesis by (auto simp: spawn_reaches_connect)
qed

section \<open>Draining the progress stream\<close>

lemma CreateProgress_status_succeeded [simp]:
  "CreateProgress_status p = CreateProgressSucceeded \<longleftrightarrow> cp_status p = 4"
  by (simp add: CreateProgress_status_def progress_status.accessor_eq_iff)

lemma CreateProgress_status_error [simp]:
  "CreateProgress_status p = CreateProgressError \<longleftrightarrow> cp_status p = 5"
  by (simp add: CreateProgress_status_def progress_status.accessor_eq_iff)

text \<open>A message of the stream that is neither its end nor a terminal message.\<close>

definition draining :: "(Status, CreateProgress option) result option \<Rightarrow> bool" where
  "draining m = (case m of Some (Ok (Some q)) \<Rightarrow> cp_status q \<noteq> 4 \<and> cp_status q \<noteq> 5 | _ \<Rightarrow> False)"

lemma progress_round_None: "progress_round stream i = None \<longleftrightarrow> draining (stream i)"
  by (auto simp: progress_round_def draining_def
      simp flip: CreateProgress_status_succeeded CreateProgress_status_error
      split: sum.splits option.splits CreateProgressStatus.splits)

lemma progress_round_silent: "progress_round stream i = Some None \<longleftrightarrow> stream i = None"
  by (auto simp: progress_round_def split: sum.splits option.splits CreateProgressStatus.splits)

lemma progress_round_Ok:
  "progress_round stream i = Some (Some (Ok res)) \<longleftrightarrow>
    (\<exists>p. stream i = Some (Ok (Some p)) \<and> cp_status p = 4 \<and> cp_result p = Some res)"
  unfolding progress_round_def
  by (auto simp: ok_or_eq_Ok CreateProgress_status_succeeded [symmetric]
      simp del: CreateProgress_status_succeeded CreateProgress_status_error
      split: sum.splits option.splits CreateProgressStatus.splits)

lemma all_before_iff: "list_all P (map f [0..<n]) \<longleftrightarrow> (\<forall>j < n. P (f j))"
  by (auto simp: list_all_iff)

lemma create_fixture_None:
  "create_fixture env request = None \<longleftrightarrow>
    env_create_fixture env request = None \<or>
    (\<exists>stream. env_create_fixture env request = Some (Ok stream) \<and>
      ((\<forall>i. draining (stream i)) \<or>
       (\<exists>n. stream n = None \<and> list_all draining (map stream [0..<n]))))"
proof -
  have "Option.bind (loop_from (progress_round stream) 0) (\<lambda>r. r) = None \<longleftrightarrow>
      (\<forall>i. draining (stream i)) \<or> (\<exists>n. stream n = None \<and> list_all draining (map stream [0..<n]))" for stream
  proof -
    have "Option.bind (loop_from (progress_round stream) 0) (\<lambda>r. r) = None \<longleftrightarrow>
        loop_from (progress_round stream) 0 = None \<or> loop_from (progress_round stream) 0 = Some None"
      by (cases "loop_from (progress_round stream) 0") simp_all
    then show ?thesis
      unfolding all_before_iff
      by (simp add: loop_from_eq_None loop_from_eq_Some progress_round_None progress_round_silent)
  qed
  then show ?thesis by (simp add: create_fixture_def split: sum.splits option.splits)
qed

lemma connect_returns:
  assumes "sleeping_clock env"
  shows "\<exists>x n u. connect_with_retry env p s t w = Some (x, w @ replicate n (Sleep retry_interval) @ u) \<and>
    set u \<subseteq> {ChildExited p} \<and> retry_interval * n < t + retry_interval"
proof (cases "env_start env + t \<le> env_instant_max env")
  case True
  from connect_loop_leaves [OF assms, of p s t] obtain n u r where
    n: "connect_round env p s (env_start env + t) n = Some (u, r)"
      "\<forall>j < n. connect_round env p s (env_start env + t) j = None" by auto
  then obtain x where "connect_with_retry env p s t w = Some (x, w @ replicate n (Sleep retry_interval) @ u)"
    unfolding connect_with_retry_eq [OF True] by (auto simp: io_lift_def)
  moreover have "set u \<subseteq> {ChildExited p}"
    using n(1) by (cases r) (auto dest: connect_round_Err split: if_splits)
  ultimately show ?thesis using connect_rounds_bound [OF assms n(2)] by blast
next
  case False
  then show ?thesis
    by (intro exI [of _ Panic] exI [of _ 0] exI [of _ "[]"]) (simp add: connect_with_retry_def retry_interval_def)
qed

lemma connect_child_returns:
  assumes "sleeping_clock env"
  shows "connect_child env p s t w \<noteq> None"
  using connect_returns [OF assms, of p s t w] by (auto simp: connect_child_def io_bind_eq_None)

lemma start_child_returns: "start_child env b s w \<noteq> None"
  by (rule start_child_cases [of env s b w]) simp_all

lemma spawn_returns:
  assumes "sleeping_clock env"
  shows "PluginProcess_spawn env b s t w \<noteq> None"
  using connect_child_returns [OF assms] start_child_returns
  by (auto simp: PluginProcess_spawn_def io_bind_eq_None)

section \<open>When a plugin starts\<close>

lemma connect_with_retry_Return_iff:
  "connect_with_retry env p s t w = Some (Return ch, w') \<longleftrightarrow>
    env_start env + t \<le> env_instant_max env \<and> ch = Channel s \<and>
    (\<exists>n. w' = w @ replicate n (Sleep retry_interval) \<and> env_connect env s n = Ok () \<and>
      list_all (\<lambda>j. (\<exists>e. env_connect env s j = Err e) \<and> env_try_wait env j = Ok None \<and>
        env_now env j < env_start env + t) [0..<n])"
proof (cases "env_start env + t \<le> env_instant_max env")
  case True
  then show ?thesis
    by (auto simp: connect_with_retry_eq io_lift_eq_Return connect_round_None list_all_iff)
next
  case False
  then show ?thesis by (simp add: connect_with_retry_def)
qed

text \<open>
  What the outside world has to do for \<open>PluginProcess::spawn\<close> to succeed: the socket directory can be
  made, the binary can be run, the deadline is representable, and some connection attempt succeeds
  before the loop gives up.
\<close>

definition plugin_starts :: "plugin_env \<Rightarrow> string \<Rightarrow> path \<Rightarrow> nat \<Rightarrow> pid \<Rightarrow> bool" where
  "plugin_starts env b s t pid \<longleftrightarrow>
    socket_dir_ready env s \<and> env_spawn env b s = Ok pid \<and> env_start env + t \<le> env_instant_max env \<and>
    (\<exists>n. env_connect env s n = Ok () \<and>
      list_all (\<lambda>j. (\<exists>e. env_connect env s j = Err e) \<and> env_try_wait env j = Ok None \<and>
        env_now env j < env_start env + t) [0..<n])"

lemma plugin_starts_child:
  "plugin_starts env b s t pid \<Longrightarrow> start_child env b s w = Some (Return pid, w @ spawn_calls b s pid)"
  by (simp add: plugin_starts_def start_child_Return)

lemma plugin_starts_connects:
  assumes "plugin_starts env b s t pid"
  obtains n where "\<And>w. connect_child env pid s t w =
    Some (Return \<lparr>pp_child = pid, pp_client = Channel s\<rparr>, w @ replicate n (Sleep retry_interval))"
proof -
  obtain n where "env_connect env s n = Ok ()"
    "list_all (\<lambda>j. (\<exists>e. env_connect env s j = Err e) \<and> env_try_wait env j = Ok None \<and>
      env_now env j < env_start env + t) [0..<n]"
    using assms unfolding plugin_starts_def by blast
  then have "connect_with_retry env pid s t w = Some (Return (Channel s), w @ replicate n (Sleep retry_interval))" for w
    using assms unfolding connect_with_retry_Return_iff plugin_starts_def by blast
  then show thesis by (intro that [of n]) (simp add: connect_child_def io_bind_def io_return_def)
qed

lemma plugin_starts_spawns:
  assumes "plugin_starts env b s t pid"
  obtains n where "\<And>w. PluginProcess_spawn env b s t w =
    Some (Return \<lparr>pp_child = pid, pp_client = Channel s\<rparr>,
      w @ spawn_calls b s pid @ replicate n (Sleep retry_interval))"
proof -
  obtain n where "\<And>w. connect_child env pid s t w =
      Some (Return \<lparr>pp_child = pid, pp_client = Channel s\<rparr>, w @ replicate n (Sleep retry_interval))"
    using assms by (rule plugin_starts_connects) blast
  then show thesis using that plugin_starts_child [OF assms] by (simp add: PluginProcess_spawn_def io_bind_def)
qed

lemma spawn_Return_starts:
  assumes "PluginProcess_spawn env b s t w = Some (Return p, w')"
  shows "plugin_starts env b s t (pp_child p)"
proof -
  note ret = spawn_Return [OF assms]
  then have "connect_child env (pp_child p) s t (w @ spawn_calls b s (pp_child p)) = Some (Return p, w')"
    using assms by (simp add: spawn_reaches_connect)
  then obtain ch where "connect_with_retry env (pp_child p) s t (w @ spawn_calls b s (pp_child p)) = Some (Return ch, w')"
    by (auto simp: connect_child_def result_simps)
  with ret show ?thesis unfolding connect_with_retry_Return_iff plugin_starts_def by blast
qed

section \<open>What spawning does not depend on\<close>

text \<open>Which plugin serves does not matter before the first call.\<close>

lemma calls_spawn:
  "PluginProcess_spawn (env\<lparr>env_describe_plugin := d, env_create_fixture := c\<rparr>) b s t =
    PluginProcess_spawn env b s t"
proof -
  let ?env = "env\<lparr>env_describe_plugin := d, env_create_fixture := c\<rparr>"
  have same: "env_create_dir_all ?env = env_create_dir_all env" "env_spawn ?env = env_spawn env"
    "env_start ?env = env_start env" "env_now ?env = env_now env" "env_instant_max ?env = env_instant_max env"
    "env_connect ?env = env_connect env" "env_try_wait ?env = env_try_wait env" by simp_all
  have round: "connect_round ?env p s x i = connect_round env p s x i" for p x i
    unfolding connect_round_def try_connect_def same by (rule refl)
  have "connect_with_retry ?env p s t = connect_with_retry env p s t" for p
    by (rule ext) (unfold connect_with_retry_def round same, rule refl)
  then show ?thesis unfolding PluginProcess_spawn_def start_child_def connect_child_def same by simp
qed

lemma describe_spawn:
  "PluginProcess_spawn (env\<lparr>env_describe_plugin := d\<rparr>) b s t = PluginProcess_spawn env b s t"
  using calls_spawn [of "env_create_fixture env" d env] by (cases env) simp

section \<open>Properties\<close>

text \<open>
  A concrete environment for examples: the plugin process starts and stays up, but nothing
  ever listens on its socket.
\<close>

definition silent_env :: plugin_env where
  "silent_env = \<lparr>env_create_dir_all = \<lambda>_. Ok (), env_spawn = \<lambda>_ _. Ok 7, env_start = 1000,
    env_now = \<lambda>i. 1001 + 50 * i, env_instant_max = 2 ^ 63,
    env_connect = \<lambda>_ _. Err (Transport ''refused''), env_try_wait = \<lambda>_. Ok None,
    env_describe_plugin = \<lambda>_. None, env_create_fixture = \<lambda>_. None\<rparr>"

text \<open>
  C18. \<open>create_fixture\<close> returns a fixture result exactly when the plugin accepts the call and
  its stream reaches a \<open>CREATE_PROGRESS_SUCCEEDED\<close> message that carries this result, every
  message before it being a progress message that is neither a success nor an error. Messages
  with a status number outside the enumeration count as progress.
\<close>

theorem create_fixture_success_iff:
  "create_fixture env request = Some (Ok res) \<longleftrightarrow>
    (\<exists>stream n p. env_create_fixture env request = Some (Ok stream) \<and>
      stream n = Some (Ok (Some p)) \<and> cp_status p = 4 \<and> cp_result p = Some res \<and>
      list_all draining (map stream [0..<n]))"
  unfolding all_before_iff
  by (auto simp: create_fixture_def bind_eq_Some_conv loop_from_eq_Some progress_round_Ok progress_round_None
      split: sum.splits option.splits)

text \<open>
  C28. \<open>create_fixture\<close> never comes back exactly when the plugin never answers the call, sends
  progress messages for ever, or falls silent with its stream open after progress messages only:
  no bound on the number of messages or on the time applies to it, the startup timeout of the
  fixture included.
\<close>

theorem create_fixture_hangs_iff:
  "create_fixture env request = None \<longleftrightarrow>
    env_create_fixture env request = None \<or>
    (\<exists>stream. env_create_fixture env request = Some (Ok stream) \<and>
      ((\<forall>i. draining (stream i)) \<or>
       (\<exists>n. stream n = None \<and> list_all draining (map stream [0..<n]))))"
  by (rule create_fixture_None)

text \<open>
  C26. The retry loop always ends: on a clock that advances by at least the retry interval
  over every sleep, \<open>connect_with_retry\<close> comes back, and it has slept so often that all its
  sleeps but the last fit into the timeout. Beyond sleeping it does nothing but, at the end, to
  reap a child that has exited.
\<close>

theorem connect_with_retry_terminates:
  assumes "sleeping_clock env"
  shows "\<exists>x n u. connect_with_retry env p s t w = Some (x, w @ replicate n (Sleep retry_interval) @ u) \<and>
    set u \<subseteq> {ChildExited p} \<and> retry_interval * n < t + retry_interval"
  using assms by (rule connect_returns)

theorem connect_with_retry_terminates_witness:
  "sleeping_clock silent_env \<and>
    (\<exists>x n u. connect_with_retry silent_env 7 (name_path ''s'') 120 [] =
        Some (x, replicate n (Sleep retry_interval) @ u) \<and>
      set u \<subseteq> {ChildExited 7} \<and> retry_interval * n < 120 + retry_interval)"
proof -
  have h: "sleeping_clock silent_env"
    by (simp add: sleeping_clock_def silent_env_def retry_interval_def)
  with connect_with_retry_terminates [OF h, of 7 "name_path ''s''" 120 "[]"] show ?thesis by simp
qed

text \<open>
  C27. \<open>connect_with_retry\<close> returns a channel exactly when the deadline is a representable
  instant and some attempt succeeds before the loop gives up: every earlier attempt failed
  while the child was still running and the deadline was still ahead. The attempt that
  succeeds may itself be past the deadline.
\<close>

theorem connect_with_retry_success_iff:
  "connect_with_retry env p s t w = Some (Return ch, w') \<longleftrightarrow>
    env_start env + t \<le> env_instant_max env \<and> ch = Channel s \<and>
    (\<exists>n. w' = w @ replicate n (Sleep retry_interval) \<and> env_connect env s n = Ok () \<and>
      list_all (\<lambda>j. (\<exists>e. env_connect env s j = Err e) \<and> env_try_wait env j = Ok None \<and>
        env_now env j < env_start env + t) [0..<n])"
  by (rule connect_with_retry_Return_iff)

text \<open>
  C29. A spawn that comes back without success after the child was started never kills the child:
  it sleeps between its attempts, and reaps the child if a poll reported its exit. So the child is
  left behind, its process id in use, exactly when the error is not the report of that exit: the
  error paths of \<open>connect_with_retry\<close> drop the bare \<open>Child\<close> handle, which stops nothing.
\<close>

theorem failed_spawn_leaks_child:
  assumes "PluginProcess_spawn env b s t w = Some (x, w')" "\<nexists>p. x = Return p"
    and "socket_dir_ready env s" "env_spawn env b s = Ok pid"
  shows "(pid \<in> live w' \<longleftrightarrow> (\<nexists>status e. x = Fail (WithContext (PluginExited status s) e))) \<and>
    (\<exists>n u. w' = w @ spawn_calls b s pid @ replicate n (Sleep retry_interval) @ u \<and>
      set u \<subseteq> {ChildExited pid})"
proof -
  have "connect_child env pid s t (w @ spawn_calls b s pid) = Some (x, w')"
    using assms by (simp add: spawn_reaches_connect)
  then obtain y where c: "connect_with_retry env pid s t (w @ spawn_calls b s pid) = Some (y, w')"
    and xy: "exit_reported s x = exit_reported s y"
    by (rule connect_child_connects)
  have "pid \<in> live w' \<longleftrightarrow> \<not> exit_reported s x"
    using connect_with_retry_live [OF c] xy by auto
  moreover obtain n where
    "w' = (w @ spawn_calls b s pid) @ replicate n (Sleep retry_interval) @ (if exit_reported s y then [ChildExited pid] else [])"
    using connect_with_retry_trace [OF c] by blast
  with xy have "\<exists>n u. w' = w @ spawn_calls b s pid @ replicate n (Sleep retry_interval) @ u \<and>
      set u \<subseteq> {ChildExited pid}"
    by (intro exI [of _ n] exI [of _ "if exit_reported s y then [ChildExited pid] else []"]) auto
  ultimately show ?thesis by (simp add: exit_reported_def)
qed

theorem failed_spawn_leaks_child_witness:
  "\<exists>e w'. PluginProcess_spawn silent_env ''plugin'' (name_path ''s'') 0 [] = Some (Fail e, w') \<and>
    7 \<in> live w'"
proof -
  let ?s = "name_path ''s''" and ?e = "WithContext TimedOutConnecting (Transport ''refused'')"
  have "connect_with_retry silent_env 7 ?s 0 v = Some (Fail ?e, v)" for v
    by (subst connect_with_retry_eq)
      (auto simp: silent_env_def connect_round_def try_connect_def io_simps intro!: exI [of _ 0])
  then have sp: "PluginProcess_spawn silent_env ''plugin'' ?s 0 [] = Some (Fail ?e, spawn_calls ''plugin'' ?s 7)"
    by (subst spawn_reaches_connect [where pid = 7])
      (simp_all add: socket_dir_ready_def silent_env_def connect_child_def io_bind_def)
  have "7 \<in> live (spawn_calls ''plugin'' ?s 7)"
    using failed_spawn_leaks_child [OF sp, of 7] by (simp add: socket_dir_ready_def silent_env_def)
  with sp show ?thesis by blast
qed

end
