(* ===== verification/Wire.thy ===== *)
theory Wire
  imports Proto
begin

text \<open>
  The protobuf encoding of a fixture description, which is what a fingerprint hashes. The
  generated crate \<^verbatim>\<open>src/proto/systemtestrs/src/lib.rs\<close> fixes the tag and the kind of every field
  in its \<open>prost\<close> attributes; the encoding they denote is the protobuf wire format: fields in
  the order of their tags, each a key and a varint or length-delimited payload, with fields at
  their default value left out, except inside a \<open>oneof\<close>. The fingerprint theorems take the
  encoder as a parameter; this theory is a concrete instance of it, with a left inverse, which
  shows that no two descriptions have the same encoding. It is not the decoder of prost, which
  accepts more.
\<close>

section \<open>Varints\<close>

fun encode_varint :: "nat \<Rightarrow> byte list" where
  "encode_varint n =
    (if n < 128 then [word_of_nat n] else word_of_nat (n mod 128 + 128) # encode_varint (n div 128))"

declare encode_varint.simps [simp del]

fun decode_varint :: "byte list \<Rightarrow> (nat \<times> byte list) option" where
  "decode_varint [] = None"
| "decode_varint (b # bs) =
    (if unat b < 128 then Some (unat b, bs)
     else map_option (\<lambda>(n, rest). (unat b - 128 + 128 * n, rest)) (decode_varint bs))"

lemma unat_byte: "n < 256 \<Longrightarrow> unat (word_of_nat n :: byte) = n"
  by (simp add: unat_of_nat)

lemma decode_encode_varint [simp]: "decode_varint (encode_varint n @ rest) = Some (n, rest)"
proof (induction n rule: encode_varint.induct)
  case (1 n)
  show ?case
  proof (cases "n < 128")
    case True
    then show ?thesis by (simp add: encode_varint.simps [of n] unat_byte)
  next
    case False
    have "n mod 128 + 128 < (256 :: nat)" by (simp add: less_le_trans [of _ "128 + 128"])
    with 1 [OF False] False show ?thesis
      by (simp add: encode_varint.simps [of n] unat_byte del: of_nat_add)
  qed
qed

lemma decode_varint_shorter: "decode_varint bs = Some (n, rest) \<Longrightarrow> length rest < length bs"
  by (induction bs arbitrary: n rest) (auto split: if_splits dest: less_SucI)

section \<open>Fields\<close>

datatype wire = Varint u64 | Len "byte list"

type_synonym field = "nat \<times> wire"

fun encode_field :: "field \<Rightarrow> byte list" where
  "encode_field (t, Varint v) = encode_varint (8 * t) @ encode_varint (unat v)"
| "encode_field (t, Len bs) = encode_varint (8 * t + 2) @ encode_varint (length bs) @ bs"

definition encode_fields :: "field list \<Rightarrow> byte list" where
  "encode_fields fs = concat (map encode_field fs)"

function decode_fields :: "byte list \<Rightarrow> field list option" where
  "decode_fields bs =
    (if bs = [] then Some []
     else case decode_varint bs of
       None \<Rightarrow> None
     | Some (key, rest) \<Rightarrow>
         (case decode_varint rest of
            None \<Rightarrow> None
          | Some (n, rest') \<Rightarrow>
              if key mod 8 = 0 then map_option ((#) (key div 8, Varint (word_of_nat n))) (decode_fields rest')
              else if key mod 8 = 2 \<and> n \<le> length rest'
                then map_option ((#) (key div 8, Len (take n rest'))) (decode_fields (drop n rest'))
              else None))"
  by pat_completeness auto

termination
  by (relation "measure length") (force dest!: decode_varint_shorter)+

declare decode_fields.simps [simp del]

lemma encode_varint_nonempty [simp]: "encode_varint n \<noteq> []"
  by (simp add: encode_varint.simps [of n])

lemma encode_fields_Cons [simp]: "encode_fields (f # fs) = encode_field f @ encode_fields fs"
  by (simp add: encode_fields_def)

lemma decode_encode_fields [simp]: "decode_fields (encode_fields fs) = Some fs"
proof (induction fs)
  case Nil
  then show ?case by (simp add: encode_fields_def decode_fields.simps)
next
  case (Cons f fs)
  show ?case
  proof (cases f rule: encode_field.cases)
    case (1 t v)
    with Cons show ?thesis by (simp add: decode_fields.simps [of "_ @ _"])
  next
    case (2 t bs)
    have "Suc (Suc (8 * t)) mod 8 = 2" "Suc (Suc (8 * t)) div 8 = t" by presburger+
    with 2 Cons show ?thesis by (simp add: decode_fields.simps [of "_ @ _"])
  qed
qed

lemma encode_fields_inject [simp]: "encode_fields fs = encode_fields gs \<longleftrightarrow> fs = gs"
  by (metis decode_encode_fields option.inject)

section \<open>Values of fields\<close>

text \<open>
  A message is the concatenation of its fields, each the list of its occurrences under the tag
  of the field: no occurrence for a default value, one for another scalar, one per element of a
  repeated field. Reading a field looks at its occurrences alone; of a singular field the last
  one counts. (The format also merges repeated occurrences of a singular message field; no
  encoder of this protocol writes any.)
\<close>

named_theorems wire_simps \<open>occurrences of a field in a message, and the values read from them\<close>

definition tagged :: "nat \<Rightarrow> wire list \<Rightarrow> field list" where
  "tagged t ws = map (Pair t) ws"

definition fields_of :: "nat \<Rightarrow> field list \<Rightarrow> wire list" where
  "fields_of t fs = map snd (filter (\<lambda>f. fst f = t) fs)"

text \<open>The fields of a \<open>oneof\<close>, given by the set of its tags.\<close>

definition oneof_fields :: "nat set \<Rightarrow> field list \<Rightarrow> field list" where
  "oneof_fields ts fs = filter (\<lambda>f. fst f \<in> ts) fs"

lemma fields_of_simps [simp, wire_simps]:
  "fields_of t [] = []" "fields_of t (fs @ gs) = fields_of t fs @ fields_of t gs"
  "fields_of t (tagged u ws) = (if t = u then ws else [])"
  by (simp_all add: fields_of_def tagged_def filter_map o_def)

lemma oneof_fields_simps [simp, wire_simps]:
  "oneof_fields ts [] = []" "oneof_fields ts (fs @ gs) = oneof_fields ts fs @ oneof_fields ts gs"
  "oneof_fields ts (tagged u ws) = (if u \<in> ts then tagged u ws else [])"
  by (simp_all add: oneof_fields_def tagged_def filter_map o_def)

subsection \<open>Scalars and strings\<close>

definition bytes_of :: "string \<Rightarrow> byte list" where
  "bytes_of s = map (\<lambda>c. word_of_nat (of_char c)) s"

definition string_of :: "byte list \<Rightarrow> string" where
  "string_of bs = map (\<lambda>b. char_of (unat b)) bs"

lemma string_of_bytes_of [simp]: "string_of (bytes_of s) = s"
  by (induction s) (simp_all add: string_of_def bytes_of_def unat_byte)

lemma string_of_Nil [simp]: "string_of [] = []"
  by (simp add: string_of_def)

definition bytes_wire :: "byte list \<Rightarrow> wire list" where
  "bytes_wire bs = (if bs = [] then [] else [Len bs])"

definition string_wire :: "string \<Rightarrow> wire list" where
  "string_wire s = (if s = [] then [] else [Len (bytes_of s)])"

definition int64_wire :: "u64 \<Rightarrow> wire list" where
  "int64_wire v = (if v = 0 then [] else [Varint v])"

text \<open>An \<open>int32\<close> (and an enumeration) is sign-extended, a \<open>uint32\<close> zero-extended to 64 bits.\<close>

definition int32_wire :: "i32 \<Rightarrow> wire list" where
  "int32_wire i = int64_wire (scast i)"

definition uint32_wire :: "u32 \<Rightarrow> wire list" where
  "uint32_wire n = int64_wire (ucast n)"

definition bool_wire :: "bool \<Rightarrow> wire list" where
  "bool_wire b = int64_wire (if b then 1 else 0)"

definition strings_wire :: "string list \<Rightarrow> wire list" where
  "strings_wire ss = map (\<lambda>s. Len (bytes_of s)) ss"

fun payload :: "wire \<Rightarrow> byte list option" where
  "payload (Len bs) = Some bs"
| "payload (Varint v) = None"

fun number :: "wire \<Rightarrow> u64 option" where
  "number (Varint v) = Some v"
| "number (Len bs) = None"

definition bytes_value :: "wire list \<Rightarrow> byte list option" where
  "bytes_value ws = (if ws = [] then Some [] else payload (last ws))"

definition string_value :: "wire list \<Rightarrow> string option" where
  "string_value ws = map_option string_of (bytes_value ws)"

definition int64_value :: "wire list \<Rightarrow> u64 option" where
  "int64_value ws = (if ws = [] then Some 0 else number (last ws))"

definition int32_value :: "wire list \<Rightarrow> i32 option" where
  "int32_value ws = map_option ucast (int64_value ws)"

definition uint32_value :: "wire list \<Rightarrow> u32 option" where
  "uint32_value ws = map_option ucast (int64_value ws)"

definition bool_value :: "wire list \<Rightarrow> bool option" where
  "bool_value ws = map_option (\<lambda>v. v \<noteq> 0) (int64_value ws)"

definition strings_value :: "wire list \<Rightarrow> string list option" where
  "strings_value ws = map_option (map string_of) (those (map payload ws))"

lemma ucast_scast [simp]: "(ucast (scast (i :: i32) :: u64) :: i32) = i"
  by (rule bit_word_eqI) (auto simp: bit_simps)

lemma ucast_ucast [simp]: "(ucast (ucast (n :: u32) :: u64) :: u32) = n"
  by (rule bit_word_eqI) (auto simp: bit_simps)

lemma those_map_Some: "(\<And>x. x \<in> set xs \<Longrightarrow> f x = Some (g x)) \<Longrightarrow> those (map f xs) = Some (map g xs)"
  by (induction xs) simp_all

lemma scalar_values [simp, wire_simps]:
  "bytes_value (bytes_wire bs) = Some bs" "string_value (string_wire s) = Some s"
  "int64_value (int64_wire v) = Some v"
  by (simp_all add: bytes_value_def bytes_wire_def string_value_def string_wire_def int64_value_def
      int64_wire_def)

lemma extended_values [simp, wire_simps]:
  "int32_value (int32_wire i) = Some i" "uint32_value (uint32_wire n) = Some n"
  "bool_value (bool_wire b) = Some b"
  by (simp_all add: int32_value_def int32_wire_def uint32_value_def uint32_wire_def bool_value_def bool_wire_def)

lemma strings_value_wire [simp, wire_simps]: "strings_value (strings_wire ss) = Some ss"
proof -
  have "those (map payload (strings_wire ss)) = Some (map bytes_of ss)"
    unfolding strings_wire_def map_map by (rule those_map_Some) simp
  then show ?thesis by (simp add: strings_value_def o_def)
qed

subsection \<open>Messages inside messages\<close>

text \<open>
  A message type is given by its fields and the function that reads them back. What the users of
  a message rely on is that reading the fields of a well-formed message gives the message; then
  its bytes decode, and so do the fields of other messages that contain it.
\<close>

definition encode_message :: "('m \<Rightarrow> field list) \<Rightarrow> 'm \<Rightarrow> byte list" where
  "encode_message to_fields m = encode_fields (to_fields m)"

definition decode_message :: "(field list \<Rightarrow> 'm option) \<Rightarrow> byte list \<Rightarrow> 'm option" where
  "decode_message read bs = Option.bind (decode_fields bs) read"

definition message_wire :: "('m \<Rightarrow> field list) \<Rightarrow> 'm option \<Rightarrow> wire list" where
  "message_wire to_fields x = (case x of None \<Rightarrow> [] | Some m \<Rightarrow> [Len (encode_message to_fields m)])"

definition messages_wire :: "('m \<Rightarrow> field list) \<Rightarrow> 'm list \<Rightarrow> wire list" where
  "messages_wire to_fields ms = map (\<lambda>m. Len (encode_message to_fields m)) ms"

definition message_value :: "(field list \<Rightarrow> 'm option) \<Rightarrow> wire list \<Rightarrow> 'm option option" where
  "message_value read ws =
    (if ws = [] then Some None else map_option Some (Option.bind (payload (last ws)) (decode_message read)))"

definition messages_value :: "(field list \<Rightarrow> 'm option) \<Rightarrow> wire list \<Rightarrow> 'm list option" where
  "messages_value read ws = those (map (\<lambda>w. Option.bind (payload w) (decode_message read)) ws)"

text \<open>
  A map is a repeated message of entries: the key under tag 1, the value under tag 2 as the
  occurrences of a singular field, so that a default value is left out.
\<close>

definition fields_entry :: "('v \<Rightarrow> wire list) \<Rightarrow> string \<times> 'v \<Rightarrow> field list" where
  "fields_entry wire e = tagged 1 (string_wire (fst e)) @ tagged 2 (wire (snd e))"

definition read_entry :: "(wire list \<Rightarrow> 'v option) \<Rightarrow> field list \<Rightarrow> (string \<times> 'v) option" where
  "read_entry val fs =
    Option.bind (string_value (fields_of 1 fs)) (\<lambda>k. Option.bind (val (fields_of 2 fs)) (\<lambda>v. Some (k, v)))"

definition map_wire :: "('v \<Rightarrow> wire list) \<Rightarrow> (string, 'v) btree_map \<Rightarrow> wire list" where
  "map_wire wire m = messages_wire (fields_entry wire) m"

definition map_value :: "(wire list \<Rightarrow> 'v option) \<Rightarrow> wire list \<Rightarrow> (string, 'v) btree_map option" where
  "map_value val ws =
    map_option (\<lambda>es. fold (\<lambda>(k, v). btree_insert k v) es []) (messages_value (read_entry val) ws)"

locale message_codec =
  fixes to_fields :: "'m \<Rightarrow> field list"
    and read :: "field list \<Rightarrow> 'm option"
    and ok :: "'m \<Rightarrow> bool"
  assumes read_fields: "ok m \<Longrightarrow> read (to_fields m) = Some m"
begin

lemma decode_encode: "ok m \<Longrightarrow> decode_message read (encode_message to_fields m) = Some m"
  by (simp add: decode_message_def encode_message_def read_fields)

lemma encode_inject: "ok m \<Longrightarrow> ok n \<Longrightarrow> encode_message to_fields m = encode_message to_fields n \<longleftrightarrow> m = n"
  by (metis decode_encode option.inject)

lemma message_value_wire: "pred_option ok x \<Longrightarrow> message_value read (message_wire to_fields x) = Some x"
  by (cases x) (simp_all add: message_value_def message_wire_def decode_encode)

lemma messages_value_wire: "list_all ok ms \<Longrightarrow> messages_value read (messages_wire to_fields ms) = Some ms"
  unfolding messages_value_def messages_wire_def map_map
  by (subst those_map_Some [where g = id]) (simp_all add: list_all_iff decode_encode)

end

text \<open>The values of a map: a singular field that is read back.\<close>

locale field_codec =
  fixes wire :: "'v \<Rightarrow> wire list"
    and val :: "wire list \<Rightarrow> 'v option"
  assumes val_wire: "val (wire v) = Some v"

sublocale field_codec \<subseteq> entry: message_codec "fields_entry wire" "read_entry val" "\<lambda>_. True"
  by unfold_locales (simp add: fields_entry_def read_entry_def val_wire)

lemma btree_rebuild:
  assumes "btree_ok m"
  shows "fold (\<lambda>(k, v). btree_insert k v) m [] = m"
proof (rule btree_eqI)
  have "map_of (rev m) = map_of m"
    using btree_ok_distinct [OF assms] by (subst map_of_inject_set) (simp_all flip: rev_map)
  then show "btree_get (fold (\<lambda>(k, v). btree_insert k v) m []) = btree_get m"
    by (intro ext) (subst btree.get_fold_put, simp, simp add: btree_get_def split: option.splits)
qed (simp_all add: assms btree.ok_fold_put)

context field_codec begin

lemma map_value_wire: "btree_ok m \<Longrightarrow> map_value val (map_wire wire m) = Some m"
  by (simp add: map_value_def map_wire_def entry.messages_value_wire btree_rebuild list_all_iff)

end

interpretation string_field: field_codec string_wire string_value
  by unfold_locales simp

section \<open>Messages\<close>

text \<open>Each message as its fields in tag order; the numbers are the source's tags.\<close>

definition fields_SchemaBlob :: "SchemaBlob \<Rightarrow> field list" where
  "fields_SchemaBlob b = tagged 1 (string_wire (sb_schema_id b)) @ tagged 2 (bytes_wire (sb_contents b))"

fun fields_ValueKind :: "ValueKind option \<Rightarrow> field list" where
  "fields_ValueKind None = []"
| "fields_ValueKind (Some (Str s)) = [(1, Len (bytes_of s))]"
| "fields_ValueKind (Some (Data bs)) = [(3, Len bs)]"
| "fields_ValueKind (Some (SchemaBlob b)) = [(4, Len (encode_message fields_SchemaBlob b))]"
| "fields_ValueKind (Some (IntValue i)) = [(5, Varint (scast i))]"

definition fields_Value :: "Value \<Rightarrow> field list" where
  "fields_Value v = fields_ValueKind (v_value v)"

fun fields_UseScope :: "UseScope option \<Rightarrow> field list" where
  "fields_UseScope None = []"
| "fields_UseScope (Some (Unrestricted e)) = [(1, Len [])]"
| "fields_UseScope (Some (ClientRestricted e)) = [(2, Len [])]"
| "fields_UseScope (Some (SingleUse e)) = [(3, Len [])]"

definition fields_Sharing :: "Sharing \<Rightarrow> field list" where
  "fields_Sharing s = fields_UseScope (s_use_scope s) @ tagged 4 (int64_wire (s_maximum_concurrent_connections s))"

fun fields_FixturePlugin :: "FixturePlugin option \<Rightarrow> field list" where
  "fields_FixturePlugin None = []"
| "fields_FixturePlugin (Some (BinaryPath p)) = [(2, Len (bytes_of p))]"
| "fields_FixturePlugin (Some (ContainerRef r)) = [(3, Len (bytes_of r))]"

text \<open>The value of a map entry is left out when it is the default message, which has no fields.\<close>

definition value_wire :: "Value \<Rightarrow> wire list" where
  "value_wire v = bytes_wire (encode_message fields_Value v)"

definition fields_FixtureDescription :: "FixtureDescription \<Rightarrow> field list" where
  "fields_FixtureDescription d =
    tagged 1 (string_wire (fd_impl_id d)) @
    fields_FixturePlugin (fd_plugin d) @
    tagged 4 (map_wire value_wire (fd_inputs d)) @
    tagged 5 (strings_wire (fd_image_inputs d)) @
    tagged 6 (strings_wire (fd_file_inputs d)) @
    tagged 7 (message_wire fields_Sharing (fd_sharing d)) @
    tagged 8 (int64_wire (fd_startup_timeout_seconds d)) @
    tagged 9 (string_wire (fd_name d))"

section \<open>Reading\<close>

definition read_SchemaBlob :: "field list \<Rightarrow> SchemaBlob option" where
  "read_SchemaBlob fs =
    Option.bind (string_value (fields_of 1 fs)) (\<lambda>i.
    Option.bind (bytes_value (fields_of 2 fs)) (\<lambda>c.
      Some \<lparr>sb_schema_id = i, sb_contents = c\<rparr>))"

definition read_ValueKind :: "field \<Rightarrow> ValueKind option" where
  "read_ValueKind f =
    (if fst f = 1 then map_option (\<lambda>bs. Str (string_of bs)) (payload (snd f))
     else if fst f = 3 then map_option Data (payload (snd f))
     else if fst f = 4 then map_option SchemaBlob (Option.bind (payload (snd f)) (decode_message read_SchemaBlob))
     else map_option (\<lambda>v. IntValue (ucast v)) (number (snd f)))"

definition read_UseScope :: "field \<Rightarrow> UseScope option" where
  "read_UseScope f =
    Some (if fst f = 1 then Unrestricted Empty else if fst f = 2 then ClientRestricted Empty
      else SingleUse Empty)"

definition read_FixturePlugin :: "field \<Rightarrow> FixturePlugin option" where
  "read_FixturePlugin f =
    map_option (\<lambda>bs. if fst f = 2 then BinaryPath (string_of bs) else ContainerRef (string_of bs))
      (payload (snd f))"

text \<open>A \<open>oneof\<close> is what its last field says, and absent without one.\<close>

definition oneof_value :: "(field \<Rightarrow> 'k option) \<Rightarrow> field list \<Rightarrow> 'k option option" where
  "oneof_value read fs = (if fs = [] then Some None else map_option Some (read (last fs)))"

definition read_Value :: "field list \<Rightarrow> Value option" where
  "read_Value fs =
    Option.bind (oneof_value read_ValueKind (oneof_fields {1, 3, 4, 5} fs)) (\<lambda>k. Some \<lparr>v_value = k\<rparr>)"

definition value_value :: "wire list \<Rightarrow> Value option" where
  "value_value ws = Option.bind (bytes_value ws) (decode_message read_Value)"

definition read_Sharing :: "field list \<Rightarrow> Sharing option" where
  "read_Sharing fs =
    Option.bind (oneof_value read_UseScope (oneof_fields {1, 2, 3} fs)) (\<lambda>scope.
    Option.bind (int64_value (fields_of 4 fs)) (\<lambda>n.
      Some \<lparr>s_maximum_concurrent_connections = n, s_use_scope = scope\<rparr>))"

definition read_FixtureDescription :: "field list \<Rightarrow> FixtureDescription option" where
  "read_FixtureDescription fs =
    Option.bind (string_value (fields_of 1 fs)) (\<lambda>impl.
    Option.bind (oneof_value read_FixturePlugin (oneof_fields {2, 3} fs)) (\<lambda>plugin.
    Option.bind (map_value value_value (fields_of 4 fs)) (\<lambda>inputs.
    Option.bind (strings_value (fields_of 5 fs)) (\<lambda>images.
    Option.bind (strings_value (fields_of 6 fs)) (\<lambda>files.
    Option.bind (message_value read_Sharing (fields_of 7 fs)) (\<lambda>sharing.
    Option.bind (int64_value (fields_of 8 fs)) (\<lambda>timeout.
    Option.bind (string_value (fields_of 9 fs)) (\<lambda>name.
      Some \<lparr>fd_impl_id = impl, fd_inputs = inputs, fd_image_inputs = images, fd_file_inputs = files,
        fd_sharing = sharing, fd_startup_timeout_seconds = timeout, fd_name = name,
        fd_plugin = plugin\<rparr>))))))))"

definition encode_FixtureDescription :: "FixtureDescription \<Rightarrow> byte list" where
  "encode_FixtureDescription d = encode_message fields_FixtureDescription d"

definition decode_FixtureDescription :: "byte list \<Rightarrow> FixtureDescription option" where
  "decode_FixtureDescription bs = decode_message read_FixtureDescription bs"

section \<open>Round trip\<close>

interpretation schema_blob: message_codec fields_SchemaBlob read_SchemaBlob "\<lambda>_. True"
  by unfold_locales (simp add: fields_SchemaBlob_def read_SchemaBlob_def)

lemma Empty_eq [simp]: "Empty = e"
  by (cases e) simp

lemmas oneof_defs = oneof_value_def oneof_fields_def read_ValueKind_def read_UseScope_def read_FixturePlugin_def

lemma ValueKind_found [simp, wire_simps]:
  "oneof_value read_ValueKind (oneof_fields {Suc 0, 3, 4, 5} (fields_ValueKind k)) = Some k"
  by (cases k rule: fields_ValueKind.cases) (simp_all add: oneof_defs schema_blob.decode_encode)

lemma UseScope_found [simp, wire_simps]:
  "oneof_value read_UseScope (oneof_fields {Suc 0, 2, 3} (fields_UseScope sc)) = Some sc"
  by (cases sc rule: fields_UseScope.cases) (simp_all add: oneof_defs)

lemma FixturePlugin_found [simp, wire_simps]:
  "oneof_value read_FixturePlugin (oneof_fields {2, 3} (fields_FixturePlugin p)) = Some p"
  by (cases p rule: fields_FixturePlugin.cases) (simp_all add: oneof_defs)

lemma UseScope_elsewhere [simp, wire_simps]: "t \<notin> {1, 2, 3} \<Longrightarrow> fields_of t (fields_UseScope sc) = []"
  by (cases sc rule: fields_UseScope.cases) (auto simp: fields_of_def)

lemma FixturePlugin_elsewhere [simp, wire_simps]: "t \<notin> {2, 3} \<Longrightarrow> fields_of t (fields_FixturePlugin p) = []"
  by (cases p rule: fields_FixturePlugin.cases) (auto simp: fields_of_def)

interpretation value_msg: message_codec fields_Value read_Value "\<lambda>_. True"
  by unfold_locales (simp add: fields_Value_def read_Value_def)

interpretation value_field: field_codec value_wire value_value
  by unfold_locales (simp add: value_wire_def value_value_def value_msg.decode_encode)

interpretation sharing: message_codec fields_Sharing read_Sharing "\<lambda>_. True"
  by unfold_locales (simp add: fields_Sharing_def read_Sharing_def)

definition desc_ok :: "FixtureDescription \<Rightarrow> bool" where
  "desc_ok d \<longleftrightarrow> btree_ok (fd_inputs d)"

interpretation fixture_description: message_codec fields_FixtureDescription read_FixtureDescription desc_ok
  by unfold_locales
    (simp add: desc_ok_def fields_FixtureDescription_def read_FixtureDescription_def
      value_field.map_value_wire sharing.message_value_wire option.pred_True)

lemma description_roundtrip:
  "btree_ok (fd_inputs d) \<Longrightarrow> decode_FixtureDescription (encode_FixtureDescription d) = Some d"
  by (simp add: encode_FixtureDescription_def decode_FixtureDescription_def desc_ok_def
      fixture_description.decode_encode)

end
