(* ===== verification/Fixture.thy ===== *)
theory Fixture
  imports Plugin_Client Wire
begin

text \<open>
  Model of \<^verbatim>\<open>src/coordinator/src/fixture.rs\<close>: fixture ids, fixture fingerprints and the
  record of a provisioned fixture. SHA-256, the protobuf encoder that prost derives and the
  file system are outside the repository; they are the arguments \<open>sha256\<close>,
  \<open>encode_to_vec\<close> and \<open>read_file\<close>.
\<close>

section \<open>Hexadecimal\<close>

definition hex_digit :: "nat \<Rightarrow> char" where
  "hex_digit n = ''0123456789abcdef'' ! n"

text \<open>\<^verbatim>\<open>format!("{b:02x}")\<close> on a byte: two lower-case hexadecimal digits.\<close>

definition hex_byte :: "byte \<Rightarrow> string" where
  "hex_byte b = [hex_digit (unat b div 16), hex_digit (unat b mod 16)]"

definition hex_encode :: "byte list \<Rightarrow> string" where
  "hex_encode bytes = concat (map hex_byte bytes)"

section \<open>Identifiers\<close>

datatype FixtureId = FixtureId (FixtureId_into_string: string)

datatype FixtureFingerprint = FixtureFingerprint (fingerprint_hex: string)

text \<open>The derived orders compare the wrapped strings.\<close>

instantiation FixtureId :: linorder
begin

definition less_eq_FixtureId :: "FixtureId \<Rightarrow> FixtureId \<Rightarrow> bool" where
  "a \<le> b \<longleftrightarrow> FixtureId_into_string a \<le> FixtureId_into_string b"

definition less_FixtureId :: "FixtureId \<Rightarrow> FixtureId \<Rightarrow> bool" where
  "a < b \<longleftrightarrow> FixtureId_into_string a < FixtureId_into_string b"

instance
  by standard (auto simp: less_eq_FixtureId_def less_FixtureId_def intro: FixtureId.expand)

end

instantiation FixtureFingerprint :: linorder
begin

definition less_eq_FixtureFingerprint :: "FixtureFingerprint \<Rightarrow> FixtureFingerprint \<Rightarrow> bool" where
  "a \<le> b \<longleftrightarrow> fingerprint_hex a \<le> fingerprint_hex b"

definition less_FixtureFingerprint :: "FixtureFingerprint \<Rightarrow> FixtureFingerprint \<Rightarrow> bool" where
  "a < b \<longleftrightarrow> fingerprint_hex a < fingerprint_hex b"

instance
  by standard
    (auto simp: less_eq_FixtureFingerprint_def less_FixtureFingerprint_def
      intro: FixtureFingerprint.expand)

end

text \<open>A random id is the text of a fresh version-4 UUID, which is an argument.\<close>

definition FixtureId_random :: "string \<Rightarrow> FixtureId" where
  "FixtureId_random uuid = FixtureId uuid"

section \<open>Fingerprints\<close>

definition hash_plugin_binary ::
  "(byte list \<Rightarrow> byte list) \<Rightarrow> (string \<Rightarrow> (Error, byte list) result) \<Rightarrow>
    string \<Rightarrow> (Error, string) result" where
  "hash_plugin_binary sha256 read_file path =
    and_then (map_err (WithContext (ReadingPluginBinary path)) (read_file path)) (\<lambda>bytes.
      Ok (hex_encode (sha256 bytes)))"

definition canonical_encoding ::
  "(FixtureDescription \<Rightarrow> byte list) \<Rightarrow> (byte list \<Rightarrow> byte list) \<Rightarrow>
    (string \<Rightarrow> (Error, byte list) result) \<Rightarrow>
    FixtureDescription \<Rightarrow> string \<Rightarrow> (Error, byte list) result" where
  "canonical_encoding encode_to_vec sha256 read_file desc plugin_binary_path =
    (let desc = desc\<lparr>fd_name := ''''\<rparr> in
     case fd_plugin desc of
       Some (BinaryPath _) \<Rightarrow>
         and_then (hash_plugin_binary sha256 read_file plugin_binary_path) (\<lambda>h.
           Ok (encode_to_vec (desc\<lparr>fd_plugin := Some (BinaryPath h)\<rparr>)))
     | _ \<Rightarrow> Ok (encode_to_vec desc))"

definition FixtureFingerprint_compute ::
  "(FixtureDescription \<Rightarrow> byte list) \<Rightarrow> (byte list \<Rightarrow> byte list) \<Rightarrow>
    (string \<Rightarrow> (Error, byte list) result) \<Rightarrow>
    FixtureDescription \<Rightarrow> string \<Rightarrow> (Error, FixtureFingerprint) result" where
  "FixtureFingerprint_compute encode_to_vec sha256 read_file desc plugin_binary_path =
    and_then (canonical_encoding encode_to_vec sha256 read_file desc plugin_binary_path) (\<lambda>encoded.
      Ok (FixtureFingerprint (hex_encode (sha256 encoded))))"

section \<open>The record of a provisioned fixture\<close>

record FixtureRecord =
  fx_outputs :: "(string, Value) btree_map"
  fx_sharing :: Sharing
  fx_creating_client_id :: string
  fx_used_slots :: i64
  fx_plugin :: PluginProcess

section \<open>Hexadecimal is injective\<close>

text \<open>The reverse direction, for the proofs only.\<close>

definition hex_value :: "char \<Rightarrow> nat" where
  "hex_value c = length (takeWhile (\<lambda>d. d \<noteq> c) ''0123456789abcdef'')"

fun hex_decode :: "string \<Rightarrow> byte list" where
  "hex_decode (a # b # s) = word_of_nat (16 * hex_value a + hex_value b) # hex_decode s"
| "hex_decode _ = []"

lemma hex_value_digit: "n < 16 \<Longrightarrow> hex_value (hex_digit n) = n"
proof -
  have "\<forall>n \<in> {0..<16}. hex_value (hex_digit n) = n" by code_simp
  then show "n < 16 \<Longrightarrow> hex_value (hex_digit n) = n" by simp
qed

lemma byte_lt: "unat (b :: byte) < 256"
  using unsigned_less [of b] by simp

lemma hex_decode_encode: "hex_decode (hex_encode bs) = bs"
proof (induction bs)
  case Nil
  then show ?case by (simp add: hex_encode_def)
next
  case (Cons b bs)
  have "unat b div 16 < 16" "unat b mod 16 < 16" using byte_lt [of b] by auto
  then have "16 * hex_value (hex_digit (unat b div 16)) + hex_value (hex_digit (unat b mod 16)) = unat b"
    by (simp add: hex_value_digit)
  with Cons show ?case by (simp add: hex_encode_def hex_byte_def)
qed

lemma hex_encode_inject [simp]: "hex_encode xs = hex_encode ys \<longleftrightarrow> xs = ys"
  by (metis hex_decode_encode)

lemma length_hex_encode [simp]: "length (hex_encode bs) = 2 * length bs"
  by (induction bs) (simp_all add: hex_encode_def hex_byte_def)

definition hex_chars :: "char set" where
  "hex_chars = set ''0123456789abcdef''"

lemma hex_digit_chars: "n < 16 \<Longrightarrow> hex_digit n \<in> hex_chars"
  unfolding hex_digit_def hex_chars_def by (rule nth_mem) simp

lemma hex_byte_chars: "set (hex_byte b) \<subseteq> hex_chars"
  using byte_lt [of b] by (auto simp: hex_byte_def intro!: hex_digit_chars)

lemma hex_encode_chars: "set (hex_encode bs) \<subseteq> hex_chars"
  using hex_byte_chars by (fastforce simp: hex_encode_def)

section \<open>Fixture identity\<close>

text \<open>
  What identifies a fixture: the description without its name, and in place of the plugin
  path the contents of the plugin binary (or the container reference).
\<close>

definition plugin_identity ::
  "(string \<Rightarrow> (Error, byte list) result) \<Rightarrow> FixtureDescription \<Rightarrow> string \<Rightarrow>
    ((Error, byte list) result + string) option" where
  "plugin_identity read_file desc path =
    (case fd_plugin desc of
       Some (BinaryPath _) \<Rightarrow> Some (Inl (read_file path))
     | Some (ContainerRef r) \<Rightarrow> Some (Inr r)
     | None \<Rightarrow> None)"

definition same_fixture ::
  "(string \<Rightarrow> (Error, byte list) result) \<Rightarrow> FixtureDescription \<Rightarrow> string \<Rightarrow>
    FixtureDescription \<Rightarrow> string \<Rightarrow> bool" where
  "same_fixture read_file d p d' p' \<longleftrightarrow>
    d\<lparr>fd_name := '''', fd_plugin := None\<rparr> = d'\<lparr>fd_name := '''', fd_plugin := None\<rparr> \<and>
    plugin_identity read_file d p = plugin_identity read_file d' p'"

text \<open>
  The encoder on descriptions whose input maps are maps: decoding gives the message back, as
  prost documents for \<open>Message::decode\<close> and \<open>Message::encode_to_vec\<close>.
\<close>

definition decodes :: "(byte list \<Rightarrow> FixtureDescription option) \<Rightarrow>
    (FixtureDescription \<Rightarrow> byte list) \<Rightarrow> bool" where
  "decodes decode encode_to_vec \<longleftrightarrow> (\<forall>d. desc_ok d \<longrightarrow> decode (encode_to_vec d) = Some d)"

lemma decodes_inject:
  "decodes decode enc \<Longrightarrow> desc_ok d \<Longrightarrow> desc_ok d' \<Longrightarrow> enc d = enc d' \<longleftrightarrow> d = d'"
  by (metis decodes_def option.inject)

text \<open>The description that is encoded, as a function of what identifies the fixture.\<close>

definition base_desc :: "FixtureDescription \<Rightarrow> FixtureDescription" where
  "base_desc d = d\<lparr>fd_name := '''', fd_plugin := None\<rparr>"

fun canonical_plugin :: "(byte list \<Rightarrow> byte list) \<Rightarrow>
    ((Error, byte list) result + string) option \<Rightarrow> FixturePlugin option" where
  "canonical_plugin sha256 (Some (Inl (Ok bytes))) = Some (BinaryPath (hex_encode (sha256 bytes)))"
| "canonical_plugin sha256 (Some (Inr r)) = Some (ContainerRef r)"
| "canonical_plugin sha256 _ = None"

definition canonical_desc :: "(byte list \<Rightarrow> byte list) \<Rightarrow>
    (string \<Rightarrow> (Error, byte list) result) \<Rightarrow> FixtureDescription \<Rightarrow> string \<Rightarrow> FixtureDescription" where
  "canonical_desc sha256 read_file d p =
    (base_desc d)\<lparr>fd_plugin := canonical_plugin sha256 (plugin_identity read_file d p)\<rparr>"

lemma desc_ok_canonical [simp]: "desc_ok (canonical_desc sha rd d p) \<longleftrightarrow> desc_ok d"
  by (simp add: canonical_desc_def base_desc_def desc_ok_def)

lemma canonical_encoding_Ok:
  "canonical_encoding enc sha rd d p = Ok bs \<longleftrightarrow>
    bs = enc (canonical_desc sha rd d p) \<and> (\<forall>e. plugin_identity rd d p \<noteq> Some (Inl (Err e)))"
proof -
  have [simp]: "d\<lparr>fd_name := '''', fd_plugin := x\<rparr> = d\<lparr>fd_name := ''''\<rparr>" if "fd_plugin d = x" for x
    using that by (cases d) simp
  show ?thesis
    by (cases "fd_plugin d"; cases "the (fd_plugin d)"; cases "rd p")
      (auto simp: canonical_encoding_def hash_plugin_binary_def canonical_desc_def base_desc_def
        plugin_identity_def Let_def)
qed

lemma compute_Ok:
  "FixtureFingerprint_compute enc sha rd d p = Ok f \<longleftrightarrow>
    f = FixtureFingerprint (hex_encode (sha (enc (canonical_desc sha rd d p)))) \<and>
    (\<forall>e. plugin_identity rd d p \<noteq> Some (Inl (Err e)))"
  by (auto simp: FixtureFingerprint_compute_def result_simps canonical_encoding_Ok)

lemma same_fixture_canonical:
  "same_fixture rd d p d' p' \<Longrightarrow> canonical_desc sha rd d p = canonical_desc sha rd d' p'"
  by (simp add: same_fixture_def canonical_desc_def base_desc_def)

lemma base_desc_canonical: "(canonical_desc sha rd d p)\<lparr>fd_plugin := None\<rparr> = base_desc d"
  by (simp add: canonical_desc_def base_desc_def)

lemma canonical_plugin_eq:
  assumes "canonical_plugin sha i = canonical_plugin sha i'"
    and "\<forall>e. i \<noteq> Some (Inl (Err e))" and "\<forall>e. i' \<noteq> Some (Inl (Err e))"
  shows "i = i' \<or> (\<exists>b b'. i = Some (Inl (Ok b)) \<and> i' = Some (Inl (Ok b')) \<and> b \<noteq> b' \<and> sha b = sha b')"
  using assms
  by (cases "(sha, i)" rule: canonical_plugin.cases; cases "(sha, i')" rule: canonical_plugin.cases) auto

lemma plugin_identity_contents: "plugin_identity rd d p = Some (Inl x) \<Longrightarrow> rd p = x"
  by (auto simp: plugin_identity_def split: option.splits FixturePlugin.splits)

lemma canonical_desc_eq:
  assumes eq: "canonical_desc sha rd d p = canonical_desc sha rd d' p'"
    and "\<forall>e. plugin_identity rd d p \<noteq> Some (Inl (Err e))"
    and "\<forall>e. plugin_identity rd d' p' \<noteq> Some (Inl (Err e))"
  shows "same_fixture rd d p d' p' \<or>
    (\<exists>b b'. rd p = Ok b \<and> rd p' = Ok b' \<and> b \<noteq> b' \<and> sha b = sha b')"
proof -
  have "base_desc d = base_desc d'" by (metis eq base_desc_canonical)
  moreover have "canonical_plugin sha (plugin_identity rd d p) = canonical_plugin sha (plugin_identity rd d' p')"
    using arg_cong [OF eq, of fd_plugin] by (simp add: canonical_desc_def)
  ultimately show ?thesis
    using canonical_plugin_eq [OF _ assms(2,3)] plugin_identity_contents
    unfolding same_fixture_def base_desc_def by blast
qed

text \<open>The protobuf encoding is such an encoder.\<close>

lemma protobuf_decodes: "decodes decode_FixtureDescription encode_FixtureDescription"
  by (simp add: decodes_def desc_ok_def description_roundtrip)

text \<open>Two descriptions of one fixture, with different names and plugin paths of equal contents.\<close>

definition example_description :: "string \<Rightarrow> string \<Rightarrow> FixtureDescription" where
  "example_description name path =
    \<lparr>fd_impl_id = ''redis'', fd_inputs = [(''a'', \<lparr>v_value = Some (IntValue 3)\<rparr>)],
     fd_image_inputs = [], fd_file_inputs = [], fd_sharing = None, fd_startup_timeout_seconds = 5,
     fd_name = name, fd_plugin = Some (BinaryPath path)\<rparr>"

lemma example_same: "same_fixture (\<lambda>_. Ok [1, 2]) (example_description n p) p (example_description n' p') p'"
  by (simp add: same_fixture_def example_description_def plugin_identity_def)

lemma example_fingerprint:
  "\<exists>f. FixtureFingerprint_compute enc sha (\<lambda>_. Ok [1, 2]) (example_description n p) p = Ok f"
  by (simp add: compute_Ok example_description_def plugin_identity_def)

section \<open>Properties\<close>

text \<open>
  C19. Reuse is never missed: a description that denotes the same fixture (whatever its name
  and the path of its plugin binary) has the same fingerprint, and computing it succeeds too.
\<close>

theorem same_fixture_same_fingerprint:
  assumes "same_fixture read_file d p d' p'"
    and "FixtureFingerprint_compute encode_to_vec sha256 read_file d p = Ok f"
  shows "FixtureFingerprint_compute encode_to_vec sha256 read_file d' p' = Ok f"
  using assms same_fixture_canonical [of read_file d p d' p' sha256]
  by (auto simp: compute_Ok same_fixture_def)

theorem same_fixture_same_fingerprint_witness:
  "\<exists>f. FixtureFingerprint_compute encode_FixtureDescription id (\<lambda>_. Ok [1, 2])
      (example_description ''a'' ''/x'') ''/x'' = Ok f \<and>
    FixtureFingerprint_compute encode_FixtureDescription id (\<lambda>_. Ok [1, 2])
      (example_description ''b'' ''/y'') ''/y'' = Ok f"
  using same_fixture_same_fingerprint [OF example_same] example_fingerprint by blast

text \<open>
  C5. Reuse is never wrong: if two well-formed descriptions have the same fingerprint, they
  denote the same fixture, unless one of two explicit pairs of byte strings is a SHA-256
  collision: the two plugin binaries, or the two canonical encodings.
\<close>

theorem same_fingerprint_same_fixture:
  assumes "decodes decode encode_to_vec" and "desc_ok d" and "desc_ok d'"
    and "FixtureFingerprint_compute encode_to_vec sha256 read_file d p = Ok f"
    and "FixtureFingerprint_compute encode_to_vec sha256 read_file d' p' = Ok f"
  shows "same_fixture read_file d p d' p' \<or>
    (\<exists>b b'. read_file p = Ok b \<and> read_file p' = Ok b' \<and> b \<noteq> b' \<and> sha256 b = sha256 b') \<or>
    (\<exists>c c'. canonical_encoding encode_to_vec sha256 read_file d p = Ok c \<and>
      canonical_encoding encode_to_vec sha256 read_file d' p' = Ok c' \<and> c \<noteq> c' \<and> sha256 c = sha256 c')"
proof -
  let ?c = "canonical_desc sha256 read_file d p" and ?c' = "canonical_desc sha256 read_file d' p'"
  have sha: "sha256 (encode_to_vec ?c) = sha256 (encode_to_vec ?c')"
    using assms(4,5) by (simp add: compute_Ok)
  show ?thesis
  proof (cases "encode_to_vec ?c = encode_to_vec ?c'")
    case True
    then have "?c = ?c'" using decodes_inject [OF assms(1)] assms(2,3) by simp
    moreover have "\<forall>e. plugin_identity read_file d p \<noteq> Some (Inl (Err e))"
      "\<forall>e. plugin_identity read_file d' p' \<noteq> Some (Inl (Err e))"
      using assms(4,5) by (simp_all add: compute_Ok)
    ultimately show ?thesis by (metis canonical_desc_eq)
  next
    case False
    with sha assms(4,5) show ?thesis by (auto simp: compute_Ok canonical_encoding_Ok)
  qed
qed

theorem same_fingerprint_same_fixture_witness:
  "same_fixture (\<lambda>_. Ok [1, 2]) (example_description ''a'' ''/x'') ''/x''
    (example_description ''b'' ''/y'') ''/y''"
proof -
  let ?rd = "\<lambda>_. Ok [1, 2]"
  let ?c = "FixtureFingerprint_compute encode_FixtureDescription id ?rd"
  have ok: "desc_ok (example_description n p)" for n p
    by (simp add: desc_ok_def example_description_def)
  obtain f where f: "?c (example_description ''a'' ''/x'') ''/x'' = Ok f"
    by (simp add: compute_Ok example_description_def plugin_identity_def)
  moreover from f have "?c (example_description ''b'' ''/y'') ''/y'' = Ok f"
    by (simp add: compute_Ok example_description_def plugin_identity_def canonical_desc_def base_desc_def)
  ultimately show ?thesis
    using same_fingerprint_same_fixture [OF protobuf_decodes ok ok] by fastforce
qed

end
