(* ===== verification/Lease.thy ===== *)
theory Lease
  imports Fixture
begin

text \<open>
  Model of \<^verbatim>\<open>src/coordinator/src/lease.rs\<close>: lease ids and what the coordinator keeps of a
  lease.
\<close>

datatype LeaseId = LeaseId (LeaseId_into_string: string)

instantiation LeaseId :: linorder
begin

definition less_eq_LeaseId :: "LeaseId \<Rightarrow> LeaseId \<Rightarrow> bool" where
  "a \<le> b \<longleftrightarrow> LeaseId_into_string a \<le> LeaseId_into_string b"

definition less_LeaseId :: "LeaseId \<Rightarrow> LeaseId \<Rightarrow> bool" where
  "a < b \<longleftrightarrow> LeaseId_into_string a < LeaseId_into_string b"

instance
  by standard (auto simp: less_eq_LeaseId_def less_LeaseId_def intro: LeaseId.expand)

end

text \<open>A random id is the text of a fresh version-4 UUID; an id from the wire is taken as it is.\<close>

definition LeaseId_random :: "string \<Rightarrow> LeaseId" where
  "LeaseId_random uuid = LeaseId uuid"

definition LeaseId_from :: "string \<Rightarrow> LeaseId" where
  "LeaseId_from s = LeaseId s"

record LeaseRecord =
  lr_fingerprint :: FixtureFingerprint

lemma LeaseId_into_string_from [simp]: "LeaseId_from (LeaseId_into_string l) = l"
  by (simp add: LeaseId_from_def)

end
