(* ===== verification/Coordinator.thy ===== *)
theory Coordinator
  imports Lease
begin

text \<open>
  Model of \<^verbatim>\<open>src/coordinator/src/coordinator.rs\<close>: the in-memory state and the four handlers of
  the coordinator service. The handler of \<open>TakeLease\<close> takes the state lock twice and
  provisions in between without it, so it is composed of two steps on the state
  (\<open>try_reuse\<close> and \<open>commit_fixture\<close>) around \<open>provision\<close>; the other handlers are one step.
\<close>

section \<open>State\<close>

record State =
  st_fixtures :: "(FixtureFingerprint, FixtureRecord) hash_map"
  st_leases :: "(LeaseId, LeaseRecord) hash_map"

record Coordinator =
  co_instance_dir :: path
  co_state :: State

definition State_default :: State where
  "State_default = \<lparr>st_fixtures = (\<lambda>_. None), st_leases = (\<lambda>_. None)\<rparr>"

definition Coordinator_new :: "path \<Rightarrow> Coordinator" where
  "Coordinator_new instance_dir = \<lparr>co_instance_dir = instance_dir, co_state = State_default\<rparr>"

text \<open>The first eight digits of a fresh UUID (in its simple form) name a plugin socket.\<close>

definition plugin_socket_path :: "path \<Rightarrow> string \<Rightarrow> path" where
  "plugin_socket_path instance_dir uuid =
    join (join instance_dir (name_path ''plugins'')) (name_path (take 8 uuid @ ''.sock''))"

definition sharing_admits :: "Sharing \<Rightarrow> string \<Rightarrow> string \<Rightarrow> bool" where
  "sharing_admits sharing creator_client_id requester_client_id =
    (case s_use_scope sharing of
       Some (Unrestricted _) \<Rightarrow> True
     | Some (ClientRestricted _) \<Rightarrow> creator_client_id = requester_client_id
     | None \<Rightarrow> creator_client_id = requester_client_id
     | Some (SingleUse _) \<Rightarrow> False)"

section \<open>TakeLease\<close>

text \<open>
  What the handler reads from outside: the encoder, the hash and the file system for the
  fingerprint, and the UUIDs it draws for the socket, the fixture and the lease.
\<close>

record take_env =
  te_encode_to_vec :: "FixtureDescription \<Rightarrow> byte list"
  te_sha256 :: "byte list \<Rightarrow> byte list"
  te_read_file :: "string \<Rightarrow> (Error, byte list) result"
  te_socket_uuid :: string
  te_fixture_uuid :: string
  te_lease_uuid :: string
  te_plugin :: plugin_env

text \<open>Decoding the request: the description and the path of the plugin binary.\<close>

definition requested_fixture ::
  "TakeLeaseRequest \<Rightarrow> (Status, FixtureDescription \<times> string) result" where
  "requested_fixture req =
    and_then (ok_or (Status InvalidArgument (Text ''fixture description is required'')) (tlq_fixture req))
      (\<lambda>desc.
        case fd_plugin desc of
          Some (BinaryPath p) \<Rightarrow> Ok (desc, p)
        | Some (ContainerRef _) \<Rightarrow>
            Err (Status Unimplemented
              (Text ''remote-mode (container_ref) plugins are not supported by this scaffold coordinator''))
        | None \<Rightarrow> Err (Status InvalidArgument (Text ''fixture.plugin is required'')))"

definition request_fingerprint ::
  "take_env \<Rightarrow> FixtureDescription \<Rightarrow> string \<Rightarrow> (Status, FixtureFingerprint) result" where
  "request_fingerprint te desc binary_path =
    map_err (\<lambda>e. Status Internal (Prefixed ''computing fingerprint'' e))
      (FixtureFingerprint_compute (te_encode_to_vec te) (te_sha256 te) (te_read_file te) desc binary_path)"

text \<open>The first critical section: attach to a live fixture, if the policy and a slot allow it.\<close>

definition max_slots :: "FixtureRecord \<Rightarrow> i64" where
  "max_slots r = smax (s_maximum_concurrent_connections (fx_sharing r)) 1"

definition reusable :: "FixtureRecord \<Rightarrow> string \<Rightarrow> bool" where
  "reusable r client_id \<longleftrightarrow>
    sharing_admits (fx_sharing r) (fx_creating_client_id r) client_id \<and>
    sint (fx_used_slots r) < sint (max_slots r)"

definition try_reuse ::
  "FixtureFingerprint \<Rightarrow> string \<Rightarrow> string \<Rightarrow> State \<Rightarrow> (TakeLeaseResponse \<times> State) option" where
  "try_reuse fp client_id lease_uuid s =
    (case hash_get (st_fixtures s) fp of
       None \<Rightarrow> None
     | Some record \<Rightarrow>
         if reusable record client_id then
           let record' = record\<lparr>fx_used_slots := fx_used_slots record + 1\<rparr>;
               lease_id = LeaseId_random lease_uuid
           in Some
             (\<lparr>tlr_status = LeaseStatus_as_i32 Succeeded,
               tlr_lease_id = LeaseId_into_string lease_id,
               tlr_outputs = fx_outputs record',
               tlr_messages = [''connecting to existing fixture'']\<rparr>,
              \<lparr>st_fixtures = hash_insert fp record' (st_fixtures s),
               st_leases = hash_insert lease_id \<lparr>lr_fingerprint = fp\<rparr> (st_leases s)\<rparr>)
         else None)"

text \<open>Provisioning, without the lock: spawn the plugin, check it, create the fixture.\<close>

definition startup_timeout :: "FixtureDescription \<Rightarrow> nat" where
  "startup_timeout desc =
    1000 * (if 0 < sint (fd_startup_timeout_seconds desc)
      then unat (fd_startup_timeout_seconds desc) else 300)"

definition make_create_request ::
  "FixtureDescription \<Rightarrow> TakeLeaseRequest \<Rightarrow> string \<Rightarrow> CreateRequest" where
  "make_create_request desc req fixture_uuid =
    \<lparr>cq_impl_id = fd_impl_id desc,
     cq_inputs = fd_inputs desc,
     cq_metadata = Some
       \<lparr>cm_fixture_id = FixtureId_into_string (FixtureId_random fixture_uuid),
        cm_client_id = tlq_client_id req,
        cm_owner = tlq_owner req,
        cm_labels = []\<rparr>\<rparr>"

text \<open>
  The calls to the plugin that was spawned. The handler owns the \<open>PluginProcess\<close> while it
  makes them, so an early return or a panic drops it, which kills the child.
\<close>

definition provision_plugin ::
  "take_env \<Rightarrow> TakeLeaseRequest \<Rightarrow> FixtureDescription \<Rightarrow> PluginProcess \<Rightarrow>
    (Status, PluginProcess \<times> FixtureResult) io" where
  "provision_plugin te req desc plugin =
    io_dropping (PluginProcess_drop plugin)
      (io_bind
        (io_await (map_option (map_err (\<lambda>e. Status Internal (Prefixed ''DescribePlugin'' e)))
          (describe (te_plugin te))))
        (\<lambda>_. io_bind
          (io_await (map_option (map_err (\<lambda>e. Status Internal (Prefixed ''CreateFixture'' e)))
            (create_fixture (te_plugin te) (make_create_request desc req (te_fixture_uuid te)))))
          (\<lambda>result. io_return (plugin, result))))"

definition provision ::
  "path \<Rightarrow> take_env \<Rightarrow> TakeLeaseRequest \<Rightarrow> FixtureDescription \<Rightarrow> string \<Rightarrow>
    (Status, PluginProcess \<times> FixtureResult) io" where
  "provision instance_dir te req desc binary_path =
    (let sock = plugin_socket_path instance_dir (te_socket_uuid te) in
     io_bind
       (io_map_err (\<lambda>e. Status Internal (Prefixed ''spawning plugin'' e))
         (PluginProcess_spawn (te_plugin te) binary_path sock (startup_timeout desc)))
       (provision_plugin te req desc))"

text \<open>
  The second critical section: record the fixture and its first lease. Inserting over an
  existing record drops it, and with it the plugin process it owns.
\<close>

definition default_sharing :: Sharing where
  "default_sharing =
    \<lparr>s_maximum_concurrent_connections = 1, s_use_scope = Some (ClientRestricted Empty)\<rparr>"

definition new_record ::
  "FixtureDescription \<Rightarrow> string \<Rightarrow> PluginProcess \<Rightarrow> FixtureResult \<Rightarrow> FixtureRecord" where
  "new_record desc client_id plugin result =
    \<lparr>fx_outputs = fr_outputs result,
     fx_sharing = unwrap_or default_sharing (fd_sharing desc),
     fx_creating_client_id = client_id,
     fx_used_slots = 1,
     fx_plugin = plugin\<rparr>"

definition commit_fixture ::
  "FixtureFingerprint \<Rightarrow> FixtureRecord \<Rightarrow> string \<Rightarrow> State \<times> trace \<Rightarrow> TakeLeaseResponse \<times> State \<times> trace" where
  "commit_fixture fp record lease_uuid = (\<lambda>(s, w).
    let lease_id = LeaseId_random lease_uuid;
        w' = (case hash_get (st_fixtures s) fp of
                None \<Rightarrow> w
              | Some old \<Rightarrow> w @ [PluginProcess_drop (fx_plugin old)])
    in (\<lparr>tlr_status = LeaseStatus_as_i32 Succeeded,
         tlr_lease_id = LeaseId_into_string lease_id,
         tlr_outputs = fx_outputs record,
         tlr_messages = []\<rparr>,
        \<lparr>st_fixtures = hash_insert fp record (st_fixtures s),
         st_leases = hash_insert lease_id \<lparr>lr_fingerprint = fp\<rparr> (st_leases s)\<rparr>,
        w'))"

text \<open>
  The whole handler, run with no other handler in between. \<open>None\<close> if it never answers;
  otherwise the outcome of the call, the state and the trace it leaves.
\<close>

definition take_lease ::
  "path \<Rightarrow> take_env \<Rightarrow> TakeLeaseRequest \<Rightarrow> State \<times> trace \<Rightarrow>
    ((Status, TakeLeaseResponse) outcome \<times> State \<times> trace) option" where
  "take_lease instance_dir te req = (\<lambda>(s, w).
    case requested_fixture req of
      Err e \<Rightarrow> Some (Fail e, s, w)
    | Ok (desc, binary_path) \<Rightarrow>
        (case request_fingerprint te desc binary_path of
           Err e \<Rightarrow> Some (Fail e, s, w)
         | Ok fp \<Rightarrow>
             (case try_reuse fp (tlq_client_id req) (te_lease_uuid te) s of
                Some (resp, s') \<Rightarrow> Some (Return resp, s', w)
              | None \<Rightarrow>
                  (case provision instance_dir te req desc binary_path w of
                     None \<Rightarrow> None
                   | Some (Fail e, w') \<Rightarrow> Some (Fail e, s, w')
                   | Some (Panic, w') \<Rightarrow> Some (Panic, s, w')
                   | Some (Return (plugin, result), w') \<Rightarrow>
                       (case commit_fixture fp (new_record desc (tlq_client_id req) plugin result)
                               (te_lease_uuid te) (s, w') of
                          (resp, s', w'') \<Rightarrow> Some (Return resp, s', w''))))))"

section \<open>Keepalive, ReleaseLease and Status\<close>

definition keepalive :: "KeepaliveRequest \<Rightarrow> State \<Rightarrow> (Status, KeepaliveResponse) result" where
  "keepalive req s =
    (if hash_get (st_leases s) (LeaseId_from (kq_lease_id req)) = None
     then Err (Status NotFound (Text ''unknown lease_id''))
     else Ok KeepaliveResponse)"

definition return_slot :: "FixtureRecord \<Rightarrow> FixtureRecord" where
  "return_slot record = record\<lparr>fx_used_slots := smax (fx_used_slots record - 1) 0\<rparr>"

definition release_lease ::
  "ReleaseRequest \<Rightarrow> State \<Rightarrow> (Status, ReleaseResponse) result \<times> State" where
  "release_lease req s =
    (let lease_id = LeaseId_from (rq_lease_id req) in
     (Ok ReleaseResponse,
      case hash_get (st_leases s) lease_id of
        None \<Rightarrow> s
      | Some lease \<Rightarrow>
          let s' = s\<lparr>st_leases := hash_remove lease_id (st_leases s)\<rparr> in
          (case hash_get (st_fixtures s') (lr_fingerprint lease) of
             None \<Rightarrow> s'
           | Some record \<Rightarrow>
               s'\<lparr>st_fixtures := hash_insert (lr_fingerprint lease) (return_slot record) (st_fixtures s')\<rparr>)))"

definition status :: "StatusRequest \<Rightarrow> State \<Rightarrow> (Status, StatusResponse) result" where
  "status req s =
    and_then
      (ok_or (Status NotFound (Text ''unknown lease_id''))
        (hash_get (st_leases s) (LeaseId_from (sq_lease_id req))))
      (\<lambda>lease. Ok
        \<lparr>sr_status = LeaseStatus_as_i32 Succeeded,
         sr_outputs = unwrap_or [] (map_option fx_outputs (hash_get (st_fixtures s) (lr_fingerprint lease))),
         sr_messages = []\<rparr>)"

section \<open>The state invariant\<close>

text \<open>
  \<open>holders s fp\<close> is the number of leases routed to the fixture cached under \<open>fp\<close>. In every
  state the handlers can reach, a lease is routed to a fixture that exists, the slots in use
  stay within their bounds, and every slot in use is held by some lease.
\<close>

definition holders :: "State \<Rightarrow> FixtureFingerprint \<Rightarrow> nat" where
  "holders s fp = tally (hash_get (st_leases s)) (\<lambda>l. lr_fingerprint l = fp)"

definition leases_routed :: "State \<Rightarrow> bool" where
  "leases_routed s \<longleftrightarrow>
    (\<forall>l r. hash_get (st_leases s) l = Some r \<longrightarrow> hash_get (st_fixtures s) (lr_fingerprint r) \<noteq> None)"

definition slots_bounded :: "State \<Rightarrow> bool" where
  "slots_bounded s \<longleftrightarrow>
    (\<forall>fp r. hash_get (st_fixtures s) fp = Some r \<longrightarrow>
      0 \<le> sint (fx_used_slots r) \<and> sint (fx_used_slots r) \<le> sint (max_slots r))"

definition slots_backed :: "State \<Rightarrow> bool" where
  "slots_backed s \<longleftrightarrow>
    (\<forall>fp r. hash_get (st_fixtures s) fp = Some r \<longrightarrow> sint (fx_used_slots r) \<le> int (holders s fp))"

definition state_inv :: "State \<Rightarrow> bool" where
  "state_inv s \<longleftrightarrow>
    hash_ok (st_fixtures s) \<and> hash_ok (st_leases s) \<and>
    leases_routed s \<and> slots_bounded s \<and> slots_backed s"

text \<open>Exact accounting: the slots in use are exactly the leases that hold them.\<close>

definition exact_slots :: "State \<Rightarrow> bool" where
  "exact_slots s \<longleftrightarrow>
    (\<forall>fp r. hash_get (st_fixtures s) fp = Some r \<longrightarrow> sint (fx_used_slots r) = int (holders s fp))"

lemmas inv_defs = state_inv_def leases_routed_def slots_bounded_def slots_backed_def

lemma max_slots_ge_1: "1 \<le> sint (max_slots r)"
  by (simp add: max_slots_def)

lemma max_slots_frame [simp]: "max_slots (r\<lparr>fx_used_slots := n\<rparr>) = max_slots r"
  by (simp add: max_slots_def)

lemma leases_routedD:
  "state_inv s \<Longrightarrow> hash_get (st_leases s) l = Some r \<Longrightarrow>
    \<exists>x. hash_get (st_fixtures s) (lr_fingerprint r) = Some x"
  by (simp add: inv_defs)

lemma slotsD:
  assumes "state_inv s" "hash_get (st_fixtures s) fp = Some r"
  shows "0 \<le> sint (fx_used_slots r)" "sint (fx_used_slots r) \<le> sint (max_slots r)"
    "sint (fx_used_slots r) \<le> int (holders s fp)"
  using assms by (simp_all add: inv_defs)

lemma State_default_inv: "state_inv State_default" "exact_slots State_default"
  by (simp_all add: inv_defs exact_slots_def State_default_def)

lemma holders_insert_lease:
  assumes "hash_ok (st_leases s)" "hash_get (st_leases s) l = None"
    and "st_leases s' = hash_insert l \<lparr>lr_fingerprint = fp\<rparr> (st_leases s)"
  shows "holders s' f = holders s f + (if f = fp then 1 else 0)"
  using assms by (auto simp: holders_def hash.tally_put_fresh)

lemma holders_remove_lease:
  assumes "hash_ok (st_leases s)" "hash_get (st_leases s) l = Some r"
    and "st_leases s' = hash_remove l (st_leases s)"
  shows "holders s' f = holders s f - (if f = lr_fingerprint r then 1 else 0)"
  using assms by (auto simp: holders_def hash.tally_del_present)

lemma holders_pos:
  "hash_ok (st_leases s) \<Longrightarrow> hash_get (st_leases s) l = Some r \<Longrightarrow> 0 < holders s (lr_fingerprint r)"
  unfolding holders_def by (rule hash.tally_pos) auto

section \<open>What the steps do\<close>

lemma try_reuse_SomeD:
  assumes "try_reuse fp c u s = Some (resp, s')"
  obtains r where "hash_get (st_fixtures s) fp = Some r" "reusable r c"
    "resp = \<lparr>tlr_status = 2, tlr_lease_id = u, tlr_outputs = fx_outputs r,
      tlr_messages = [''connecting to existing fixture'']\<rparr>"
    "st_fixtures s' = hash_insert fp (r\<lparr>fx_used_slots := fx_used_slots r + 1\<rparr>) (st_fixtures s)"
    "st_leases s' = hash_insert (LeaseId u) \<lparr>lr_fingerprint = fp\<rparr> (st_leases s)"
  using assms
  by (auto simp: try_reuse_def Let_def LeaseId_random_def split: option.splits if_splits)

lemma try_reuse_None:
  "try_reuse fp c u s = None \<longleftrightarrow> (\<nexists>r. hash_get (st_fixtures s) fp = Some r \<and> reusable r c)"
  by (auto simp: try_reuse_def Let_def split: option.splits)

lemma reusable_increment:
  assumes "reusable r c"
  shows "sint (fx_used_slots r + 1) = sint (fx_used_slots r) + 1"
    "sint (fx_used_slots r) + 1 \<le> sint (max_slots r)"
  using assms sint_succ [of "fx_used_slots r" "max_slots r"] by (auto simp: reusable_def)

lemma return_slot_sint:
  assumes "0 \<le> sint (fx_used_slots r)"
  shows "sint (fx_used_slots (return_slot r)) = max (sint (fx_used_slots r) - 1) 0"
  using assms by (simp add: return_slot_def sint_pred)

lemma return_slot_frame [simp]:
  "fx_outputs (return_slot r) = fx_outputs r" "fx_sharing (return_slot r) = fx_sharing r"
  "fx_creating_client_id (return_slot r) = fx_creating_client_id r"
  "fx_plugin (return_slot r) = fx_plugin r" "max_slots (return_slot r) = max_slots r"
  by (simp_all add: return_slot_def)

lemma commit_fixture_eqs:
  assumes "commit_fixture fp r u (s, w) = (resp, s', w')"
  shows "st_fixtures s' = hash_insert fp r (st_fixtures s)"
    "st_leases s' = hash_insert (LeaseId u) \<lparr>lr_fingerprint = fp\<rparr> (st_leases s)"
    "resp = \<lparr>tlr_status = 2, tlr_lease_id = u, tlr_outputs = fx_outputs r, tlr_messages = []\<rparr>"
    "w' = w @ (case hash_get (st_fixtures s) fp of None \<Rightarrow> [] | Some old \<Rightarrow> [StartKill (pp_child (fx_plugin old))])"
  using assms
  by (auto simp: commit_fixture_def Let_def LeaseId_random_def PluginProcess_drop_def split: option.splits)

section \<open>Every step keeps the invariant\<close>

lemma try_reuse_inv:
  assumes "state_inv s" "hash_get (st_leases s) (LeaseId u) = None"
    and reuse: "try_reuse fp c u s = Some (resp, s')"
  shows "state_inv s'"
proof -
  obtain r where r: "hash_get (st_fixtures s) fp = Some r" "reusable r c"
    and fx: "st_fixtures s' = hash_insert fp (r\<lparr>fx_used_slots := fx_used_slots r + 1\<rparr>) (st_fixtures s)"
    and ls: "st_leases s' = hash_insert (LeaseId u) \<lparr>lr_fingerprint = fp\<rparr> (st_leases s)"
    using reuse by (rule try_reuse_SomeD)
  have h: "holders s' f = holders s f + (if f = fp then 1 else 0)" for f
    using holders_insert_lease [OF _ assms(2) ls] assms(1) by (simp add: state_inv_def)
  show ?thesis
    using assms(1) r reusable_increment [OF r(2)] h
    by (auto simp: inv_defs fx ls)
qed

lemma commit_fixture_inv:
  assumes "state_inv s" "hash_get (st_leases s) (LeaseId u) = None" "fx_used_slots r = 1"
    and commit: "commit_fixture fp r u (s, w) = (resp, s', w')"
  shows "state_inv s'"
proof -
  note eqs = commit_fixture_eqs [OF commit]
  have h: "holders s' f = holders s f + (if f = fp then 1 else 0)" for f
    using holders_insert_lease [OF _ assms(2) eqs(2)] assms(1) by (simp add: state_inv_def)
  show ?thesis
    using assms(1,3) max_slots_ge_1 [of r] h by (auto simp: inv_defs eqs)
qed

lemma release_lease_unknown:
  "hash_get (st_leases s) (LeaseId_from (rq_lease_id q)) = None \<Longrightarrow> snd (release_lease q s) = s"
  by (simp add: release_lease_def Let_def)

lemma release_lease_known:
  assumes "state_inv s" "hash_get (st_leases s) (LeaseId_from (rq_lease_id q)) = Some l"
  obtains r where "hash_get (st_fixtures s) (lr_fingerprint l) = Some r"
    "st_fixtures (snd (release_lease q s)) =
      hash_insert (lr_fingerprint l) (return_slot r) (st_fixtures s)"
    "st_leases (snd (release_lease q s)) = hash_remove (LeaseId_from (rq_lease_id q)) (st_leases s)"
proof -
  obtain r where r: "hash_get (st_fixtures s) (lr_fingerprint l) = Some r"
    using leases_routedD [OF assms] by blast
  with assms(2) show ?thesis
    by (intro that [of r]) (simp_all add: release_lease_def Let_def)
qed

lemma release_lease_inv:
  assumes inv: "state_inv s"
  shows "state_inv (snd (release_lease q s))"
proof (cases "hash_get (st_leases s) (LeaseId_from (rq_lease_id q))")
  case None
  with inv show ?thesis by (simp add: release_lease_unknown)
next
  case (Some l)
  define s' where "s' = snd (release_lease q s)"
  obtain r where r: "hash_get (st_fixtures s) (lr_fingerprint l) = Some r"
    and fx: "st_fixtures s' = hash_insert (lr_fingerprint l) (return_slot r) (st_fixtures s)"
    and ls: "st_leases s' = hash_remove (LeaseId_from (rq_lease_id q)) (st_leases s)"
    using release_lease_known [OF inv Some] unfolding s'_def by metis
  have h: "holders s' f = holders s f - (if f = lr_fingerprint l then 1 else 0)" for f
    using holders_remove_lease [OF _ Some ls] inv by (simp add: state_inv_def)
  have pos: "0 < holders s (lr_fingerprint l)"
    using holders_pos [OF _ Some] inv by (simp add: state_inv_def)
  have "state_inv s'"
    using inv slotsD [OF inv r] pos max_slots_ge_1 [of r]
    by (auto simp: inv_defs fx ls h return_slot_sint)
  then show ?thesis by (simp add: s'_def)
qed

section \<open>Exact accounting\<close>

lemma try_reuse_exact:
  assumes "state_inv s" "exact_slots s" "hash_get (st_leases s) (LeaseId u) = None"
    and reuse: "try_reuse fp c u s = Some (resp, s')"
  shows "exact_slots s'"
proof -
  obtain r where r: "hash_get (st_fixtures s) fp = Some r" "reusable r c"
    and fx: "st_fixtures s' = hash_insert fp (r\<lparr>fx_used_slots := fx_used_slots r + 1\<rparr>) (st_fixtures s)"
    and ls: "st_leases s' = hash_insert (LeaseId u) \<lparr>lr_fingerprint = fp\<rparr> (st_leases s)"
    using reuse by (rule try_reuse_SomeD)
  have "holders s' f = holders s f + (if f = fp then 1 else 0)" for f
    using holders_insert_lease [OF _ assms(3) ls] assms(1) by (simp add: state_inv_def)
  then show ?thesis
    using assms(2) r reusable_increment [OF r(2)] by (simp add: exact_slots_def fx)
qed

lemma commit_fixture_exact:
  assumes "state_inv s" "exact_slots s" "hash_get (st_leases s) (LeaseId u) = None"
    and "fx_used_slots r = 1" "holders s fp = 0"
    and commit: "commit_fixture fp r u (s, w) = (resp, s', w')"
  shows "exact_slots s'"
proof -
  note eqs = commit_fixture_eqs [OF commit]
  have "holders s' f = holders s f + (if f = fp then 1 else 0)" for f
    using holders_insert_lease [OF _ assms(3) eqs(2)] assms(1) by (simp add: state_inv_def)
  then show ?thesis using assms(2,4,5) by (simp add: exact_slots_def eqs)
qed

lemma release_lease_exact:
  assumes inv: "state_inv s" and ex: "exact_slots s"
  shows "exact_slots (snd (release_lease q s))"
proof (cases "hash_get (st_leases s) (LeaseId_from (rq_lease_id q))")
  case None
  with ex show ?thesis by (simp add: release_lease_unknown)
next
  case (Some l)
  define s' where "s' = snd (release_lease q s)"
  obtain r where r: "hash_get (st_fixtures s) (lr_fingerprint l) = Some r"
    and fx: "st_fixtures s' = hash_insert (lr_fingerprint l) (return_slot r) (st_fixtures s)"
    and ls: "st_leases s' = hash_remove (LeaseId_from (rq_lease_id q)) (st_leases s)"
    using release_lease_known [OF inv Some] unfolding s'_def by metis
  have h: "holders s' f = holders s f - (if f = lr_fingerprint l then 1 else 0)" for f
    using holders_remove_lease [OF _ Some ls] inv by (simp add: state_inv_def)
  have pos: "0 < holders s (lr_fingerprint l)"
    using holders_pos [OF _ Some] inv by (simp add: state_inv_def)
  have "exact_slots s'"
    using ex r pos slotsD [OF inv r] by (auto simp: exact_slots_def fx h return_slot_sint)
  then show ?thesis by (simp add: s'_def)
qed

section \<open>Provisioning and the processes it leaves\<close>

lemma provision_plugin_Return:
  "provision_plugin te req desc p w = Some (Return (plugin, result), w') \<longleftrightarrow>
    plugin = p \<and> w' = w \<and> (\<exists>d. env_describe_plugin (te_plugin te) Empty = Some (Ok d)) \<and>
    create_fixture (te_plugin te) (make_create_request desc req (te_fixture_uuid te)) = Some (Ok result)"
  by (auto simp: provision_plugin_def describe_def result_simps io_return_eq_Some map_err_eq_Ok)

lemma provision_Return:
  assumes "provision dir te req desc b w = Some (Return (plugin, result), w')"
  shows "live w' = insert (pp_child plugin) (live w)"
    "create_fixture (te_plugin te) (make_create_request desc req (te_fixture_uuid te)) = Some (Ok result)"
    "env_spawn (te_plugin te) b (plugin_socket_path dir (te_socket_uuid te)) = Ok (pp_child plugin)"
  using assms
  by (auto simp: provision_def Let_def io_bind_eq_Return io_map_err_eq_Return provision_plugin_Return
      dest!: spawn_Return)

text \<open>
  A provisioning that fails after the plugin was spawned and connected kills it again.
\<close>

lemma provision_plugin_fails:
  assumes "provision_plugin te req desc p w = Some (x, w')" "\<nexists>r. x = Return r"
  shows "w' = w @ [StartKill (pp_child p)]"
  using assms by (auto simp: provision_plugin_def io_cases PluginProcess_drop_def)

lemma provision_spawn:
  assumes "provision dir te req desc b w = Some (x, w')"
  obtains y v where "PluginProcess_spawn (te_plugin te) b (plugin_socket_path dir (te_socket_uuid te))
      (startup_timeout desc) w = Some (y, v)"
    "(\<nexists>p. y = Return p) \<Longrightarrow> w' = v \<and> (\<nexists>p. x = Return p)"
    "\<And>p. y = Return p \<Longrightarrow> provision_plugin te req desc p v = Some (x, w')"
  using assms
  by (cases "PluginProcess_spawn (te_plugin te) b (plugin_socket_path dir (te_socket_uuid te))
      (startup_timeout desc) w")
    (fastforce simp: provision_def Let_def io_bind_eq_Some io_map_err_eq_Some)+

lemma requested_fixture_Ok:
  "requested_fixture req = Ok (desc, b) \<longleftrightarrow> tlq_fixture req = Some desc \<and> fd_plugin desc = Some (BinaryPath b)"
  by (cases "tlq_fixture req"; cases "fd_plugin (the (tlq_fixture req))";
      cases "the (fd_plugin (the (tlq_fixture req)))")
    (auto simp: requested_fixture_def)

lemma provision_Fail:
  "provision dir te req desc b w = Some (Fail e, w') \<Longrightarrow> code e = Internal"
  by (auto simp: provision_def provision_plugin_def Let_def io_cases map_err_eq_Err)

section \<open>The ways through \<open>TakeLease\<close>\<close>

lemma take_lease_cases [consumes 1, case_names rejected reused failed panicked provisioned]:
  assumes "take_lease dir te req (s, w) = Some (out, s', w')"
  obtains
    e where "out = Fail e" "s' = s" "w' = w"
  | desc b fp resp where "requested_fixture req = Ok (desc, b)" "request_fingerprint te desc b = Ok fp"
      "try_reuse fp (tlq_client_id req) (te_lease_uuid te) s = Some (resp, s')"
      "out = Return resp" "w' = w"
  | desc b fp e where "requested_fixture req = Ok (desc, b)" "request_fingerprint te desc b = Ok fp"
      "try_reuse fp (tlq_client_id req) (te_lease_uuid te) s = None"
      "provision dir te req desc b w = Some (Fail e, w')" "out = Fail e" "s' = s"
  | desc b fp where "requested_fixture req = Ok (desc, b)" "request_fingerprint te desc b = Ok fp"
      "try_reuse fp (tlq_client_id req) (te_lease_uuid te) s = None"
      "provision dir te req desc b w = Some (Panic, w')" "out = Panic" "s' = s"
  | desc b fp plugin result v resp where
      "requested_fixture req = Ok (desc, b)" "request_fingerprint te desc b = Ok fp"
      "try_reuse fp (tlq_client_id req) (te_lease_uuid te) s = None"
      "provision dir te req desc b w = Some (Return (plugin, result), v)"
      "commit_fixture fp (new_record desc (tlq_client_id req) plugin result) (te_lease_uuid te) (s, v)
        = (resp, s', w')" "out = Return resp"
proof (cases "requested_fixture req")
  case (Inl e)
  with assms that(1) [of e] show ?thesis by (simp add: take_lease_def)
next
  case req: (Inr x)
  obtain desc b where x: "x = (desc, b)" by (cases x)
  show ?thesis
  proof (cases "request_fingerprint te desc b")
    case (Inl e)
    with req x assms that(1) [of e] show ?thesis by (simp add: take_lease_def)
  next
    case fp: (Inr fp)
    show ?thesis
    proof (cases "try_reuse fp (tlq_client_id req) (te_lease_uuid te) s")
      case (Some a)
      with req x fp assms that(2) show ?thesis by (cases a) (simp add: take_lease_def)
    next
      case None
      note step = req [unfolded x] fp None
      with assms obtain out' v where p: "provision dir te req desc b w = Some (out', v)"
        by (auto simp: take_lease_def split: option.splits)
      show ?thesis
      proof (cases out')
        case (Return y)
        then obtain plugin result where y: "out' = Return (plugin, result)" by (cases y) simp
        obtain resp s1 w1 where c:
          "commit_fixture fp (new_record desc (tlq_client_id req) plugin result) (te_lease_uuid te) (s, v)
            = (resp, s1, w1)" by (metis prod_cases3)
        from that(5) [OF step p [unfolded y]] assms c show ?thesis
          by (simp add: take_lease_def step p y)
      next
        case (Fail e)
        with that(3) [OF step, of e] p assms show ?thesis by (simp add: take_lease_def step)
      next
        case Panic
        with that(4) [OF step] p assms show ?thesis by (simp add: take_lease_def step)
      qed
    qed
  qed
qed

text \<open>When a request that names a binary fails.\<close>

lemma request_fingerprint_Err:
  "request_fingerprint te desc b = Err e \<Longrightarrow> code e = Internal"
  by (auto simp: request_fingerprint_def map_err_eq_Err)

lemma take_lease_Fail:
  assumes "requested_fixture req = Ok (desc, b)"
  shows "take_lease dir te req (s, w) = Some (Fail e, s', w') \<longleftrightarrow>
    s' = s \<and> (request_fingerprint te desc b = Err e \<and> w' = w \<or>
      (\<exists>fp. request_fingerprint te desc b = Ok fp \<and>
        try_reuse fp (tlq_client_id req) (te_lease_uuid te) s = None \<and>
        provision dir te req desc b w = Some (Fail e, w')))"
  using assms by (auto simp: take_lease_def split: sum.splits option.splits outcome.splits prod.splits)

lemma new_record_simps [simp]:
  "fx_used_slots (new_record d c p r) = 1" "fx_plugin (new_record d c p r) = p"
  "fx_outputs (new_record d c p r) = fr_outputs r" "fx_creating_client_id (new_record d c p r) = c"
  "fx_sharing (new_record d c p r) = unwrap_or default_sharing (fd_sharing d)"
  by (simp_all add: new_record_def)

section \<open>Plugin processes\<close>

text \<open>
  The processes owned by the cached fixtures, and the ones that run without an owner. Every
  fixture owns a process of its own that was not killed.
\<close>

definition child_of :: "State \<Rightarrow> FixtureFingerprint \<rightharpoonup> pid" where
  "child_of s fp = map_option (\<lambda>r. pp_child (fx_plugin r)) (hash_get (st_fixtures s) fp)"

definition owned :: "State \<Rightarrow> pid set" where
  "owned s = ran (child_of s)"

definition orphans :: "State \<Rightarrow> trace \<Rightarrow> pid set" where
  "orphans s w = live w - owned s"

definition procs_inv :: "State \<Rightarrow> trace \<Rightarrow> bool" where
  "procs_inv s w \<longleftrightarrow> owned s \<subseteq> live w \<and>
    (\<forall>fp fp' p. child_of s fp = Some p \<and> child_of s fp' = Some p \<longrightarrow> fp = fp')"

text \<open>
  The operating system does not hand out an id that is in use: that of a running process, or of
  one that has exited and was not reaped yet.
\<close>

definition fresh_child :: "take_env \<Rightarrow> trace \<Rightarrow> bool" where
  "fresh_child te w \<longleftrightarrow> (\<forall>b s pid. env_spawn (te_plugin te) b s = Ok pid \<longrightarrow> pid \<notin> live w)"

lemma child_of_insert:
  "st_fixtures s' = hash_insert fp r (st_fixtures s) \<Longrightarrow>
    child_of s' = (child_of s)(fp \<mapsto> pp_child (fx_plugin r))"
  by (rule ext) (simp add: child_of_def)

lemma child_of_same_plugin:
  "hash_get (st_fixtures s) fp = Some r \<Longrightarrow> fx_plugin r' = fx_plugin r \<Longrightarrow>
    st_fixtures s' = hash_insert fp r' (st_fixtures s) \<Longrightarrow> child_of s' = child_of s"
  by (rule ext) (simp add: child_of_def)

lemma owned_commit:
  assumes inv: "procs_inv s v" and fresh: "pp_child (fx_plugin r) \<notin> owned s"
    and "pp_child (fx_plugin r) \<in> live v"
    and commit: "commit_fixture fp r u (s, v) = (resp, s', w')"
  shows "procs_inv s' w'" "orphans s' w' = orphans s v - {pp_child (fx_plugin r)}"
proof -
  note eqs = commit_fixture_eqs [OF commit]
  let ?p = "pp_child (fx_plugin r)"
  have ch: "child_of s' = (child_of s)(fp \<mapsto> ?p)" by (rule child_of_insert [OF eqs(1)])
  have lv: "live w' = live v - set_option (child_of s fp)"
    by (auto simp: eqs child_of_def split: option.splits)
  have own: "owned s' = insert ?p (owned s - set_option (child_of s fp))"
    using inv unfolding procs_inv_def owned_def ch ran_def by auto
  show "procs_inv s' w'"
    using inv fresh assms(3) unfolding procs_inv_def own lv ch
    by (auto simp: owned_def ran_def split: if_splits)
  show "orphans s' w' = orphans s v - {?p}"
  proof -
    have "set_option (child_of s fp) \<subseteq> owned s" by (auto simp: owned_def ran_def)
    then show ?thesis unfolding orphans_def own lv by auto
  qed
qed

text \<open>
  The child that a provisioning leaves behind without an owner: the one of a spawn that did not
  come back with a \<open>PluginProcess\<close>, unless the coordinator saw it exit.
\<close>

lemma provision_fails_live:
  assumes "provision dir te req desc b w = Some (x, w')" "\<nexists>p. x = Return p" "fresh_child te w"
  shows "live w' = live w \<or>
    (\<exists>pid y. env_spawn (te_plugin te) b (plugin_socket_path dir (te_socket_uuid te)) = Ok pid \<and>
      PluginProcess_spawn (te_plugin te) b (plugin_socket_path dir (te_socket_uuid te))
        (startup_timeout desc) w = Some (y, w') \<and> (\<nexists>p. y = Return p) \<and>
      \<not> exit_reported (plugin_socket_path dir (te_socket_uuid te)) y \<and>
      live w' = insert pid (live w))"
proof -
  let ?sock = "plugin_socket_path dir (te_socket_uuid te)"
  obtain y v where sp: "PluginProcess_spawn (te_plugin te) b ?sock (startup_timeout desc) w = Some (y, v)"
    and no: "(\<nexists>p. y = Return p) \<Longrightarrow> w' = v"
    and yes: "\<And>p. y = Return p \<Longrightarrow> provision_plugin te req desc p v = Some (x, w')"
    using assms(1) by (rule provision_spawn) auto
  have fresh: "pid \<notin> live w" if "env_spawn (te_plugin te) b ?sock = Ok pid" for pid
    using assms(3) that by (auto simp: fresh_child_def)
  show ?thesis
  proof (cases "\<exists>p. y = Return p")
    case True
    then obtain p where y: "y = Return p" ..
    note sr = spawn_Return [OF sp [unfolded y]]
    from provision_plugin_fails [OF yes [OF y] assms(2)] sr fresh [of "pp_child p"] show ?thesis by simp
  next
    case False
    with no have "w' = v" by simp
    with spawn_live [OF sp] fresh sp False show ?thesis by (auto split: if_splits)
  qed
qed

section \<open>The allocator of the design\<close>

text \<open>
  The contract of \<^verbatim>\<open>DESIGN.md\<close> ("Reuse, sharing, and slots"), on a state in which a fixture
  knows the set of leases attached to it: an unrestricted fixture may be reused by any client, a
  client-restricted one (the default) by the client that created it, a single-use one by none;
  attaching takes a slot, releasing returns it, and a slot is free while fewer leases are
  attached than the limit. Nothing of the handlers is used here.
\<close>

datatype reuse_scope = AnyClient | SameClient | Never

record abs_fixture =
  af_outputs :: "(string, Value) btree_map"
  af_scope :: reuse_scope
  af_limit :: int
  af_creator :: string
  af_leases :: "LeaseId set"

type_synonym abs_state = "FixtureFingerprint \<rightharpoonup> abs_fixture"

fun scope_admits :: "reuse_scope \<Rightarrow> string \<Rightarrow> string \<Rightarrow> bool" where
  "scope_admits AnyClient creator client = True"
| "scope_admits SameClient creator client = (creator = client)"
| "scope_admits Never creator client = False"

definition spec_admits :: "abs_fixture \<Rightarrow> string \<Rightarrow> bool" where
  "spec_admits f client \<longleftrightarrow>
    scope_admits (af_scope f) (af_creator f) client \<and> int (card (af_leases f)) < af_limit f"

definition spec_attach ::
  "FixtureFingerprint \<Rightarrow> string \<Rightarrow> LeaseId \<Rightarrow> abs_state \<Rightarrow> abs_state option" where
  "spec_attach fp client l A =
    (case A fp of
       Some f \<Rightarrow> if spec_admits f client then Some (A(fp \<mapsto> f\<lparr>af_leases := insert l (af_leases f)\<rparr>)) else None
     | None \<Rightarrow> None)"

definition spec_create :: "FixtureFingerprint \<Rightarrow> abs_fixture \<Rightarrow> LeaseId \<Rightarrow> abs_state \<Rightarrow> abs_state" where
  "spec_create fp f l A = A(fp \<mapsto> f\<lparr>af_leases := {l}\<rparr>)"

definition spec_release :: "LeaseId \<Rightarrow> abs_state \<Rightarrow> abs_state" where
  "spec_release l A = (\<lambda>fp. map_option (\<lambda>f. f\<lparr>af_leases := af_leases f - {l}\<rparr>) (A fp))"

definition lease_set :: "State \<Rightarrow> FixtureFingerprint \<Rightarrow> LeaseId set" where
  "lease_set s fp = {l. \<exists>r. hash_get (st_leases s) l = Some r \<and> lr_fingerprint r = fp}"

text \<open>
  How a policy of the protocol reads in the contract. The design takes the declared number of
  connections as the limit; the code takes at least one, which is the same for every limit that
  lets anybody connect.
\<close>

definition design_scope :: "Sharing \<Rightarrow> reuse_scope" where
  "design_scope sh =
    (case s_use_scope sh of
       None \<Rightarrow> SameClient
     | Some (Unrestricted _) \<Rightarrow> AnyClient
     | Some (ClientRestricted _) \<Rightarrow> SameClient
     | Some (SingleUse _) \<Rightarrow> Never)"

definition declared_slots :: "Sharing \<Rightarrow> int" where
  "declared_slots sh = sint (s_maximum_concurrent_connections sh)"

definition effective_slots :: "Sharing \<Rightarrow> int" where
  "effective_slots sh = max (declared_slots sh) 1"

definition abs_record :: "(Sharing \<Rightarrow> int) \<Rightarrow> FixtureRecord \<Rightarrow> LeaseId set \<Rightarrow> abs_fixture" where
  "abs_record slots r L =
    \<lparr>af_outputs = fx_outputs r, af_scope = design_scope (fx_sharing r), af_limit = slots (fx_sharing r),
     af_creator = fx_creating_client_id r, af_leases = L\<rparr>"

definition abs_of :: "(Sharing \<Rightarrow> int) \<Rightarrow> State \<Rightarrow> abs_state" where
  "abs_of slots s =
    (\<lambda>fp. map_option (\<lambda>r. abs_record slots r (lease_set s fp)) (hash_get (st_fixtures s) fp))"

lemma abs_record_simps [simp]:
  "af_outputs (abs_record slots r L) = fx_outputs r"
  "af_scope (abs_record slots r L) = design_scope (fx_sharing r)"
  "af_limit (abs_record slots r L) = slots (fx_sharing r)"
  "af_creator (abs_record slots r L) = fx_creating_client_id r" "af_leases (abs_record slots r L) = L"
  "(abs_record slots r L)\<lparr>af_leases := M\<rparr> = abs_record slots r M"
  "abs_record slots (r\<lparr>fx_used_slots := n\<rparr>) L = abs_record slots r L"
  "abs_record slots (return_slot r) L = abs_record slots r L"
  by (simp_all add: abs_record_def)

lemma max_slots_effective: "sint (max_slots r) = effective_slots (fx_sharing r)"
  by (simp add: max_slots_def effective_slots_def declared_slots_def)

lemma effective_declared: "effective_slots sh = declared_slots sh \<longleftrightarrow> 1 \<le> declared_slots sh"
  by (auto simp: effective_slots_def)

lemma sharing_admits_design: "sharing_admits sh creator client = scope_admits (design_scope sh) creator client"
  by (auto simp: sharing_admits_def design_scope_def split: option.splits UseScope.splits)

lemma card_lease_set: "card (lease_set s fp) = holders s fp"
  by (simp add: lease_set_def holders_def tally_def)

lemma lease_set_insert:
  "hash_get (st_leases s) l = None \<Longrightarrow>
    st_leases s' = hash_insert l \<lparr>lr_fingerprint = fp\<rparr> (st_leases s) \<Longrightarrow>
    lease_set s' f = (if f = fp then insert l (lease_set s f) else lease_set s f)"
  by (auto simp: lease_set_def)

lemma lease_set_remove:
  "st_leases s' = hash_remove l (st_leases s) \<Longrightarrow> lease_set s' f = lease_set s f - {l}"
  by (auto simp: lease_set_def)

text \<open>
  The records under \<open>fp\<close> on which a reading of the limit agrees with what the code enforces.
\<close>

definition limit_agrees :: "(Sharing \<Rightarrow> int) \<Rightarrow> State \<Rightarrow> FixtureFingerprint \<Rightarrow> bool" where
  "limit_agrees slots s fp \<longleftrightarrow>
    pred_option (\<lambda>r. slots (fx_sharing r) = effective_slots (fx_sharing r)) (hash_get (st_fixtures s) fp)"

lemma reusable_spec:
  assumes "exact_slots s" "limit_agrees slots s fp" "hash_get (st_fixtures s) fp = Some r"
  shows "reusable r c \<longleftrightarrow> spec_admits (abs_record slots r (lease_set s fp)) c"
  using assms
  by (simp add: reusable_def spec_admits_def card_lease_set exact_slots_def limit_agrees_def
      max_slots_effective sharing_admits_design)

text \<open>The steps of the code on the allocator.\<close>

lemma try_reuse_spec:
  assumes "state_inv s" "exact_slots s" "hash_get (st_leases s) (LeaseId u) = None" "limit_agrees slots s fp"
  shows "map_option (\<lambda>(resp, s'). abs_of slots s') (try_reuse fp c u s) =
    spec_attach fp c (LeaseId u) (abs_of slots s)"
proof (cases "try_reuse fp c u s")
  case None
  then show ?thesis
    using reusable_spec [OF assms(2,4)]
    by (auto simp: try_reuse_None spec_attach_def abs_of_def split: option.splits)
next
  case (Some a)
  obtain resp s' where a: "a = (resp, s')" by (cases a)
  obtain r where r: "hash_get (st_fixtures s) fp = Some r" "reusable r c"
    and fx: "st_fixtures s' = hash_insert fp (r\<lparr>fx_used_slots := fx_used_slots r + 1\<rparr>) (st_fixtures s)"
    and ls: "st_leases s' = hash_insert (LeaseId u) \<lparr>lr_fingerprint = fp\<rparr> (st_leases s)"
    using Some unfolding a by (rule try_reuse_SomeD)
  have "abs_of slots s' = (abs_of slots s)(fp \<mapsto> abs_record slots r (insert (LeaseId u) (lease_set s fp)))"
    by (rule ext) (simp add: abs_of_def fx lease_set_insert [OF assms(3) ls])
  then show ?thesis
    using Some r reusable_spec [OF assms(2,4) r(1)] by (simp add: a spec_attach_def abs_of_def)
qed

lemma release_lease_spec:
  assumes "state_inv s"
  shows "abs_of slots (snd (release_lease q s)) = spec_release (LeaseId (rq_lease_id q)) (abs_of slots s)"
proof (cases "hash_get (st_leases s) (LeaseId (rq_lease_id q))")
  case None
  then have "LeaseId (rq_lease_id q) \<notin> lease_set s fp" for fp by (simp add: lease_set_def)
  then have "spec_release (LeaseId (rq_lease_id q)) (abs_of slots s) = abs_of slots s"
    by (intro ext) (simp add: spec_release_def abs_of_def option.map_comp o_def)
  with None show ?thesis by (simp add: release_lease_unknown LeaseId_from_def)
next
  case (Some l)
  obtain r where r: "hash_get (st_fixtures s) (lr_fingerprint l) = Some r"
    and fx: "st_fixtures (snd (release_lease q s)) =
      hash_insert (lr_fingerprint l) (return_slot r) (st_fixtures s)"
    and ls: "st_leases (snd (release_lease q s)) = hash_remove (LeaseId (rq_lease_id q)) (st_leases s)"
    using release_lease_known [OF assms, of q] Some by (metis LeaseId_from_def)
  show ?thesis
    by (rule ext) (simp add: abs_of_def spec_release_def fx r lease_set_remove [OF ls] option.map_comp o_def)
qed

lemma commit_fixture_spec:
  assumes "state_inv s" "hash_get (st_leases s) (LeaseId u) = None" "holders s fp = 0"
    and "commit_fixture fp r u (s, w) = (resp, s', w')"
  shows "abs_of slots s' = spec_create fp (abs_record slots r {}) (LeaseId u) (abs_of slots s)"
proof -
  note eqs = commit_fixture_eqs [OF assms(4)]
  have "lease_set s fp = {}"
    using assms(1,3) holders_pos [of s] by (fastforce simp: lease_set_def state_inv_def)
  then show ?thesis
    by (intro ext) (simp add: abs_of_def spec_create_def eqs(1) lease_set_insert [OF assms(2) eqs(2)])
qed

section \<open>A concrete instance\<close>

text \<open>
  For examples: a plugin that starts as process \<open>pid\<close>, accepts the first connection and
  answers \<open>CreateFixture\<close> with one message that carries \<open>outs\<close>; and an environment with a
  simple encoder, in which the UUID drawn for the lease is \<open>u\<close>.
\<close>

definition demo_result :: "(string, Value) btree_map \<Rightarrow> FixtureResult" where
  "demo_result outs =
    \<lparr>fr_outputs = outs, fr_idle_timeout_seconds = 60, fr_instance_data = [], fr_consumed = []\<rparr>"

definition demo_plugin :: "pid \<Rightarrow> (string, Value) btree_map \<Rightarrow> plugin_env" where
  "demo_plugin pid outs =
    \<lparr>env_create_dir_all = \<lambda>_. Ok (), env_spawn = \<lambda>_ _. Ok pid, env_start = 0, env_now = \<lambda>i. 50 * i,
     env_instant_max = 2 ^ 63, env_connect = \<lambda>_ _. Ok (), env_try_wait = \<lambda>_. Ok None,
     env_describe_plugin = \<lambda>_. Some (Ok \<lparr>drs_responses = []\<rparr>),
     env_create_fixture = \<lambda>_. Some (Ok (\<lambda>i. Some (Ok (if i = 0
       then Some \<lparr>cp_status = 4, cp_element_infos = [], cp_result = Some (demo_result outs)\<rparr> else None))))\<rparr>"

definition demo_env :: "string \<Rightarrow> pid \<Rightarrow> (string, Value) btree_map \<Rightarrow> take_env" where
  "demo_env u pid outs =
    \<lparr>te_encode_to_vec = \<lambda>d. map (\<lambda>c. word_of_nat (of_char c)) (fd_impl_id d), te_sha256 = id,
     te_read_file = \<lambda>_. Ok [], te_socket_uuid = ''0123456789abcdef'', te_fixture_uuid = ''f'',
     te_lease_uuid = u, te_plugin = demo_plugin pid outs\<rparr>"

definition demo_desc :: "UseScope \<Rightarrow> i64 \<Rightarrow> FixtureDescription" where
  "demo_desc scope n =
    \<lparr>fd_impl_id = ''A'', fd_inputs = [], fd_image_inputs = [], fd_file_inputs = [],
     fd_sharing = Some \<lparr>s_maximum_concurrent_connections = n, s_use_scope = Some scope\<rparr>,
     fd_startup_timeout_seconds = 0, fd_name = ''demo'', fd_plugin = Some (BinaryPath ''/plugin'')\<rparr>"

definition demo_request :: "string \<Rightarrow> FixtureDescription \<Rightarrow> TakeLeaseRequest" where
  "demo_request client d =
    \<lparr>tlq_fixture = Some d, tlq_client_id = client, tlq_owner = client, tlq_ttl_seconds = 60,
     tlq_associated_tests_count = 1\<rparr>"

definition demo_fp :: FixtureFingerprint where
  "demo_fp = FixtureFingerprint ''41''"

definition demo_dir :: path where
  "demo_dir = Path True [''run'']"

definition demo_status :: Status where
  "demo_status = Status Internal (Text ''broken'')"

definition demo_process :: "pid \<Rightarrow> PluginProcess" where
  "demo_process pid = \<lparr>pp_child = pid, pp_client = Channel (plugin_socket_path demo_dir ''0123456789abcdef'')\<rparr>"

lemma demo_starts: "plugin_starts (demo_plugin pid outs) b s 300000 pid"
  by (auto simp: plugin_starts_def socket_dir_ready_def demo_plugin_def split: option.splits intro: exI [of _ 0])

lemma demo_requested: "requested_fixture (demo_request c (demo_desc sc n)) = Ok (demo_desc sc n, ''/plugin'')"
  by (simp add: requested_fixture_def demo_request_def demo_desc_def)

lemma demo_fingerprint: "request_fingerprint (demo_env u pid outs) (demo_desc sc n) b = Ok demo_fp"
proof -
  have "hex_byte 65 = ''41''" by code_simp
  then show ?thesis
    by (simp add: request_fingerprint_def FixtureFingerprint_compute_def canonical_encoding_def
        hash_plugin_binary_def demo_env_def demo_desc_def demo_fp_def hex_encode_def)
qed

lemma demo_connects: "connect_with_retry (demo_plugin pid outs) p s 300000 w = Some (Return (Channel s), w)"
  by (subst connect_with_retry_eq)
    (auto simp: demo_plugin_def connect_round_def try_connect_def io_simps intro!: exI [of _ 0])

lemma demo_spawns:
  "PluginProcess_spawn (demo_plugin pid outs) b s 300000 w =
    Some (Return \<lparr>pp_child = pid, pp_client = Channel s\<rparr>, w @ spawn_calls b s pid)"
  by (subst spawn_reaches_connect [where pid = pid])
    (auto simp: socket_dir_ready_def connect_child_def io_bind_def io_return_def demo_connects,
      simp_all add: demo_plugin_def split: option.splits)

lemma demo_creates: "create_fixture (demo_plugin pid outs) q = Some (Ok (demo_result outs))"
  unfolding create_fixture_def demo_plugin_def
  by (simp add: loop_from.simps [of _ 0] progress_round_def CreateProgress_status_def
      progress_status.accessor_as_i32 [of CreateProgressSucceeded, simplified])

lemma demo_provision:
  "provision demo_dir (demo_env u pid outs) q (demo_desc sc n) ''/plugin'' w =
    Some (Return (demo_process pid, demo_result outs),
      w @ spawn_calls ''/plugin'' (plugin_socket_path demo_dir ''0123456789abcdef'') pid)"
proof -
  have [simp]: "te_plugin (demo_env u pid outs) = demo_plugin pid outs"
    "te_socket_uuid (demo_env u pid outs) = ''0123456789abcdef''" by (simp_all add: demo_env_def)
  have [simp]: "startup_timeout (demo_desc sc n) = 300000" by (simp add: startup_timeout_def demo_desc_def)
  have [simp]: "describe (demo_plugin pid outs) = Some (Ok \<lparr>drs_responses = []\<rparr>)"
    by (simp add: describe_def demo_plugin_def)
  show ?thesis
    by (simp add: provision_def provision_plugin_def Let_def io_bind_def io_map_err_def io_dropping_def
        io_await_def io_simps demo_spawns demo_creates demo_process_def)
qed

text \<open>A take of the demonstration fixture: reuse if possible, and else a new fixture.\<close>

lemma demo_take:
  "take_lease demo_dir (demo_env u pid outs) (demo_request c (demo_desc sc n)) (s, w) =
    (case try_reuse demo_fp c u s of
       Some (resp, s') \<Rightarrow> Some (Return resp, s', w)
     | None \<Rightarrow>
         (case commit_fixture demo_fp (new_record (demo_desc sc n) c (demo_process pid) (demo_result outs)) u
             (s, w @ spawn_calls ''/plugin'' (plugin_socket_path demo_dir ''0123456789abcdef'') pid) of
            (resp, s', w') \<Rightarrow> Some (Return resp, s', w')))"
proof -
  have [simp]: "tlq_client_id (demo_request c d) = c" "te_lease_uuid (demo_env u pid outs) = u" for d
    by (simp_all add: demo_request_def demo_env_def)
  show ?thesis
    by (simp add: take_lease_def demo_requested demo_fingerprint demo_provision split: option.splits prod.splits)
qed

text \<open>The state and the trace after client A has taken the first lease, with id a.\<close>

definition demo_record :: "UseScope \<Rightarrow> i64 \<Rightarrow> FixtureRecord" where
  "demo_record sc n = new_record (demo_desc sc n) ''A'' (demo_process 1) (demo_result [])"

definition demo_state :: "UseScope \<Rightarrow> i64 \<Rightarrow> State" where
  "demo_state sc n =
    \<lparr>st_fixtures = hash_insert demo_fp (demo_record sc n) (\<lambda>_. None),
     st_leases = hash_insert (LeaseId ''a'') \<lparr>lr_fingerprint = demo_fp\<rparr> (\<lambda>_. None)\<rparr>"

definition demo_trace :: "pid \<Rightarrow> trace" where
  "demo_trace pid = spawn_calls ''/plugin'' (plugin_socket_path demo_dir ''0123456789abcdef'') pid"

lemma demo_commit:
  "commit_fixture demo_fp (demo_record sc n) ''a'' (State_default, w) =
    (\<lparr>tlr_status = 2, tlr_lease_id = ''a'', tlr_outputs = [], tlr_messages = []\<rparr>, demo_state sc n, w)"
  by (simp add: commit_fixture_def Let_def State_default_def demo_state_def LeaseId_random_def
      demo_record_def demo_result_def)

lemma demo_first_take:
  "take_lease demo_dir (demo_env ''a'' 1 []) (demo_request ''A'' (demo_desc sc n)) (State_default, []) =
    Some (Return \<lparr>tlr_status = 2, tlr_lease_id = ''a'', tlr_outputs = [], tlr_messages = []\<rparr>,
      demo_state sc n, demo_trace 1)"
proof -
  have "try_reuse demo_fp ''A'' ''a'' State_default = None"
    by (simp add: try_reuse_def State_default_def)
  then show ?thesis
    using demo_commit [of sc n "demo_trace 1"]
    by (simp add: demo_take demo_trace_def demo_record_def)
qed

text \<open>The demonstration plugin with another answer to its health check.\<close>

definition demo_sick :: "(Status, DescribeResponses) result option \<Rightarrow> take_env" where
  "demo_sick r = (demo_env ''b'' 2 [])\<lparr>te_plugin := (demo_plugin 2 [])\<lparr>env_describe_plugin := \<lambda>_. r\<rparr>\<rparr>"

lemma demo_sick_starts:
  "request_fingerprint (demo_sick r) (demo_desc sc n) b = Ok demo_fp"
  "PluginProcess_spawn (te_plugin (demo_sick r)) ''/plugin''
    (plugin_socket_path demo_dir (te_socket_uuid (demo_sick r))) (startup_timeout (demo_desc sc n)) [] =
    Some (Return (demo_process 2), demo_trace 2)"
  using demo_fingerprint [of "''b''" 2 "[]" sc n b]
  by (simp_all add: demo_sick_def request_fingerprint_def describe_spawn demo_spawns demo_env_def
      startup_timeout_def demo_desc_def demo_process_def demo_trace_def)

lemma try_reuse_default [simp]: "try_reuse fp c u State_default = None"
  by (simp add: try_reuse_def State_default_def)

lemma demo_state_inv: "state_inv (demo_state sc n)" "exact_slots (demo_state sc n)"
  "procs_inv (demo_state sc n) (demo_trace 1)"
proof -
  have "hash_get (st_leases State_default) (LeaseId ''a'') = None" by (simp add: State_default_def)
  moreover have "holders State_default demo_fp = 0" by (simp add: holders_def State_default_def)
  moreover have used: "fx_used_slots (demo_record sc n) = 1" by (simp add: demo_record_def)
  ultimately show "state_inv (demo_state sc n)" "exact_slots (demo_state sc n)"
    using commit_fixture_inv [OF State_default_inv(1) _ used demo_commit]
      commit_fixture_exact [OF State_default_inv _ used _ demo_commit] by blast+
  have "child_of (demo_state sc n) = [demo_fp \<mapsto> 1]"
    by (rule ext) (simp add: child_of_def demo_state_def demo_record_def demo_process_def)
  then show "procs_inv (demo_state sc n) (demo_trace 1)"
    using live_append [of "[]" "demo_trace 1"]
    by (auto simp: procs_inv_def owned_def demo_trace_def split: if_splits)
qed

lemma demo_state_lookup [simp]:
  "hash_get (st_leases (demo_state sc n)) (LeaseId i) =
    (if i = ''a'' then Some \<lparr>lr_fingerprint = demo_fp\<rparr> else None)"
  "hash_get (st_fixtures (demo_state sc n)) demo_fp = Some (demo_record sc n)"
  by (simp_all add: demo_state_def)

lemma demo_reusable: "reusable (demo_record (Unrestricted Empty) 10) c"
  by (simp add: reusable_def demo_record_def sharing_admits_def max_slots_def demo_desc_def)

lemma demo_reuses:
  "\<exists>resp s'. try_reuse demo_fp c u (demo_state (Unrestricted Empty) 10) = Some (resp, s')"
  using demo_reusable by (simp add: try_reuse_def Let_def)

section \<open>Properties\<close>

text \<open>
  C12. Reuse follows the reuse rule of the design: on a state with exact slot accounting, and for
  a cached fixture that declares at least one connection, the first critical section of \<open>TakeLease\<close>
  attaches the lease exactly when the specification does (same fingerprint, scope admits the
  client, fewer leases than declared connections), with the specified effect, and falls through
  to provisioning exactly when the specification refuses.
\<close>

theorem try_reuse_refines_spec:
  assumes "state_inv s" "exact_slots s" "hash_get (st_leases s) (LeaseId u) = None"
    and "\<And>r. hash_get (st_fixtures s) fp = Some r \<Longrightarrow> 1 \<le> sint (s_maximum_concurrent_connections (fx_sharing r))"
  shows "map_option (\<lambda>(resp, s'). abs_of declared_slots s') (try_reuse fp c u s) =
    spec_attach fp c (LeaseId u) (abs_of declared_slots s)"
proof (rule try_reuse_spec [OF assms(1-3)])
  show "limit_agrees declared_slots s fp"
    using assms(4)
    by (cases "hash_get (st_fixtures s) fp") (simp_all add: limit_agrees_def effective_slots_def declared_slots_def)
qed

theorem try_reuse_refines_spec_witness:
  "map_option (\<lambda>(resp, s'). abs_of declared_slots s') (try_reuse demo_fp ''B'' ''b'' (demo_state (Unrestricted Empty) 10)) =
    spec_attach demo_fp ''B'' (LeaseId ''b'') (abs_of declared_slots (demo_state (Unrestricted Empty) 10)) \<and>
   try_reuse demo_fp ''B'' ''b'' (demo_state (Unrestricted Empty) 10) \<noteq> None"
proof -
  have "1 \<le> sint (s_maximum_concurrent_connections (fx_sharing (demo_record (Unrestricted Empty) 10)))"
    by (simp add: demo_record_def demo_desc_def)
  with try_reuse_refines_spec [OF demo_state_inv(1,2) [of "Unrestricted Empty" 10],
      where u = "''b''" and fp = demo_fp and c = "''B''"]
    demo_reuses [of "''B''" "''b''"]
  show ?thesis by auto
qed

text \<open>
  C33. Below one declared connection the code and the design part: the design's rule admits nobody,
  the code counts one slot.
\<close>

theorem limit_below_one_diverges:
  assumes "state_inv s" "exact_slots s" "hash_get (st_fixtures s) fp = Some r" "holders s fp = 0"
    and "sint (s_maximum_concurrent_connections (fx_sharing r)) \<le> 0"
    and "scope_admits (design_scope (fx_sharing r)) (fx_creating_client_id r) c"
  shows "spec_attach fp c (LeaseId u) (abs_of declared_slots s) = None \<and> try_reuse fp c u s \<noteq> None"
proof -
  have "sint (fx_used_slots r) = 0" using assms(2,3,4) by (simp add: exact_slots_def)
  then have "reusable r c"
    using assms(6) max_slots_ge_1 [of r] by (simp add: reusable_def sharing_admits_design)
  moreover have "\<not> spec_admits (abs_record declared_slots r (lease_set s fp)) c"
    using assms(5) by (simp add: spec_admits_def declared_slots_def)
  ultimately show ?thesis
    using assms(3) by (auto simp: spec_attach_def abs_of_def try_reuse_None)
qed

theorem limit_below_one_diverges_witness:
  "spec_attach demo_fp ''A'' (LeaseId ''b'')
      (abs_of declared_slots (snd (release_lease \<lparr>rq_lease_id = ''a''\<rparr> (demo_state (Unrestricted Empty) 0)))) = None"
proof -
  let ?s = "snd (release_lease \<lparr>rq_lease_id = ''a''\<rparr> (demo_state (Unrestricted Empty) 0))"
  have s: "st_fixtures ?s = hash_insert demo_fp (return_slot (demo_record (Unrestricted Empty) 0)) (st_fixtures (demo_state (Unrestricted Empty) 0))"
    "st_leases ?s = hash_remove (LeaseId ''a'') (st_leases (demo_state (Unrestricted Empty) 0))"
    by (simp_all add: release_lease_def Let_def LeaseId_from_def)
  have "hash_get (st_leases ?s) k = None" for k
    unfolding s by (simp add: demo_state_def)
  then have "holders ?s demo_fp = 0" by (simp add: holders_def tally_def)
  moreover have "state_inv ?s" "exact_slots ?s"
    by (rule release_lease_inv [OF demo_state_inv(1)], rule release_lease_exact [OF demo_state_inv(1,2)])
  ultimately show ?thesis
    using limit_below_one_diverges [of ?s demo_fp "return_slot (demo_record (Unrestricted Empty) 0)" "''A''" "''b''"]
    by (simp add: s demo_record_def demo_desc_def design_scope_def)
qed

text \<open>
  Releasing a lease has exactly the specified effect: the lease leaves the fixture that
  holds it, nothing else changes, and an unknown or already released lease changes nothing.
\<close>

theorem release_lease_refines_spec:
  assumes "state_inv s"
  shows "abs_of declared_slots (snd (release_lease q s)) = spec_release (LeaseId (rq_lease_id q)) (abs_of declared_slots s)"
  using assms by (rule release_lease_spec)

theorem release_lease_refines_spec_witness:
  "abs_of declared_slots (snd (release_lease \<lparr>rq_lease_id = ''a''\<rparr> (demo_state (SingleUse Empty) 1))) =
    spec_release (LeaseId ''a'') (abs_of declared_slots (demo_state (SingleUse Empty) 1))"
  using release_lease_refines_spec [OF demo_state_inv(1), of "\<lparr>rq_lease_id = ''a''\<rparr>"] by simp

text \<open>
  Attaching and releasing cancel out: releasing the lease that a reuse has just handed out
  restores the state, slot count included.
\<close>

theorem release_undoes_reuse:
  assumes "state_inv s" "hash_get (st_leases s) (LeaseId u) = None"
    and reuse: "try_reuse fp c u s = Some (resp, s')"
  shows "snd (release_lease \<lparr>rq_lease_id = tlr_lease_id resp\<rparr> s') = s"
proof -
  obtain r where r: "hash_get (st_fixtures s) fp = Some r" "reusable r c"
    and resp: "resp = \<lparr>tlr_status = 2, tlr_lease_id = u, tlr_outputs = fx_outputs r,
      tlr_messages = [''connecting to existing fixture'']\<rparr>"
    and fx: "st_fixtures s' = hash_insert fp (r\<lparr>fx_used_slots := fx_used_slots r + 1\<rparr>) (st_fixtures s)"
    and ls: "st_leases s' = hash_insert (LeaseId u) \<lparr>lr_fingerprint = fp\<rparr> (st_leases s)"
    using reuse by (rule try_reuse_SomeD)
  have "smax (fx_used_slots r) 0 = fx_used_slots r"
    using slotsD(1) [OF assms(1) r(1)] by (rule smax_0_id)
  then have "return_slot (r\<lparr>fx_used_slots := fx_used_slots r + 1\<rparr>) = r"
    by (cases r) (simp add: return_slot_def)
  moreover have "hash_insert fp r (hash_insert fp x (st_fixtures s)) = st_fixtures s" for x
    using r(1) by (auto simp: hash_insert_def hash_get_def)
  moreover have "hash_remove (LeaseId u) (st_leases s') = st_leases s"
    using assms(2) by (auto simp: ls hash_insert_def hash_remove_def hash_get_def)
  ultimately show ?thesis
    by (cases s) (simp add: release_lease_def Let_def resp fx ls LeaseId_from_def)
qed

theorem release_undoes_reuse_witness:
  "\<exists>resp s'. try_reuse demo_fp ''B'' ''b'' (demo_state (Unrestricted Empty) 10) = Some (resp, s') \<and>
    snd (release_lease \<lparr>rq_lease_id = tlr_lease_id resp\<rparr> s') = demo_state (Unrestricted Empty) 10"
  using release_undoes_reuse [OF demo_state_inv(1), where u = "''b''"] demo_reuses [of "''B''" "''b''"] by fastforce

text \<open>
  \<open>TakeLease\<close>, run alone, keeps the state invariant whatever its outcome (a reply, an
  error of any kind, a panic), provided the UUID it draws for the lease is not in use.
\<close>

theorem take_lease_inv:
  assumes "state_inv s" "hash_get (st_leases s) (LeaseId (te_lease_uuid te)) = None"
    and "take_lease dir te req (s, w) = Some (out, s', w')"
  shows "state_inv s'"
  using assms(3)
proof (cases rule: take_lease_cases)
  case reused
  with assms(1,2) show ?thesis by (blast intro: try_reuse_inv)
next
  case provisioned
  show ?thesis by (rule commit_fixture_inv [OF assms(1,2) _ provisioned(5)]) simp
qed (use assms(1) in auto)

theorem take_lease_inv_witness:
  "state_inv (demo_state (ClientRestricted Empty) 2)"
  by (rule take_lease_inv [OF State_default_inv(1) _ demo_first_take])
    (simp add: State_default_def demo_env_def)

text \<open>
  C21. A lease that was just taken is live and carries the outputs it was granted with: after a
  successful \<open>TakeLease\<close>, \<open>Keepalive\<close> on the returned id succeeds and \<open>Status\<close> reports
  success with exactly the outputs of the response.
\<close>

theorem take_lease_then_status:
  assumes "take_lease dir te req (s, w) = Some (Return resp, s', w')"
  shows "keepalive \<lparr>kq_lease_id = tlr_lease_id resp\<rparr> s' = Ok KeepaliveResponse \<and>
    status \<lparr>sq_lease_id = tlr_lease_id resp\<rparr> s' =
      Ok \<lparr>sr_status = LeaseStatus_as_i32 Succeeded, sr_outputs = tlr_outputs resp, sr_messages = []\<rparr>"
  using assms
proof (cases rule: take_lease_cases)
  case (reused desc b fp resp)
  from this(3) show ?thesis
    by (rule try_reuse_SomeD) (use reused in \<open>simp add: keepalive_def status_def LeaseId_from_def\<close>)
next
  case (provisioned desc b fp plugin result v resp)
  with commit_fixture_eqs [OF provisioned(5)] show ?thesis
    by (simp add: keepalive_def status_def LeaseId_from_def)
qed simp_all

theorem take_lease_then_status_witness:
  "status \<lparr>sq_lease_id = ''a''\<rparr> (demo_state (ClientRestricted Empty) 2) =
    Ok \<lparr>sr_status = LeaseStatus_as_i32 Succeeded, sr_outputs = [], sr_messages = []\<rparr>"
  using take_lease_then_status [OF demo_first_take] by simp

text \<open>
  C22. An error of \<open>TakeLease\<close> leaves no trace in the state: whenever the handler answers with
  an error status or panics, fixtures and leases are as before.
\<close>

theorem take_lease_error_keeps_state:
  assumes "take_lease dir te req (s, w) = Some (out, s', w')" "\<nexists>resp. out = Return resp"
  shows "s' = s"
  using assms by (cases rule: take_lease_cases) auto

theorem take_lease_error_keeps_state_witness:
  "\<exists>out s'. take_lease demo_dir (demo_env ''b'' 2 []) \<lparr>tlq_fixture = None, tlq_client_id = ''B'', tlq_owner = ''B'',
      tlq_ttl_seconds = 60, tlq_associated_tests_count = 1\<rparr> (demo_state (SingleUse Empty) 1, []) =
      Some (out, s', []) \<and> s' = demo_state (SingleUse Empty) 1"
proof -
  let ?req = "\<lparr>tlq_fixture = None, tlq_client_id = ''B'', tlq_owner = ''B'',
      tlq_ttl_seconds = 60, tlq_associated_tests_count = 1\<rparr>"
  have t: "take_lease demo_dir (demo_env ''b'' 2 []) ?req (demo_state (SingleUse Empty) 1, []) =
      Some (Fail (Status InvalidArgument (Text ''fixture description is required'')),
        demo_state (SingleUse Empty) 1, [])"
    by (simp add: take_lease_def requested_fixture_def)
  show ?thesis using take_lease_error_keeps_state [OF t] t by simp
qed

text \<open>
  Routing of leases by id: \<open>Keepalive\<close> and \<open>Status\<close> succeed for exactly the same ids,
  those of live leases; any other id is answered with \<open>NOT_FOUND\<close> by both; and after its
  release an id is no longer live, for whatever it was before.
\<close>

theorem released_lease_is_unknown:
  "keepalive \<lparr>kq_lease_id = i\<rparr> (snd (release_lease \<lparr>rq_lease_id = i\<rparr> s)) =
     Err (Status NotFound (Text ''unknown lease_id'')) \<and>
   status \<lparr>sq_lease_id = i\<rparr> (snd (release_lease \<lparr>rq_lease_id = i\<rparr> s)) =
     Err (Status NotFound (Text ''unknown lease_id'')) \<and>
   (keepalive \<lparr>kq_lease_id = j\<rparr> s = Ok KeepaliveResponse \<longleftrightarrow> (\<exists>r. status \<lparr>sq_lease_id = j\<rparr> s = Ok r))"
  by (auto simp: keepalive_def status_def release_lease_def Let_def result_simps split: option.splits)

text \<open>
  C11. Process hygiene of \<open>TakeLease\<close>, run alone: every cached fixture keeps a child of its own
  that was not killed, and no child is left without an owner, with one exception: a call whose
  \<open>PluginProcess::spawn\<close> did not succeed after it had started the child, and that did not see the
  child exit. In particular a call that fails in \<open>DescribePlugin\<close> or \<open>CreateFixture\<close> leaves nothing
  behind.
\<close>

theorem take_lease_processes:
  assumes "procs_inv s w" "fresh_child te w"
    and "take_lease dir te req (s, w) = Some (out, s', w')"
  shows "procs_inv s' w' \<and>
    (orphans s' w' = orphans s w \<or>
     (\<exists>desc b pid x. requested_fixture req = Ok (desc, b) \<and>
       env_spawn (te_plugin te) b (plugin_socket_path dir (te_socket_uuid te)) = Ok pid \<and>
       PluginProcess_spawn (te_plugin te) b (plugin_socket_path dir (te_socket_uuid te))
         (startup_timeout desc) w = Some (x, w') \<and> (\<nexists>p. x = Return p) \<and>
       \<not> exit_reported (plugin_socket_path dir (te_socket_uuid te)) x \<and>
       orphans s' w' = insert pid (orphans s w)))"
proof -
  have sub: "owned s \<subseteq> live w" using assms(1) by (simp add: procs_inv_def)
  have fail: ?thesis
    if "requested_fixture req = Ok (desc, b)" "provision dir te req desc b w = Some (x, w')"
      "\<nexists>p. x = Return p" "s' = s" for desc b x
  proof -
    note lv = provision_fails_live [OF that(2,3) assms(2)]
    have new: "insert pid (live w) - owned s = insert pid (live w - owned s)"
      if "env_spawn (te_plugin te) b (plugin_socket_path dir (te_socket_uuid te)) = Ok pid" for pid
      using that assms(2) sub by (auto simp: fresh_child_def)
    have "procs_inv s w'" using lv assms(1) by (auto simp: procs_inv_def)
    moreover from lv have "orphans s w' = orphans s w \<or>
      (\<exists>pid y. env_spawn (te_plugin te) b (plugin_socket_path dir (te_socket_uuid te)) = Ok pid \<and>
        PluginProcess_spawn (te_plugin te) b (plugin_socket_path dir (te_socket_uuid te))
          (startup_timeout desc) w = Some (y, w') \<and> (\<nexists>p. y = Return p) \<and>
        \<not> exit_reported (plugin_socket_path dir (te_socket_uuid te)) y \<and>
        orphans s w' = insert pid (orphans s w))"
      unfolding orphans_def using new by metis
    ultimately show ?thesis unfolding \<open>s' = s\<close> using that(1) by blast
  qed
  from assms(3) show ?thesis
  proof (cases rule: take_lease_cases)
    case (rejected e)
    with assms(1) show ?thesis by simp
  next
    case (reused desc b fp resp)
    from this(3) obtain r where "hash_get (st_fixtures s) fp = Some r"
      "st_fixtures s' = hash_insert fp (r\<lparr>fx_used_slots := fx_used_slots r + 1\<rparr>) (st_fixtures s)"
      by (rule try_reuse_SomeD)
    then have "child_of s' = child_of s" by (intro child_of_same_plugin) simp_all
    with assms(1) \<open>w' = w\<close> show ?thesis by (simp add: orphans_def owned_def procs_inv_def)
  next
    case (failed desc b fp e)
    show ?thesis by (rule fail [OF failed(1,4)]) (use failed in auto)
  next
    case (panicked desc b fp)
    show ?thesis by (rule fail [OF panicked(1,4)]) (use panicked in auto)
  next
    case (provisioned desc b fp plugin result v resp)
    note pr = provision_Return [OF provisioned(4)]
    have new: "pp_child plugin \<notin> live w" using assms(2) pr(3) by (auto simp: fresh_child_def)
    have "procs_inv s v" using assms(1) pr(1) by (auto simp: procs_inv_def)
    moreover have "pp_child plugin \<notin> owned s" using sub new by blast
    ultimately have "procs_inv s' w'" "orphans s' w' = orphans s v - {pp_child plugin}"
      using owned_commit [OF _ _ _ provisioned(5)] pr(1) by simp_all
    moreover have "orphans s v - {pp_child plugin} = orphans s w"
      using new pr(1) by (auto simp: orphans_def)
    ultimately show ?thesis by simp
  qed
qed

theorem take_lease_processes_witness:
  "\<exists>resp s' w'. take_lease demo_dir (demo_env ''b'' 2 []) (demo_request ''B'' (demo_desc (SingleUse Empty) 1))
      (demo_state (SingleUse Empty) 1, demo_trace 1) = Some (Return resp, s', w') \<and>
    procs_inv s' w' \<and> orphans s' w' = orphans (demo_state (SingleUse Empty) 1) (demo_trace 1)"
proof -
  have "try_reuse demo_fp ''B'' ''b'' (demo_state (SingleUse Empty) 1) = None"
    by (simp add: try_reuse_None reusable_def demo_record_def sharing_admits_def demo_desc_def)
  moreover obtain resp s' w' where "commit_fixture demo_fp (new_record (demo_desc (SingleUse Empty) 1) ''B''
      (demo_process 2) (demo_result [])) ''b'' (demo_state (SingleUse Empty) 1,
        demo_trace 1 @ spawn_calls ''/plugin'' (plugin_socket_path demo_dir ''0123456789abcdef'') 2) = (resp, s', w')"
    by (rule prod_cases3)
  ultimately have t: "take_lease demo_dir (demo_env ''b'' 2 [])
      (demo_request ''B'' (demo_desc (SingleUse Empty) 1)) (demo_state (SingleUse Empty) 1, demo_trace 1) =
      Some (Return resp, s', w')"
    by (simp add: demo_take)
  have "fresh_child (demo_env ''b'' 2 []) (demo_trace 1)"
    using live_append [of "[]" "demo_trace 1"]
    by (auto simp: fresh_child_def demo_env_def demo_plugin_def demo_trace_def)
  note procs = take_lease_processes [OF demo_state_inv(3) this t]
  have "\<exists>p v. PluginProcess_spawn (te_plugin (demo_env ''b'' 2 [])) b
      (plugin_socket_path demo_dir (te_socket_uuid (demo_env ''b'' 2 []))) (startup_timeout desc) (demo_trace 1) =
      Some (Return p, v)"
    if "requested_fixture (demo_request ''B'' (demo_desc (SingleUse Empty) 1)) = Ok (desc, b)" for desc b
  proof -
    have "desc = demo_desc (SingleUse Empty) 1" using that by (simp add: demo_requested)
    then have "startup_timeout desc = 300000" by (simp add: startup_timeout_def demo_desc_def)
    then show ?thesis by (simp add: demo_env_def demo_spawns)
  qed
  with procs t show ?thesis by fastforce
qed

text \<open>
  C30. A fixture that is provisioned under a fingerprint that is already cached replaces the
  cached one under its leases: the plugin process of the old fixture is killed, every lease on
  it is answered by \<open>Status\<close> with the outputs of the new fixture, and the new record counts one
  slot while it has at least two leases.
\<close>

theorem overwrite_redirects_leases:
  assumes "state_inv s" "hash_get (st_leases s) (LeaseId u) = None"
    and "hash_get (st_fixtures s) fp = Some old"
    and "hash_get (st_leases s) (LeaseId i) = Some \<lparr>lr_fingerprint = fp\<rparr>"
    and commit: "commit_fixture fp (new_record d c p result) u (s, w) = (resp, s', w')"
  shows "w' = w @ [StartKill (pp_child (fx_plugin old))] \<and>
    status \<lparr>sq_lease_id = i\<rparr> s' =
      Ok \<lparr>sr_status = LeaseStatus_as_i32 Succeeded, sr_outputs = fr_outputs result, sr_messages = []\<rparr> \<and>
    (\<exists>r. hash_get (st_fixtures s') fp = Some r \<and> fx_used_slots r = 1 \<and> 2 \<le> holders s' fp)"
proof -
  note eqs = commit_fixture_eqs [OF commit]
  have ok: "hash_ok (st_leases s)" using assms(1) by (simp add: state_inv_def)
  have "holders s' fp = holders s fp + 1"
    using holders_insert_lease [OF ok assms(2) eqs(2), of fp] by simp
  moreover have "0 < holders s fp" using holders_pos [OF ok assms(4)] by simp
  moreover have "status \<lparr>sq_lease_id = i\<rparr> s' =
      Ok \<lparr>sr_status = LeaseStatus_as_i32 Succeeded, sr_outputs = fr_outputs result, sr_messages = []\<rparr>"
    using assms(2,4) by (auto simp: status_def LeaseId_from_def eqs)
  ultimately show ?thesis using assms(3) by (simp add: eqs)
qed

theorem overwrite_redirects_leases_witness:
  "\<exists>resp s' w'. commit_fixture demo_fp (new_record (demo_desc (SingleUse Empty) 1) ''B'' (demo_process 2)
      (demo_result [(''k'', \<lparr>v_value = None\<rparr>)])) ''b'' (demo_state (SingleUse Empty) 1, []) = (resp, s', w') \<and>
    w' = [StartKill 1] \<and>
    status \<lparr>sq_lease_id = ''a''\<rparr> s' = Ok \<lparr>sr_status = LeaseStatus_as_i32 Succeeded,
      sr_outputs = [(''k'', \<lparr>v_value = None\<rparr>)], sr_messages = []\<rparr>"
proof -
  obtain resp s' w' where c: "commit_fixture demo_fp (new_record (demo_desc (SingleUse Empty) 1) ''B''
      (demo_process 2) (demo_result [(''k'', \<lparr>v_value = None\<rparr>)])) ''b'' (demo_state (SingleUse Empty) 1, [])
      = (resp, s', w')" by (metis prod_cases3)
  show ?thesis
    using overwrite_redirects_leases [OF demo_state_inv(1) _ _ _ c, of _ "''a''"] c
    by (simp add: demo_result_def demo_record_def demo_process_def)
qed

text \<open>
  C32. The slot limit can be exceeded through the handlers alone. Let a lease be held on a cached
  fixture, and let a \<open>TakeLease\<close> for the same fingerprint that cannot reuse it be granted under a
  policy of at most one connection. Once the older lease is released, any third client that the
  scope admits is attached to the new fixture, although the second client still holds it: the
  fixture has one slot and at least two live leases, and no process was started.
\<close>

theorem slot_limit_exceeded:
  assumes "state_inv s" and held: "hash_get (st_leases s) (LeaseId a) = Some \<lparr>lr_fingerprint = fp\<rparr>"
    and second: "requested_fixture req = Ok (desc, b)" "request_fingerprint te desc b = Ok fp"
      "try_reuse fp (tlq_client_id req) (te_lease_uuid te) s = None"
      "hash_get (st_leases s) (LeaseId (te_lease_uuid te)) = None"
      "take_lease dir te req (s, w) = Some (Return resp, s1, w1)"
    and one: "sh = unwrap_or default_sharing (fd_sharing desc)" "sint (s_maximum_concurrent_connections sh) \<le> 1"
    and third: "requested_fixture req' = Ok (desc', b')" "request_fingerprint te' desc' b' = Ok fp"
      "hash_get (st_leases s1) (LeaseId (te_lease_uuid te')) = None"
      "scope_admits (design_scope sh) (tlq_client_id req) (tlq_client_id req')"
  shows "\<exists>resp' s2 r.
    take_lease dir te' req' (snd (release_lease \<lparr>rq_lease_id = a\<rparr> s1), w1) = Some (Return resp', s2, w1) \<and>
    keepalive \<lparr>kq_lease_id = tlr_lease_id resp\<rparr> s2 = Ok KeepaliveResponse \<and>
    keepalive \<lparr>kq_lease_id = tlr_lease_id resp'\<rparr> s2 = Ok KeepaliveResponse \<and>
    hash_get (st_fixtures s2) fp = Some r \<and> sint (max_slots r) = 1 \<and> 2 \<le> holders s2 fp"
proof -
  let ?u = "te_lease_uuid te" and ?u' = "te_lease_uuid te'"
  define s0 where "s0 = snd (release_lease \<lparr>rq_lease_id = a\<rparr> s1)"
  from second(5) obtain p result v where
    "commit_fixture fp (new_record desc (tlq_client_id req) p result) ?u (s, v) = (resp, s1, w1)"
  proof (cases rule: take_lease_cases)
    case reused
    with second(1-3) show ?thesis by simp
  next
    case provisioned
    with second(1-3) that show ?thesis by simp
  qed simp_all
  note eqs = commit_fixture_eqs [OF this] and inv1 = commit_fixture_inv [OF assms(1) second(4) _ this]
  let ?r = "return_slot (new_record desc (tlq_client_id req) p result)"
  have "a \<noteq> ?u" using held second(4) by auto
  then have a1: "hash_get (st_leases s1) (LeaseId_from a) = Some \<lparr>lr_fingerprint = fp\<rparr>"
    using held by (simp add: eqs LeaseId_from_def)
  have s0: "st_fixtures s0 = hash_insert fp ?r (st_fixtures s1)" "st_leases s0 = hash_remove (LeaseId a) (st_leases s1)"
    using a1 by (simp_all add: s0_def release_lease_def Let_def eqs LeaseId_from_def)
  have "sint (fx_used_slots ?r) = 0" by (simp add: return_slot_sint)
  then have "reusable ?r (tlq_client_id req')"
    using third(4) max_slots_ge_1 [of ?r] by (simp add: reusable_def sharing_admits_design one(1))
  then obtain resp' s2 where t: "try_reuse fp (tlq_client_id req') ?u' s0 = Some (resp', s2)"
    by (simp add: try_reuse_def Let_def s0(1))
  from t obtain r where r: "hash_get (st_fixtures s0) fp = Some r" "tlr_lease_id resp' = ?u'"
    "st_fixtures s2 = hash_insert fp (r\<lparr>fx_used_slots := fx_used_slots r + 1\<rparr>) (st_fixtures s0)"
    and ls: "st_leases s2 = hash_insert (LeaseId ?u') \<lparr>lr_fingerprint = fp\<rparr> (st_leases s0)"
    by (rule try_reuse_SomeD) simp
  then have fx: "hash_get (st_fixtures s2) fp = Some (?r\<lparr>fx_used_slots := fx_used_slots ?r + 1\<rparr>)"
    by (simp add: s0(1))
  have "state_inv s0" unfolding s0_def by (rule release_lease_inv [OF inv1]) simp
  then have ok0: "hash_ok (st_leases s0)" by (simp add: state_inv_def)
  have u: "hash_get (st_leases s0) (LeaseId ?u) = Some \<lparr>lr_fingerprint = fp\<rparr>"
    using \<open>a \<noteq> ?u\<close> by (simp add: s0 eqs)
  have "hash_get (st_leases s0) (LeaseId ?u') = None" using third(3) by (simp add: s0)
  from holders_insert_lease [OF ok0 this ls, of fp] holders_pos [OF ok0 u] have "2 \<le> holders s2 fp" by simp
  moreover have "take_lease dir te' req' (s0, w1) = Some (Return resp', s2, w1)"
    by (simp add: take_lease_def third t)
  moreover have "sint (max_slots (?r\<lparr>fx_used_slots := fx_used_slots ?r + 1\<rparr>)) = 1"
    using one by (simp add: max_slots_effective effective_slots_def declared_slots_def)
  moreover have "hash_get (st_leases s2) (LeaseId ?u) \<noteq> None" "hash_get (st_leases s2) (LeaseId ?u') \<noteq> None"
    "tlr_lease_id resp = ?u" using u by (simp_all add: ls eqs)
  ultimately show ?thesis
    using fx r(2) unfolding s0_def [symmetric] by (simp add: keepalive_def LeaseId_from_def)
qed

theorem slot_limit_exceeded_witness:
  "\<exists>resp s1 w1 resp' s2 r.
    take_lease demo_dir (demo_env ''b'' 2 []) (demo_request ''B'' (demo_desc (Unrestricted Empty) 1))
      (demo_state (Unrestricted Empty) 1, demo_trace 1) = Some (Return resp, s1, w1) \<and>
    take_lease demo_dir (demo_env ''c'' 3 []) (demo_request ''C'' (demo_desc (Unrestricted Empty) 1))
      (snd (release_lease \<lparr>rq_lease_id = ''a''\<rparr> s1), w1) = Some (Return resp', s2, w1) \<and>
    hash_get (st_fixtures s2) demo_fp = Some r \<and> sint (max_slots r) = 1 \<and> 2 \<le> holders s2 demo_fp"
proof -
  let ?d = "demo_desc (Unrestricted Empty) 1" and ?s = "demo_state (Unrestricted Empty) 1"
  have none: "try_reuse demo_fp ''B'' ''b'' ?s = None"
    by (simp add: try_reuse_None reusable_def demo_record_def max_slots_def demo_desc_def)
  obtain resp s1 w1 where c: "commit_fixture demo_fp (new_record ?d ''B'' (demo_process 2) (demo_result [])) ''b''
      (?s, demo_trace 1 @ spawn_calls ''/plugin'' (plugin_socket_path demo_dir ''0123456789abcdef'') 2) = (resp, s1, w1)"
    by (metis prod_cases3)
  then have t: "take_lease demo_dir (demo_env ''b'' 2 []) (demo_request ''B'' ?d) (?s, demo_trace 1) =
      Some (Return resp, s1, w1)" by (simp add: demo_take none)
  have "hash_get (st_leases s1) (LeaseId ''c'') = None" by (simp add: commit_fixture_eqs [OF c])
  then show ?thesis
    using slot_limit_exceeded [OF demo_state_inv(1) _ demo_requested demo_fingerprint _ _ t refl _
        demo_requested [of "''C''" "Unrestricted Empty" 1] demo_fingerprint [of "''c''" 3 "[]"], where a = "''a''"] none t
    by (fastforce simp: demo_env_def demo_request_def demo_desc_def design_scope_def)
qed

text \<open>
  C13. Sharing scopes are enforced: a request is attached to a cached fixture exactly when the
  fixture has a free slot and is unrestricted, or is restricted to its creating client (which
  is also the meaning of a missing scope) and that client asks. A single-use fixture is never
  attached to again.
\<close>

theorem reuse_respects_scope:
  "(\<exists>resp s'. try_reuse fp client u s = Some (resp, s')) \<longleftrightarrow>
    (\<exists>r. hash_get (st_fixtures s) fp = Some r \<and>
      sint (fx_used_slots r) < max (sint (s_maximum_concurrent_connections (fx_sharing r))) 1 \<and>
      (s_use_scope (fx_sharing r) = Some (Unrestricted Empty) \<or>
       fx_creating_client_id r = client \<and>
       (s_use_scope (fx_sharing r) = None \<or> s_use_scope (fx_sharing r) = Some (ClientRestricted Empty))))"
proof -
  have admits: "sharing_admits sh creator client \<longleftrightarrow>
      s_use_scope sh = Some (Unrestricted Empty) \<or>
      creator = client \<and> (s_use_scope sh = None \<or> s_use_scope sh = Some (ClientRestricted Empty))" for sh creator
  proof -
    have "e = Empty" for e by (cases e)
    then show ?thesis by (auto simp: sharing_admits_def split: option.splits UseScope.splits)
  qed
  show ?thesis
    by (auto simp: try_reuse_def Let_def reusable_def max_slots_def admits split: option.splits)
qed

text \<open>
  C23. The status codes of \<open>TakeLease\<close>. A request without a fixture or without a plugin is answered
  with \<open>INVALID_ARGUMENT\<close> and a request for a container plugin with \<open>UNIMPLEMENTED\<close>, always, with
  state and processes untouched, and no other request is answered so. Every other error answer
  is \<open>INTERNAL\<close>: it is given exactly when the fingerprint cannot be computed, or nothing can be
  reused and provisioning fails.
\<close>

theorem take_lease_error_codes:
  "(\<exists>e. take_lease dir te req (s, w) = Some (Fail e, s, w) \<and> code e = InvalidArgument) =
     (case tlq_fixture req of None \<Rightarrow> True | Some d \<Rightarrow> fd_plugin d = None) \<and>
   (\<exists>e. take_lease dir te req (s, w) = Some (Fail e, s, w) \<and> code e = Unimplemented) =
     (\<exists>d image. tlq_fixture req = Some d \<and> fd_plugin d = Some (ContainerRef image)) \<and>
   (\<exists>e w'. take_lease dir te req (s, w) = Some (Fail e, s, w') \<and> code e = Internal) =
     (\<exists>d b. tlq_fixture req = Some d \<and> fd_plugin d = Some (BinaryPath b) \<and>
       ((\<exists>e. request_fingerprint te d b = Err e) \<or>
        (\<exists>fp e w'. request_fingerprint te d b = Ok fp \<and>
          try_reuse fp (tlq_client_id req) (te_lease_uuid te) s = None \<and>
          provision dir te req d b w = Some (Fail e, w')))) \<and>
   (\<forall>e s' w'. take_lease dir te req (s, w) = Some (Fail e, s', w') \<longrightarrow>
     s' = s \<and> (code e = Internal \<or> w' = w \<and> code e \<in> {InvalidArgument, Unimplemented}))"
proof -
  consider (bad) "tlq_fixture req = None \<or> (\<exists>d. tlq_fixture req = Some d \<and> fd_plugin d = None)"
    | (image) d image where "tlq_fixture req = Some d" "fd_plugin d = Some (ContainerRef image)"
    | (binary) d b where "tlq_fixture req = Some d" "fd_plugin d = Some (BinaryPath b)"
    by (metis FixturePlugin.exhaust option.exhaust)
  then show ?thesis
  proof cases
    case bad
    then obtain e where "requested_fixture req = Err e" "code e = InvalidArgument"
      by (auto simp: requested_fixture_def)
    then have "take_lease dir te req (s, w) = Some (Fail e, s, w)" by (simp add: take_lease_def)
    with bad \<open>code e = _\<close> show ?thesis by auto
  next
    case image
    then obtain e where "requested_fixture req = Err e" "code e = Unimplemented"
      by (auto simp: requested_fixture_def)
    then have "take_lease dir te req (s, w) = Some (Fail e, s, w)" by (simp add: take_lease_def)
    with image \<open>code e = _\<close> show ?thesis by auto
  next
    case binary
    then have req: "requested_fixture req = Ok (d, b)" by (simp add: requested_fixture_Ok)
    note fails = take_lease_Fail [OF req, of dir te s w]
    have "code e = Internal \<and> s' = s" if "take_lease dir te req (s, w) = Some (Fail e, s', w')" for e s' w'
      using that fails by (auto simp: request_fingerprint_Err dest: provision_Fail)
    with binary fails show ?thesis by (auto simp: request_fingerprint_Err dest: provision_Fail)
  qed
qed

theorem take_lease_error_codes_witness:
  "\<exists>e. take_lease demo_dir (demo_env ''b'' 2 [])
      (demo_request ''B'' ((demo_desc (SingleUse Empty) 1)\<lparr>fd_plugin := Some (ContainerRef ''img'')\<rparr>))
      (demo_state (SingleUse Empty) 1, demo_trace 1) = Some (Fail e, demo_state (SingleUse Empty) 1, demo_trace 1) \<and>
    code e = Unimplemented"
  using take_lease_error_codes [of demo_dir "demo_env ''b'' 2 []"
      "demo_request ''B'' ((demo_desc (SingleUse Empty) 1)\<lparr>fd_plugin := Some (ContainerRef ''img'')\<rparr>)"
      "demo_state (SingleUse Empty) 1" "demo_trace 1"]
  by (simp add: demo_request_def demo_desc_def)

text \<open>
  C15. Every failure while provisioning is reported to the caller as \<open>INTERNAL\<close>, with the step that
  failed and its error, the state untouched: a spawn that fails, a health check that fails, a
  \<open>CreateFixture\<close> that fails. In the last two cases the plugin has been killed.
\<close>

theorem take_lease_failures:
  assumes "requested_fixture req = Ok (desc, b)" "request_fingerprint te desc b = Ok fp"
    and "try_reuse fp (tlq_client_id req) (te_lease_uuid te) s = None"
    and spawn: "PluginProcess_spawn (te_plugin te) b (plugin_socket_path dir (te_socket_uuid te))
      (startup_timeout desc) w = Some (x, v)"
  shows "case x of
      Fail e \<Rightarrow> take_lease dir te req (s, w) = Some (Fail (Status Internal (Prefixed ''spawning plugin'' e)), s, v)
    | Panic \<Rightarrow> take_lease dir te req (s, w) = Some (Panic, s, v)
    | Return p \<Rightarrow>
        (case env_describe_plugin (te_plugin te) Empty of
           None \<Rightarrow> take_lease dir te req (s, w) = None
         | Some (Err st) \<Rightarrow> take_lease dir te req (s, w) =
             Some (Fail (Status Internal (Prefixed ''DescribePlugin'' (Rpc st))), s, v @ [StartKill (pp_child p)])
         | Some (Ok d) \<Rightarrow>
             (case create_fixture (te_plugin te) (make_create_request desc req (te_fixture_uuid te)) of
                None \<Rightarrow> take_lease dir te req (s, w) = None
              | Some (Err e) \<Rightarrow> take_lease dir te req (s, w) =
                  Some (Fail (Status Internal (Prefixed ''CreateFixture'' e)), s, v @ [StartKill (pp_child p)])
              | Some (Ok result) \<Rightarrow> \<exists>resp s' w'. take_lease dir te req (s, w) = Some (Return resp, s', w') \<and>
                  tlr_outputs resp = fr_outputs result))"
proof -
  have pr: "provision dir te req desc b w = io_bind (\<lambda>_. Some (map_outcome
      (\<lambda>e. Status Internal (Prefixed ''spawning plugin'' e)) (\<lambda>p. p) x, v)) (provision_plugin te req desc) w"
    using spawn by (cases x) (simp_all add: provision_def Let_def io_bind_def io_map_err_def)
  show ?thesis
    by (auto simp: take_lease_def assms(1,2,3) pr io_bind_def provision_plugin_def io_dropping_def io_await_def
        io_lift_def io_return_def describe_def map_err_def PluginProcess_drop_def
        split: outcome.splits option.splits sum.splits prod.splits dest: commit_fixture_eqs(3))
qed

theorem take_lease_failures_witness:
  "take_lease demo_dir (demo_sick (Some (Err demo_status))) (demo_request ''B'' (demo_desc (SingleUse Empty) 1))
      (State_default, []) =
    Some (Fail (Status Internal (Prefixed ''DescribePlugin'' (Rpc demo_status))), State_default,
      demo_trace 2 @ [StartKill 2])"
  using take_lease_failures [OF demo_requested [of "''B''" "SingleUse Empty" 1]
      demo_sick_starts(1) [of "Some (Err demo_status)"] try_reuse_default demo_sick_starts(2)]
  by (simp add: demo_process_def demo_sick_def)

text \<open>
  C14. When \<open>TakeLease\<close> never answers, on a clock that moves on while the handler sleeps: exactly
  when the request is valid, nothing can be reused, the plugin was spawned and connected, and then
  the plugin never answers the health check, or passes it and never answers \<open>CreateFixture\<close>, or
  sends progress for ever, or falls silent with its stream open. Until the plugin is connected
  every wait is bounded; afterwards none is. System calls and connection attempts are taken to
  come back.
\<close>

theorem take_lease_hangs_iff:
  assumes "sleeping_clock (te_plugin te)"
  shows "take_lease dir te req (s, w) = None \<longleftrightarrow>
    (\<exists>desc b fp p v. requested_fixture req = Ok (desc, b) \<and> request_fingerprint te desc b = Ok fp \<and>
      try_reuse fp (tlq_client_id req) (te_lease_uuid te) s = None \<and>
      PluginProcess_spawn (te_plugin te) b (plugin_socket_path dir (te_socket_uuid te))
        (startup_timeout desc) w = Some (Return p, v) \<and>
      (env_describe_plugin (te_plugin te) Empty = None \<or>
       (\<exists>d. env_describe_plugin (te_plugin te) Empty = Some (Ok d)) \<and>
       (let create = env_create_fixture (te_plugin te) (make_create_request desc req (te_fixture_uuid te)) in
        create = None \<or>
        (\<exists>stream. create = Some (Ok stream) \<and>
          ((\<forall>i. draining (stream i)) \<or>
           (\<exists>n. stream n = None \<and> list_all draining (map stream [0..<n])))))))"
proof -
  have "take_lease dir te req (s, w) = None \<longleftrightarrow>
      (\<exists>desc b fp. requested_fixture req = Ok (desc, b) \<and> request_fingerprint te desc b = Ok fp \<and>
        try_reuse fp (tlq_client_id req) (te_lease_uuid te) s = None \<and> provision dir te req desc b w = None)"
    by (auto simp: take_lease_def split: sum.splits option.splits outcome.splits prod.splits)
  moreover have "provision dir te req desc b w = None \<longleftrightarrow>
      (\<exists>p v. PluginProcess_spawn (te_plugin te) b (plugin_socket_path dir (te_socket_uuid te))
        (startup_timeout desc) w = Some (Return p, v) \<and> provision_plugin te req desc p v = None)" for desc b
    using spawn_returns [OF assms, of b "plugin_socket_path dir (te_socket_uuid te)" "startup_timeout desc" w]
    by (simp only: provision_def Let_def io_bind_eq_None io_map_err_eq_None io_map_err_eq_Return simp_thms)
  moreover have "provision_plugin te req desc p v = None \<longleftrightarrow>
      env_describe_plugin (te_plugin te) Empty = None \<or>
      (\<exists>d. env_describe_plugin (te_plugin te) Empty = Some (Ok d)) \<and>
      create_fixture (te_plugin te) (make_create_request desc req (te_fixture_uuid te)) = None" for desc p v
    by (auto simp: provision_plugin_def io_bind_eq_None io_await_eq_Return describe_def map_err_eq_Ok)
  ultimately show ?thesis by (simp add: create_fixture_None Let_def)
qed

theorem take_lease_hangs_iff_witness:
  "take_lease demo_dir (demo_sick None) (demo_request ''B'' (demo_desc (SingleUse Empty) 1)) (State_default, []) = None"
proof -
  have clock: "sleeping_clock (te_plugin (demo_sick None))"
    by (simp add: sleeping_clock_def demo_sick_def demo_plugin_def retry_interval_def)
  have "env_describe_plugin (te_plugin (demo_sick None)) Empty = None" by (simp add: demo_sick_def)
  with demo_requested demo_sick_starts try_reuse_default show ?thesis
    unfolding take_lease_hangs_iff [OF clock] by blast
qed

text \<open>
  C25. The slot counter never wraps around: on a state that satisfies the invariant, the 64-bit
  increment of a reuse and the 64-bit decrement of a release are exact, so an
  overflow check on them never fires while the state lock is held.
\<close>

theorem slot_arithmetic_exact:
  assumes "state_inv s" "hash_get (st_fixtures s) fp = Some r"
  shows "(reusable r client \<longrightarrow> sint (fx_used_slots r + 1) = sint (fx_used_slots r) + 1) \<and>
    sint (fx_used_slots r - 1) = sint (fx_used_slots r) - 1 \<and>
    sint (fx_used_slots (return_slot r)) = max (sint (fx_used_slots r) - 1) 0"
  using reusable_increment [of r client] slotsD(1) [OF assms] return_slot_sint [of r] sint_pred by simp

theorem slot_arithmetic_exact_witness:
  "sint (fx_used_slots (demo_record (Unrestricted Empty) 10) + 1) = 2"
  using slot_arithmetic_exact [OF demo_state_inv(1) demo_state_lookup(2)] demo_reusable
  by (simp add: demo_record_def)

end
