(* ===== verification/Service.thy ===== *)
theory Service
  imports Coordinator
begin

text \<open>
  The coordinator service with many handlers in flight. The handlers of
  \<^verbatim>\<open>src/coordinator/src/coordinator.rs\<close> run concurrently: a critical section under the state
  lock is one step, and between its two critical sections a \<open>TakeLease\<close> is a task that holds
  no lock. The step relation interleaves the critical sections of any number of requests with
  the stages of their provisioning, each of which is the code of that stage (\<open>start_child\<close>,
  \<open>connect_child\<close>, \<open>provision_plugin\<close>), with whatever the outside world answers to that request.
\<close>

section \<open>Configurations and steps\<close>

text \<open>
  How far a \<open>TakeLease\<close> in flight has come: nothing started yet, a bare \<open>Child\<close> that is being
  connected to, or a \<open>PluginProcess\<close> that is being asked for the fixture.
\<close>

datatype stage = Starting | Connecting pid | Connected PluginProcess

record Task =
  tk_env :: take_env
  tk_request :: TakeLeaseRequest
  tk_desc :: FixtureDescription
  tk_binary :: string
  tk_fp :: FixtureFingerprint
  tk_stage :: stage

abbreviation tk_plugin_env :: "Task \<Rightarrow> plugin_env" where
  "tk_plugin_env k \<equiv> te_plugin (tk_env k)"

abbreviation tk_client :: "Task \<Rightarrow> string" where
  "tk_client k \<equiv> tlq_client_id (tk_request k)"

abbreviation tk_lease :: "Task \<Rightarrow> LeaseId" where
  "tk_lease k \<equiv> LeaseId (te_lease_uuid (tk_env k))"

definition task_socket :: "path \<Rightarrow> Task \<Rightarrow> path" where
  "task_socket dir k = plugin_socket_path dir (te_socket_uuid (tk_env k))"

record Service =
  sv_state :: State
  sv_trace :: trace
  sv_tasks :: "nat \<rightharpoonup> Task"

abbreviation sv_live :: "Service \<Rightarrow> pid set" where
  "sv_live c \<equiv> live (sv_trace c)"

definition Service_init :: Service where
  "Service_init = \<lparr>sv_state = State_default, sv_trace = [], sv_tasks = (\<lambda>_. None)\<rparr>"

datatype event =
    Attached string LeaseId FixtureFingerprint
  | Started nat FixtureFingerprint
  | Spawned nat pid
  | SpawnFailed nat
  | PluginConnected nat
  | ConnectFailed nat pid bool
  | CreateFailed nat
  | Committed nat string "Sharing option" FixtureFingerprint LeaseId
  | Overwrote nat string "Sharing option" FixtureFingerprint LeaseId
  | Cancelled nat "pid option"
  | Exited pid
  | Released LeaseId

primrec stage_child :: "stage \<Rightarrow> pid option" where
  "stage_child Starting = None"
| "stage_child (Connecting pid) = Some pid"
| "stage_child (Connected p) = Some (pp_child p)"

text \<open>
  Who claims which child: a cached fixture (\<open>Inl\<close>) or a task in flight (\<open>Inr\<close>).
\<close>

definition claims :: "Service \<Rightarrow> (FixtureFingerprint + nat) \<rightharpoonup> pid" where
  "claims c x =
    (case x of
       Inl fp \<Rightarrow> child_of (sv_state c) fp
     | Inr t \<Rightarrow> Option.bind (sv_tasks c t) (\<lambda>k. stage_child (tk_stage k)))"

text \<open>
  \<open>Attached\<close> is a \<open>TakeLease\<close> answered by reuse; \<open>Started\<close> one that found nothing to reuse and
  goes on to provision. \<open>ConnectFailed\<close> carries the child and whether a poll had reported its
  exit. A handler whose caller goes away is dropped where it waits (\<open>Cancelled\<close>): a bare \<open>Child\<close>
  is left behind, a \<open>PluginProcess\<close> kills its child. A child whose handle is gone may exit at any
  time and is then reaped (\<open>Exited\<close>); one whose handle is held keeps its id. Storing the new
  fixture is \<open>Committed\<close> when no lease is routed to its fingerprint and \<open>Overwrote\<close> otherwise.
  \<open>Keepalive\<close> and \<open>Status\<close> change nothing. New children have an id that is not in use, and new
  leases a UUID that no live lease has.
\<close>

inductive service_step :: "path \<Rightarrow> Service \<Rightarrow> event \<Rightarrow> Service \<Rightarrow> bool" for dir where
  attach:
    "service_step dir c (Attached (tlq_client_id req) (LeaseId (te_lease_uuid te)) fp) (c\<lparr>sv_state := s'\<rparr>)"
    if "requested_fixture req = Ok (desc, b)" and "request_fingerprint te desc b = Ok fp"
      and "hash_get (st_leases (sv_state c)) (LeaseId (te_lease_uuid te)) = None"
      and "try_reuse fp (tlq_client_id req) (te_lease_uuid te) (sv_state c) = Some (resp, s')"
| start:
    "service_step dir c (Started t fp) (c\<lparr>sv_tasks := (sv_tasks c)(t \<mapsto>
        \<lparr>tk_env = te, tk_request = req, tk_desc = desc, tk_binary = b, tk_fp = fp, tk_stage = Starting\<rparr>)\<rparr>)"
    if "requested_fixture req = Ok (desc, b)" and "request_fingerprint te desc b = Ok fp"
      and "try_reuse fp (tlq_client_id req) (te_lease_uuid te) (sv_state c) = None" and "sv_tasks c t = None"
| spawned:
    "service_step dir c (Spawned t pid)
      (c\<lparr>sv_trace := w', sv_tasks := (sv_tasks c)(t \<mapsto> k\<lparr>tk_stage := Connecting pid\<rparr>)\<rparr>)"
    if "sv_tasks c t = Some k" and "tk_stage k = Starting"
      and "start_child (tk_plugin_env k) (tk_binary k) (task_socket dir k) (sv_trace c) = Some (Return pid, w')"
      and "pid \<notin> sv_live c"
| spawn_failed:
    "service_step dir c (SpawnFailed t) (c\<lparr>sv_trace := w', sv_tasks := (sv_tasks c)(t := None)\<rparr>)"
    if "sv_tasks c t = Some k" and "tk_stage k = Starting"
      and "start_child (tk_plugin_env k) (tk_binary k) (task_socket dir k) (sv_trace c) = Some (x, w')"
      and "\<nexists>pid. x = Return pid"
| connected:
    "service_step dir c (PluginConnected t)
      (c\<lparr>sv_trace := w', sv_tasks := (sv_tasks c)(t \<mapsto> k\<lparr>tk_stage := Connected p\<rparr>)\<rparr>)"
    if "sv_tasks c t = Some k" and "tk_stage k = Connecting pid"
      and "connect_child (tk_plugin_env k) pid (task_socket dir k) (startup_timeout (tk_desc k)) (sv_trace c) =
        Some (Return p, w')"
| connect_failed:
    "service_step dir c (ConnectFailed t pid (exit_reported (task_socket dir k) x))
      (c\<lparr>sv_trace := w', sv_tasks := (sv_tasks c)(t := None)\<rparr>)"
    if "sv_tasks c t = Some k" and "tk_stage k = Connecting pid"
      and "connect_child (tk_plugin_env k) pid (task_socket dir k) (startup_timeout (tk_desc k)) (sv_trace c) =
        Some (x, w')" and "\<nexists>p. x = Return p"
| create_failed:
    "service_step dir c (CreateFailed t) (c\<lparr>sv_trace := w', sv_tasks := (sv_tasks c)(t := None)\<rparr>)"
    if "sv_tasks c t = Some k" and "tk_stage k = Connected p"
      and "provision_plugin (tk_env k) (tk_request k) (tk_desc k) p (sv_trace c) = Some (x, w')"
      and "\<nexists>r. x = Return r"
| commit:
    "service_step dir c
      (if holders (sv_state c) (tk_fp k) = 0
       then Committed t (tk_client k) (fd_sharing (tk_desc k)) (tk_fp k) (tk_lease k)
       else Overwrote t (tk_client k) (fd_sharing (tk_desc k)) (tk_fp k) (tk_lease k))
      (c\<lparr>sv_state := s', sv_trace := w', sv_tasks := (sv_tasks c)(t := None)\<rparr>)"
    if "sv_tasks c t = Some k" and "tk_stage k = Connected p"
      and "provision_plugin (tk_env k) (tk_request k) (tk_desc k) p (sv_trace c) = Some (Return (plugin, result), v)"
      and "hash_get (st_leases (sv_state c)) (tk_lease k) = None"
      and "commit_fixture (tk_fp k) (new_record (tk_desc k) (tk_client k) plugin result)
        (te_lease_uuid (tk_env k)) (sv_state c, v) = (resp, s', w')"
| cancelled_connecting:
    "service_step dir c (Cancelled t (Some pid)) (c\<lparr>sv_tasks := (sv_tasks c)(t := None)\<rparr>)"
    if "sv_tasks c t = Some k" and "tk_stage k = Connecting pid"
| cancelled_connected:
    "service_step dir c (Cancelled t None)
      (c\<lparr>sv_trace := sv_trace c @ [PluginProcess_drop p], sv_tasks := (sv_tasks c)(t := None)\<rparr>)"
    if "sv_tasks c t = Some k" and "tk_stage k = Connected p"
| exits:
    "service_step dir c (Exited pid) (c\<lparr>sv_trace := sv_trace c @ [ChildExited pid]\<rparr>)"
    if "pid \<in> sv_live c" and "pid \<notin> ran (claims c)"
| release:
    "service_step dir c (Released (LeaseId_from (rq_lease_id q)))
      (c\<lparr>sv_state := snd (release_lease q (sv_state c))\<rparr>)"

section \<open>The invariant of the service\<close>

text \<open>
  No child has two claimants, and no claimed child was killed.
\<close>

definition service_inv :: "Service \<Rightarrow> bool" where
  "service_inv c \<longleftrightarrow> state_inv (sv_state c) \<and> map_inj (claims c) \<and> ran (claims c) \<subseteq> sv_live c"

lemma claims_init: "claims Service_init = Map.empty"
  by (rule ext) (simp add: claims_def Service_init_def child_of_def State_default_def split: sum.splits)

lemma Service_init_inv: "service_inv Service_init"
  using State_default_inv by (simp add: service_inv_def map_inj_def claims_init) (simp add: Service_init_def)

lemma claims_state:
  "child_of s' = child_of (sv_state c) \<Longrightarrow> claims (c\<lparr>sv_state := s'\<rparr>) = claims c"
  by (rule ext) (simp add: claims_def split: sum.splits)

lemma claims_trace [simp]: "claims (c\<lparr>sv_trace := w\<rparr>) = claims c"
  by (rule ext) (simp add: claims_def split: sum.splits)

lemma claims_task [simp]:
  "claims (c\<lparr>sv_trace := w, sv_tasks := (sv_tasks c)(t := k)\<rparr>) =
    (claims c)(Inr t := Option.bind k (\<lambda>k. stage_child (tk_stage k)))"
  "claims (c\<lparr>sv_tasks := (sv_tasks c)(t := k)\<rparr>) =
    (claims c)(Inr t := Option.bind k (\<lambda>k. stage_child (tk_stage k)))"
  by (rule ext, simp add: claims_def split: sum.splits)+

lemma claims_commit:
  assumes "st_fixtures s' = hash_insert fp r (st_fixtures (sv_state c))"
  shows "claims (c\<lparr>sv_state := s', sv_trace := w, sv_tasks := (sv_tasks c)(t := None)\<rparr>) =
    (claims c)(Inr t := None, Inl fp \<mapsto> pp_child (fx_plugin r))"
  using child_of_insert [OF assms] by (intro ext) (simp add: claims_def split: sum.splits)

lemma claims_of_task: "sv_tasks c t = Some k \<Longrightarrow> claims c (Inr t) = stage_child (tk_stage k)"
  by (simp add: claims_def)

lemma release_child_of: "child_of (snd (release_lease q s)) = child_of s"
  by (rule ext) (simp add: child_of_def release_lease_def Let_def split: option.splits)

lemma try_reuse_child_of:
  "try_reuse fp c u s = Some (resp, s') \<Longrightarrow> child_of s' = child_of s"
  by (erule try_reuse_SomeD) (rule child_of_same_plugin, auto)

lemma commit_claims:
  assumes inv: "map_inj (claims c)" and task: "claims c (Inr t) = Some (pp_child p)"
    and commit: "commit_fixture fp (new_record d cl p result) u (sv_state c, sv_trace c) = (resp, s', w')"
    and c': "c' = c\<lparr>sv_state := s', sv_trace := w', sv_tasks := (sv_tasks c)(t := None)\<rparr>"
  shows "map_inj (claims c') \<and>
    ran (claims c') = ran (claims c) - set_option (child_of (sv_state c) fp) \<and>
    sv_live c' = sv_live c - set_option (child_of (sv_state c) fp)"
proof -
  note eqs = commit_fixture_eqs [OF commit]
  let ?m = "(claims c)(Inr t := None)"
  have cl: "claims c' = ?m(Inl fp \<mapsto> pp_child p)" unfolding c' by (subst claims_commit [OF eqs(1)]) simp
  have m: "map_inj ?m" "ran ?m = ran (claims c) - {pp_child p}"
    using inv task by (simp_all add: map_inj_delete ran_delete)
  have old: "set_option (?m (Inl fp)) = set_option (child_of (sv_state c) fp)"
    by (simp add: claims_def)
  have lv: "sv_live c' = sv_live c - set_option (child_of (sv_state c) fp)"
    by (auto simp: c' eqs child_of_def split: option.splits)
  have "pp_child p \<in> ran (claims c)" using task by (rule ranI)
  moreover have "child_of (sv_state c) fp \<noteq> Some (pp_child p)"
    using inv task by (auto simp: map_inj_def claims_def split: sum.splits)
  ultimately show ?thesis
    using m unfolding cl lv ran_update [OF m(1)] old by (auto simp: map_inj_update)
qed

section \<open>What a step does to the children\<close>

text \<open>The children an event leaves behind, and the ones it reaps after that.\<close>

fun leaves_behind :: "event \<Rightarrow> pid set" where
  "leaves_behind (ConnectFailed t p exited) = (if exited then {} else {p})"
| "leaves_behind (Cancelled t leak) = set_option leak"
| "leaves_behind _ = {}"

fun reaps :: "event \<Rightarrow> pid set" where
  "reaps (Exited p) = {p}"
| "reaps _ = {}"

text \<open>
  The children a step takes from their claimants are killed or reaped, unless it leaves them
  behind; the children it gives to a claimant are new.
\<close>

definition claims_change :: "Service \<Rightarrow> event \<Rightarrow> Service \<Rightarrow> pid set \<Rightarrow> pid set \<Rightarrow> bool" where
  "claims_change c e c' gone new \<longleftrightarrow>
    gone \<subseteq> ran (claims c) \<and> leaves_behind e \<subseteq> gone \<and> new \<inter> sv_live c = {} \<and>
    reaps e \<subseteq> sv_live c - ran (claims c) \<and>
    ran (claims c') = ran (claims c) - gone \<union> new \<and>
    sv_live c' = sv_live c - (gone - leaves_behind e) - reaps e \<union> new"

lemma start_child_live:
  assumes "start_child env b s w = Some (x, w')"
  shows "live w' = (case x of Return pid \<Rightarrow> insert pid (live w) | _ \<Rightarrow> live w)"
proof (cases rule: start_child_cases [of env s b w])
  case (1 pid)
  with assms have "x = Return pid" "w' = w @ spawn_calls b s pid" by simp_all
  then show ?thesis by simp
next
  case (2 e v)
  have "x = Fail e" "w' = v" using assms 2(1) by simp_all
  with 2(2) show ?thesis by simp
qed

lemma claim_given:
  "map_inj m \<Longrightarrow> m x = None \<Longrightarrow> p \<notin> ran m \<Longrightarrow> map_inj (m(x \<mapsto> p)) \<and> ran (m(x \<mapsto> p)) = insert p (ran m)"
  by (simp add: map_inj_update ran_update)

lemma claim_taken:
  "service_inv c \<Longrightarrow> claims c (Inr t) = Some p \<Longrightarrow>
    map_inj ((claims c)(Inr t := None)) \<and> ran ((claims c)(Inr t := None)) = ran (claims c) - {p} \<and> p \<in> ran (claims c)"
  by (auto simp: service_inv_def map_inj_delete ran_delete intro: ranI)

lemma claim_kept: "m x = y \<Longrightarrow> m(x := y) = m"
  by (simp add: fun_upd_idem)

lemma changeI: "claims_change c e c' gone new \<Longrightarrow> \<exists>gone new. claims_change c e c' gone new"
  by blast

lemma change_none:
  "claims c' = claims c \<Longrightarrow> sv_live c' = sv_live c \<Longrightarrow> leaves_behind e = {} \<Longrightarrow> reaps e = {} \<Longrightarrow>
    \<exists>gone new. claims_change c e c' gone new"
  by (intro exI [of _ "{}"]) (simp add: claims_change_def)

lemma service_step_claims:
  assumes "service_step dir c e c'" "service_inv c"
  shows "map_inj (claims c') \<and> (\<exists>gone new. claims_change c e c' gone new)"
  using assms
proof (induction rule: service_step.induct)
  case (attach req desc b te fp c resp s')
  then have "claims (c\<lparr>sv_state := s'\<rparr>) = claims c" by (intro claims_state try_reuse_child_of)
  with attach(5) show ?case by (simp add: service_inv_def change_none)
next
  case (start req desc b te fp c t)
  have "claims c (Inr t) = None" using start by (simp add: claims_def)
  with start(5) claim_kept [of "claims c" "Inr t" None] show ?case by (simp add: service_inv_def change_none)
next
  case (spawned c t k pid w')
  have "claims c (Inr t) = None" using spawned by (simp add: claims_def)
  moreover have new: "pid \<notin> ran (claims c)" using spawned(4,5) by (auto simp: service_inv_def)
  ultimately have "map_inj ((claims c)(Inr t \<mapsto> pid)) \<and> ran ((claims c)(Inr t \<mapsto> pid)) = insert pid (ran (claims c))"
    using spawned(5) by (intro claim_given) (simp_all add: service_inv_def)
  moreover have "live w' = insert pid (sv_live c)" using start_child_live [OF spawned(3)] by simp
  ultimately show ?case
    using spawned(4) by (intro conjI changeI [of _ _ _ "{}" "{pid}"]) (auto simp: claims_change_def simp del: fun_upd_apply)
next
  case (spawn_failed c t k x w')
  have "claims c (Inr t) = None" using spawn_failed by (simp add: claims_def)
  moreover have "live w' = sv_live c"
    using start_child_live [OF spawn_failed(3)] spawn_failed(4) by (cases x) simp_all
  ultimately show ?case
    using spawn_failed(5) claim_kept [of "claims c" "Inr t" None]
    by (simp add: service_inv_def change_none)
next
  case (connected c t k pid p w')
  note ret = connect_child_Return [OF connected(3)]
  have "claims c (Inr t) = Some pid" using connected by (simp add: claims_def)
  with connected(4) ret claim_kept [of "claims c" "Inr t" "Some pid"] show ?case
    by (simp add: service_inv_def change_none)
next
  case (connect_failed c t k pid x w')
  have "claims c (Inr t) = Some pid" using connect_failed by (simp add: claims_def)
  from claim_taken [OF connect_failed(5) this] connect_child_live [OF connect_failed(3)] show ?case
    by (intro conjI changeI [of _ _ _ "{pid}" "{}"]) (auto simp: claims_change_def simp del: fun_upd_apply)
next
  case (create_failed c t k p x w')
  have "claims c (Inr t) = Some (pp_child p)" using create_failed by (simp add: claims_def)
  from claim_taken [OF create_failed(5) this] provision_plugin_fails [OF create_failed(3,4)] show ?case
    by (intro conjI changeI [of _ _ _ "{pp_child p}" "{}"]) (auto simp: claims_change_def simp del: fun_upd_apply)
next
  case (commit c t k p plugin result v resp s' w')
  have pv: "plugin = p" "v = sv_trace c" using commit(3) by (simp_all add: provision_plugin_Return)
  have "claims c (Inr t) = Some (pp_child p)" using commit by (simp add: claims_def)
  moreover have "map_inj (claims c)" using commit(6) by (simp add: service_inv_def)
  ultimately have cc: "map_inj (claims (c\<lparr>sv_state := s', sv_trace := w', sv_tasks := (sv_tasks c)(t := None)\<rparr>)) \<and>
    ran (claims (c\<lparr>sv_state := s', sv_trace := w', sv_tasks := (sv_tasks c)(t := None)\<rparr>)) =
      ran (claims c) - set_option (child_of (sv_state c) (tk_fp k)) \<and>
    live w' = sv_live c - set_option (child_of (sv_state c) (tk_fp k))"
    using commit_claims [OF _ _ commit(5) [unfolded pv] refl] by simp
  have "set_option (child_of (sv_state c) (tk_fp k)) \<subseteq> ran (claims c)"
    using ranI [of "claims c" "Inl (tk_fp k)"] by (cases "child_of (sv_state c) (tk_fp k)") (simp_all add: claims_def)
  moreover have "leaves_behind (if x then Committed t cl sh fp l else Overwrote t cl sh fp l) = {}"
    "reaps (if x then Committed t cl sh fp l else Overwrote t cl sh fp l) = {}" for x cl sh fp l by simp_all
  ultimately show ?case
    using cc
    by (intro conjI changeI [of _ _ _ "set_option (child_of (sv_state c) (tk_fp k))" "{}"])
      (simp_all add: claims_change_def)
next
  case (cancelled_connecting c t k pid)
  have "claims c (Inr t) = Some pid" using cancelled_connecting by (simp add: claims_def)
  from claim_taken [OF cancelled_connecting(3) this] show ?case
    by (intro conjI changeI [of _ _ _ "{pid}" "{}"]) (auto simp: service_inv_def claims_change_def simp del: fun_upd_apply)
next
  case (cancelled_connected c t k p)
  have "claims c (Inr t) = Some (pp_child p)" using cancelled_connected by (simp add: claims_def)
  from claim_taken [OF cancelled_connected(3) this] show ?case
    by (intro conjI changeI [of _ _ _ "{pp_child p}" "{}"]) (auto simp: service_inv_def claims_change_def PluginProcess_drop_def simp del: fun_upd_apply)
next
  case (exits pid c)
  then show ?case by (intro conjI changeI [of _ _ _ "{}" "{}"]) (auto simp: service_inv_def claims_change_def simp del: fun_upd_apply)
next
  case (release c q)
  have "claims (c\<lparr>sv_state := snd (release_lease q (sv_state c))\<rparr>) = claims c"
    by (intro claims_state release_child_of)
  with release show ?case by (simp add: service_inv_def change_none)
qed

lemma service_step_state:
  assumes "service_step dir c e c'" "state_inv (sv_state c)"
  shows "state_inv (sv_state c')"
  using assms
proof (induction rule: service_step.induct)
  case attach
  then show ?case by (auto intro: try_reuse_inv)
next
  case (commit c t k p plugin result v resp s' w')
  then show ?case using commit_fixture_inv [OF commit(6,4) _ commit(5)] by simp
next
  case release
  then show ?case by (simp add: release_lease_inv)
qed simp_all

lemma service_step_inv:
  assumes "service_step dir c e c'" "service_inv c"
  shows "service_inv c'"
proof -
  obtain gone new where "claims_change c e c' gone new" and inj: "map_inj (claims c')"
    using service_step_claims [OF assms] by blast
  then have "ran (claims c') \<subseteq> sv_live c'"
    using assms(2) unfolding claims_change_def service_inv_def by blast
  with inj service_step_state [OF assms(1)] assms(2) show ?thesis by (simp add: service_inv_def)
qed

interpretation service: inductive_invariant "service_step dir" "\<lambda>_. True" service_inv
  by unfold_locales (rule service_step_inv)

section \<open>Exact accounting without overwriting\<close>

fun overwrites :: "event \<Rightarrow> bool" where
  "overwrites (Overwrote t cl sh fp l) = True"
| "overwrites _ = False"

definition exact_inv :: "Service \<Rightarrow> bool" where
  "exact_inv c \<longleftrightarrow> service_inv c \<and> exact_slots (sv_state c)"

lemma service_step_exact:
  assumes "service_step dir c e c'" "exact_inv c" "\<not> overwrites e"
  shows "exact_inv c'"
proof -
  have "service_inv c'" using assms service_step_inv by (auto simp: exact_inv_def)
  moreover have "exact_slots (sv_state c')"
    using assms
  proof (induction rule: service_step.induct)
    case (attach req desc b te fp c resp s')
    then show ?case by (auto simp: exact_inv_def service_inv_def intro: try_reuse_exact)
  next
    case (commit c t k p plugin result v resp s' w')
    then have "holders (sv_state c) (tk_fp k) = 0" by (simp split: if_splits)
    then show ?case
      using commit_fixture_exact [OF _ _ commit(4) _ _ commit(5)] commit(6)
      by (simp add: exact_inv_def service_inv_def)
  next
    case (release c q)
    then show ?case by (simp add: exact_inv_def service_inv_def release_lease_exact)
  qed (simp_all add: exact_inv_def)
  ultimately show ?thesis by (simp add: exact_inv_def)
qed

interpretation exact: inductive_invariant "service_step dir" "\<lambda>e. \<not> overwrites e" exact_inv
  by unfold_locales (rule service_step_exact)

text \<open>No step removes a fixture, and only its release removes a lease.\<close>

lemma service_step_keeps:
  assumes "service_step dir c e c'"
  shows "(hash_get (st_fixtures (sv_state c)) fp \<noteq> None \<longrightarrow> hash_get (st_fixtures (sv_state c')) fp \<noteq> None) \<and>
    (hash_get (st_leases (sv_state c)) l = Some r \<and> e \<noteq> Released l \<longrightarrow>
      hash_get (st_leases (sv_state c')) l = Some r)"
  using assms
proof (induction rule: service_step.induct)
  case (attach req desc b te fp' c resp s')
  from attach(4) show ?case by (rule try_reuse_SomeD) (use attach(3) in auto)
next
  case (commit c t k p plugin result v resp s' w')
  from commit_fixture_eqs [OF commit(5)] commit(4) show ?case by auto
next
  case (release c q)
  show ?case by (auto simp: release_lease_def Let_def LeaseId_from_def split: option.splits)
qed auto

section \<open>The handler run alone is one of the interleavings\<close>

definition task :: "take_env \<Rightarrow> TakeLeaseRequest \<Rightarrow> FixtureDescription \<Rightarrow> string \<Rightarrow> FixtureFingerprint \<Rightarrow> stage \<Rightarrow> Task" where
  "task te req desc b fp st =
    \<lparr>tk_env = te, tk_request = req, tk_desc = desc, tk_binary = b, tk_fp = fp, tk_stage = st\<rparr>"

lemma task_simps [simp]:
  "tk_env (task te req desc b fp st) = te" "tk_request (task te req desc b fp st) = req"
  "tk_desc (task te req desc b fp st) = desc" "tk_binary (task te req desc b fp st) = b"
  "tk_fp (task te req desc b fp st) = fp" "tk_stage (task te req desc b fp st) = st"
  "(task te req desc b fp st)\<lparr>tk_stage := st'\<rparr> = task te req desc b fp st'"
  "task_socket dir (task te req desc b fp st) = plugin_socket_path dir (te_socket_uuid te)"
  by (simp_all add: task_def task_socket_def)

lemmas task_start = service_step.start [folded task_def]

text \<open>The stages of one provisioning, one after the other.\<close>

lemma provision_run:
  assumes pr: "provision dir te req desc b (sv_trace c) = Some (x, v)" "fresh_child te (sv_trace c)"
    and task: "sv_tasks c t = Some (task te req desc b fp Starting)"
  shows "(\<exists>es. (\<nexists>r. x = Return r) \<and>
      run (service_step dir) c es (c\<lparr>sv_trace := v, sv_tasks := (sv_tasks c)(t := None)\<rparr>)) \<or>
    (\<exists>es p result. x = Return (p, result) \<and> provision_plugin te req desc p v = Some (Return (p, result), v) \<and>
      run (service_step dir) c es
        (c\<lparr>sv_trace := v, sv_tasks := (sv_tasks c)(t \<mapsto> task te req desc b fp (Connected p))\<rparr>))"
proof -
  let ?env = "te_plugin te" and ?s = "plugin_socket_path dir (te_socket_uuid te)"
  let ?at = "\<lambda>v k. c\<lparr>sv_trace := v, sv_tasks := (sv_tasks c)(t := k)\<rparr>"
  obtain y u where sc: "start_child ?env b ?s (sv_trace c) = Some (y, u)"
    using start_child_returns [of ?env b ?s "sv_trace c"] by auto
  show ?thesis
  proof (cases "\<exists>pid. y = Return pid")
    case False
    then have "u = v \<and> (\<nexists>r. x = Return r)"
      using pr(1) sc
      by (cases y) (auto simp: provision_def Let_def PluginProcess_spawn_def io_bind_def io_map_err_def)
    moreover have "service_step dir c (SpawnFailed t) (?at u None)"
      using service_step.spawn_failed [OF task, of dir y u] sc False by simp
    ultimately show ?thesis by (blast intro: run_single)
  next
    case True
    then obtain pid where y: "y = Return pid" ..
    then have pid: "env_spawn ?env b ?s = Ok pid" using sc by (simp add: start_child_Return)
    then have "pid \<notin> sv_live c" using pr(2) by (auto simp: fresh_child_def)
    then have s1: "service_step dir c (Spawned t pid) (?at u (Some (task te req desc b fp (Connecting pid))))"
      using service_step.spawned [OF task, of dir pid u] sc y by simp
    obtain z u' where cc: "connect_child ?env pid ?s (startup_timeout desc) u = Some (z, u')"
      using pr(1) sc y
      by (auto simp: provision_def Let_def PluginProcess_spawn_def io_bind_def io_map_err_def split: option.splits)
    let ?c1 = "?at u (Some (task te req desc b fp (Connecting pid)))"
    show ?thesis
    proof (cases "\<exists>p. z = Return p")
      case False
      then have "u' = v \<and> (\<nexists>r. x = Return r)"
        using pr(1) sc y cc
        by (cases z) (auto simp: provision_def Let_def PluginProcess_spawn_def io_bind_def io_map_err_def)
      moreover have "\<exists>e. service_step dir ?c1 e (?at u' None)"
        using service_step.connect_failed [of ?c1 t "task te req desc b fp (Connecting pid)" pid dir z u'] cc False
        by auto
      ultimately show ?thesis using s1 by (metis run_Cons run_single)
    next
      case True
      then obtain p where z: "z = Return p" ..
      let ?c2 = "?at u' (Some (task te req desc b fp (Connected p)))"
      have s2: "service_step dir ?c1 (PluginConnected t) ?c2"
        using service_step.connected [of ?c1 t "task te req desc b fp (Connecting pid)" pid dir p u'] cc z by simp
      have pp: "provision_plugin te req desc p u' = Some (x, v)"
        using pr(1) sc y cc z
        by (auto simp: provision_def Let_def PluginProcess_spawn_def io_bind_def io_map_err_def)
      show ?thesis
      proof (cases "\<exists>r. x = Return r")
        case False
        have "service_step dir ?c2 (CreateFailed t) (?at v None)"
          using service_step.create_failed [of ?c2 t "task te req desc b fp (Connected p)" p x v dir] pp False by simp
        with s1 s2 False show ?thesis by (metis run_Cons run_single)
      next
        case True
        then obtain q result where "x = Return (q, result)" by auto
        with pp have x: "x = Return (p, result)" "u' = v" by (simp_all add: provision_plugin_Return)
        moreover have "run (service_step dir) c [Spawned t pid, PluginConnected t] ?c2"
          using s1 s2 by (metis run_Cons run_single)
        ultimately show ?thesis using pp by blast
      qed
    qed
  qed
qed

lemma take_lease_run:
  assumes take: "take_lease dir te req (sv_state c, sv_trace c) = Some (out, s', w')"
    and "sv_tasks c t = None" "fresh_child te (sv_trace c)"
    and new: "hash_get (st_leases (sv_state c)) (LeaseId (te_lease_uuid te)) = None"
  shows "\<exists>es. run (service_step dir) c es (c\<lparr>sv_state := s', sv_trace := w'\<rparr>)"
proof -
  have idem: "(sv_tasks c)(t := None) = sv_tasks c" using assms(2) by (simp add: fun_upd_idem)
  have go: ?thesis
    if "requested_fixture req = Ok (desc, b)" "request_fingerprint te desc b = Ok fp"
      "try_reuse fp (tlq_client_id req) (te_lease_uuid te) (sv_state c) = None"
      and p: "provision dir te req desc b (sv_trace c) = Some (x, v)"
      and fin: "(\<nexists>r. x = Return r) \<Longrightarrow> s' = sv_state c \<and> w' = v"
        "\<And>p result. x = Return (p, result) \<Longrightarrow> \<exists>resp. commit_fixture fp (new_record desc (tlq_client_id req) p result)
          (te_lease_uuid te) (sv_state c, v) = (resp, s', w')" for desc b fp x v
  proof -
    let ?c1 = "c\<lparr>sv_tasks := (sv_tasks c)(t \<mapsto> task te req desc b fp Starting)\<rparr>"
    have s0: "service_step dir c (Started t fp) ?c1" using that(1-3) assms(2) by (rule task_start)
    from provision_run [of dir te req desc b ?c1 x v t fp] p assms(3) consider
      (failed) es where "\<nexists>r. x = Return r" "run (service_step dir) ?c1 es (c\<lparr>sv_trace := v\<rparr>)"
    | (finished) es p result where "x = Return (p, result)" "provision_plugin te req desc p v = Some (Return (p, result), v)"
        "run (service_step dir) ?c1 es
          (c\<lparr>sv_trace := v, sv_tasks := (sv_tasks c)(t \<mapsto> task te req desc b fp (Connected p))\<rparr>)"
      using idem by (auto simp: fun_upd_upd)
    then show ?thesis
    proof cases
      case failed
      with fin(1) s0 show ?thesis by (auto intro: run.intros)
    next
      case (finished es p result)
      let ?c2 = "c\<lparr>sv_trace := v, sv_tasks := (sv_tasks c)(t \<mapsto> task te req desc b fp (Connected p))\<rparr>"
      obtain resp where "commit_fixture fp (new_record desc (tlq_client_id req) p result)
          (te_lease_uuid te) (sv_state c, v) = (resp, s', w')" using fin(2) finished(1) by blast
      then have "\<exists>e. service_step dir ?c2 e (c\<lparr>sv_state := s', sv_trace := w'\<rparr>)"
        using service_step.commit [of ?c2 t "task te req desc b fp (Connected p)" p p result v resp s' w' dir]
          finished(2) new by (auto simp: idem)
      then obtain e where "service_step dir ?c2 e (c\<lparr>sv_state := s', sv_trace := w'\<rparr>)" ..
      from run_append [OF run_Cons [where step = "service_step dir", OF s0 finished(3)] run_single [where step = "service_step dir", OF this]]
      show ?thesis by blast
    qed
  qed
  from take show ?thesis
  proof (cases rule: take_lease_cases)
    case (rejected e)
    then have "c\<lparr>sv_state := s', sv_trace := w'\<rparr> = c" by simp
    then show ?thesis by (metis run_Nil)
  next
    case (reused desc b fp resp)
    have "c\<lparr>sv_state := s', sv_trace := w'\<rparr> = c\<lparr>sv_state := s'\<rparr>" using reused by simp
    then show ?thesis
      using service_step.attach [OF reused(1,2) new reused(3)] by (metis run_single)
  next
    case (failed desc b fp e)
    show ?thesis by (rule go [OF failed(1-4)]) (use failed in simp_all)
  next
    case (panicked desc b fp)
    show ?thesis by (rule go [OF panicked(1-4)]) (use panicked in simp_all)
  next
    case (provisioned desc b fp plugin result v resp)
    show ?thesis by (rule go [OF provisioned(1-4)]) (use provisioned in auto)
  qed
qed

section \<open>Two first requests\<close>

text \<open>
  What a request and the outside world have to be like for the request to provision the fixture
  \<open>fp\<close>, with child \<open>pid\<close> and this result, once nothing can be reused.
\<close>

definition provisions ::
  "path \<Rightarrow> take_env \<Rightarrow> TakeLeaseRequest \<Rightarrow> FixtureFingerprint \<Rightarrow> pid \<Rightarrow> FixtureResult \<Rightarrow> bool" where
  "provisions dir te req fp pid result \<longleftrightarrow>
    (\<exists>desc b. requested_fixture req = Ok (desc, b) \<and> request_fingerprint te desc b = Ok fp \<and>
      plugin_starts (te_plugin te) b (plugin_socket_path dir (te_socket_uuid te)) (startup_timeout desc) pid \<and>
      (\<exists>d. env_describe_plugin (te_plugin te) Empty = Some (Ok d)) \<and>
      create_fixture (te_plugin te) (make_create_request desc req (te_fixture_uuid te)) = Some (Ok result))"

lemma can_start:
  assumes "requested_fixture req = Ok (desc, b)" "request_fingerprint te desc b = Ok fp"
    and "try_reuse fp (tlq_client_id req) (te_lease_uuid te) (sv_state c) = None" "sv_tasks c t = None"
  obtains c' where "service_step dir c (Started t fp) c'" "sv_state c' = sv_state c" "sv_live c' = sv_live c"
    "sv_tasks c' = (sv_tasks c)(t \<mapsto> task te req desc b fp Starting)"
  using that [OF task_start [OF assms]] by simp

lemma can_spawn:
  assumes "sv_tasks c t = Some (task te req desc b fp Starting)"
    and "plugin_starts (te_plugin te) b (plugin_socket_path dir (te_socket_uuid te)) (startup_timeout desc) pid"
    and "pid \<notin> sv_live c"
  obtains c' where "service_step dir c (Spawned t pid) c'" "sv_state c' = sv_state c"
    "sv_live c' = insert pid (sv_live c)"
    "sv_tasks c' = (sv_tasks c)(t \<mapsto> task te req desc b fp (Connecting pid))"
  using that [OF service_step.spawned [OF assms(1), of dir pid]] plugin_starts_child [OF assms(2)] assms(3) by simp

lemma can_connect:
  assumes "sv_tasks c t = Some (task te req desc b fp (Connecting pid))"
    and "plugin_starts (te_plugin te) b (plugin_socket_path dir (te_socket_uuid te)) (startup_timeout desc) pid"
  obtains c' p where "service_step dir c (PluginConnected t) c'" "sv_state c' = sv_state c"
    "sv_live c' = sv_live c" "pp_child p = pid"
    "sv_tasks c' = (sv_tasks c)(t \<mapsto> task te req desc b fp (Connected p))"
proof -
  let ?p = "\<lparr>pp_child = pid, pp_client = Channel (plugin_socket_path dir (te_socket_uuid te))\<rparr>"
  obtain n where "connect_child (te_plugin te) pid (plugin_socket_path dir (te_socket_uuid te)) (startup_timeout desc)
      (sv_trace c) = Some (Return ?p, sv_trace c @ replicate n (Sleep retry_interval))"
    using plugin_starts_connects [OF assms(2)] by metis
  then have "service_step dir c (PluginConnected t) (c\<lparr>sv_trace := sv_trace c @ replicate n (Sleep retry_interval),
      sv_tasks := (sv_tasks c)(t \<mapsto> task te req desc b fp (Connected ?p))\<rparr>)"
    using service_step.connected [OF assms(1), of pid dir ?p] by simp
  then show thesis by (rule that [where p = ?p]) simp_all
qed

lemma can_commit:
  assumes "sv_tasks c t = Some (task te req desc b fp (Connected p))"
    and "env_describe_plugin (te_plugin te) Empty = Some (Ok d)"
    and "create_fixture (te_plugin te) (make_create_request desc req (te_fixture_uuid te)) = Some (Ok result)"
    and "hash_get (st_leases (sv_state c)) (LeaseId (te_lease_uuid te)) = None"
  obtains c' resp where "service_step dir c
      (if holders (sv_state c) fp = 0
       then Committed t (tlq_client_id req) (fd_sharing desc) fp (LeaseId (te_lease_uuid te))
       else Overwrote t (tlq_client_id req) (fd_sharing desc) fp (LeaseId (te_lease_uuid te))) c'"
    "commit_fixture fp (new_record desc (tlq_client_id req) p result) (te_lease_uuid te) (sv_state c, sv_trace c) =
      (resp, sv_state c', sv_trace c')"
    "sv_tasks c' = (sv_tasks c)(t := None)"
proof -
  have pr: "provision_plugin te req desc p (sv_trace c) = Some (Return (p, result), sv_trace c)"
    using assms(2,3) by (simp add: provision_plugin_Return)
  obtain resp s' w' where "commit_fixture fp (new_record desc (tlq_client_id req) p result) (te_lease_uuid te)
      (sv_state c, sv_trace c) = (resp, s', w')" by (rule prod_cases3)
  then show thesis
    using service_step.commit [OF assms(1), of p p result "sv_trace c" resp s' w' dir] pr assms(4)
    by (intro that [where c' = "c\<lparr>sv_state := s', sv_trace := w', sv_tasks := (sv_tasks c)(t := None)\<rparr>"])
      (simp_all cong: if_cong)
qed

text \<open>Two requests for the same fingerprint, neither of which finds anything to reuse.\<close>

lemma both_connect:
  assumes none: "\<And>cl u. try_reuse fp cl u (sv_state c) = None"
    and a: "requested_fixture req = Ok (desc, b)" "request_fingerprint te desc b = Ok fp"
      "plugin_starts (te_plugin te) b (plugin_socket_path dir (te_socket_uuid te)) (startup_timeout desc) pid"
    and a': "requested_fixture req' = Ok (desc', b')" "request_fingerprint te' desc' b' = Ok fp"
      "plugin_starts (te_plugin te') b' (plugin_socket_path dir (te_socket_uuid te')) (startup_timeout desc') pid'"
    and free: "t \<noteq> t'" "sv_tasks c t = None" "sv_tasks c t' = None"
    and pids: "pid \<noteq> pid'" "pid \<notin> sv_live c" "pid' \<notin> sv_live c"
  obtains c6 p p' where "run (service_step dir) c
      [Started t fp, Started t' fp, Spawned t pid, Spawned t' pid', PluginConnected t, PluginConnected t'] c6"
    "sv_state c6 = sv_state c" "sv_live c6 = insert pid' (insert pid (sv_live c))" "pp_child p = pid" "pp_child p' = pid'"
    "sv_tasks c6 t = Some (task te req desc b fp (Connected p))"
    "sv_tasks c6 t' = Some (task te' req' desc' b' fp (Connected p'))"
proof -
  obtain c1 where c1: "service_step dir c (Started t fp) c1" "sv_state c1 = sv_state c" "sv_live c1 = sv_live c"
    "sv_tasks c1 = (sv_tasks c)(t \<mapsto> task te req desc b fp Starting)"
    using can_start [OF a(1,2) none free(2)] .
  obtain c2 where c2: "service_step dir c1 (Started t' fp) c2" "sv_state c2 = sv_state c" "sv_live c2 = sv_live c"
    "sv_tasks c2 = (sv_tasks c1)(t' \<mapsto> task te' req' desc' b' fp Starting)"
    using can_start [OF a'(1,2), of c1 t' dir] none free(1,3) c1 by auto
  obtain c3 where c3: "service_step dir c2 (Spawned t pid) c3" "sv_state c3 = sv_state c"
    "sv_live c3 = insert pid (sv_live c)" "sv_tasks c3 = (sv_tasks c2)(t \<mapsto> task te req desc b fp (Connecting pid))"
    using can_spawn [OF _ a(3), of c2 t req fp] c1 c2 free(1) pids(2) by auto
  obtain c4 where c4: "service_step dir c3 (Spawned t' pid') c4" "sv_state c4 = sv_state c"
    "sv_live c4 = insert pid' (insert pid (sv_live c))"
    "sv_tasks c4 = (sv_tasks c3)(t' \<mapsto> task te' req' desc' b' fp (Connecting pid'))"
    using can_spawn [OF _ a'(3), of c3 t' req' fp] c2 c3 free(1) pids by auto
  obtain c5 p where c5: "service_step dir c4 (PluginConnected t) c5" "sv_state c5 = sv_state c" "sv_live c5 = sv_live c4"
    "pp_child p = pid" "sv_tasks c5 = (sv_tasks c4)(t \<mapsto> task te req desc b fp (Connected p))"
    using can_connect [OF _ a(3), of c4 t req fp] c3 c4 free(1) by auto
  obtain c6 p' where c6: "service_step dir c5 (PluginConnected t') c6" "sv_state c6 = sv_state c" "sv_live c6 = sv_live c4"
    "pp_child p' = pid'" "sv_tasks c6 = (sv_tasks c5)(t' \<mapsto> task te' req' desc' b' fp (Connected p'))"
    using can_connect [OF _ a'(3), of c5 t' req' fp] c4 c5 free(1) by auto
  have "run (service_step dir) c
      [Started t fp, Started t' fp, Spawned t pid, Spawned t' pid', PluginConnected t, PluginConnected t'] c6"
    using c1(1) c2(1) c3(1) c4(1) c5(1) c6(1) by (blast intro: run.intros)
  then show thesis by (rule that [where p = p and p' = p']) (use c4(3) c5 c6 free(1) in simp_all)
qed

section \<open>A concrete run\<close>

text \<open>Client A takes the first lease on the demonstration fixture, step by step.\<close>

definition demo_service :: "UseScope \<Rightarrow> i64 \<Rightarrow> Service" where
  "demo_service sc n = \<lparr>sv_state = demo_state sc n, sv_trace = demo_trace 1, sv_tasks = (\<lambda>_. None)\<rparr>"

definition demo_sharing :: "UseScope \<Rightarrow> i64 \<Rightarrow> Sharing" where
  "demo_sharing sc n = \<lparr>s_maximum_concurrent_connections = n, s_use_scope = Some sc\<rparr>"

definition demo_events :: "UseScope \<Rightarrow> i64 \<Rightarrow> event list" where
  "demo_events sc n = [Started 0 demo_fp, Spawned 0 1, PluginConnected 0,
    Committed 0 ''A'' (Some (demo_sharing sc n)) demo_fp (LeaseId ''a'')]"

lemma demo_provisions:
  "provisions demo_dir (demo_env u pid outs) (demo_request cl (demo_desc sc n)) demo_fp pid (demo_result outs)"
proof -
  have "plugin_starts (te_plugin (demo_env u pid outs)) ''/plugin'' s (startup_timeout (demo_desc sc n)) pid" for s
    using demo_starts [of pid outs] by (simp add: demo_env_def startup_timeout_def demo_desc_def)
  moreover have "\<exists>d. env_describe_plugin (te_plugin (demo_env u pid outs)) Empty = Some (Ok d)"
    by (simp add: demo_env_def demo_plugin_def)
  moreover have "create_fixture (te_plugin (demo_env u pid outs)) q = Some (Ok (demo_result outs))" for q
    by (simp add: demo_env_def demo_creates)
  ultimately show ?thesis
    unfolding provisions_def using demo_requested demo_fingerprint by blast
qed

lemma demo_run: "run (service_step demo_dir) Service_init (demo_events sc n) (demo_service sc n)"
proof -
  let ?te = "demo_env ''a'' 1 []" and ?d = "demo_desc sc n" and ?s = "plugin_socket_path demo_dir ''0123456789abcdef''"
  let ?k = "task ?te (demo_request ''A'' ?d) ?d ''/plugin'' demo_fp"
  let ?at = "\<lambda>w st. \<lparr>sv_state = State_default, sv_trace = w, sv_tasks = [0 \<mapsto> ?k st]\<rparr>"
  have te: "te_plugin (demo_env u pid outs) = demo_plugin pid outs" "te_lease_uuid (demo_env u pid outs) = u"
    "te_socket_uuid (demo_env u pid outs) = ''0123456789abcdef''" for u pid outs
    by (simp_all add: demo_env_def)
  have timeout: "startup_timeout ?d = 300000" by (simp add: startup_timeout_def demo_desc_def)
  have "service_step demo_dir Service_init (Started 0 demo_fp) (?at [] Starting)"
    using task_start [OF demo_requested [of "''A''" sc n] demo_fingerprint [of "''a''" 1 "[]"], of Service_init 0 demo_dir]
    by (simp add: Service_init_def)
  moreover have "service_step demo_dir (?at [] Starting) (Spawned 0 1) (?at (demo_trace 1) (Connecting 1))"
    using service_step.spawned [of "?at [] Starting" 0 "?k Starting" demo_dir 1 "demo_trace 1"]
      plugin_starts_child [OF demo_starts [of 1 "[]" "''/plugin''" ?s], of "[]"]
    by (simp add: te demo_trace_def)
  moreover have "service_step demo_dir (?at (demo_trace 1) (Connecting 1)) (PluginConnected 0)
      (?at (demo_trace 1) (Connected (demo_process 1)))"
    using service_step.connected [of "?at (demo_trace 1) (Connecting 1)" 0 "?k (Connecting 1)" 1 demo_dir
        "demo_process 1" "demo_trace 1"]
    by (simp add: te timeout connect_child_def io_bind_def io_return_def demo_connects demo_process_def)
  moreover have "service_step demo_dir (?at (demo_trace 1) (Connected (demo_process 1)))
      (Committed 0 ''A'' (Some (demo_sharing sc n)) demo_fp (LeaseId ''a'')) (demo_service sc n)"
  proof -
    have pr: "provision_plugin ?te (demo_request ''A'' ?d) ?d (demo_process 1) (demo_trace 1) =
        Some (Return (demo_process 1, demo_result []), demo_trace 1)"
      by (simp add: provision_plugin_Return te demo_creates) (simp add: demo_plugin_def)
    have "holders State_default demo_fp = 0" by (simp add: holders_def State_default_def)
    then show ?thesis
      using service_step.commit [of "?at (demo_trace 1) (Connected (demo_process 1))" 0 "?k (Connected (demo_process 1))"
          "demo_process 1" "demo_process 1" "demo_result []" "demo_trace 1" _ "demo_state sc n" "demo_trace 1" demo_dir]
        pr demo_commit [of sc n "demo_trace 1"]
      by (simp add: te demo_request_def demo_record_def State_default_def demo_service_def demo_sharing_def)
        (simp add: demo_desc_def)
  qed
  ultimately show ?thesis unfolding demo_events_def by (blast intro: run.intros)
qed

lemma demo_live: "sv_live (demo_service sc n) = {1}"
  using live_append [of "[]" "demo_trace 1"] by (simp add: demo_service_def demo_trace_def)

text \<open>The same run, continued by a second client that is attached.\<close>

lemma demo_attached:
  obtains c where "run (service_step demo_dir) (demo_service (Unrestricted Empty) 10)
    [Attached ''B'' (LeaseId ''b'') demo_fp] c"
proof -
  obtain resp s' where r: "try_reuse demo_fp ''B'' ''b'' (demo_state (Unrestricted Empty) 10) = Some (resp, s')"
    using demo_reuses by blast
  have b: "te_lease_uuid (demo_env ''b'' 2 []) = ''b''" "tlq_client_id (demo_request ''B'' d) = ''B''" for d
    by (simp_all add: demo_env_def demo_request_def)
  have "service_step demo_dir (demo_service (Unrestricted Empty) 10) (Attached ''B'' (LeaseId ''b'') demo_fp)
      ((demo_service (Unrestricted Empty) 10)\<lparr>sv_state := s'\<rparr>)"
    using service_step.attach [OF demo_requested [of "''B''" "Unrestricted Empty" 10] demo_fingerprint [of "''b''" 2 "[]"],
        of "demo_service (Unrestricted Empty) 10" resp s' demo_dir] r
    by (simp add: b demo_service_def)
  from that [OF run_single [of "service_step demo_dir", OF this]] show thesis .
qed

section \<open>Properties\<close>

text \<open>
  C1. Safety under every interleaving: in every configuration the service can reach, each live
  lease is routed to a cached fixture, each fixture's used slots lie between zero and its
  limit and are backed by live leases, and each cached fixture owns a plugin process of its
  own: one whose process id is still in use, which the coordinator has neither killed nor seen exit.
  A plugin that crashes while its fixture is cached is not noticed and counts as owned.
\<close>

theorem service_safe:
  assumes "run (service_step dir) Service_init es c"
  shows "state_inv (sv_state c) \<and> owned (sv_state c) \<subseteq> sv_live c \<and> map_inj (child_of (sv_state c))"
proof -
  have inv: "service_inv c"
    using service.run_keeps [OF assms _ Service_init_inv] by (simp add: list_all_iff)
  have "child_of (sv_state c) fp = claims c (Inl fp)" for fp by (simp add: claims_def)
  then show ?thesis
    using inv by (auto simp: service_inv_def owned_def map_inj_def ran_def)
qed

theorem service_safe_witness:
  "run (service_step demo_dir) Service_init (demo_events (SingleUse Empty) 1) (demo_service (SingleUse Empty) 1) \<and>
    state_inv (sv_state (demo_service (SingleUse Empty) 1)) \<and>
    owned (sv_state (demo_service (SingleUse Empty) 1)) \<subseteq> {1}"
  using service_safe [OF demo_run [of "SingleUse Empty" 1]] demo_run [of "SingleUse Empty" 1] demo_live by simp

text \<open>
  C2. Capacity: as long as no new fixture overwrites one that still has leases, a fixture is
  never shared by more leases than its policy allows, and its slot count is exactly the
  number of leases on it, under every interleaving.
\<close>

theorem capacity_respected:
  assumes "run (service_step dir) Service_init es c" "list_all (\<lambda>e. \<not> overwrites e) es"
    and "hash_get (st_fixtures (sv_state c)) fp = Some r"
  shows "sint (fx_used_slots r) = int (holders (sv_state c) fp) \<and>
    int (holders (sv_state c) fp) \<le> max (sint (s_maximum_concurrent_connections (fx_sharing r))) 1"
proof -
  have "exact_inv Service_init"
    using Service_init_inv State_default_inv by (simp add: exact_inv_def Service_init_def)
  from exact.run_keeps [OF assms(1,2) this] have inv: "exact_inv c" .
  then have "sint (fx_used_slots r) = int (holders (sv_state c) fp)"
    using assms(3) by (simp add: exact_inv_def exact_slots_def)
  moreover have "sint (fx_used_slots r) \<le> sint (max_slots r)"
    using inv slotsD(2) [OF _ assms(3)] by (simp add: exact_inv_def service_inv_def)
  ultimately show ?thesis by (simp add: max_slots_def)
qed

theorem capacity_respected_witness:
  "int (holders (demo_state (Unrestricted Empty) 10) demo_fp) \<le> 10 \<and>
   sint (fx_used_slots (demo_record (Unrestricted Empty) 10)) = int (holders (demo_state (Unrestricted Empty) 10) demo_fp)"
  using capacity_respected [OF demo_run [of "Unrestricted Empty" 10], of demo_fp "demo_record (Unrestricted Empty) 10"]
  by (simp add: demo_service_def demo_record_def demo_desc_def demo_events_def)

text \<open>
  C31. Two first requests for the same fixture that overlap both provision it. Take any reachable
  configuration in which nothing is cached under a fingerprint, and any two requests for it,
  whatever their clients and whatever sharing they ask for, whose plugins start and create the
  fixture. There is a run in which neither finds anything to reuse, both are granted a lease, and
  the second fixture replaces the first: the child of the first is killed under its live lease,
  \<open>Status\<close> answers the first lease with the outputs of the second fixture, and one slot is counted
  for two leases.
\<close>

theorem concurrent_first_takes_collide:
  assumes reach: "run (service_step dir) Service_init es c"
    and uncached: "hash_get (st_fixtures (sv_state c)) fp = None"
    and free: "t \<noteq> t'" "sv_tasks c t = None" "sv_tasks c t' = None"
    and first: "provisions dir te req fp pid result" and second: "provisions dir te' req' fp pid' result'"
    and pids: "pid \<noteq> pid'" "pid \<notin> sv_live c" "pid' \<notin> sv_live c"
    and ids: "te_lease_uuid te \<noteq> te_lease_uuid te'"
      "hash_get (st_leases (sv_state c)) (LeaseId (te_lease_uuid te)) = None"
      "hash_get (st_leases (sv_state c)) (LeaseId (te_lease_uuid te')) = None"
  shows "\<exists>c' r. run (service_step dir) c
      [Started t fp, Started t' fp, Spawned t pid, Spawned t' pid', PluginConnected t, PluginConnected t',
       Committed t (tlq_client_id req) (Option.bind (tlq_fixture req) fd_sharing) fp (LeaseId (te_lease_uuid te)),
       Overwrote t' (tlq_client_id req') (Option.bind (tlq_fixture req') fd_sharing) fp (LeaseId (te_lease_uuid te'))]
      c' \<and>
    sv_live c' = insert pid' (sv_live c) \<and>
    lease_set (sv_state c') fp = {LeaseId (te_lease_uuid te), LeaseId (te_lease_uuid te')} \<and>
    hash_get (st_fixtures (sv_state c')) fp = Some r \<and> fx_used_slots r = 1 \<and> pp_child (fx_plugin r) = pid' \<and>
    status \<lparr>sq_lease_id = te_lease_uuid te\<rparr> (sv_state c') =
      Ok \<lparr>sr_status = LeaseStatus_as_i32 Succeeded, sr_outputs = fr_outputs result', sr_messages = []\<rparr>"
proof -
  from first obtain desc b d where a: "requested_fixture req = Ok (desc, b)" "request_fingerprint te desc b = Ok fp"
    "plugin_starts (te_plugin te) b (plugin_socket_path dir (te_socket_uuid te)) (startup_timeout desc) pid"
    "env_describe_plugin (te_plugin te) Empty = Some (Ok d)"
    "create_fixture (te_plugin te) (make_create_request desc req (te_fixture_uuid te)) = Some (Ok result)"
    unfolding provisions_def by blast
  from second obtain desc' b' d' where a': "requested_fixture req' = Ok (desc', b')" "request_fingerprint te' desc' b' = Ok fp"
    "plugin_starts (te_plugin te') b' (plugin_socket_path dir (te_socket_uuid te')) (startup_timeout desc') pid'"
    "env_describe_plugin (te_plugin te') Empty = Some (Ok d')"
    "create_fixture (te_plugin te') (make_create_request desc' req' (te_fixture_uuid te')) = Some (Ok result')"
    unfolding provisions_def by blast
  have sh: "fd_sharing desc = Option.bind (tlq_fixture req) fd_sharing"
    "fd_sharing desc' = Option.bind (tlq_fixture req') fd_sharing"
    using a(1) a'(1) by (simp_all add: requested_fixture_Ok)
  have inv: "state_inv (sv_state c)" "hash_ok (st_leases (sv_state c))"
    using service.run_keeps [OF reach _ Service_init_inv] by (simp_all add: service_inv_def state_inv_def list_all_iff)
  have empty: "lease_set (sv_state c) fp = {}"
    using leases_routedD [OF inv(1)] uncached by (fastforce simp: lease_set_def)
  then have zero: "holders (sv_state c) fp = 0" using card_lease_set [of "sv_state c" fp] by simp
  have none: "try_reuse fp cl u (sv_state c) = None" for cl u using uncached by (simp add: try_reuse_def)
  obtain c6 p p' where c6: "run (service_step dir) c
      [Started t fp, Started t' fp, Spawned t pid, Spawned t' pid', PluginConnected t, PluginConnected t'] c6"
    "sv_state c6 = sv_state c" "sv_live c6 = insert pid' (insert pid (sv_live c))" "pp_child p = pid" "pp_child p' = pid'"
    "sv_tasks c6 t = Some (task te req desc b fp (Connected p))"
    "sv_tasks c6 t' = Some (task te' req' desc' b' fp (Connected p'))"
    by (rule both_connect [OF none a(1-3) a'(1-3) free pids])
  obtain c7 resp where c7: "service_step dir c6
      (Committed t (tlq_client_id req) (fd_sharing desc) fp (LeaseId (te_lease_uuid te))) c7"
    "commit_fixture fp (new_record desc (tlq_client_id req) p result) (te_lease_uuid te) (sv_state c, sv_trace c6) =
      (resp, sv_state c7, sv_trace c7)" "sv_tasks c7 = (sv_tasks c6)(t := None)"
    using can_commit [OF c6(6) a(4,5), of dir] c6(2) ids(2) zero by auto
  note eqs = commit_fixture_eqs [OF c7(2)]
  have one: "holders (sv_state c7) fp = 1"
    using holders_insert_lease [OF inv(2) ids(2) eqs(2)] zero by simp
  have k7: "sv_tasks c7 t' = Some (task te' req' desc' b' fp (Connected p'))" using c6(7) c7(3) free(1) by simp
  have new: "hash_get (st_leases (sv_state c7)) (LeaseId (te_lease_uuid te')) = None" using ids by (simp add: eqs(2))
  obtain c8 resp' where c8: "service_step dir c7
      (Overwrote t' (tlq_client_id req') (fd_sharing desc') fp (LeaseId (te_lease_uuid te'))) c8"
    "commit_fixture fp (new_record desc' (tlq_client_id req') p' result') (te_lease_uuid te') (sv_state c7, sv_trace c7) =
      (resp', sv_state c8, sv_trace c8)"
    by (rule can_commit [OF k7 a'(4,5) new, of dir]) (simp add: one)
  note eqs' = commit_fixture_eqs [OF c8(2)]
  have "run (service_step dir) c
      [Started t fp, Started t' fp, Spawned t pid, Spawned t' pid', PluginConnected t, PluginConnected t',
       Committed t (tlq_client_id req) (fd_sharing desc) fp (LeaseId (te_lease_uuid te)),
       Overwrote t' (tlq_client_id req') (fd_sharing desc') fp (LeaseId (te_lease_uuid te'))] c8"
    using run_append [OF c6(1) run_Cons [where step = "service_step dir", OF c7(1) run_single
          [where step = "service_step dir", OF c8(1)]]] by simp
  moreover have "sv_live c8 = insert pid' (sv_live c)"
    using pids by (auto simp: eqs' eqs uncached c6(3,4))
  moreover have "lease_set (sv_state c8) fp = {LeaseId (te_lease_uuid te), LeaseId (te_lease_uuid te')}"
    using lease_set_insert [OF ids(2) eqs(2), of fp] lease_set_insert [OF _ eqs'(2), of fp] ids empty by (auto simp: eqs)
  moreover have "status \<lparr>sq_lease_id = te_lease_uuid te\<rparr> (sv_state c8) =
      Ok \<lparr>sr_status = LeaseStatus_as_i32 Succeeded, sr_outputs = fr_outputs result', sr_messages = []\<rparr>"
    using ids(1) by (simp add: status_def LeaseId_from_def eqs' eqs)
  ultimately show ?thesis unfolding sh by (intro exI [of _ c8]) (simp add: eqs' c6(5))
qed

theorem concurrent_first_takes_collide_witness:
  "\<exists>c'. status \<lparr>sq_lease_id = ''a''\<rparr> (sv_state c') =
      Ok \<lparr>sr_status = LeaseStatus_as_i32 Succeeded, sr_outputs = [(''k'', \<lparr>v_value = None\<rparr>)], sr_messages = []\<rparr> \<and>
    sv_live c' = {2} \<and> lease_set (sv_state c') demo_fp = {LeaseId ''a'', LeaseId ''b''}"
proof -
  have "te_lease_uuid (demo_env u pid outs) = u" for u pid outs by (simp add: demo_env_def)
  with concurrent_first_takes_collide [OF run_Nil [of "service_step demo_dir" Service_init], of demo_fp 0 1
      "demo_env ''a'' 1 []" "demo_request ''A'' (demo_desc (Unrestricted Empty) 10)" 1 "demo_result []"
      "demo_env ''b'' 2 [(''k'', \<lparr>v_value = None\<rparr>)]" "demo_request ''B'' (demo_desc (SingleUse Empty) 1)" 2
      "demo_result [(''k'', \<lparr>v_value = None\<rparr>)]"] demo_provisions
  show ?thesis by (fastforce simp: Service_init_def State_default_def demo_result_def)
qed

text \<open>
  C34. Nothing expires: on every run, a cached fixture stays cached (possibly replaced by a newer
  one under the same fingerprint), and a lease stays live and routed to the same fingerprint
  until it is released. Neither an idle timeout nor a lease's time to live removes anything.
\<close>

theorem nothing_expires:
  assumes "run (service_step dir) c es c'"
  shows "(hash_get (st_fixtures (sv_state c)) fp \<noteq> None \<longrightarrow> hash_get (st_fixtures (sv_state c')) fp \<noteq> None) \<and>
    (hash_get (st_leases (sv_state c)) l = Some r \<and> Released l \<notin> set es \<longrightarrow>
      hash_get (st_leases (sv_state c')) l = Some r)"
  using assms
proof (induction rule: run.induct)
  case (run_Cons s e s' es s'')
  have "hash_get (st_fixtures (sv_state s)) fp \<noteq> None \<Longrightarrow> hash_get (st_fixtures (sv_state s')) fp \<noteq> None"
    "hash_get (st_leases (sv_state s)) l = Some r \<Longrightarrow> e \<noteq> Released l \<Longrightarrow>
      hash_get (st_leases (sv_state s')) l = Some r"
    using service_step_keeps [OF run_Cons(1)] by blast+
  with run_Cons.IH show ?case by auto
qed simp

theorem nothing_expires_witness:
  "\<exists>c'. run (service_step demo_dir) (demo_service (Unrestricted Empty) 10) [Attached ''B'' (LeaseId ''b'') demo_fp] c' \<and>
    hash_get (st_leases (sv_state c')) (LeaseId ''a'') = Some \<lparr>lr_fingerprint = demo_fp\<rparr>"
proof -
  obtain c where c: "run (service_step demo_dir) (demo_service (Unrestricted Empty) 10)
      [Attached ''B'' (LeaseId ''b'') demo_fp] c" by (rule demo_attached)
  from nothing_expires [OF c, of demo_fp "LeaseId ''a''" "\<lparr>lr_fingerprint = demo_fp\<rparr>"] c show ?thesis
    by (auto simp: demo_service_def)
qed

end
