(* ===== verification/Allocator.thy ===== *)
theory Allocator
  imports Service
begin

text \<open>
  The service as an allocator. The contract of \<^verbatim>\<open>DESIGN.md\<close> is a transition system on fixtures
  that know their leases; the interleaved service of \<^verbatim>\<open>src/coordinator/src/coordinator.rs\<close> is
  simulated by it as long as no fixture with leases is overwritten. Which client holds a lease
  and what a lease shows is proved on the contract and carried over to the code. The last part
  accounts for the processes, overwriting or not.
\<close>

section \<open>The contract as a transition system\<close>

text \<open>
  Attaching follows the reuse rule. Creating gives the fixture the policy that was asked for, a
  fixture private to its creator with one connection when none was; it happens where no fixture is
  cached, or one that no lease holds and that may be collected. The parameter \<open>slots\<close> says how many
  connections a policy allows.
\<close>

datatype alloc_event =
    Attach string LeaseId FixtureFingerprint
  | Create string "Sharing option" LeaseId FixtureFingerprint
  | Release LeaseId

definition requested_scope :: "Sharing option \<Rightarrow> reuse_scope" where
  "requested_scope sh = (case sh of None \<Rightarrow> SameClient | Some sh \<Rightarrow> design_scope sh)"

definition requested_slots :: "(Sharing \<Rightarrow> int) \<Rightarrow> Sharing option \<Rightarrow> int" where
  "requested_slots slots sh = (case sh of None \<Rightarrow> 1 | Some sh \<Rightarrow> slots sh)"

definition unused :: "LeaseId \<Rightarrow> abs_state \<Rightarrow> bool" where
  "unused l A \<longleftrightarrow> (\<forall>fp f. A fp = Some f \<longrightarrow> l \<notin> af_leases f)"

inductive alloc_step :: "(Sharing \<Rightarrow> int) \<Rightarrow> abs_state \<Rightarrow> alloc_event \<Rightarrow> abs_state \<Rightarrow> bool" for slots where
  attach: "alloc_step slots A (Attach cl l fp) A'"
    if "unused l A" and "spec_attach fp cl l A = Some A'"
| create: "alloc_step slots A (Create cl sh l fp) (spec_create fp f l A)"
    if "unused l A" and "pred_option (\<lambda>f. af_leases f = {}) (A fp)" and "af_creator f = cl"
      and "af_scope f = requested_scope sh" and "af_limit f = requested_slots slots sh"
| release: "alloc_step slots A (Release l) (spec_release l A)"

inductive_cases alloc_attachE: "alloc_step slots A (Attach cl l fp) A'"
inductive_cases alloc_createE: "alloc_step slots A (Create cl sh l fp) A'"
inductive_cases alloc_releaseE: "alloc_step slots A (Release l) A'"

lemma spec_attach_SomeD:
  "spec_attach fp cl l A = Some A' \<Longrightarrow>
    \<exists>f. A fp = Some f \<and> spec_admits f cl \<and> A' = A(fp \<mapsto> f\<lparr>af_leases := insert l (af_leases f)\<rparr>)"
  by (auto simp: spec_attach_def split: option.splits if_splits)

text \<open>A lease keeps its fixture, whole, until it is released.\<close>

definition holds_in :: "LeaseId \<Rightarrow> FixtureFingerprint \<Rightarrow> abs_fixture \<Rightarrow> abs_state \<Rightarrow> bool" where
  "holds_in l fp g A \<longleftrightarrow>
    (\<exists>f. A fp = Some f \<and> l \<in> af_leases f \<and> af_outputs f = af_outputs g \<and> af_scope f = af_scope g \<and>
      af_limit f = af_limit g \<and> af_creator f = af_creator g)"

lemma alloc_step_holds:
  assumes "alloc_step slots A e A'" "holds_in l fp g A" "e \<noteq> Release l"
  shows "holds_in l fp g A'"
  using assms
proof (induction rule: alloc_step.induct)
  case (attach l' A fp' cl A')
  then show ?case by (auto simp: holds_in_def dest!: spec_attach_SomeD)
next
  case (create l' A fp' f cl sh)
  then show ?case by (auto simp: holds_in_def spec_create_def)
next
  case (release A l')
  then show ?case by (auto simp: holds_in_def spec_release_def)
qed

interpretation held: inductive_invariant "alloc_step slots" "\<lambda>e. e \<noteq> Release l" "holds_in l fp g"
  by unfold_locales (rule alloc_step_holds)

section \<open>Who holds a lease\<close>

fun note_owner :: "alloc_event \<Rightarrow> (LeaseId \<rightharpoonup> string) \<Rightarrow> LeaseId \<rightharpoonup> string" where
  "note_owner (Attach cl l fp) m = m(l \<mapsto> cl)"
| "note_owner (Create cl sh l fp) m = m(l \<mapsto> cl)"
| "note_owner (Release l) m = m"

definition owner :: "alloc_event list \<Rightarrow> LeaseId \<rightharpoonup> string" where
  "owner es = fold note_owner es Map.empty"

lemma owner_snoc [simp]: "owner (es @ [e]) = note_owner e (owner es)"
  by (simp add: owner_def)

definition shared_with_all :: "Sharing \<Rightarrow> bool" where
  "shared_with_all sharing = (case s_use_scope sharing of Some (Unrestricted _) \<Rightarrow> True | _ \<Rightarrow> False)"

lemma shared_with_all_design: "shared_with_all sh \<longleftrightarrow> design_scope sh = AnyClient"
  by (auto simp: shared_with_all_def design_scope_def split: option.splits UseScope.splits)

lemma scope_admits_creator: "scope \<noteq> AnyClient \<Longrightarrow> scope_admits scope creator client \<Longrightarrow> client = creator"
  by (cases scope) auto

definition isolated :: "alloc_event list \<Rightarrow> abs_state \<Rightarrow> bool" where
  "isolated es A \<longleftrightarrow>
    (\<forall>fp f l. A fp = Some f \<and> af_scope f \<noteq> AnyClient \<and> l \<in> af_leases f \<longrightarrow>
      owner es l = Some (af_creator f))"

lemma alloc_step_isolated:
  assumes "isolated es A" "alloc_step slots A e A'"
  shows "isolated (es @ [e]) A'"
  using assms(2,1)
proof (induction rule: alloc_step.induct)
  case (attach l A fp cl A')
  then obtain f where "A fp = Some f" "A' = A(fp \<mapsto> f\<lparr>af_leases := insert l (af_leases f)\<rparr>)"
    and adm: "scope_admits (af_scope f) (af_creator f) cl"
    by (auto simp: spec_admits_def dest!: spec_attach_SomeD)
  with attach scope_admits_creator [OF _ adm] show ?case
    by (auto simp: isolated_def unused_def split: if_splits)
next
  case (create l A fp f cl sh)
  then show ?case by (auto simp: isolated_def unused_def spec_create_def split: if_splits)
next
  case (release A l)
  then show ?case by (auto simp: isolated_def spec_release_def)
qed

interpretation isolation: history_invariant "alloc_step slots" isolated
  by unfold_locales (rule alloc_step_isolated)

section \<open>The service is simulated\<close>

fun alloc_label :: "event \<Rightarrow> alloc_event option" where
  "alloc_label (Attached cl l fp) = Some (Attach cl l fp)"
| "alloc_label (Committed t cl sh fp l) = Some (Create cl sh l fp)"
| "alloc_label (Overwrote t cl sh fp l) = Some (Create cl sh l fp)"
| "alloc_label (Released l) = Some (Release l)"
| "alloc_label _ = None"

abbreviation alloc_of :: "(Sharing \<Rightarrow> int) \<Rightarrow> Service \<Rightarrow> abs_state" where
  "alloc_of slots c \<equiv> abs_of slots (sv_state c)"

text \<open>
  The runs that a reading of the limits can follow: no fixture with leases is overwritten, and the
  fixtures that are stored have policies on which the reading agrees with the code.
\<close>

fun stores_agreeing :: "(Sharing \<Rightarrow> int) \<Rightarrow> event \<Rightarrow> bool" where
  "stores_agreeing slots (Committed t cl sh fp l) =
    (slots (unwrap_or default_sharing sh) = effective_slots (unwrap_or default_sharing sh))"
| "stores_agreeing slots _ = True"

definition followed :: "(Sharing \<Rightarrow> int) \<Rightarrow> event \<Rightarrow> bool" where
  "followed slots e \<longleftrightarrow> \<not> overwrites e \<and> stores_agreeing slots e"

definition followed_inv :: "(Sharing \<Rightarrow> int) \<Rightarrow> Service \<Rightarrow> bool" where
  "followed_inv slots c \<longleftrightarrow> exact_inv c \<and> (\<forall>fp. limit_agrees slots (sv_state c) fp)"

lemma followed_effective: "followed effective_slots e \<longleftrightarrow> \<not> overwrites e"
  by (cases e) (simp_all add: followed_def)

lemma limit_agrees_insert:
  assumes "limit_agrees slots s f" "st_fixtures s' = hash_insert fp r (st_fixtures s)"
    and "slots (fx_sharing r) = effective_slots (fx_sharing r)"
  shows "limit_agrees slots s' f"
  using assms by (auto simp: limit_agrees_def)

lemma limit_agrees_release:
  assumes "state_inv s" "\<And>f. limit_agrees slots s f"
  shows "limit_agrees slots (snd (release_lease q s)) f"
proof (cases "hash_get (st_leases s) (LeaseId_from (rq_lease_id q))")
  case None
  with assms show ?thesis by (simp add: release_lease_unknown)
next
  case (Some l)
  then obtain r where r: "hash_get (st_fixtures s) (lr_fingerprint l) = Some r"
    "st_fixtures (snd (release_lease q s)) = hash_insert (lr_fingerprint l) (return_slot r) (st_fixtures s)"
    using release_lease_known [OF assms(1)] by metis
  have "slots (fx_sharing r) = effective_slots (fx_sharing r)"
    using assms(2) [of "lr_fingerprint l"] r(1) by (simp add: limit_agrees_def)
  then show ?thesis by (intro limit_agrees_insert [OF assms(2) r(2)]) simp
qed

lemma service_step_agrees:
  assumes "service_step dir c e c'" "followed_inv slots c" "followed slots e"
  shows "limit_agrees slots (sv_state c') f"
  using assms
proof (induction rule: service_step.induct)
  case (attach req desc b te fp c resp s')
  then have agrees: "limit_agrees slots (sv_state c) g" for g by (simp add: followed_inv_def)
  from attach(4) obtain r where r: "hash_get (st_fixtures (sv_state c)) fp = Some r"
    "st_fixtures s' = hash_insert fp (r\<lparr>fx_used_slots := fx_used_slots r + 1\<rparr>) (st_fixtures (sv_state c))"
    by (rule try_reuse_SomeD)
  have "slots (fx_sharing r) = effective_slots (fx_sharing r)"
    using agrees [of fp] r(1) by (simp add: limit_agrees_def)
  then have "limit_agrees slots s' f" by (intro limit_agrees_insert [OF agrees r(2)]) simp
  then show ?case by simp
next
  case (commit c t k p plugin result v resp s' w')
  then have "slots (unwrap_or default_sharing (fd_sharing (tk_desc k))) =
      effective_slots (unwrap_or default_sharing (fd_sharing (tk_desc k)))"
    by (simp add: followed_def split: if_splits)
  then have "limit_agrees slots s' f"
    using commit(6) by (intro limit_agrees_insert [OF _ commit_fixture_eqs(1) [OF commit(5)]])
      (simp_all add: followed_inv_def)
  then show ?case by simp
next
  case (release c q)
  then show ?case
    by (simp add: followed_inv_def exact_inv_def service_inv_def limit_agrees_release)
qed (simp_all add: followed_inv_def)

lemma service_step_followed:
  assumes "service_step dir c e c'" "followed_inv slots c" "followed slots e"
  shows "followed_inv slots c'"
  using assms service_step_agrees [OF assms] service_step_exact [OF assms(1)]
  by (simp add: followed_inv_def followed_def)

lemma unused_abs_of: "hash_get (st_leases s) l = None \<Longrightarrow> unused l (abs_of slots s)"
  by (auto simp: unused_def abs_of_def lease_set_def)

lemma new_record_scope: "design_scope (fx_sharing (new_record d c p r)) = requested_scope (fd_sharing d)"
  by (simp add: requested_scope_def design_scope_def default_sharing_def unwrap_or_def split: option.splits)

lemma new_record_slots:
  assumes "slots (fx_sharing (new_record d c p r)) = effective_slots (fx_sharing (new_record d c p r))"
  shows "slots (fx_sharing (new_record d c p r)) = requested_slots slots (fd_sharing d)"
proof (cases "fd_sharing d")
  case None
  then have "fx_sharing (new_record d c p r) = default_sharing" by (simp add: unwrap_or_def)
  with None assms show ?thesis
    by (simp add: requested_slots_def effective_slots_def declared_slots_def default_sharing_def)
next
  case (Some sh)
  then show ?thesis by (simp add: requested_slots_def unwrap_or_def)
qed

lemma service_step_simulated:
  assumes "service_step dir c e c'" "followed_inv slots c" "followed slots e"
  shows "case alloc_label e of None \<Rightarrow> alloc_of slots c' = alloc_of slots c
    | Some x \<Rightarrow> alloc_step slots (alloc_of slots c) x (alloc_of slots c')"
  using assms
proof (induction rule: service_step.induct)
  case (attach req desc b te fp c resp s')
  then have "spec_attach fp (tlq_client_id req) (LeaseId (te_lease_uuid te)) (alloc_of slots c) = Some (abs_of slots s')"
    using try_reuse_spec [of "sv_state c" "te_lease_uuid te" slots fp "tlq_client_id req"]
    by (simp add: followed_inv_def exact_inv_def service_inv_def)
  then show ?case using attach(3) by (simp add: alloc_step.attach unused_abs_of)
next
  case (commit c t k p plugin result v resp s' w')
  let ?r = "new_record (tk_desc k) (tk_client k) plugin result"
  have h: "holders (sv_state c) (tk_fp k) = 0" and inv: "state_inv (sv_state c)"
    and agree: "slots (fx_sharing ?r) = effective_slots (fx_sharing ?r)"
    using commit(6,7) by (simp_all add: followed_inv_def followed_def exact_inv_def service_inv_def split: if_splits)
  have "lease_set (sv_state c) (tk_fp k) = {}"
    using inv h holders_pos [of "sv_state c"] by (fastforce simp: lease_set_def state_inv_def)
  then have "pred_option (\<lambda>f. af_leases f = {}) (alloc_of slots c (tk_fp k))"
    by (cases "hash_get (st_fixtures (sv_state c)) (tk_fp k)") (simp_all add: abs_of_def)
  then show ?case
    using commit_fixture_spec [OF inv commit(4) h commit(5), of slots] unused_abs_of [OF commit(4)] h
      new_record_slots [of slots, OF agree]
    by (auto simp: new_record_scope simp del: new_record_simps(5) intro!: alloc_step.create)
next
  case (release c q)
  then show ?case
    using release_lease_spec [of "sv_state c" slots q]
    by (auto simp: followed_inv_def exact_inv_def service_inv_def LeaseId_from_def intro: alloc_step.release)
qed simp_all

interpretation allocator: simulation "service_step dir" "followed slots" "followed_inv slots"
  "alloc_step slots" alloc_label "alloc_of slots"
  by unfold_locales (use service_step_followed service_step_simulated in fastforce)+

lemma alloc_of_init: "alloc_of slots Service_init = Map.empty"
  by (rule ext) (simp add: abs_of_def Service_init_def State_default_def)

lemma Service_init_followed: "followed_inv slots Service_init"
  using Service_init_inv State_default_inv
  by (simp add: followed_inv_def exact_inv_def limit_agrees_def Service_init_def State_default_def)

text \<open>The reading of the code follows every run without overwriting.\<close>

lemma followed_run:
  "list_all (\<lambda>e. \<not> overwrites e) es \<Longrightarrow> list_all (followed effective_slots) es"
  by (simp add: list_all_iff followed_effective)

lemma isolated_empty: "isolated [] Map.empty"
  by (simp add: isolated_def)

text \<open>A known lease of the code is a lease of the contract, with the outputs \<open>Status\<close> shows.\<close>

lemma holds_in_status:
  assumes "state_inv s"
  shows "status q s = Ok r \<longleftrightarrow>
    (\<exists>fp f. hash_get (st_leases s) (LeaseId_from (sq_lease_id q)) = Some \<lparr>lr_fingerprint = fp\<rparr> \<and>
      abs_of slots s fp = Some f \<and> r = \<lparr>sr_status = LeaseStatus_as_i32 Succeeded, sr_outputs = af_outputs f, sr_messages = []\<rparr>)"
proof (cases "hash_get (st_leases s) (LeaseId_from (sq_lease_id q))")
  case None
  then show ?thesis by (simp add: status_def result_simps)
next
  case (Some l)
  with leases_routedD [OF assms Some] show ?thesis
    by (cases l) (auto simp: status_def result_simps abs_of_def)
qed

section \<open>Processes\<close>

text \<open>
  The children that are left without an owner: those a failed or cancelled connection has left
  behind, less those that have exited since.
\<close>

definition leaked :: "event list \<Rightarrow> pid set" where
  "leaked es = fold (\<lambda>e K. K \<union> leaves_behind e - reaps e) es {}"

lemma leaked_snoc [simp]: "leaked (es @ [e]) = leaked es \<union> leaves_behind e - reaps e"
  by (simp add: leaked_def)

lemma accounting:
  fixes L :: "'p set"
  assumes "L = R \<union> K" "R \<inter> K = {}" "gone \<subseteq> R" "lb \<subseteq> gone" "new \<inter> L = {}" "rp \<subseteq> L - R"
  shows "L - (gone - lb) - rp \<union> new = (R - gone \<union> new) \<union> (K \<union> lb - rp) \<and>
    (R - gone \<union> new) \<inter> (K \<union> lb - rp) = {}"
  using assms by blast

definition procs_accounted :: "event list \<Rightarrow> Service \<Rightarrow> bool" where
  "procs_accounted es c \<longleftrightarrow>
    service_inv c \<and> sv_live c = ran (claims c) \<union> leaked es \<and> ran (claims c) \<inter> leaked es = {}"

lemma service_step_procs:
  assumes "procs_accounted es c" "service_step dir c e c'"
  shows "procs_accounted (es @ [e]) c'"
proof -
  have inv: "service_inv c" "service_inv c'"
    using assms service_step_inv by (auto simp: procs_accounted_def)
  obtain gone new where ch: "claims_change c e c' gone new"
    using service_step_claims [OF assms(2) inv(1)] by blast
  have "sv_live c = ran (claims c) \<union> leaked es" "ran (claims c) \<inter> leaked es = {}"
    using assms(1) by (simp_all add: procs_accounted_def)
  from accounting [OF this, of gone "leaves_behind e" new "reaps e"] ch inv(2) show ?thesis
    by (simp add: procs_accounted_def claims_change_def)
qed

interpretation procs: history_invariant "service_step dir" procs_accounted
  by unfold_locales (rule service_step_procs)

lemma Service_init_procs: "procs_accounted [] Service_init"
proof -
  have "sv_live Service_init = {}" by (simp add: Service_init_def)
  then show ?thesis using Service_init_inv by (simp add: procs_accounted_def leaked_def claims_init)
qed

text \<open>The processes of the requests in flight.\<close>

definition in_flight :: "Service \<Rightarrow> pid set" where
  "in_flight c = ran (\<lambda>t. Option.bind (sv_tasks c t) (\<lambda>k. stage_child (tk_stage k)))"

lemma ran_sum: "ran m = ran (\<lambda>a. m (Inl a)) \<union> ran (\<lambda>b. m (Inr b))"
proof -
  have "(\<exists>x. m x = Some p) \<longleftrightarrow> (\<exists>a. m (Inl a) = Some p) \<or> (\<exists>b. m (Inr b) = Some p)" for p
    by (metis sum.exhaust)
  then show ?thesis by (auto simp: ran_def)
qed

lemma ran_claims: "ran (claims c) = owned (sv_state c) \<union> in_flight c"
  by (subst ran_sum) (simp add: claims_def owned_def in_flight_def)

section \<open>Properties\<close>

text \<open>
  C3. The service implements the allocator of the design: as long as no fixture with leases is
  overwritten and every stored policy declares at least one connection, every run of the
  interleaved handlers is a run of the contract of \<^verbatim>\<open>DESIGN.md\<close>. In the contract a lease is
  attached only when the scope of the fixture admits the client and fewer leases are attached than
  declared connections, a fixture is created with the policy that was asked for (private to its
  creator by default) and only where no lease is left, and a release takes exactly one lease away.
\<close>

theorem service_refines_allocator:
  assumes "run (service_step dir) Service_init es c" "list_all (\<lambda>e. \<not> overwrites e) es"
    and "\<And>t cl sh fp l. Committed t cl (Some sh) fp l \<in> set es \<Longrightarrow> 1 \<le> sint (s_maximum_concurrent_connections sh)"
  shows "run (alloc_step declared_slots) Map.empty (List.map_filter alloc_label es) (abs_of declared_slots (sv_state c))"
proof -
  have "stores_agreeing declared_slots e" if "e \<in> set es" for e
  proof (cases e)
    case (Committed t cl sh fp l)
    with assms(3) that show ?thesis
      by (cases sh) (auto simp: effective_slots_def declared_slots_def unwrap_or_def default_sharing_def)
  qed simp_all
  with assms(2) have "list_all (followed declared_slots) es" by (simp add: list_all_iff followed_def)
  from allocator.run_simulated [OF assms(1) this Service_init_followed] show ?thesis by (simp add: alloc_of_init)
qed

theorem service_refines_allocator_witness:
  "run (alloc_step declared_slots) Map.empty [Create ''A'' (Some (demo_sharing (SingleUse Empty) 1)) (LeaseId ''a'') demo_fp]
    (abs_of declared_slots (demo_state (SingleUse Empty) 1))"
proof -
  have "list_all (\<lambda>e. \<not> overwrites e) (demo_events (SingleUse Empty) 1)" by (simp add: demo_events_def)
  from service_refines_allocator [OF demo_run [of "SingleUse Empty" 1] this] show ?thesis
    by (simp add: demo_events_def demo_sharing_def map_filter_simps demo_service_def)
qed

text \<open>
  C4. Isolation of clients: as long as no fixture with leases is overwritten, every lease on a
  fixture that is not shared with all clients was granted to the client that created the
  fixture, under every interleaving.
\<close>

theorem clients_isolated:
  assumes "run (service_step dir) Service_init es c" "list_all (\<lambda>e. \<not> overwrites e) es"
    and "hash_get (st_fixtures (sv_state c)) fp = Some r" "\<not> shared_with_all (fx_sharing r)"
    and "hash_get (st_leases (sv_state c)) l = Some \<lparr>lr_fingerprint = fp\<rparr>"
  shows "owner (List.map_filter alloc_label es) l = Some (fx_creating_client_id r)"
proof -
  have "run (alloc_step effective_slots) Map.empty (List.map_filter alloc_label es) (alloc_of effective_slots c)"
    using allocator.run_simulated [OF assms(1) followed_run [OF assms(2)] Service_init_followed] by (simp add: alloc_of_init)
  from isolation.run_extends [OF this isolated_empty]
  have "isolated (List.map_filter alloc_label es) (alloc_of effective_slots c)" by simp
  moreover have "alloc_of effective_slots c fp = Some (abs_record effective_slots r (lease_set (sv_state c) fp))" "l \<in> lease_set (sv_state c) fp"
    using assms(3,5) by (simp_all add: abs_of_def lease_set_def)
  ultimately show ?thesis using assms(4) unfolding isolated_def shared_with_all_design by force
qed

theorem clients_isolated_witness:
  "owner [Create ''A'' (Some (demo_sharing (ClientRestricted Empty) 3)) (LeaseId ''a'') demo_fp] (LeaseId ''a'') =
    Some (fx_creating_client_id (demo_record (ClientRestricted Empty) 3))"
  using clients_isolated [OF demo_run [of "ClientRestricted Empty" 3], of demo_fp "demo_record (ClientRestricted Empty) 3" "LeaseId ''a''"]
  by (simp add: demo_events_def map_filter_simps demo_service_def demo_record_def demo_desc_def shared_with_all_def)

text \<open>
  C16. A lease keeps what it was granted: as long as no fixture with leases is overwritten, what
  \<open>Status\<close> reports for a lease does not change until the lease is released, whatever other
  handlers do.
\<close>

theorem lease_outputs_stable:
  assumes "run (service_step dir) Service_init es c" "run (service_step dir) c es' c'"
    and "list_all (\<lambda>e. \<not> overwrites e) (es @ es')"
    and "Released (LeaseId_from (sq_lease_id q)) \<notin> set es'" "status q (sv_state c) = Ok r"
  shows "status q (sv_state c') = Ok r"
proof -
  let ?l = "LeaseId_from (sq_lease_id q)"
  have fl: "list_all (followed effective_slots) es" "list_all (followed effective_slots) es'"
    using followed_run [OF assms(3)] by simp_all
  have inv: "followed_inv effective_slots c" using allocator.run_keeps [OF assms(1) fl(1) Service_init_followed] .
  then have st: "state_inv (sv_state c)" "state_inv (sv_state c')"
    using allocator.run_keeps [OF assms(2) fl(2) inv] by (simp_all add: followed_inv_def exact_inv_def service_inv_def)
  obtain fp f where f: "hash_get (st_leases (sv_state c)) ?l = Some \<lparr>lr_fingerprint = fp\<rparr>" "alloc_of effective_slots c fp = Some f"
    "r = \<lparr>sr_status = LeaseStatus_as_i32 Succeeded, sr_outputs = af_outputs f, sr_messages = []\<rparr>"
    using assms(5) holds_in_status [OF st(1)] by blast
  then have "holds_in ?l fp f (alloc_of effective_slots c)" by (auto simp: holds_in_def abs_of_def lease_set_def)
  moreover have "list_all (\<lambda>e. e \<noteq> Release ?l) (List.map_filter alloc_label es')"
    using assms(4) by (auto simp: list_all_iff map_filter_def elim: alloc_label.elims)
  moreover have "run (alloc_step effective_slots) (alloc_of effective_slots c) (List.map_filter alloc_label es')
      (alloc_of effective_slots c')"
    using allocator.run_simulated [OF assms(2) fl(2) inv] .
  ultimately have "holds_in ?l fp f (alloc_of effective_slots c')" using held.run_keeps by blast
  then have "\<exists>f'. alloc_of effective_slots c' fp = Some f' \<and> af_outputs f' = af_outputs f \<and>
      hash_get (st_leases (sv_state c')) ?l = Some \<lparr>lr_fingerprint = fp\<rparr>"
    by (auto simp: holds_in_def abs_of_def lease_set_def)
  then show ?thesis using holds_in_status [OF st(2), of q r effective_slots] f(3) by auto
qed

theorem lease_outputs_stable_witness:
  "\<exists>c' r. run (service_step demo_dir) (demo_service (Unrestricted Empty) 10)
      [Attached ''B'' (LeaseId ''b'') demo_fp] c' \<and> status \<lparr>sq_lease_id = ''a''\<rparr> (sv_state c') = Ok r"
proof -
  obtain c where c: "run (service_step demo_dir) (demo_service (Unrestricted Empty) 10)
      [Attached ''B'' (LeaseId ''b'') demo_fp] c" by (rule demo_attached)
  obtain r where "status \<lparr>sq_lease_id = ''a''\<rparr> (sv_state (demo_service (Unrestricted Empty) 10)) = Ok r"
    by (simp add: status_def result_simps demo_service_def LeaseId_from_def)
  from lease_outputs_stable [OF demo_run c _ _ this] c show ?thesis by (auto simp: demo_events_def)
qed

text \<open>
  C7. Every child is accounted for: under every interleaving, the children whose process id is in
  use (started, and neither killed nor reaped) are exactly those of the cached fixtures, those of
  the requests in flight, from the moment they are started, and those that failed or cancelled
  connections have left behind and that have not exited since; and no child is two of these. So a
  plugin whose health check or creation fails, whose fixture is replaced or whose caller goes away
  once it is connected has been killed, and without a failed or cancelled connection nothing is
  left behind.
\<close>

theorem processes_accounted:
  assumes "run (service_step dir) Service_init es c"
  shows "sv_live c = owned (sv_state c) \<union> in_flight c \<union> leaked es \<and>
    owned (sv_state c) \<inter> in_flight c = {} \<and> (owned (sv_state c) \<union> in_flight c) \<inter> leaked es = {}"
proof -
  have acc: "procs_accounted es c"
    using procs.run_extends [OF assms Service_init_procs] by simp
  then have "map_inj (claims c)" by (simp add: procs_accounted_def service_inv_def)
  then have "claims c (Inl fp) \<noteq> Some p \<or> claims c (Inr t) \<noteq> Some p" for fp t p
    unfolding map_inj_def by blast
  then have "owned (sv_state c) \<inter> in_flight c = {}"
    by (auto simp: owned_def in_flight_def ran_def claims_def)
  with acc show ?thesis by (simp add: procs_accounted_def ran_claims)
qed

theorem processes_accounted_witness:
  "owned (demo_state (SingleUse Empty) 1) = {1}"
proof -
  have "sv_state (demo_service (SingleUse Empty) 1) = demo_state (SingleUse Empty) 1"
    "in_flight (demo_service (SingleUse Empty) 1) = {}" "leaked (demo_events (SingleUse Empty) 1) = {}"
    by (simp_all add: demo_service_def in_flight_def leaked_def demo_events_def)
  with processes_accounted [OF demo_run [of "SingleUse Empty" 1]] demo_live show ?thesis by auto
qed

end
