(* ===== verification/Daemon.thy ===== *)
theory Daemon
  imports Coordinator
begin

text \<open>
  Model of \<^verbatim>\<open>src/coordinator/src/bin/coordinator_local.rs\<close>: the daemon's start-up, as one step per
  call to the operating system, and a host on which any number of daemons start, race for the
  instance lock, serve, exit and crash. The runner starts a daemon whenever it finds no
  socket, so several may start at once; the lock has to leave one.
\<close>

section \<open>The program\<close>

record Args =
  ar_workspace :: path
  ar_socket :: path

datatype TryLockError = WouldBlock | TryLockIo Error

text \<open>
  What the operating system answers a daemon. \<open>os_serve\<close> is \<open>None\<close> while the server runs. The
  handle of the lock file is the path it was opened with.
\<close>

record daemon_os =
  os_create_dir_all :: "path \<Rightarrow> (Error, unit) result"
  os_open :: "path \<Rightarrow> (Error, unit) result"
  os_try_lock :: "path \<Rightarrow> (TryLockError, unit) result"
  os_remove_file :: "path \<Rightarrow> (Error, unit) result"
  os_bind :: "path \<Rightarrow> (Error, unit) result"
  os_serve :: "(Error, unit) result option"

definition lock_instance :: "daemon_os \<Rightarrow> path \<Rightarrow> (Error, path option) result" where
  "lock_instance os dir =
    (let path = join dir (name_path ''.lock'') in
     and_then (map_err (WithContext (OpeningLockFile path)) (os_open os path)) (\<lambda>_.
       case os_try_lock os path of
         Ok _ \<Rightarrow> Ok (Some path)
       | Err WouldBlock \<Rightarrow> Ok None
       | Err (TryLockIo e) \<Rightarrow> Err (WithContext (LockingFile path) e)))"

definition instance_dir :: "Args \<Rightarrow> path" where
  "instance_dir args = unwrap_or (name_path ''.'') (parent (ar_socket args))"

text \<open>The points of \<open>main\<close> between two calls to the operating system.\<close>

datatype phase =
    Start
  | Locking
  | Cleaning
  | Binding
  | Serving Coordinator
  | Exited "(Error, unit) result"

fun daemon_next :: "daemon_os \<Rightarrow> Args \<Rightarrow> phase \<Rightarrow> phase" where
  "daemon_next os args Start =
    (case map_err (WithContext (CreatingSocketDirectory (instance_dir args)))
            (os_create_dir_all os (instance_dir args)) of
       Err e \<Rightarrow> Exited (Err e)
     | Ok _ \<Rightarrow> Locking)"
| "daemon_next os args Locking =
    (case lock_instance os (instance_dir args) of
       Err e \<Rightarrow> Exited (Err e)
     | Ok None \<Rightarrow> Exited (Ok ())
     | Ok (Some _) \<Rightarrow> Cleaning)"
| "daemon_next os args Cleaning = Binding"
| "daemon_next os args Binding =
    (case map_err (WithContext (BindingSocket (ar_socket args))) (os_bind os (ar_socket args)) of
       Err e \<Rightarrow> Exited (Err e)
     | Ok _ \<Rightarrow> Serving (Coordinator_new (instance_dir args)))"
| "daemon_next os args (Serving c) =
    (case os_serve os of
       None \<Rightarrow> Serving c
     | Some r \<Rightarrow> Exited (map_err (WithContext ServerExited) r))"
| "daemon_next os args (Exited r) = Exited r"

text \<open>The whole \<open>main\<close>: five calls at most lead to the server or to the exit.\<close>

definition daemon_main :: "daemon_os \<Rightarrow> Args \<Rightarrow> phase" where
  "daemon_main os args = (daemon_next os args ^^ 5) Start"

section \<open>The host\<close>

text \<open>
  The daemons, the holder of each lock file, and the process that bound each socket file. A
  socket file outlives its process; a lock does not.
\<close>

record Host =
  h_procs :: "nat \<rightharpoonup> Args \<times> phase"
  h_locks :: "path \<rightharpoonup> nat"
  h_sockets :: "path \<rightharpoonup> nat"

definition Host_init :: Host where
  "Host_init = \<lparr>h_procs = (\<lambda>_. None), h_locks = (\<lambda>_. None), h_sockets = (\<lambda>_. None)\<rparr>"

definition lock_path :: "Args \<Rightarrow> path" where
  "lock_path args = join (instance_dir args) (name_path ''.lock'')"

text \<open>
  An exclusive file lock is granted when nobody holds it and refused as \<open>WouldBlock\<close> when
  somebody does; a socket binds only where no file is.
\<close>

definition answers :: "Host \<Rightarrow> daemon_os \<Rightarrow> bool" where
  "answers h os \<longleftrightarrow>
    (\<forall>l. os_try_lock os l = Ok () \<longrightarrow> h_locks h l = None) \<and>
    (\<forall>l. os_try_lock os l = Err WouldBlock \<longrightarrow> h_locks h l \<noteq> None) \<and>
    (\<forall>s. os_bind os s = Ok () \<longrightarrow> h_sockets h s = None)"

definition drop_locks :: "nat \<Rightarrow> (path \<rightharpoonup> nat) \<Rightarrow> path \<rightharpoonup> nat" where
  "drop_locks p L = (\<lambda>l. if L l = Some p then None else L l)"

text \<open>What a step of a daemon does to the locks and socket files of the host.\<close>

definition host_locks :: "nat \<Rightarrow> Args \<Rightarrow> phase \<Rightarrow> phase \<Rightarrow> (path \<rightharpoonup> nat) \<Rightarrow> path \<rightharpoonup> nat" where
  "host_locks p args ph ph' L =
    (case ph' of
       Cleaning \<Rightarrow> if ph = Locking then L(lock_path args \<mapsto> p) else L
     | Exited _ \<Rightarrow> drop_locks p L
     | _ \<Rightarrow> L)"

definition host_sockets ::
  "nat \<Rightarrow> daemon_os \<Rightarrow> Args \<Rightarrow> phase \<Rightarrow> phase \<Rightarrow> (path \<rightharpoonup> nat) \<Rightarrow> path \<rightharpoonup> nat" where
  "host_sockets p os args ph ph' S =
    (case ph of
       Cleaning \<Rightarrow> if os_remove_file os (ar_socket args) = Ok () then S(ar_socket args := None) else S
     | Binding \<Rightarrow> (case ph' of Serving _ \<Rightarrow> S(ar_socket args \<mapsto> p) | _ \<Rightarrow> S)
     | _ \<Rightarrow> S)"

datatype host_event = Launch nat | Step nat | Crash nat

text \<open>A daemon whose socket is its own lock file would unlink the lock; no runner asks for one.\<close>

inductive host_step :: "Host \<Rightarrow> host_event \<Rightarrow> Host \<Rightarrow> bool" where
  launch:
    "host_step h (Launch p) (h\<lparr>h_procs := (h_procs h)(p \<mapsto> (args, Start))\<rparr>)"
    if "h_procs h p = None" and "ar_socket args \<noteq> lock_path args"
| step:
    "host_step h (Step p)
      (h\<lparr>h_procs := (h_procs h)(p \<mapsto> (args, ph')),
         h_locks := host_locks p args ph ph' (h_locks h),
         h_sockets := host_sockets p os args ph ph' (h_sockets h)\<rparr>)"
    if "h_procs h p = Some (args, ph)" and "answers h os" and "ph' = daemon_next os args ph"
| crash:
    "host_step h (Crash p)
      (h\<lparr>h_procs := (h_procs h)(p := None), h_locks := drop_locks p (h_locks h)\<rparr>)"
    if "h_procs h p = Some (args, ph)"

inductive_cases host_step_StepE: "host_step h (Step p) h'"

section \<open>The invariant\<close>

fun holding :: "phase \<Rightarrow> bool" where
  "holding Cleaning = True"
| "holding Binding = True"
| "holding (Serving c) = True"
| "holding _ = False"

definition holds_lock :: "Host \<Rightarrow> nat \<Rightarrow> path \<Rightarrow> bool" where
  "holds_lock h p l \<longleftrightarrow> (\<exists>args ph. h_procs h p = Some (args, ph) \<and> holding ph \<and> lock_path args = l)"

definition serves :: "Host \<Rightarrow> nat \<Rightarrow> path \<Rightarrow> bool" where
  "serves h p s \<longleftrightarrow> (\<exists>args c. h_procs h p = Some (args, Serving c) \<and> ar_socket args = s)"

definition host_inv :: "Host \<Rightarrow> bool" where
  "host_inv h \<longleftrightarrow>
    (\<forall>p l. h_locks h l = Some p \<longleftrightarrow> holds_lock h p l) \<and>
    (\<forall>p s. serves h p s \<longrightarrow> h_sockets h s = Some p)"

lemma Host_init_inv: "host_inv Host_init"
  by (simp add: host_inv_def Host_init_def holds_lock_def serves_def)

lemma holds_lock_unique: "host_inv h \<Longrightarrow> holds_lock h p l \<Longrightarrow> holds_lock h q l \<Longrightarrow> p = q"
  by (simp add: host_inv_def) (metis option.inject)

lemma lock_path_inject [simp]: "lock_path a = lock_path b \<longleftrightarrow> instance_dir a = instance_dir b"
  by (simp add: lock_path_def)

lemma same_socket_same_lock: "ar_socket a = ar_socket b \<Longrightarrow> lock_path a = lock_path b"
  by (simp add: instance_dir_def)

lemma lock_instance_granted:
  "lock_instance os dir = Ok (Some l) \<longleftrightarrow>
    l = join dir (name_path ''.lock'') \<and> os_open os l = Ok () \<and> os_try_lock os l = Ok ()"
  by (auto simp: lock_instance_def Let_def result_simps split: sum.splits TryLockError.splits)

lemma lock_instance_refused:
  "lock_instance os dir = Ok None \<Longrightarrow> os_try_lock os (join dir (name_path ''.lock'')) = Err WouldBlock"
  by (auto simp: lock_instance_def Let_def result_simps split: sum.splits TryLockError.splits)

text \<open>The moves of a daemon that matter to the host.\<close>

lemma daemon_next_holding:
  "holding (daemon_next os args ph) \<longleftrightarrow>
    (ph = Locking \<and> (\<exists>l. lock_instance os (instance_dir args) = Ok (Some l)) \<or>
     holding ph \<and> (\<nexists>r. daemon_next os args ph = Exited r))"
  by (cases ph) (auto split: sum.splits option.splits)

lemma holds_lock_procs:
  "h_procs h' = (h_procs h)(p := x) \<Longrightarrow>
    holds_lock h' q l \<longleftrightarrow>
      (if q = p then (\<exists>args ph. x = Some (args, ph) \<and> holding ph \<and> lock_path args = l) else holds_lock h q l)"
  by (simp add: holds_lock_def)

lemma serves_procs:
  "h_procs h' = (h_procs h)(p := x) \<Longrightarrow>
    serves h' q s \<longleftrightarrow>
      (if q = p then (\<exists>args c. x = Some (args, Serving c) \<and> ar_socket args = s) else serves h q s)"
  by (simp add: serves_def)

lemma drop_locks_eq: "drop_locks p L l = Some q \<longleftrightarrow> q \<noteq> p \<and> L l = Some q"
  by (auto simp: drop_locks_def)

lemma host_locks_step:
  assumes inv: "host_inv h" and p: "h_procs h p = Some (args, ph)" and os: "answers h os"
  shows "host_locks p args ph (daemon_next os args ph) (h_locks h) l = Some q \<longleftrightarrow>
    (if q = p then holding (daemon_next os args ph) \<and> lock_path args = l else holds_lock h q l)"
proof -
  have L: "h_locks h l = Some r \<longleftrightarrow> holds_lock h r l" for r l using inv by (simp add: host_inv_def)
  have mine: "holds_lock h p l \<longleftrightarrow> holding ph \<and> lock_path args = l" for l
    using p by (simp add: holds_lock_def)
  show ?thesis
  proof (cases "\<exists>r. daemon_next os args ph = Exited r")
    case True
    then show ?thesis by (auto simp: host_locks_def drop_locks_eq L)
  next
    case False
    show ?thesis
    proof (cases "ph = Locking")
      case True
      with False obtain x where x: "lock_instance os (instance_dir args) = Ok (Some x)"
        by (auto split: sum.splits option.splits)
      then have "h_locks h (lock_path args) = None"
        using os by (auto simp: lock_instance_granted lock_path_def answers_def)
      moreover from this have "\<not> holds_lock h q (lock_path args)" by (simp flip: L)
      ultimately show ?thesis using True x mine by (auto simp: host_locks_def L)
    next
      case other: False
      then have "host_locks p args ph (daemon_next os args ph) (h_locks h) = h_locks h"
        using False by (auto simp: host_locks_def split: phase.splits)
      then show ?thesis using other False mine by (auto simp: L daemon_next_holding)
    qed
  qed
qed

text \<open>A daemon touches a socket file only while it holds the lock of the file's directory.\<close>

lemma host_sockets_step:
  assumes "host_sockets p os args ph ph' S s \<noteq> S s"
  shows "s = ar_socket args \<and> holding ph"
  using assms by (auto simp: host_sockets_def split: phase.splits if_splits)

lemma serves_step:
  assumes inv: "host_inv h" and p: "h_procs h p = Some (args, ph)"
    and ph': "ph' = daemon_next os args ph" and q: "q \<noteq> p" "serves h q s"
  shows "host_sockets p os args ph ph' (h_sockets h) s = Some q"
proof (rule ccontr)
  assume "\<not> ?thesis"
  moreover have "h_sockets h s = Some q" using inv q by (simp add: host_inv_def)
  ultimately have s: "s = ar_socket args" "holding ph" using host_sockets_step by metis+
  obtain a c where a: "h_procs h q = Some (a, Serving c)" "ar_socket a = s"
    using q(2) by (auto simp: serves_def)
  have "holds_lock h p (lock_path args)" using p s by (auto simp: holds_lock_def)
  moreover have "holds_lock h q (lock_path args)"
    using a s same_socket_same_lock [of a args] unfolding holds_lock_def by force
  ultimately show False using holds_lock_unique [OF inv] q(1) by blast
qed

lemma serving_step:
  assumes inv: "host_inv h" and p: "h_procs h p = Some (args, ph)"
    and "daemon_next os args ph = Serving c"
  shows "host_sockets p os args ph (Serving c) (h_sockets h) (ar_socket args) = Some p"
proof (cases "ph = Binding")
  case True
  then show ?thesis by (simp add: host_sockets_def)
next
  case False
  with assms(3) obtain c' where "ph = Serving c'"
    by (cases ph) (auto split: sum.splits option.splits)
  then show ?thesis
    using inv p by (auto simp: host_sockets_def host_inv_def serves_def)
qed

lemma host_step_inv:
  assumes "host_step h e h'" "host_inv h"
  shows "host_inv h'"
  using assms
proof (induction rule: host_step.induct)
  case (launch h p args)
  have "\<not> holds_lock h p l" "\<not> serves h p s" for l s using launch by (auto simp: holds_lock_def serves_def)
  moreover have "holds_lock (h\<lparr>h_procs := (h_procs h)(p \<mapsto> (args, Start))\<rparr>) q l \<longleftrightarrow> q \<noteq> p \<and> holds_lock h q l"
    "serves (h\<lparr>h_procs := (h_procs h)(p \<mapsto> (args, Start))\<rparr>) q s \<longleftrightarrow> q \<noteq> p \<and> serves h q s" for q l s
    by (auto simp: holds_lock_def serves_def)
  ultimately show ?case using launch(3) by (auto simp: host_inv_def)
next
  case (step h p args ph os ph')
  let ?h = "h\<lparr>h_procs := (h_procs h)(p \<mapsto> (args, ph')), h_locks := host_locks p args ph ph' (h_locks h),
    h_sockets := host_sockets p os args ph ph' (h_sockets h)\<rparr>"
  have "h_locks ?h l = Some q \<longleftrightarrow> holds_lock ?h q l" for l q
    using host_locks_step [OF step(4,1,2)] step(3) holds_lock_procs [of ?h h p "Some (args, ph')" q l] by simp
  moreover have "h_sockets ?h s = Some q" if "serves ?h q s" for q s
  proof (cases "q = p")
    case True
    with that serves_procs [of ?h h p "Some (args, ph')" q s] obtain c where "ph' = Serving c" "ar_socket args = s"
      by auto
    with serving_step [OF step(4,1), of os c] step(3) True show ?thesis by simp
  next
    case False
    with that serves_procs [of ?h h p "Some (args, ph')" q s] serves_step [OF step(4,1,3)] show ?thesis by simp
  qed
  ultimately show ?case by (simp add: host_inv_def)
next
  case (crash h p args ph)
  let ?h = "h\<lparr>h_procs := (h_procs h)(p := None), h_locks := drop_locks p (h_locks h)\<rparr>"
  have "holds_lock ?h q l \<longleftrightarrow> q \<noteq> p \<and> holds_lock h q l" "serves ?h q s \<longleftrightarrow> q \<noteq> p \<and> serves h q s" for q l s
    by (auto simp: holds_lock_def serves_def)
  then show ?case using crash(2) by (auto simp: host_inv_def drop_locks_eq)
qed

interpretation host: inductive_invariant host_step "\<lambda>_. True" host_inv
  by unfold_locales (rule host_step_inv)

lemma host_reachable_inv: "run host_step Host_init es h \<Longrightarrow> host_inv h"
  using host.run_keeps [OF _ _ Host_init_inv] by (simp add: list_all_iff)

section \<open>A host where every call succeeds\<close>

text \<open>The answers of an operating system on which nothing fails by itself.\<close>

definition fine_os :: "Host \<Rightarrow> daemon_os" where
  "fine_os h =
    \<lparr>os_create_dir_all = \<lambda>_. Ok (), os_open = \<lambda>_. Ok (),
     os_try_lock = \<lambda>l. if h_locks h l = None then Ok () else Err WouldBlock,
     os_remove_file = \<lambda>_. Ok (),
     os_bind = \<lambda>s. if h_sockets h s = None then Ok () else Err (Io ''address in use''),
     os_serve = None\<rparr>"

lemma fine_answers: "answers h (fine_os h)"
  by (auto simp: answers_def fine_os_def split: if_splits)

lemma fine_step:
  "h_procs h p = Some (args, ph) \<Longrightarrow> ph' = daemon_next (fine_os h) args ph \<Longrightarrow>
    host_step h (Step p)
      (h\<lparr>h_procs := (h_procs h)(p \<mapsto> (args, ph')), h_locks := host_locks p args ph ph' (h_locks h),
         h_sockets := host_sockets p (fine_os h) args ph ph' (h_sockets h)\<rparr>)"
  by (rule host_step.step [OF _ fine_answers])

text \<open>A daemon that finds the lock free comes to serve, whatever socket file it finds.\<close>

lemma fine_start:
  assumes "h_procs h p = None" "h_locks h (lock_path args) = None" "ar_socket args \<noteq> lock_path args"
  shows "run host_step h [Launch p, Step p, Step p, Step p, Step p]
    (h\<lparr>h_procs := (h_procs h)(p \<mapsto> (args, Serving (Coordinator_new (instance_dir args)))),
       h_locks := (h_locks h)(lock_path args \<mapsto> p), h_sockets := (h_sockets h)(ar_socket args \<mapsto> p)\<rparr>)"
proof -
  let ?at = "\<lambda>ph L S. h\<lparr>h_procs := (h_procs h)(p \<mapsto> (args, ph)), h_locks := L, h_sockets := S\<rparr>"
  let ?L = "(h_locks h)(lock_path args \<mapsto> p)" and ?S = "(h_sockets h)(ar_socket args := None)"
  have 1: "host_step h (Launch p) (?at Start (h_locks h) (h_sockets h))"
    using host_step.launch [OF assms(1,3)] by simp
  have 2: "host_step (?at Start (h_locks h) (h_sockets h)) (Step p) (?at Locking (h_locks h) (h_sockets h))"
    using fine_step [of "?at Start (h_locks h) (h_sockets h)" p args Start Locking]
    by (simp add: fine_os_def host_locks_def host_sockets_def)
  have 3: "host_step (?at Locking (h_locks h) (h_sockets h)) (Step p) (?at Cleaning ?L (h_sockets h))"
    using fine_step [of "?at Locking (h_locks h) (h_sockets h)" p args Locking Cleaning] assms(2)
    by (simp add: fine_os_def host_locks_def host_sockets_def lock_instance_def Let_def lock_path_def)
  have 4: "host_step (?at Cleaning ?L (h_sockets h)) (Step p) (?at Binding ?L ?S)"
    using fine_step [of "?at Cleaning ?L (h_sockets h)" p args Cleaning Binding]
    by (simp add: host_locks_def host_sockets_def) (simp add: fine_os_def)
  have 5: "host_step (?at Binding ?L ?S) (Step p)
      (?at (Serving (Coordinator_new (instance_dir args))) ?L ((h_sockets h)(ar_socket args \<mapsto> p)))"
    using fine_step [of "?at Binding ?L ?S" p args Binding "Serving (Coordinator_new (instance_dir args))"]
    by (simp add: host_locks_def host_sockets_def) (simp add: fine_os_def)
  show ?thesis using 1 2 3 4 5 by (blast intro: run.intros)
qed

definition example_args :: Args where
  "example_args = \<lparr>ar_workspace = Path True [''w''], ar_socket = Path True [''r'', ''c.sock'']\<rparr>"

definition example_host :: Host where
  "example_host =
    \<lparr>h_procs = [0 \<mapsto> (example_args, Serving (Coordinator_new (Path True [''r''])))],
     h_locks = [Path True [''r'', ''.lock''] \<mapsto> 0], h_sockets = [Path True [''r'', ''c.sock''] \<mapsto> 0]\<rparr>"

lemma example_run: "run host_step Host_init [Launch 0, Step 0, Step 0, Step 0, Step 0] example_host"
  using fine_start [of Host_init 0 example_args]
  by (simp add: Host_init_def example_args_def lock_path_def instance_dir_def example_host_def)

section \<open>Properties\<close>

text \<open>
  C6. At most one daemon is past the lock for a directory, however many start, exit and crash
  and in whatever order: two processes that clean, bind or serve with the same instance
  directory are the same process.
\<close>

theorem one_daemon_per_directory:
  assumes "run host_step Host_init es h"
    and "h_procs h p = Some (a, ph)" "holding ph" and "h_procs h q = Some (b, ph')" "holding ph'"
    and "instance_dir a = instance_dir b"
  shows "p = q"
proof (rule holds_lock_unique [OF host_reachable_inv [OF assms(1)]])
  show "holds_lock h p (lock_path a)" using assms(2,3) by (auto simp: holds_lock_def)
  show "holds_lock h q (lock_path a)" using assms(4-6) unfolding holds_lock_def by force
qed

theorem one_daemon_per_directory_witness:
  "run host_step Host_init [Launch 0, Step 0, Step 0, Step 0, Step 0] example_host \<and>
    (\<forall>q. (\<exists>c. h_procs example_host q = Some (example_args, Serving c)) = (q = 0))"
proof -
  have p: "h_procs example_host 0 = Some (example_args, Serving (Coordinator_new (Path True [''r''])))"
    by (simp add: example_host_def)
  show ?thesis using one_daemon_per_directory [OF example_run p] example_run p by force
qed

text \<open>
  C20. The socket of a serving daemon stays its own: in every reachable host, the file at the
  socket path of a serving daemon is the one that daemon bound, so no other daemon has
  unlinked or replaced it.
\<close>

theorem serving_daemon_owns_socket:
  assumes "run host_step Host_init es h" "h_procs h p = Some (args, Serving c)"
  shows "h_sockets h (ar_socket args) = Some p"
  using host_reachable_inv [OF assms(1)] assms(2) by (auto simp: host_inv_def serves_def)

theorem serving_daemon_owns_socket_witness:
  "h_sockets example_host (Path True [''r'', ''c.sock'']) = Some 0"
proof -
  have "h_procs example_host 0 = Some (example_args, Serving (Coordinator_new (Path True [''r''])))"
    by (simp add: example_host_def)
  from serving_daemon_owns_socket [OF example_run this] show ?thesis by (simp add: example_args_def)
qed

text \<open>
  C35. A daemon that exits cleanly without having served has yielded to another one: when the
  lock is refused, another live process holds the lock of the same directory.
\<close>

theorem daemon_yields_to_holder:
  assumes "run host_step Host_init es h" "h_procs h p = Some (args, Locking)"
    and "host_step h (Step p) h'" "h_procs h' p = Some (args, Exited (Ok ()))"
  shows "\<exists>q a ph. q \<noteq> p \<and> h_procs h q = Some (a, ph) \<and> holding ph \<and> instance_dir a = instance_dir args"
proof -
  obtain os where os: "answers h os" "daemon_next os args Locking = Exited (Ok ())"
    using assms(2-4) by (auto elim!: host_step_StepE)
  then have "os_try_lock os (lock_path args) = Err WouldBlock"
    using lock_instance_refused [of os "instance_dir args"]
    by (auto simp: lock_path_def split: sum.splits option.splits)
  with os(1) obtain q where "h_locks h (lock_path args) = Some q" by (auto simp: answers_def)
  then have "holds_lock h q (lock_path args)"
    using host_reachable_inv [OF assms(1)] by (simp add: host_inv_def)
  moreover from this assms(2) have "q \<noteq> p" by (auto simp: holds_lock_def)
  ultimately show ?thesis unfolding holds_lock_def by force
qed

theorem daemon_yields_to_holder_witness:
  "\<exists>h h'. run host_step example_host [Launch 1, Step 1] h \<and> host_step h (Step 1) h' \<and>
    h_procs h' 1 = Some (example_args, Exited (Ok ())) \<and> (\<exists>q. q \<noteq> 1 \<and> h_procs h q \<noteq> None)"
proof -
  let ?start = "example_host\<lparr>h_procs := (h_procs example_host)(1 \<mapsto> (example_args, Start))\<rparr>"
  let ?h = "example_host\<lparr>h_procs := (h_procs example_host)(1 \<mapsto> (example_args, Locking))\<rparr>"
  let ?h' = "example_host\<lparr>h_procs := (h_procs example_host)(1 \<mapsto> (example_args, Exited (Ok ()))),
    h_locks := drop_locks 1 (h_locks example_host)\<rparr>"
  have dir: "instance_dir example_args = Path True [''r'']" by (simp add: example_args_def instance_dir_def)
  have "host_step example_host (Launch 1) ?start"
    by (rule host_step.launch) (simp_all add: example_host_def lock_path_def dir, simp add: example_args_def)
  moreover have "host_step ?start (Step 1) ?h"
    using fine_step [of ?start 1 example_args Start Locking]
    by (simp add: fine_os_def host_locks_def host_sockets_def)
  ultimately have r: "run host_step example_host [Launch 1, Step 1] ?h" by (blast intro: run.intros)
  have s: "host_step ?h (Step 1) ?h'"
    using fine_step [of ?h 1 example_args Locking "Exited (Ok ())"]
    by (simp add: fine_os_def host_locks_def host_sockets_def lock_instance_def Let_def dir)
      (simp add: example_host_def)
  have "\<exists>q a ph. q \<noteq> 1 \<and> h_procs ?h q = Some (a, ph) \<and> holding ph \<and> instance_dir a = instance_dir example_args"
    by (rule daemon_yields_to_holder [OF run_append [OF example_run r] _ s]) simp_all
  with r s show ?thesis by (intro exI [of _ ?h] exI [of _ ?h']) auto
qed

text \<open>
  C36. Recovery: whenever no live daemon holds the lock of its directory, a new daemon can come
  to serve, whatever socket file a crashed predecessor has left.
\<close>

theorem daemon_recovers:
  assumes "run host_step Host_init es h" "h_procs h p = None" "ar_socket args \<noteq> lock_path args"
    and "\<nexists>q a ph. h_procs h q = Some (a, ph) \<and> holding ph \<and> instance_dir a = instance_dir args"
  shows "\<exists>h'. run host_step h [Launch p, Step p, Step p, Step p, Step p] h' \<and>
    h_procs h' p = Some (args, Serving (Coordinator_new (instance_dir args))) \<and>
    h_sockets h' (ar_socket args) = Some p"
proof -
  have "h_locks h (lock_path args) = None"
    using host_reachable_inv [OF assms(1)] assms(4)
    by (cases "h_locks h (lock_path args)") (auto simp: host_inv_def holds_lock_def)
  from fine_start [OF assms(2) this assms(3)] show ?thesis by fastforce
qed

theorem daemon_recovers_witness:
  "\<exists>h h'. run host_step example_host [Crash 0] h \<and> h_sockets h (ar_socket example_args) = Some 0 \<and>
    run host_step h [Launch 1, Step 1, Step 1, Step 1, Step 1] h' \<and>
    h_sockets h' (ar_socket example_args) = Some 1"
proof -
  let ?h = "example_host\<lparr>h_procs := (h_procs example_host)(0 := None), h_locks := drop_locks 0 (h_locks example_host)\<rparr>"
  have r: "run host_step example_host [Crash 0] ?h"
    by (rule run_single, rule host_step.crash) (simp add: example_host_def)
  have "\<exists>h'. run host_step ?h [Launch 1, Step 1, Step 1, Step 1, Step 1] h' \<and>
      h_procs h' 1 = Some (example_args, Serving (Coordinator_new (instance_dir example_args))) \<and>
      h_sockets h' (ar_socket example_args) = Some 1"
    by (rule daemon_recovers [OF run_append [OF example_run r]])
      (auto simp: example_host_def lock_path_def instance_dir_def example_args_def split: if_splits)
  moreover have "h_sockets ?h (ar_socket example_args) = Some 0"
    by (simp add: example_host_def example_args_def)
  ultimately show ?thesis using r by blast
qed

text \<open>
  Run alone, \<open>main\<close> ends in the server exactly when the directory can be created, the lock is
  granted, the socket binds and the server stays up; it ends with success without serving
  exactly when the lock is refused; a failing removal of the old socket file is ignored.
\<close>

theorem daemon_main_outcome:
  "(daemon_main os args = Serving c \<longleftrightarrow>
     os_create_dir_all os (instance_dir args) = Ok () \<and>
     lock_instance os (instance_dir args) = Ok (Some (lock_path args)) \<and>
     os_bind os (ar_socket args) = Ok () \<and> os_serve os = None \<and> c = Coordinator_new (instance_dir args)) \<and>
   (daemon_main os args = Exited (Ok ()) \<longleftrightarrow>
     os_create_dir_all os (instance_dir args) = Ok () \<and>
     (lock_instance os (instance_dir args) = Ok None \<or>
      lock_instance os (instance_dir args) = Ok (Some (lock_path args)) \<and>
      os_bind os (ar_socket args) = Ok () \<and> os_serve os = Some (Ok ())))"
proof -
  have "l = lock_path args" if "lock_instance os (instance_dir args) = Ok (Some l)" for l
    using that by (simp add: lock_instance_granted lock_path_def)
  then show ?thesis
    by (auto simp: daemon_main_def eval_nat_numeral result_simps split: sum.splits option.splits)
qed

end
