(* ===== verification/Grpc.thy ===== *)
theory Grpc
  imports Effects
begin

text \<open>
  The generated gRPC stubs of \<^verbatim>\<open>src/proto/systemtestrs/src/lib.rs\<close>: the path each client method
  sends its request to, the handler each server dispatches a path to, and the configuration a
  server hands to its handlers. What tonic does with a request (transport, codec, compression)
  is outside the repository; the clients and servers take it as an argument.
\<close>

section \<open>Services\<close>

text \<open>
  What a client and a server of one service have to agree on: the server routes exactly the
  paths of the client, each to the method it belongs to, and every path lies under the name
  of the service, by which the router picks the server.
\<close>

locale grpc_service =
  fixes client_path :: "'m \<Rightarrow> string"
    and server_route :: "string \<Rightarrow> 'm option"
    and service_name :: string
  assumes route_iff: "server_route p = Some m \<longleftrightarrow> p = client_path m"
    and path_under_name: "\<exists>meth. client_path m = ''/'' @ service_name @ ''/'' @ meth"
    and name_one_segment: "CHR ''/'' \<notin> set service_name"
begin

lemma route_path [simp]: "server_route (client_path m) = Some m"
  by (simp add: route_iff)

lemma route_None: "server_route p = None \<longleftrightarrow> p \<notin> range client_path"
  by (cases "server_route p") (auto simp: route_iff)

lemma client_path_inject: "client_path a = client_path b \<longleftrightarrow> a = b"
  by (metis option.inject route_path)

lemma first_segment: "takeWhile (\<lambda>c. c \<noteq> CHR ''/'') (tl (client_path m)) = service_name"
proof -
  obtain meth where "client_path m = ''/'' @ service_name @ ''/'' @ meth" using path_under_name by blast
  moreover have "takeWhile (\<lambda>c. c \<noteq> CHR ''/'') (service_name @ ''/'' @ meth) = service_name"
    using name_one_segment by (subst takeWhile_append2) auto
  ultimately show ?thesis by simp
qed

end

section \<open>Server configuration\<close>

text \<open>
  The fields of \<open>CoordinatorServiceServer\<close> and \<open>CoordinatorPluginServer\<close>, which are the same,
  and the builder methods on them. \<open>'c\<close> is tonic's type of compression encodings.
\<close>

record ('t, 'c) Server =
  srv_inner :: 't
  accept_compression_encodings :: "'c set"
  send_compression_encodings :: "'c set"
  max_decoding_message_size :: "u64 option"
  max_encoding_message_size :: "u64 option"

definition Server_from_arc :: "'t \<Rightarrow> ('t, 'c) Server" where
  "Server_from_arc inner =
    \<lparr>srv_inner = inner, accept_compression_encodings = {}, send_compression_encodings = {},
     max_decoding_message_size = None, max_encoding_message_size = None\<rparr>"

definition Server_new :: "'t \<Rightarrow> ('t, 'c) Server" where
  "Server_new inner = Server_from_arc inner"

definition Server_with_interceptor :: "(('t, 'c) Server \<Rightarrow> 'f \<Rightarrow> 'i) \<Rightarrow> 't \<Rightarrow> 'f \<Rightarrow> 'i" where
  "Server_with_interceptor intercepted inner interceptor = intercepted (Server_new inner) interceptor"

definition accept_compressed :: "'c \<Rightarrow> ('t, 'c) Server \<Rightarrow> ('t, 'c) Server" where
  "accept_compressed encoding srv =
    srv\<lparr>accept_compression_encodings := insert encoding (accept_compression_encodings srv)\<rparr>"

definition send_compressed :: "'c \<Rightarrow> ('t, 'c) Server \<Rightarrow> ('t, 'c) Server" where
  "send_compressed encoding srv =
    srv\<lparr>send_compression_encodings := insert encoding (send_compression_encodings srv)\<rparr>"

definition set_max_decoding_message_size :: "u64 \<Rightarrow> ('t, 'c) Server \<Rightarrow> ('t, 'c) Server" where
  "set_max_decoding_message_size limit srv = srv\<lparr>max_decoding_message_size := Some limit\<rparr>"

definition set_max_encoding_message_size :: "u64 \<Rightarrow> ('t, 'c) Server \<Rightarrow> ('t, 'c) Server" where
  "set_max_encoding_message_size limit srv = srv\<lparr>max_encoding_message_size := Some limit\<rparr>"

definition Server_clone :: "('t, 'c) Server \<Rightarrow> ('t, 'c) Server" where
  "Server_clone srv =
    \<lparr>srv_inner = srv_inner srv,
     accept_compression_encodings = accept_compression_encodings srv,
     send_compression_encodings = send_compression_encodings srv,
     max_decoding_message_size = max_decoding_message_size srv,
     max_encoding_message_size = max_encoding_message_size srv\<rparr>"

section \<open>Responses\<close>

text \<open>A response of a handler, or a response without a body, given by its headers.\<close>

datatype 'r http_response = Handled 'r | Bodyless "(string \<times> string) list"

definition unimplemented_response :: "'r http_response" where
  "unimplemented_response =
    Bodyless [(''grpc-status'', ''12''), (''content-type'', ''application/grpc'')]"

section \<open>The coordinator service\<close>

datatype CoordinatorMethod = TakeLease | Keepalive | ReleaseLease | Status_method

definition CoordinatorService_NAME :: string where
  "CoordinatorService_NAME = ''systemtest.v1.CoordinatorService''"

fun CoordinatorServiceClient_path :: "CoordinatorMethod \<Rightarrow> string" where
  "CoordinatorServiceClient_path TakeLease = ''/systemtest.v1.CoordinatorService/TakeLease''"
| "CoordinatorServiceClient_path Keepalive = ''/systemtest.v1.CoordinatorService/Keepalive''"
| "CoordinatorServiceClient_path ReleaseLease = ''/systemtest.v1.CoordinatorService/ReleaseLease''"
| "CoordinatorServiceClient_path Status_method = ''/systemtest.v1.CoordinatorService/Status''"

definition CoordinatorServiceServer_route :: "string \<Rightarrow> CoordinatorMethod option" where
  "CoordinatorServiceServer_route path =
    (if path = ''/systemtest.v1.CoordinatorService/TakeLease'' then Some TakeLease
     else if path = ''/systemtest.v1.CoordinatorService/Keepalive'' then Some Keepalive
     else if path = ''/systemtest.v1.CoordinatorService/ReleaseLease'' then Some ReleaseLease
     else if path = ''/systemtest.v1.CoordinatorService/Status'' then Some Status_method
     else None)"

definition CoordinatorServiceServer_call ::
  "(('t, 'c) Server \<Rightarrow> CoordinatorMethod \<Rightarrow> 'q \<Rightarrow> 'r) \<Rightarrow> ('t, 'c) Server \<Rightarrow> string \<Rightarrow> 'q \<Rightarrow> 'r http_response" where
  "CoordinatorServiceServer_call unary srv path req =
    (case CoordinatorServiceServer_route path of
       Some m \<Rightarrow> Handled (unary srv m req)
     | None \<Rightarrow> unimplemented_response)"

interpretation coordinator_service: grpc_service CoordinatorServiceClient_path
    CoordinatorServiceServer_route CoordinatorService_NAME
proof unfold_locales
  fix p m show "CoordinatorServiceServer_route p = Some m \<longleftrightarrow> p = CoordinatorServiceClient_path m"
    by (cases m) (simp_all add: CoordinatorServiceServer_route_def)
next
  fix m show "\<exists>meth. CoordinatorServiceClient_path m = ''/'' @ CoordinatorService_NAME @ ''/'' @ meth"
    by (cases m) (simp_all add: CoordinatorService_NAME_def)
qed (simp add: CoordinatorService_NAME_def)

section \<open>The plugin service\<close>

datatype PluginMethod =
    DescribePlugin
  | GetResourcePool
  | GetResourceRequests
  | CreateFixture
  | DestroyFixture
  | HealthCheck

definition CoordinatorPlugin_NAME :: string where
  "CoordinatorPlugin_NAME = ''systemtest.v1.CoordinatorPlugin''"

fun CoordinatorPluginClient_path :: "PluginMethod \<Rightarrow> string" where
  "CoordinatorPluginClient_path DescribePlugin = ''/systemtest.v1.CoordinatorPlugin/DescribePlugin''"
| "CoordinatorPluginClient_path GetResourcePool = ''/systemtest.v1.CoordinatorPlugin/GetResourcePool''"
| "CoordinatorPluginClient_path GetResourceRequests = ''/systemtest.v1.CoordinatorPlugin/GetResourceRequests''"
| "CoordinatorPluginClient_path CreateFixture = ''/systemtest.v1.CoordinatorPlugin/CreateFixture''"
| "CoordinatorPluginClient_path DestroyFixture = ''/systemtest.v1.CoordinatorPlugin/DestroyFixture''"
| "CoordinatorPluginClient_path HealthCheck = ''/systemtest.v1.CoordinatorPlugin/HealthCheck''"

definition CoordinatorPluginServer_route :: "string \<Rightarrow> PluginMethod option" where
  "CoordinatorPluginServer_route path =
    (if path = ''/systemtest.v1.CoordinatorPlugin/DescribePlugin'' then Some DescribePlugin
     else if path = ''/systemtest.v1.CoordinatorPlugin/GetResourcePool'' then Some GetResourcePool
     else if path = ''/systemtest.v1.CoordinatorPlugin/GetResourceRequests'' then Some GetResourceRequests
     else if path = ''/systemtest.v1.CoordinatorPlugin/CreateFixture'' then Some CreateFixture
     else if path = ''/systemtest.v1.CoordinatorPlugin/DestroyFixture'' then Some DestroyFixture
     else if path = ''/systemtest.v1.CoordinatorPlugin/HealthCheck'' then Some HealthCheck
     else None)"

text \<open>\<open>CreateFixture\<close> is served as a stream, every other method as a unary call.\<close>

definition CoordinatorPluginServer_call ::
  "(('t, 'c) Server \<Rightarrow> PluginMethod \<Rightarrow> 'q \<Rightarrow> 'r) \<Rightarrow> (('t, 'c) Server \<Rightarrow> PluginMethod \<Rightarrow> 'q \<Rightarrow> 'r) \<Rightarrow>
    ('t, 'c) Server \<Rightarrow> string \<Rightarrow> 'q \<Rightarrow> 'r http_response" where
  "CoordinatorPluginServer_call unary server_streaming srv path req =
    (case CoordinatorPluginServer_route path of
       Some m \<Rightarrow>
         Handled (if m = CreateFixture then server_streaming srv m req else unary srv m req)
     | None \<Rightarrow> unimplemented_response)"

interpretation coordinator_plugin: grpc_service CoordinatorPluginClient_path
    CoordinatorPluginServer_route CoordinatorPlugin_NAME
proof unfold_locales
  fix p m show "CoordinatorPluginServer_route p = Some m \<longleftrightarrow> p = CoordinatorPluginClient_path m"
    by (cases m) (simp_all add: CoordinatorPluginServer_route_def)
next
  fix m show "\<exists>meth. CoordinatorPluginClient_path m = ''/'' @ CoordinatorPlugin_NAME @ ''/'' @ meth"
    by (cases m) (simp_all add: CoordinatorPlugin_NAME_def)
qed (simp add: CoordinatorPlugin_NAME_def)

section \<open>Properties\<close>

text \<open>
  Client and server stubs agree: a request sent by a client method reaches the handler of
  that method, with the configuration of the server; a path of no method, one of the other
  service included, is answered with the status \<open>UNIMPLEMENTED\<close> and reaches no handler.
\<close>

theorem stubs_agree:
  "CoordinatorServiceServer_call unary srv (CoordinatorServiceClient_path m) q = Handled (unary srv m q) \<and>
   CoordinatorPluginServer_call unary' streaming srv' (CoordinatorPluginClient_path n) q =
     Handled (if n = CreateFixture then streaming srv' n q else unary' srv' n q) \<and>
   (CoordinatorServiceServer_call unary srv p q = unimplemented_response \<longleftrightarrow>
     p \<notin> range CoordinatorServiceClient_path) \<and>
   (CoordinatorPluginServer_call unary' streaming srv' p q = unimplemented_response \<longleftrightarrow>
     p \<notin> range CoordinatorPluginClient_path) \<and>
   CoordinatorServiceClient_path m \<noteq> CoordinatorPluginClient_path n"
proof -
  have "CoordinatorService_NAME \<noteq> CoordinatorPlugin_NAME"
    by (simp add: CoordinatorService_NAME_def CoordinatorPlugin_NAME_def)
  then have "CoordinatorServiceClient_path m \<noteq> CoordinatorPluginClient_path n"
    by (metis coordinator_plugin.first_segment coordinator_service.first_segment)
  moreover have "CoordinatorServiceServer_call unary srv p q = unimplemented_response \<longleftrightarrow>
      p \<notin> range CoordinatorServiceClient_path"
    by (simp add: CoordinatorServiceServer_call_def unimplemented_response_def split: option.splits
        flip: coordinator_service.route_None)
  moreover have "CoordinatorPluginServer_call unary' streaming srv' p q = unimplemented_response \<longleftrightarrow>
      p \<notin> range CoordinatorPluginClient_path"
    by (simp add: CoordinatorPluginServer_call_def unimplemented_response_def split: option.splits
        flip: coordinator_plugin.route_None)
  ultimately show ?thesis
    by (simp add: CoordinatorServiceServer_call_def CoordinatorPluginServer_call_def)
qed

end
