(* ===== verification/Codec.thy ===== *)
theory Codec
  imports Wire
begin

text \<open>
  The instance of prost, continued from \<open>Wire\<close>, for the other messages of
  \<^verbatim>\<open>src/proto/systemtestrs/src/lib.rs\<close>, in the order of the source where a message does not contain a
  later one: the fields that the attributes of the message name, by tag, a function that reads
  back what is written, the condition under which the maps of the message are maps, and the round trip as an
  interpretation of \<open>message_codec\<close>. It shows that the hypothesis on prost in \<open>Rpc\<close> can hold; prost's
  own decoder accepts more than what prost writes, which nothing here depends on.
\<close>

section \<open>Messages\<close>

definition fields_KeepaliveRequest :: "KeepaliveRequest \<Rightarrow> field list" where
  "fields_KeepaliveRequest m =
    tagged 1 (string_wire (kq_lease_id m))"

definition read_KeepaliveRequest :: "field list \<Rightarrow> KeepaliveRequest option" where
  "read_KeepaliveRequest fs =
    Option.bind (string_value (fields_of 1 fs)) (\<lambda>lease_id.
      Some \<lparr>kq_lease_id = lease_id\<rparr>)"

interpretation keepalive_request: message_codec fields_KeepaliveRequest read_KeepaliveRequest "\<lambda>_. True"
  by unfold_locales
    (simp add: fields_KeepaliveRequest_def read_KeepaliveRequest_def)

definition fields_ReleaseRequest :: "ReleaseRequest \<Rightarrow> field list" where
  "fields_ReleaseRequest m =
    tagged 1 (string_wire (rq_lease_id m))"

definition read_ReleaseRequest :: "field list \<Rightarrow> ReleaseRequest option" where
  "read_ReleaseRequest fs =
    Option.bind (string_value (fields_of 1 fs)) (\<lambda>lease_id.
      Some \<lparr>rq_lease_id = lease_id\<rparr>)"

interpretation release_request: message_codec fields_ReleaseRequest read_ReleaseRequest "\<lambda>_. True"
  by unfold_locales
    (simp add: fields_ReleaseRequest_def read_ReleaseRequest_def)

definition fields_StatusRequest :: "StatusRequest \<Rightarrow> field list" where
  "fields_StatusRequest m =
    tagged 1 (string_wire (sq_lease_id m))"

definition read_StatusRequest :: "field list \<Rightarrow> StatusRequest option" where
  "read_StatusRequest fs =
    Option.bind (string_value (fields_of 1 fs)) (\<lambda>lease_id.
      Some \<lparr>sq_lease_id = lease_id\<rparr>)"

interpretation status_request: message_codec fields_StatusRequest read_StatusRequest "\<lambda>_. True"
  by unfold_locales
    (simp add: fields_StatusRequest_def read_StatusRequest_def)

definition fields_TakeLeaseRequest :: "TakeLeaseRequest \<Rightarrow> field list" where
  "fields_TakeLeaseRequest m =
    tagged 1 (message_wire fields_FixtureDescription (tlq_fixture m)) @
    tagged 2 (string_wire (tlq_client_id m)) @
    tagged 3 (string_wire (tlq_owner m)) @
    tagged 4 (int64_wire (tlq_ttl_seconds m)) @
    tagged 5 (uint32_wire (tlq_associated_tests_count m))"

definition read_TakeLeaseRequest :: "field list \<Rightarrow> TakeLeaseRequest option" where
  "read_TakeLeaseRequest fs =
    Option.bind (message_value read_FixtureDescription (fields_of 1 fs)) (\<lambda>fixture.
    Option.bind (string_value (fields_of 2 fs)) (\<lambda>client_id.
    Option.bind (string_value (fields_of 3 fs)) (\<lambda>owner.
    Option.bind (int64_value (fields_of 4 fs)) (\<lambda>ttl_seconds.
    Option.bind (uint32_value (fields_of 5 fs)) (\<lambda>associated_tests_count.
      Some \<lparr>tlq_fixture = fixture, tlq_client_id = client_id, tlq_owner = owner,
        tlq_ttl_seconds = ttl_seconds, tlq_associated_tests_count = associated_tests_count\<rparr>)))))"

definition take_lease_request_ok :: "TakeLeaseRequest \<Rightarrow> bool" where
  "take_lease_request_ok m \<longleftrightarrow> pred_option desc_ok (tlq_fixture m)"

interpretation take_lease_request: message_codec fields_TakeLeaseRequest read_TakeLeaseRequest take_lease_request_ok
  by unfold_locales
    (simp add: fields_TakeLeaseRequest_def read_TakeLeaseRequest_def take_lease_request_ok_def
      fixture_description.message_value_wire)

definition fields_TakeLeaseResponse :: "TakeLeaseResponse \<Rightarrow> field list" where
  "fields_TakeLeaseResponse m =
    tagged 1 (int32_wire (tlr_status m)) @
    tagged 2 (string_wire (tlr_lease_id m)) @
    tagged 3 (map_wire value_wire (tlr_outputs m)) @
    tagged 4 (strings_wire (tlr_messages m))"

definition read_TakeLeaseResponse :: "field list \<Rightarrow> TakeLeaseResponse option" where
  "read_TakeLeaseResponse fs =
    Option.bind (int32_value (fields_of 1 fs)) (\<lambda>status.
    Option.bind (string_value (fields_of 2 fs)) (\<lambda>lease_id.
    Option.bind (map_value value_value (fields_of 3 fs)) (\<lambda>outputs.
    Option.bind (strings_value (fields_of 4 fs)) (\<lambda>messages.
      Some \<lparr>tlr_status = status, tlr_lease_id = lease_id, tlr_outputs = outputs,
        tlr_messages = messages\<rparr>))))"

definition take_lease_response_ok :: "TakeLeaseResponse \<Rightarrow> bool" where
  "take_lease_response_ok m \<longleftrightarrow> btree_ok (tlr_outputs m)"

interpretation take_lease_response: message_codec fields_TakeLeaseResponse read_TakeLeaseResponse take_lease_response_ok
  by unfold_locales
    (simp add: fields_TakeLeaseResponse_def read_TakeLeaseResponse_def take_lease_response_ok_def
      value_field.map_value_wire)

definition fields_StatusResponse :: "StatusResponse \<Rightarrow> field list" where
  "fields_StatusResponse m =
    tagged 1 (int32_wire (sr_status m)) @
    tagged 2 (map_wire value_wire (sr_outputs m)) @
    tagged 3 (strings_wire (sr_messages m))"

definition read_StatusResponse :: "field list \<Rightarrow> StatusResponse option" where
  "read_StatusResponse fs =
    Option.bind (int32_value (fields_of 1 fs)) (\<lambda>status.
    Option.bind (map_value value_value (fields_of 2 fs)) (\<lambda>outputs.
    Option.bind (strings_value (fields_of 3 fs)) (\<lambda>messages.
      Some \<lparr>sr_status = status, sr_outputs = outputs, sr_messages = messages\<rparr>)))"

definition status_response_ok :: "StatusResponse \<Rightarrow> bool" where
  "status_response_ok m \<longleftrightarrow> btree_ok (sr_outputs m)"

interpretation status_response: message_codec fields_StatusResponse read_StatusResponse status_response_ok
  by unfold_locales
    (simp add: fields_StatusResponse_def read_StatusResponse_def status_response_ok_def
      value_field.map_value_wire)

definition fields_DescribeResponse :: "DescribeResponse \<Rightarrow> field list" where
  "fields_DescribeResponse m =
    tagged 1 (string_wire (dr_impl_id m)) @
    tagged 2 (string_wire (dr_version m)) @
    tagged 3 (map_wire string_wire (dr_schemas m))"

definition read_DescribeResponse :: "field list \<Rightarrow> DescribeResponse option" where
  "read_DescribeResponse fs =
    Option.bind (string_value (fields_of 1 fs)) (\<lambda>impl_id.
    Option.bind (string_value (fields_of 2 fs)) (\<lambda>version.
    Option.bind (map_value string_value (fields_of 3 fs)) (\<lambda>schemas.
      Some \<lparr>dr_impl_id = impl_id, dr_version = version, dr_schemas = schemas\<rparr>)))"

definition describe_response_ok :: "DescribeResponse \<Rightarrow> bool" where
  "describe_response_ok m \<longleftrightarrow> btree_ok (dr_schemas m)"

interpretation describe_response: message_codec fields_DescribeResponse read_DescribeResponse describe_response_ok
  by unfold_locales
    (simp add: fields_DescribeResponse_def read_DescribeResponse_def describe_response_ok_def
      string_field.map_value_wire)

definition fields_DescribeResponses :: "DescribeResponses \<Rightarrow> field list" where
  "fields_DescribeResponses m =
    tagged 1 (messages_wire fields_DescribeResponse (drs_responses m))"

definition read_DescribeResponses :: "field list \<Rightarrow> DescribeResponses option" where
  "read_DescribeResponses fs =
    Option.bind (messages_value read_DescribeResponse (fields_of 1 fs)) (\<lambda>responses.
      Some \<lparr>drs_responses = responses\<rparr>)"

definition describe_responses_ok :: "DescribeResponses \<Rightarrow> bool" where
  "describe_responses_ok m \<longleftrightarrow> list_all describe_response_ok (drs_responses m)"

interpretation describe_responses: message_codec fields_DescribeResponses read_DescribeResponses describe_responses_ok
  by unfold_locales
    (simp add: fields_DescribeResponses_def read_DescribeResponses_def describe_responses_ok_def
      describe_response.messages_value_wire)

definition fields_CreationMetadata :: "CreationMetadata \<Rightarrow> field list" where
  "fields_CreationMetadata m =
    tagged 1 (string_wire (cm_fixture_id m)) @
    tagged 2 (string_wire (cm_client_id m)) @
    tagged 3 (string_wire (cm_owner m)) @
    tagged 4 (map_wire string_wire (cm_labels m))"

definition read_CreationMetadata :: "field list \<Rightarrow> CreationMetadata option" where
  "read_CreationMetadata fs =
    Option.bind (string_value (fields_of 1 fs)) (\<lambda>fixture_id.
    Option.bind (string_value (fields_of 2 fs)) (\<lambda>client_id.
    Option.bind (string_value (fields_of 3 fs)) (\<lambda>owner.
    Option.bind (map_value string_value (fields_of 4 fs)) (\<lambda>labels.
      Some \<lparr>cm_fixture_id = fixture_id, cm_client_id = client_id, cm_owner = owner,
        cm_labels = labels\<rparr>))))"

definition creation_metadata_ok :: "CreationMetadata \<Rightarrow> bool" where
  "creation_metadata_ok m \<longleftrightarrow> btree_ok (cm_labels m)"

interpretation creation_metadata: message_codec fields_CreationMetadata read_CreationMetadata creation_metadata_ok
  by unfold_locales
    (simp add: fields_CreationMetadata_def read_CreationMetadata_def creation_metadata_ok_def
      string_field.map_value_wire)

definition fields_CreateRequest :: "CreateRequest \<Rightarrow> field list" where
  "fields_CreateRequest m =
    tagged 1 (string_wire (cq_impl_id m)) @
    tagged 2 (map_wire value_wire (cq_inputs m)) @
    tagged 3 (message_wire fields_CreationMetadata (cq_metadata m))"

definition read_CreateRequest :: "field list \<Rightarrow> CreateRequest option" where
  "read_CreateRequest fs =
    Option.bind (string_value (fields_of 1 fs)) (\<lambda>impl_id.
    Option.bind (map_value value_value (fields_of 2 fs)) (\<lambda>inputs.
    Option.bind (message_value read_CreationMetadata (fields_of 3 fs)) (\<lambda>metadata.
      Some \<lparr>cq_impl_id = impl_id, cq_inputs = inputs, cq_metadata = metadata\<rparr>)))"

definition create_request_ok :: "CreateRequest \<Rightarrow> bool" where
  "create_request_ok m \<longleftrightarrow> btree_ok (cq_inputs m) \<and> pred_option creation_metadata_ok (cq_metadata m)"

interpretation create_request: message_codec fields_CreateRequest read_CreateRequest create_request_ok
  by unfold_locales
    (simp add: fields_CreateRequest_def read_CreateRequest_def create_request_ok_def
      creation_metadata.message_value_wire value_field.map_value_wire)

definition fields_ResourceAmount :: "ResourceAmount \<Rightarrow> field list" where
  "fields_ResourceAmount m =
    tagged 1 (string_wire (ra_name m)) @
    tagged 2 (string_wire (ra_unit m)) @
    tagged 3 (int64_wire (ra_quantity m))"

definition read_ResourceAmount :: "field list \<Rightarrow> ResourceAmount option" where
  "read_ResourceAmount fs =
    Option.bind (string_value (fields_of 1 fs)) (\<lambda>name.
    Option.bind (string_value (fields_of 2 fs)) (\<lambda>unit.
    Option.bind (int64_value (fields_of 3 fs)) (\<lambda>quantity.
      Some \<lparr>ra_name = name, ra_unit = unit, ra_quantity = quantity\<rparr>)))"

interpretation resource_amount: message_codec fields_ResourceAmount read_ResourceAmount "\<lambda>_. True"
  by unfold_locales
    (simp add: fields_ResourceAmount_def read_ResourceAmount_def)

definition fields_ResourcePool :: "ResourcePool \<Rightarrow> field list" where
  "fields_ResourcePool m =
    tagged 1 (string_wire (rp_pool_id m)) @
    tagged 2 (messages_wire fields_ResourceAmount (rp_resources m))"

definition read_ResourcePool :: "field list \<Rightarrow> ResourcePool option" where
  "read_ResourcePool fs =
    Option.bind (string_value (fields_of 1 fs)) (\<lambda>pool_id.
    Option.bind (messages_value read_ResourceAmount (fields_of 2 fs)) (\<lambda>resources.
      Some \<lparr>rp_pool_id = pool_id, rp_resources = resources\<rparr>))"

interpretation resource_pool: message_codec fields_ResourcePool read_ResourcePool "\<lambda>_. True"
  by unfold_locales
    (simp add: fields_ResourcePool_def read_ResourcePool_def list.pred_True
      resource_amount.messages_value_wire)

definition fields_ResourceRequests :: "ResourceRequests \<Rightarrow> field list" where
  "fields_ResourceRequests m =
    tagged 1 (messages_wire fields_ResourcePool (rr_consumes m))"

definition read_ResourceRequests :: "field list \<Rightarrow> ResourceRequests option" where
  "read_ResourceRequests fs =
    Option.bind (messages_value read_ResourcePool (fields_of 1 fs)) (\<lambda>consumes.
      Some \<lparr>rr_consumes = consumes\<rparr>)"

interpretation resource_requests: message_codec fields_ResourceRequests read_ResourceRequests "\<lambda>_. True"
  by unfold_locales
    (simp add: fields_ResourceRequests_def read_ResourceRequests_def list.pred_True
      resource_pool.messages_value_wire)

definition fields_FixtureElementStatusInfo :: "FixtureElementStatusInfo \<Rightarrow> field list" where
  "fields_FixtureElementStatusInfo m =
    tagged 1 (string_wire (fe_element_name m)) @
    tagged 2 (int32_wire (fe_status m)) @
    tagged 3 (strings_wire (fe_messages m))"

definition read_FixtureElementStatusInfo :: "field list \<Rightarrow> FixtureElementStatusInfo option" where
  "read_FixtureElementStatusInfo fs =
    Option.bind (string_value (fields_of 1 fs)) (\<lambda>element_name.
    Option.bind (int32_value (fields_of 2 fs)) (\<lambda>status.
    Option.bind (strings_value (fields_of 3 fs)) (\<lambda>messages.
      Some \<lparr>fe_element_name = element_name, fe_status = status, fe_messages = messages\<rparr>)))"

interpretation fixture_element_status_info: message_codec fields_FixtureElementStatusInfo read_FixtureElementStatusInfo "\<lambda>_. True"
  by unfold_locales
    (simp add: fields_FixtureElementStatusInfo_def read_FixtureElementStatusInfo_def)

definition fields_FixtureResult :: "FixtureResult \<Rightarrow> field list" where
  "fields_FixtureResult m =
    tagged 1 (map_wire value_wire (fr_outputs m)) @
    tagged 2 (int64_wire (fr_idle_timeout_seconds m)) @
    tagged 3 (bytes_wire (fr_instance_data m)) @
    tagged 4 (messages_wire fields_ResourcePool (fr_consumed m))"

definition read_FixtureResult :: "field list \<Rightarrow> FixtureResult option" where
  "read_FixtureResult fs =
    Option.bind (map_value value_value (fields_of 1 fs)) (\<lambda>outputs.
    Option.bind (int64_value (fields_of 2 fs)) (\<lambda>idle_timeout_seconds.
    Option.bind (bytes_value (fields_of 3 fs)) (\<lambda>instance_data.
    Option.bind (messages_value read_ResourcePool (fields_of 4 fs)) (\<lambda>consumed.
      Some \<lparr>fr_outputs = outputs, fr_idle_timeout_seconds = idle_timeout_seconds,
        fr_instance_data = instance_data, fr_consumed = consumed\<rparr>))))"

definition fixture_result_ok :: "FixtureResult \<Rightarrow> bool" where
  "fixture_result_ok m \<longleftrightarrow> btree_ok (fr_outputs m)"

interpretation fixture_result: message_codec fields_FixtureResult read_FixtureResult fixture_result_ok
  by unfold_locales
    (simp add: fields_FixtureResult_def read_FixtureResult_def fixture_result_ok_def list.pred_True
      resource_pool.messages_value_wire value_field.map_value_wire)

definition fields_CreateProgress :: "CreateProgress \<Rightarrow> field list" where
  "fields_CreateProgress m =
    tagged 1 (int32_wire (cp_status m)) @
    tagged 2 (messages_wire fields_FixtureElementStatusInfo (cp_element_infos m)) @
    tagged 3 (message_wire fields_FixtureResult (cp_result m))"

definition read_CreateProgress :: "field list \<Rightarrow> CreateProgress option" where
  "read_CreateProgress fs =
    Option.bind (int32_value (fields_of 1 fs)) (\<lambda>status.
    Option.bind (messages_value read_FixtureElementStatusInfo (fields_of 2 fs)) (\<lambda>element_infos.
    Option.bind (message_value read_FixtureResult (fields_of 3 fs)) (\<lambda>result.
      Some \<lparr>cp_status = status, cp_element_infos = element_infos, cp_result = result\<rparr>)))"

definition create_progress_ok :: "CreateProgress \<Rightarrow> bool" where
  "create_progress_ok m \<longleftrightarrow> pred_option fixture_result_ok (cp_result m)"

interpretation create_progress: message_codec fields_CreateProgress read_CreateProgress create_progress_ok
  by unfold_locales
    (simp add: fields_CreateProgress_def read_CreateProgress_def create_progress_ok_def
      fixture_element_status_info.messages_value_wire fixture_result.message_value_wire
      list.pred_True)

definition fields_DestroyRequest :: "DestroyRequest \<Rightarrow> field list" where
  "fields_DestroyRequest m =
    tagged 1 (string_wire (dq_impl_id m)) @
    tagged 2 (bytes_wire (dq_instance_data m))"

definition read_DestroyRequest :: "field list \<Rightarrow> DestroyRequest option" where
  "read_DestroyRequest fs =
    Option.bind (string_value (fields_of 1 fs)) (\<lambda>impl_id.
    Option.bind (bytes_value (fields_of 2 fs)) (\<lambda>instance_data.
      Some \<lparr>dq_impl_id = impl_id, dq_instance_data = instance_data\<rparr>))"

interpretation destroy_request: message_codec fields_DestroyRequest read_DestroyRequest "\<lambda>_. True"
  by unfold_locales
    (simp add: fields_DestroyRequest_def read_DestroyRequest_def)

definition fields_HealthCheckRequest :: "HealthCheckRequest \<Rightarrow> field list" where
  "fields_HealthCheckRequest m =
    tagged 1 (string_wire (hq_impl_id m)) @
    tagged 2 (bytes_wire (hq_instance_data m))"

definition read_HealthCheckRequest :: "field list \<Rightarrow> HealthCheckRequest option" where
  "read_HealthCheckRequest fs =
    Option.bind (string_value (fields_of 1 fs)) (\<lambda>impl_id.
    Option.bind (bytes_value (fields_of 2 fs)) (\<lambda>instance_data.
      Some \<lparr>hq_impl_id = impl_id, hq_instance_data = instance_data\<rparr>))"

interpretation health_check_request: message_codec fields_HealthCheckRequest read_HealthCheckRequest "\<lambda>_. True"
  by unfold_locales
    (simp add: fields_HealthCheckRequest_def read_HealthCheckRequest_def)

definition fields_HealthCheckResponse :: "HealthCheckResponse \<Rightarrow> field list" where
  "fields_HealthCheckResponse m =
    tagged 1 (bool_wire (hr_healthy m)) @
    tagged 2 (string_wire (hr_message m))"

definition read_HealthCheckResponse :: "field list \<Rightarrow> HealthCheckResponse option" where
  "read_HealthCheckResponse fs =
    Option.bind (bool_value (fields_of 1 fs)) (\<lambda>healthy.
    Option.bind (string_value (fields_of 2 fs)) (\<lambda>message.
      Some \<lparr>hr_healthy = healthy, hr_message = message\<rparr>))"

interpretation health_check_response: message_codec fields_HealthCheckResponse read_HealthCheckResponse "\<lambda>_. True"
  by unfold_locales
    (simp add: fields_HealthCheckResponse_def read_HealthCheckResponse_def)

text \<open>Messages without fields.\<close>

definition fields_nothing :: "'m \<Rightarrow> field list" where
  "fields_nothing m = []"

definition read_nothing :: "'m \<Rightarrow> field list \<Rightarrow> 'm option" where
  "read_nothing m fs = Some m"

interpretation empty_msg: message_codec fields_nothing "read_nothing Empty" "\<lambda>_. True"
  by unfold_locales (metis Empty.exhaust read_nothing_def)

interpretation keepalive_response_msg: message_codec fields_nothing "read_nothing KeepaliveResponse" "\<lambda>_. True"
  by unfold_locales (metis KeepaliveResponse.exhaust read_nothing_def)

interpretation release_response_msg: message_codec fields_nothing "read_nothing ReleaseResponse" "\<lambda>_. True"
  by unfold_locales (metis ReleaseResponse.exhaust read_nothing_def)

interpretation destroy_response_msg: message_codec fields_nothing "read_nothing DestroyResponse" "\<lambda>_. True"
  by unfold_locales (metis DestroyResponse.exhaust read_nothing_def)

end
