(* ===== verification/Typing.thy ===== *)
theory Typing
  imports Codec Coordinator
begin

text \<open>
  The types of the program that the model does not carry in its own types: a \<open>BTreeMap\<close> is a
  list of entries in the model, and the fields of enumeration type are numbers. Handlers turn
  well-typed states and requests into well-typed states, responses and plugin requests.
\<close>

definition state_typed :: "State \<Rightarrow> bool" where
  "state_typed s \<longleftrightarrow> (\<forall>fp r. hash_get (st_fixtures s) fp = Some r \<longrightarrow> btree_ok (fx_outputs r))"

definition plugin_typed :: "plugin_env \<Rightarrow> bool" where
  "plugin_typed env \<longleftrightarrow> (\<forall>q res. create_fixture env q = Some (Ok res) \<longrightarrow> btree_ok (fr_outputs res))"

definition response_typed :: "TakeLeaseResponse \<Rightarrow> bool" where
  "response_typed r \<longleftrightarrow> take_lease_response_ok r \<and> LeaseStatus_try_from (tlr_status r) = Some Succeeded"

lemma State_default_typed: "state_typed State_default"
  by (simp add: state_typed_def State_default_def)

lemma try_reuse_typed:
  assumes "state_typed s" "try_reuse fp c u s = Some (resp, s')"
  shows "state_typed s' \<and> response_typed resp"
  using assms(2)
  by (rule try_reuse_SomeD)
    (use assms(1) in \<open>auto simp: state_typed_def response_typed_def take_lease_response_ok_def LeaseStatus_try_from_def\<close>)

lemma commit_fixture_typed:
  assumes "state_typed s" "btree_ok (fx_outputs r)" "commit_fixture fp r u (s, w) = (resp, s', w')"
  shows "state_typed s' \<and> response_typed resp"
  using assms(1,2) commit_fixture_eqs [OF assms(3)]
  by (auto simp: state_typed_def response_typed_def take_lease_response_ok_def LeaseStatus_try_from_def)

lemma release_lease_typed: "state_typed s \<Longrightarrow> state_typed (snd (release_lease q s))"
  by (auto simp: state_typed_def release_lease_def Let_def split: option.splits)

lemma status_typed: "state_typed s \<Longrightarrow> status q s = Ok r \<Longrightarrow> status_response_ok r"
  by (auto simp: state_typed_def status_def result_simps status_response_ok_def unwrap_or_def split: option.splits)

lemma create_request_typed: "desc_ok desc \<Longrightarrow> create_request_ok (make_create_request desc req u)"
  by (simp add: desc_ok_def create_request_ok_def make_create_request_def creation_metadata_ok_def)

lemma take_lease_typed:
  assumes "state_typed s" "plugin_typed (te_plugin te)" "take_lease dir te req (s, w) = Some (out, s', w')"
  shows "state_typed s' \<and> (\<forall>resp. out = Return resp \<longrightarrow> response_typed resp)"
  using assms(3)
proof (cases rule: take_lease_cases)
  case (reused desc b fp resp)
  with try_reuse_typed [OF assms(1)] show ?thesis by blast
next
  case (provisioned desc b fp plugin result v resp)
  have "btree_ok (fr_outputs result)"
    using provision_Return(2) [OF provisioned(4)] assms(2) by (simp add: plugin_typed_def)
  then show ?thesis using commit_fixture_typed [OF assms(1) _ provisioned(5)] provisioned(6) by simp
qed (use assms(1) in simp_all)

end
