(* ===== verification/Dummy_Plugin.thy ===== *)
theory Dummy_Plugin
  imports Coordinator "HOL-Library.Multiset"
begin

text \<open>
  Model of \<^verbatim>\<open>src/plugins/dummy/src/main.rs\<close>: the stub plugin. Its handlers are pure functions of
  the request. The JSON parser and printer of \<open>serde_json\<close> are outside the repository; they
  are the arguments \<open>from_str\<close> and \<open>to_vec\<close>. Reading a decimal \<open>u64\<close> is the standard library's
  and is written out, because a port that does not parse becomes 0.
\<close>

section \<open>JSON values\<close>

datatype JsonNumber = PosInt u64 | NegInt i64 | Float string

datatype JsonValue =
    JsonNull
  | JsonBool bool
  | JsonNumber JsonNumber
  | JsonString string
  | JsonArray "JsonValue list"
  | JsonObject "(string \<times> JsonValue) list"

text \<open>
  A \<open>Map\<close> is its entries in iteration order, with distinct keys. The macro \<open>json!\<close> inserts the
  entries one by one; with the default features of the crate a \<open>Map\<close> is a \<open>BTreeMap\<close>.
\<close>

type_synonym json_map = "(string \<times> JsonValue) list"

definition json_object :: "(string \<times> JsonValue) list \<Rightarrow> JsonValue" where
  "json_object es = JsonObject (fold (\<lambda>(k, v). btree_insert k v) es [])"

fun as_u64 :: "JsonNumber \<Rightarrow> u64 option" where
  "as_u64 (PosInt n) = Some n"
| "as_u64 _ = None"

section \<open>Decimal numbers\<close>

definition digit_value :: "char \<Rightarrow> nat option" where
  "digit_value c = (let n = of_char c in if 48 \<le> n \<and> n \<le> 57 then Some (n - 48) else None)"

text \<open>
  \<open>str::parse::<u64>\<close>: an optional plus sign, then at least one digit; the accumulator is
  checked for overflow at every digit.
\<close>

fun parse_digits :: "nat \<Rightarrow> string \<Rightarrow> nat option" where
  "parse_digits acc [] = Some acc"
| "parse_digits acc (c # cs) =
    (case digit_value c of
       None \<Rightarrow> None
     | Some d \<Rightarrow> if acc * 10 + d < 2 ^ 64 then parse_digits (acc * 10 + d) cs else None)"

definition parse_u64 :: "string \<Rightarrow> u64 option" where
  "parse_u64 s =
    (let ds = (if s \<noteq> [] \<and> hd s = CHR ''+'' then tl s else s) in
     if ds = [] then None else map_option word_of_nat (parse_digits 0 ds))"

section \<open>The ports blob\<close>

definition port_value :: "JsonValue \<Rightarrow> u64" where
  "port_value v =
    (case v of
       JsonString s \<Rightarrow> unwrap_or 0 (parse_u64 s)
     | JsonNumber n \<Rightarrow> unwrap_or 0 (as_u64 n)
     | _ \<Rightarrow> 0)"

definition port_entry :: "string \<Rightarrow> u64 \<Rightarrow> JsonValue" where
  "port_entry name port =
    json_object
      [(''name'', JsonString name), (''protocol'', JsonString ''tcp''), (''tunnel'', JsonBool False),
       (''host'', JsonString ''127.0.0.1''), (''port'', JsonNumber (PosInt port))]"

text \<open>The entries, sorted by name; \<open>None\<close> where indexing \<open>parsed\<close> with a name would panic.\<close>

definition port_entries :: "json_map \<Rightarrow> JsonValue list option" where
  "port_entries parsed =
    those (map (\<lambda>name. map_option (\<lambda>v. port_entry name (port_value v)) (map_of parsed name))
      (sort (map fst parsed)))"

definition ports_schema_blob ::
  "(string \<Rightarrow> (Error, json_map) result) \<Rightarrow> (JsonValue \<Rightarrow> (Error, byte list) result) \<Rightarrow>
    string \<Rightarrow> byte list option" where
  "ports_schema_blob from_str to_vec ports_input =
    (let parsed = (case from_str ports_input of Ok m \<Rightarrow> m | Err _ \<Rightarrow> []) in
     map_option
       (\<lambda>ports. case to_vec (json_object [(''ports'', JsonArray ports)]) of Ok bs \<Rightarrow> bs | Err _ \<Rightarrow> [])
       (port_entries parsed))"

section \<open>Handlers\<close>

definition IMPL_ID :: string where
  "IMPL_ID = ''@rules_systemtest//fixtures:dummy''"

definition StubPlugin_describe_plugin :: "Empty \<Rightarrow> (Status, DescribeResponses) result" where
  "StubPlugin_describe_plugin _ =
    (let schemas = btree_insert ''systemtest.ports'' ''{}'' [] in
     Ok \<lparr>drs_responses = [\<lparr>dr_impl_id = IMPL_ID, dr_version = ''0.0.1'', dr_schemas = schemas\<rparr>]\<rparr>)"

definition StubPlugin_get_resource_pool :: "CreateRequest \<Rightarrow> (Status, ResourcePool) result" where
  "StubPlugin_get_resource_pool _ = Ok \<lparr>rp_pool_id = ''local'', rp_resources = []\<rparr>"

definition StubPlugin_get_resource_requests :: "CreateRequest \<Rightarrow> (Status, ResourceRequests) result" where
  "StubPlugin_get_resource_requests _ = Ok \<lparr>rr_consumes = []\<rparr>"

definition ports_input_of :: "CreateRequest \<Rightarrow> string" where
  "ports_input_of req =
    unwrap_or ''{}''
      (Option.bind (btree_get (cq_inputs req) ''ports'') (\<lambda>v.
        case v_value v of Some (Str s) \<Rightarrow> Some s | _ \<Rightarrow> None))"

text \<open>The stream of the response, as the list of its items; \<open>Panic\<close> if building the blob panics.\<close>

definition StubPlugin_create_fixture ::
  "(string \<Rightarrow> (Error, json_map) result) \<Rightarrow> (JsonValue \<Rightarrow> (Error, byte list) result) \<Rightarrow>
    CreateRequest \<Rightarrow> (Status, (Status, CreateProgress) result list) outcome" where
  "StubPlugin_create_fixture from_str to_vec req =
    (case ports_schema_blob from_str to_vec (ports_input_of req) of
       None \<Rightarrow> Panic
     | Some contents \<Rightarrow>
         let outputs = btree_insert ''endpoints''
               \<lparr>v_value = Some (SchemaBlob \<lparr>sb_schema_id = ''systemtest.ports'', sb_contents = contents\<rparr>)\<rparr> [];
             progress =
               \<lparr>cp_status = CreateProgressStatus_as_i32 CreateProgressSucceeded,
                cp_element_infos = [],
                cp_result = Some
                  \<lparr>fr_outputs = outputs, fr_idle_timeout_seconds = 60,
                   fr_instance_data = bytes_of ''stub'', fr_consumed = []\<rparr>\<rparr>
         in Return [Ok progress])"

definition StubPlugin_destroy_fixture :: "DestroyRequest \<Rightarrow> (Status, DestroyResponse) result" where
  "StubPlugin_destroy_fixture _ = Ok DestroyResponse"

definition StubPlugin_health_check :: "HealthCheckRequest \<Rightarrow> (Status, HealthCheckResponse) result" where
  "StubPlugin_health_check _ = Ok \<lparr>hr_healthy = True, hr_message = ''''\<rparr>"

section \<open>The plugin process\<close>

text \<open>
  \<open>main\<close>: prepare the socket and serve on it. The operating system and the server are
  arguments; \<open>serve\<close> is \<open>None\<close> when the server never exits.
\<close>

definition plugin_main ::
  "(path \<Rightarrow> (Error, unit) result) \<Rightarrow> (path \<Rightarrow> (Error, unit) result) \<Rightarrow> (Error, unit) result option \<Rightarrow>
    path \<Rightarrow> (Error, unit) io" where
  "plugin_main create_dir_all bind serve socket =
    io_bind
      (case parent socket of
         None \<Rightarrow> io_return ()
       | Some dir \<Rightarrow>
           io_bind (io_emit (CreateDirAll dir)) (\<lambda>_.
             io_lift (map_err (WithContext (CreatingPluginSocketDir dir)) (create_dir_all dir))))
      (\<lambda>_. io_bind (io_emit (RemoveFile socket)) (\<lambda>_.
         io_bind (io_lift (map_err (WithContext (BindingSocket socket)) (bind socket))) (\<lambda>_.
         io_bind (io_emit (BindSocket socket)) (\<lambda>_.
         io_await (map_option (map_err (WithContext ServerExited)) serve)))))"

definition socket_dirs :: "path \<Rightarrow> path list" where
  "socket_dirs socket = (case parent socket of None \<Rightarrow> [] | Some dir \<Rightarrow> [dir])"

section \<open>Parsing is exact\<close>

fun decimal :: "nat \<Rightarrow> string \<Rightarrow> nat" where
  "decimal acc [] = acc"
| "decimal acc (c # cs) = decimal (acc * 10 + (of_char c - 48)) cs"

definition is_digit :: "char \<Rightarrow> bool" where
  "is_digit c \<longleftrightarrow> CHR ''0'' \<le> c \<and> c \<le> CHR ''9''"

lemma digit_value_eq: "digit_value c = (if is_digit c then Some (of_char c - 48) else None)"
  by (simp add: digit_value_def is_digit_def less_eq_char_def Let_def)

lemma decimal_ge: "acc \<le> decimal acc ds"
proof (induction ds arbitrary: acc)
  case (Cons c ds)
  have "acc \<le> acc * 10 + (of_char c - 48)" by simp
  also have "\<dots> \<le> decimal (acc * 10 + (of_char c - 48)) ds" by (rule Cons.IH)
  finally show ?case by simp
qed simp

lemma parse_digits_iff:
  "acc < 2 ^ 64 \<Longrightarrow>
    parse_digits acc ds = Some n \<longleftrightarrow> list_all is_digit ds \<and> decimal acc ds = n \<and> n < 2 ^ 64"
proof (induction ds arbitrary: acc)
  case Nil
  then show ?case by auto
next
  case (Cons c ds)
  show ?case
    using Cons.IH [of "acc * 10 + (of_char c - 48)"] decimal_ge [of "acc * 10 + (of_char c - 48)" ds]
    by (auto simp: digit_value_eq)
qed

text \<open>A text denotes \<open>n\<close> if it is a decimal numeral of \<open>n\<close>, with or without a plus sign.\<close>

definition denotes :: "string \<Rightarrow> u64 \<Rightarrow> bool" where
  "denotes s n \<longleftrightarrow>
    (\<exists>ds. (s = ds \<or> s = CHR ''+'' # ds) \<and> ds \<noteq> [] \<and> list_all is_digit ds \<and> decimal 0 ds = unat n)"

lemma parse_u64_iff: "parse_u64 s = Some n \<longleftrightarrow> denotes s n"
proof -
  have word: "map_option word_of_nat (parse_digits 0 ds) = Some n \<longleftrightarrow>
      list_all is_digit ds \<and> decimal 0 ds = unat n" for ds
  proof -
    have "unat (word_of_nat m :: u64) = m" if "m < 2 ^ 64" for m
      using that by (simp add: unat_of_nat)
    moreover have "unat n < 2 ^ 64" using unsigned_less [of n] by simp
    moreover have "word_of_nat (unat n) = n" by simp
    ultimately show ?thesis by (fastforce simp: parse_digits_iff)
  qed
  have "\<not> is_digit (CHR ''+'')" by (simp add: is_digit_def less_eq_char_def)
  moreover define ds where "ds = (if s \<noteq> [] \<and> hd s = CHR ''+'' then tl s else s)"
  moreover have "parse_u64 s = Some n \<longleftrightarrow> ds \<noteq> [] \<and> list_all is_digit ds \<and> decimal 0 ds = unat n"
    using word [of ds] by (simp add: parse_u64_def Let_def flip: ds_def)
  ultimately show ?thesis by (cases s) (auto simp: denotes_def)
qed

section \<open>The entries of the blob\<close>

lemma sort_map_fst: "sort (map fst m) = map fst (sort_key fst m)"
  by (rule properties_for_sort) simp_all

lemma port_entries_eq:
  assumes "distinct (map fst m)"
  shows "port_entries m = Some (map (\<lambda>(k, v). port_entry k (port_value v)) (sort_key fst m))"
proof -
  have "those (map (\<lambda>e. map_option (\<lambda>v. port_entry (fst e) (port_value v)) (map_of m (fst e))) (sort_key fst m)) =
      Some (map (\<lambda>(k, v). port_entry k (port_value v)) (sort_key fst m))"
    using assms by (intro those_map_Some) auto
  then show ?thesis by (simp add: port_entries_def sort_map_fst o_def)
qed

lemma sort_key_unique:
  assumes "distinct (map fst m)" "distinct (map fst m')" "set m = set m'"
  shows "sort_key fst m = sort_key fst (m' :: ('k::linorder \<times> 'v) list)"
proof (rule map_sorted_distinct_set_unique [of fst])
  show "inj_on fst (set (sort_key fst m) \<union> set (sort_key fst m'))"
    using assms by (simp add: distinct_map)
  have "distinct (map fst (sort_key fst xs))" if "distinct (map fst xs)" for xs :: "('k \<times> 'v) list"
    using that by (simp add: sort_map_fst [symmetric])
  with assms show "distinct (map fst (sort_key fst m))" "distinct (map fst (sort_key fst m'))"
    by blast+
qed (use assms in simp_all)

text \<open>The parser yields maps: no key twice.\<close>

definition parses_maps :: "(string \<Rightarrow> (Error, json_map) result) \<Rightarrow> bool" where
  "parses_maps from_str \<longleftrightarrow> (\<forall>s m. from_str s = Ok m \<longrightarrow> distinct (map fst m))"

lemma blob_eq:
  assumes "parses_maps from_str"
  shows "\<exists>blob. ports_schema_blob from_str to_vec s = Some blob"
proof -
  have "distinct (map fst (case from_str s of Ok m \<Rightarrow> m | Err _ \<Rightarrow> []))"
    using assms by (auto simp: parses_maps_def split: sum.splits)
  from port_entries_eq [OF this] show ?thesis by (simp add: ports_schema_blob_def Let_def)
qed

section \<open>The plugin behind the coordinator\<close>

text \<open>
  What the coordinator's calls see when the process at the other end of the socket is the
  stub: each \<open>message()\<close> takes the next item of the stream, then its end.
\<close>

definition stream_of :: "(Status, CreateProgress) result list \<Rightarrow> progress_stream" where
  "stream_of items i =
    Some (if i < length items then (case items ! i of Err e \<Rightarrow> Err e | Ok p \<Rightarrow> Ok (Some p)) else Ok None)"

text \<open>A handler that panics resets the stream of its call; the caller sees an error status.\<close>

definition stub_env ::
  "(string \<Rightarrow> (Error, json_map) result) \<Rightarrow> (JsonValue \<Rightarrow> (Error, byte list) result) \<Rightarrow>
    plugin_env \<Rightarrow> plugin_env" where
  "stub_env from_str to_vec env =
    env\<lparr>env_describe_plugin := \<lambda>req. Some (StubPlugin_describe_plugin req),
        env_create_fixture := \<lambda>req. Some
          (case StubPlugin_create_fixture from_str to_vec req of
            Return items \<Rightarrow> Ok (stream_of items)
          | Fail e \<Rightarrow> Err e
          | Panic \<Rightarrow> Err (Status CodeUnknown (Text ''stream reset'')))\<rparr>"

text \<open>Which plugin serves does not matter until the calls: spawning is the same.\<close>

lemma stub_env_spawn [simp]:
  "PluginProcess_spawn (stub_env from_str to_vec env) b s t = PluginProcess_spawn env b s t"
  unfolding stub_env_def by (rule calls_spawn)

definition endpoints :: "byte list \<Rightarrow> (string, Value) btree_map" where
  "endpoints contents =
    [(''endpoints'', \<lparr>v_value = Some (SchemaBlob \<lparr>sb_schema_id = ''systemtest.ports'', sb_contents = contents\<rparr>)\<rparr>)]"

lemma stub_create_fixture:
  assumes "ports_schema_blob from_str to_vec (ports_input_of req) = Some blob"
  shows "create_fixture (stub_env from_str to_vec env) req =
    Some (Ok \<lparr>fr_outputs = endpoints blob, fr_idle_timeout_seconds = 60,
      fr_instance_data = bytes_of ''stub'', fr_consumed = []\<rparr>)"
  using assms progress_status.accessor_as_i32 [of CreateProgressSucceeded]
  by (simp add: create_fixture_def stub_env_def StubPlugin_create_fixture_def Let_def endpoints_def
      loop_from.simps [of _ 0] progress_round_def stream_of_def CreateProgress_status_def)

section \<open>Properties\<close>

text \<open>
  C38. The ports blob lists each requested port exactly once, in the order of the names, with
  the port it was requested with; indexing never panics, and the blob does not depend on the
  order in which the parsed map iterates.
\<close>

theorem ports_blob_entries:
  assumes "distinct (map fst m)" "distinct (map fst m')" "set m = set m'"
  shows "port_entries m' = port_entries m \<and>
    port_entries m = Some (map (\<lambda>(k, v). port_entry k (port_value v)) (sort_key fst m)) \<and>
    sorted_wrt (<) (map fst (sort_key fst m)) \<and> set (sort_key fst m) = set m"
proof -
  have "distinct (map fst (sort_key fst m))" using assms(1) by (simp flip: sort_map_fst)
  then have "sorted_wrt (<) (map fst (sort_key fst m))" by (simp add: strict_sorted_iff)
  then show ?thesis
    using port_entries_eq assms sort_key_unique [OF assms] by simp
qed

theorem ports_blob_entries_witness:
  "port_entries [(''b'', JsonString ''6379''), (''a'', JsonNull)] =
    Some [port_entry ''a'' 0, port_entry ''b'' 6379]"
proof -
  have "sort_key fst [(''b'', JsonString ''6379''), (''a'', JsonNull)] =
      [(''a'', JsonNull), (''b'', JsonString ''6379'')]" by simp
  moreover have "parse_u64 ''6379'' = Some 6379" by (simp add: parse_u64_def digit_value_def)
  ultimately show ?thesis
    using ports_blob_entries [of "[(''b'', JsonString ''6379''), (''a'', JsonNull)]"
        "[(''a'', JsonNull), (''b'', JsonString ''6379'')]"]
    by (auto simp: port_value_def)
qed

text \<open>
  C39. A port given as a string is read exactly: it is \<open>n\<close> if the text is a decimal numeral of
  \<open>n\<close> (an optional plus sign and at least one digit) that fits 64 bits, and 0 for every other
  text, an overflowing numeral included.
\<close>

theorem port_value_string:
  "port_value (JsonString s) = n \<longleftrightarrow> denotes s n \<or> n = 0 \<and> (\<forall>m. \<not> denotes s m)"
proof (cases "parse_u64 s")
  case None
  then show ?thesis
    using parse_u64_iff [of s] by (auto simp: port_value_def)
next
  case (Some k)
  moreover from Some have "denotes s m \<longleftrightarrow> m = k" for m by (auto simp flip: parse_u64_iff)
  ultimately show ?thesis by (auto simp: port_value_def)
qed

text \<open>
  The stub plugin satisfies what the coordinator waits for: \<open>CreateFixture\<close> answers with one
  terminal message, so the coordinator's drain loop returns a result, and every schema the
  result's outputs carry is advertised by the plugin's \<open>DescribePlugin\<close>.
\<close>

theorem stub_plugin_creates:
  assumes "parses_maps from_str"
  shows "\<exists>res d. create_fixture (stub_env from_str to_vec env) req = Some (Ok res) \<and>
    describe (stub_env from_str to_vec env) = Some (Ok d) \<and> fr_outputs res \<noteq> [] \<and>
    (\<forall>(k, v) \<in> set (fr_outputs res). \<exists>b. v_value v = Some (SchemaBlob b) \<and>
      (\<exists>r \<in> set (drs_responses d). btree_get (dr_schemas r) (sb_schema_id b) \<noteq> None))"
proof -
  obtain blob where "ports_schema_blob from_str to_vec (ports_input_of req) = Some blob"
    using blob_eq [OF assms] by blast
  from stub_create_fixture [OF this] show ?thesis
    by (simp add: describe_def stub_env_def StubPlugin_describe_plugin_def endpoints_def btree_get_def)
qed

theorem stub_plugin_creates_witness:
  "\<exists>res d. create_fixture (stub_env (\<lambda>_. Ok [(''main'', JsonString ''6379'')]) (\<lambda>_. Ok [1]) silent_env)
      \<lparr>cq_impl_id = IMPL_ID, cq_inputs = [], cq_metadata = None\<rparr> = Some (Ok res) \<and>
    describe (stub_env (\<lambda>_. Ok [(''main'', JsonString ''6379'')]) (\<lambda>_. Ok [1]) silent_env) = Some (Ok d)"
proof -
  have "parses_maps (\<lambda>_. Ok [(''main'', JsonString ''6379'')])" by (simp add: parses_maps_def)
  from stub_plugin_creates [OF this] show ?thesis by blast
qed

text \<open>
  End to end: when the process the coordinator has spawned and connected to is the stub
  plugin, a \<open>TakeLease\<close> that finds nothing to reuse succeeds, and its response carries the
  ports blob built from the \<open>ports\<close> input of the fixture description.
\<close>

theorem take_lease_with_stub_plugin:
  assumes "parses_maps from_str" "te_plugin te = stub_env from_str to_vec env"
    and "requested_fixture req = Ok (desc, b)" "request_fingerprint te desc b = Ok fp"
    and "try_reuse fp (tlq_client_id req) (te_lease_uuid te) s = None"
    and "PluginProcess_spawn (te_plugin te) b (plugin_socket_path dir (te_socket_uuid te))
      (startup_timeout desc) w = Some (Return p, v)"
  shows "\<exists>resp s' w' blob. take_lease dir te req (s, w) = Some (Return resp, s', w') \<and>
    ports_schema_blob from_str to_vec
      (ports_input_of \<lparr>cq_impl_id = fd_impl_id desc, cq_inputs = fd_inputs desc, cq_metadata = None\<rparr>) = Some blob \<and>
    tlr_outputs resp = endpoints blob"
proof -
  let ?req = "make_create_request desc req (te_fixture_uuid te)"
  obtain blob where blob: "ports_schema_blob from_str to_vec (ports_input_of ?req) = Some blob"
    using blob_eq [OF assms(1)] by blast
  have d: "env_describe_plugin (te_plugin te) Empty = Some (StubPlugin_describe_plugin Empty)"
    by (simp add: assms(2) stub_env_def)
  have "provision dir te req desc b w = Some (Return (p,
      \<lparr>fr_outputs = endpoints blob, fr_idle_timeout_seconds = 60,
       fr_instance_data = bytes_of ''stub'', fr_consumed = []\<rparr>), v)"
    using stub_create_fixture [OF blob, of env] assms(6) d
    by (simp add: provision_def Let_def io_bind_eq_Return io_map_err_eq_Return provision_plugin_Return assms(2))
      (simp add: StubPlugin_describe_plugin_def)
  then show ?thesis
    using assms(3-5) blob
    by (simp add: take_lease_def commit_fixture_def Let_def make_create_request_def ports_input_of_def)
qed

theorem take_lease_with_stub_plugin_witness:
  "\<exists>resp s' w'. take_lease demo_dir
      ((demo_env ''a'' 1 [])\<lparr>te_plugin := stub_env (\<lambda>_. Ok []) (\<lambda>_. Ok [7]) (demo_plugin 1 [])\<rparr>)
      (demo_request ''A'' (demo_desc (SingleUse Empty) 1)) (State_default, []) = Some (Return resp, s', w') \<and>
    tlr_outputs resp = endpoints [7]"
proof -
  let ?env = "stub_env (\<lambda>_. Ok []) (\<lambda>_. Ok [7]) (demo_plugin 1 [])"
  let ?te = "(demo_env ''a'' 1 [])\<lparr>te_plugin := ?env\<rparr>"
  let ?s = "plugin_socket_path demo_dir (te_socket_uuid ?te)"
  have fp: "request_fingerprint ?te (demo_desc (SingleUse Empty) 1) ''/plugin'' = Ok demo_fp"
    using demo_fingerprint [of "''a''" 1 "[]"] by (simp add: request_fingerprint_def)
  have sp: "PluginProcess_spawn ?env ''/plugin'' ?s 300000 [] =
      Some (Return \<lparr>pp_child = 1, pp_client = Channel ?s\<rparr>, spawn_calls ''/plugin'' ?s 1)"
    using demo_spawns [of 1 "[]" "''/plugin''" ?s "[]"] by simp
  have none: "try_reuse demo_fp c u State_default = None" for c u
    by (simp add: try_reuse_def State_default_def)
  have st: "startup_timeout (demo_desc (SingleUse Empty) 1) = 300000"
    by (simp add: startup_timeout_def demo_desc_def)
  show ?thesis
    using take_lease_with_stub_plugin [of "\<lambda>_. Ok []" ?te "\<lambda>_. Ok [7]" "demo_plugin 1 []",
        OF _ _ demo_requested fp none] sp st
    by (auto simp: parses_maps_def ports_schema_blob_def port_entries_def)
qed

text \<open>
  The plugin process serves exactly when its socket can be prepared: \<open>main\<close> does not come
  back if and only if the socket's directory can be created, the socket can be bound and the
  server does not exit; and before it binds, it has unlinked a stale socket file.
\<close>

theorem plugin_main_serves_iff:
  "(plugin_main mk bind serve s w = None \<longleftrightarrow>
     list_all (\<lambda>d. mk d = Ok ()) (socket_dirs s) \<and> bind s = Ok () \<and> serve = None) \<and>
   (plugin_main mk bind (Some (Ok ())) s w = Some (Return (), w') \<longleftrightarrow>
     list_all (\<lambda>d. mk d = Ok ()) (socket_dirs s) \<and> bind s = Ok () \<and>
     w' = w @ map CreateDirAll (socket_dirs s) @ [RemoveFile s, BindSocket s])"
  by (cases "parent s"; cases "mk (the (parent s))"; cases "bind s"; cases serve;
      auto simp: plugin_main_def socket_dirs_def io_bind_def io_return_def io_lift_def io_emit_def io_await_def)

end
