(* ===== verification/Rpc.thy ===== *)
theory Rpc
  imports Grpc Typing Dummy_Plugin
begin

text \<open>
  A call from end to end: the client stubs of \<^verbatim>\<open>src/proto/systemtestrs/src/lib.rs\<close> encode a request
  and send it to the path of their method, the server stubs dispatch the path, decode the
  request, call the handler and encode what it returns, and the client decodes the response.
  The two services are connected to the handlers of the coordinator and of the stub plugin.
  What tonic does between the stubs and how prost encodes a message is outside the repository:
  they are the argument \<open>tonic\<close>, a record of functions on bytes and of codecs, and what the stubs
  rely on is the hypothesis \<open>tonic_ok\<close>.
\<close>

section \<open>Services and clients\<close>

text \<open>
  A \<open>tonic::codegen::Service\<close> on a state \<open>'s\<close>: whether it is ready, and its answer to a request
  for a path; \<open>None\<close> if it never answers.
\<close>

record ('q, 'h, 's) GrpcService =
  gs_poll_ready :: "(Error, unit) result"
  gs_call :: "string \<Rightarrow> 'q \<Rightarrow> 's \<Rightarrow> ('h \<times> 's) option"

text \<open>
  \<open>CoordinatorServiceClient\<close> and \<open>CoordinatorPluginClient\<close>, which are the same, with the
  configuration kept in the client of tonic they wrap, and the builder methods on them. Without
  an origin the requests keep the default one. Making an endpoint, connecting to it and wrapping
  a service in an interceptor are tonic's.
\<close>

record ('t, 'c) Client =
  cl_inner :: 't
  cl_origin :: "string option"
  cl_send_compression :: "'c option"
  cl_accept_compression :: "'c set"
  cl_max_decoding_message_size :: "u64 option"
  cl_max_encoding_message_size :: "u64 option"

definition Client_new :: "'t \<Rightarrow> ('t, 'c) Client" where
  "Client_new inner =
    \<lparr>cl_inner = inner, cl_origin = None, cl_send_compression = None, cl_accept_compression = {},
     cl_max_decoding_message_size = None, cl_max_encoding_message_size = None\<rparr>"

definition Client_with_origin :: "'t \<Rightarrow> string \<Rightarrow> ('t, 'c) Client" where
  "Client_with_origin inner origin = (Client_new inner)\<lparr>cl_origin := Some origin\<rparr>"

definition Client_with_interceptor :: "('t \<Rightarrow> 'f \<Rightarrow> 'i) \<Rightarrow> 't \<Rightarrow> 'f \<Rightarrow> ('i, 'c) Client" where
  "Client_with_interceptor intercepted inner interceptor = Client_new (intercepted inner interceptor)"

definition Client_connect ::
  "('d \<Rightarrow> (Error, 'e) result) \<Rightarrow> ('e \<Rightarrow> (Error, 't) result) \<Rightarrow> 'd \<Rightarrow> (Error, ('t, 'c) Client) result" where
  "Client_connect endpoint_new endpoint_connect dst =
    and_then (and_then (endpoint_new dst) endpoint_connect) (\<lambda>conn. Ok (Client_new conn))"

definition Client_send_compressed :: "'c \<Rightarrow> ('t, 'c) Client \<Rightarrow> ('t, 'c) Client" where
  "Client_send_compressed encoding cl = cl\<lparr>cl_send_compression := Some encoding\<rparr>"

definition Client_accept_compressed :: "'c \<Rightarrow> ('t, 'c) Client \<Rightarrow> ('t, 'c) Client" where
  "Client_accept_compressed encoding cl =
    cl\<lparr>cl_accept_compression := insert encoding (cl_accept_compression cl)\<rparr>"

definition Client_max_decoding_message_size :: "u64 \<Rightarrow> ('t, 'c) Client \<Rightarrow> ('t, 'c) Client" where
  "Client_max_decoding_message_size limit cl = cl\<lparr>cl_max_decoding_message_size := Some limit\<rparr>"

definition Client_max_encoding_message_size :: "u64 \<Rightarrow> ('t, 'c) Client \<Rightarrow> ('t, 'c) Client" where
  "Client_max_encoding_message_size limit cl = cl\<lparr>cl_max_encoding_message_size := Some limit\<rparr>"

text \<open>The configuration a server applies to the \<open>Grpc\<close> that serves one of its methods.\<close>

record 'c Config =
  cf_accept_compression :: "'c set"
  cf_send_compression :: "'c set"
  cf_max_decoding_message_size :: "u64 option"
  cf_max_encoding_message_size :: "u64 option"

definition Grpc_config :: "('t, 'c) Server \<Rightarrow> 'c Config" where
  "Grpc_config srv =
    \<lparr>cf_accept_compression = accept_compression_encodings srv,
     cf_send_compression = send_compression_encodings srv,
     cf_max_decoding_message_size = max_decoding_message_size srv,
     cf_max_encoding_message_size = max_encoding_message_size srv\<rparr>"

section \<open>prost\<close>

text \<open>
  The codec that prost derives for a message, from the attributes of its struct. What the stubs
  rely on is that decoding the encoding of a message gives the message back, where the maps of the
  message are maps, and that a message without fields is encoded as no bytes.
\<close>

record 'm codec =
  cd_encode :: "'m \<Rightarrow> byte list"
  cd_decode :: "byte list \<Rightarrow> 'm option"

record prost =
  pb_TakeLeaseRequest :: "TakeLeaseRequest codec"
  pb_TakeLeaseResponse :: "TakeLeaseResponse codec"
  pb_KeepaliveRequest :: "KeepaliveRequest codec"
  pb_KeepaliveResponse :: "KeepaliveResponse codec"
  pb_ReleaseRequest :: "ReleaseRequest codec"
  pb_ReleaseResponse :: "ReleaseResponse codec"
  pb_StatusRequest :: "StatusRequest codec"
  pb_StatusResponse :: "StatusResponse codec"
  pb_Empty :: "Empty codec"
  pb_DescribeResponses :: "DescribeResponses codec"
  pb_CreateRequest :: "CreateRequest codec"
  pb_ResourcePool :: "ResourcePool codec"
  pb_ResourceRequests :: "ResourceRequests codec"
  pb_CreateProgress :: "CreateProgress codec"
  pb_DestroyRequest :: "DestroyRequest codec"
  pb_DestroyResponse :: "DestroyResponse codec"
  pb_HealthCheckRequest :: "HealthCheckRequest codec"
  pb_HealthCheckResponse :: "HealthCheckResponse codec"

definition codec_ok :: "('m \<Rightarrow> bool) \<Rightarrow> 'm codec \<Rightarrow> bool" where
  "codec_ok ok c \<longleftrightarrow> (\<forall>m. ok m \<longrightarrow> cd_decode c (cd_encode c m) = Some m)"

definition fieldless :: "'m codec \<Rightarrow> bool" where
  "fieldless c \<longleftrightarrow> codec_ok (\<lambda>_. True) c \<and> (\<forall>m. cd_encode c m = [])"

definition prost_ok :: "prost \<Rightarrow> bool" where
  "prost_ok pr \<longleftrightarrow>
    codec_ok take_lease_request_ok (pb_TakeLeaseRequest pr) \<and> codec_ok take_lease_response_ok (pb_TakeLeaseResponse pr) \<and>
    codec_ok (\<lambda>_. True) (pb_KeepaliveRequest pr) \<and> fieldless (pb_KeepaliveResponse pr) \<and>
    codec_ok (\<lambda>_. True) (pb_ReleaseRequest pr) \<and> fieldless (pb_ReleaseResponse pr) \<and>
    codec_ok (\<lambda>_. True) (pb_StatusRequest pr) \<and> codec_ok status_response_ok (pb_StatusResponse pr) \<and>
    fieldless (pb_Empty pr) \<and> codec_ok describe_responses_ok (pb_DescribeResponses pr) \<and>
    codec_ok create_request_ok (pb_CreateRequest pr) \<and> codec_ok (\<lambda>_. True) (pb_ResourcePool pr) \<and>
    codec_ok (\<lambda>_. True) (pb_ResourceRequests pr) \<and> codec_ok create_progress_ok (pb_CreateProgress pr) \<and>
    codec_ok (\<lambda>_. True) (pb_DestroyRequest pr) \<and> fieldless (pb_DestroyResponse pr) \<and>
    codec_ok (\<lambda>_. True) (pb_HealthCheckRequest pr) \<and> codec_ok (\<lambda>_. True) (pb_HealthCheckResponse pr)"

section \<open>tonic\<close>

text \<open>
  A handler of a method, with the state it works on; \<open>None\<close> if it never answers. The same on
  bytes is what tonic serves, and what it hands to the client of a call. The answer of a streaming
  method is the list of the items of a stream that ends.
\<close>

type_synonym ('s, 'q, 'r) handler = "'q \<Rightarrow> 's \<Rightarrow> ((Status, 'r) outcome \<times> 's) option"

type_synonym 's served = "('s, byte list, byte list) handler"

type_synonym 's streamed = "('s, byte list, (Status, byte list) result list) handler"

text \<open>
  \<open>tn_carries\<close> is whether the transport carries a call to the server and its answer back; a
  connection may break at any time.
\<close>

record ('s, 'c, 'q, 'h) tonic =
  tn_prost :: prost
  tn_carries :: "string \<Rightarrow> byte list \<Rightarrow> 's \<Rightarrow> bool"
  tn_server_unary :: "'c Config \<Rightarrow> 's served \<Rightarrow> 'q \<Rightarrow> 's \<Rightarrow> ('h \<times> 's) option"
  tn_server_streaming :: "'c Config \<Rightarrow> 's streamed \<Rightarrow> 'q \<Rightarrow> 's \<Rightarrow> ('h \<times> 's) option"
  tn_empty_body :: "(string \<times> string) list \<Rightarrow> 'h"
  tn_client_unary :: "(('q, 'h, 's) GrpcService, 'c) Client \<Rightarrow> string \<Rightarrow> 's served"
  tn_client_streaming :: "(('q, 'h, 's) GrpcService, 'c) Client \<Rightarrow> string \<Rightarrow> 's streamed"
  tn_undecodable :: Status
  tn_reset :: Status
  tn_render :: "Detail \<Rightarrow> string"

text \<open>The limits of a message: unless configured, 4 MiB for decoding and \<open>usize::MAX\<close> for encoding.\<close>

definition decoding_limit :: "u64 option \<Rightarrow> nat" where
  "decoding_limit limit = (case limit of None \<Rightarrow> 4 * 1024 * 1024 | Some n \<Rightarrow> unat n)"

definition encoding_limit :: "u64 option \<Rightarrow> nat" where
  "encoding_limit limit = (case limit of None \<Rightarrow> 2 ^ 64 - 1 | Some n \<Rightarrow> unat n)"

text \<open>
  A message that fits: its sender may encode it and its receiver decode it. A request may also
  be compressed, in an encoding the server accepts.
\<close>

definition request_fits :: "('t, 'c) Client \<Rightarrow> 'c Config \<Rightarrow> byte list \<Rightarrow> bool" where
  "request_fits cl cfg bs \<longleftrightarrow>
    length bs \<le> encoding_limit (cl_max_encoding_message_size cl) \<and>
    length bs \<le> decoding_limit (cf_max_decoding_message_size cfg) \<and>
    pred_option (\<lambda>c. c \<in> cf_accept_compression cfg) (cl_send_compression cl)"

definition response_fits :: "('t, 'c) Client \<Rightarrow> 'c Config \<Rightarrow> byte list \<Rightarrow> bool" where
  "response_fits cl cfg bs \<longleftrightarrow>
    length bs \<le> encoding_limit (cf_max_encoding_message_size cfg) \<and>
    length bs \<le> decoding_limit (cl_max_decoding_message_size cl)"

text \<open>
  What a caller sees of an outcome: the message of a status as text, a panic as a reset stream,
  and of a stream the items up to the first error.
\<close>

definition seen_status :: "('s, 'c, 'q, 'h) tonic \<Rightarrow> Status \<Rightarrow> Status" where
  "seen_status tn st = Status (code st) (Text (tn_render tn (detail st)))"

definition as_seen :: "('s, 'c, 'q, 'h) tonic \<Rightarrow> (Status, 'r) outcome \<Rightarrow> (Status, 'r) outcome" where
  "as_seen tn out =
    (case out of Return r \<Rightarrow> Return r | Fail e \<Rightarrow> Fail (seen_status tn e) | Panic \<Rightarrow> Fail (tn_reset tn))"

fun until_error :: "('s, 'c, 'q, 'h) tonic \<Rightarrow> (Status, 'r) result list \<Rightarrow> (Status, 'r) result list" where
  "until_error tn [] = []"
| "until_error tn (Err e # items) = [Err (seen_status tn e)]"
| "until_error tn (Ok r # items) = Ok r # until_error tn items"

lemma as_seen_simps [simp]:
  "as_seen tn (Return r) = Return r" "as_seen tn (Fail e) = Fail (seen_status tn e)"
  "as_seen tn Panic = Fail (tn_reset tn)"
  by (simp_all add: as_seen_def)

text \<open>The result of a call satisfies a condition whenever there is one.\<close>

definition returns :: "('s, 'q, 'r) handler \<Rightarrow> ('r \<Rightarrow> bool) \<Rightarrow> 'q \<Rightarrow> 's \<Rightarrow> bool" where
  "returns handler P q s \<longleftrightarrow> (\<forall>r s'. handler q s = Some (Return r, s') \<longrightarrow> P r)"

definition item_ok :: "('r \<Rightarrow> bool) \<Rightarrow> (Status, 'r) result \<Rightarrow> bool" where
  "item_ok P x = (case x of Err _ \<Rightarrow> True | Ok r \<Rightarrow> P r)"

text \<open>
  What the stubs rely on. A unary or streaming call to a path that is served, with messages that
  fit, hands the bytes of the request to the method and those of its answer to the caller, if the
  transport carries the call; if it does not, a unary call yields no response. A response without
  a body is read by its \<open>grpc-status\<close>, and the message of a status is its text.
\<close>

definition over_wire ::
  "('s, 'c, 'q, 'h) tonic \<Rightarrow> bool \<Rightarrow> ((Status, 'r) outcome \<times> 's) option \<Rightarrow>
    ((Status, 'r) outcome \<times> 's) option \<Rightarrow> bool" where
  "over_wire tn carried seen answer \<longleftrightarrow>
    (if carried then seen = map_option (map_prod (as_seen tn) id) answer
     else (\<nexists>r s'. seen = Some (Return r, s')))"

lemma over_wireD: "over_wire tn carried seen answer \<Longrightarrow> carried \<Longrightarrow> seen = map_option (map_prod (as_seen tn) id) answer"
  by (simp add: over_wire_def)

definition tonic_unary :: "('s, 'c, 'q, 'h) tonic \<Rightarrow> bool" where
  "tonic_unary tn \<longleftrightarrow>
    (\<forall>cl cfg path f bs s.
      gs_call (cl_inner cl) path = tn_server_unary tn cfg f \<longrightarrow> request_fits cl cfg bs \<longrightarrow>
      returns f (response_fits cl cfg) bs s \<longrightarrow>
      over_wire tn (tn_carries tn path bs s) (tn_client_unary tn cl path bs s) (f bs s))"

definition tonic_streaming :: "('s, 'c, 'q, 'h) tonic \<Rightarrow> bool" where
  "tonic_streaming tn \<longleftrightarrow>
    (\<forall>cl cfg path f bs s.
      gs_call (cl_inner cl) path = tn_server_streaming tn cfg f \<longrightarrow> request_fits cl cfg bs \<longrightarrow>
      returns f (list_all (item_ok (response_fits cl cfg))) bs s \<longrightarrow> tn_carries tn path bs s \<longrightarrow>
      tn_client_streaming tn cl path bs s =
        map_option (map_prod (\<lambda>out. as_seen tn (map_outcome id (until_error tn) out)) id) (f bs s))"

definition unimplemented_answer :: "((Status, 'r) outcome \<times> 's) option \<Rightarrow> 's \<Rightarrow> bool" where
  "unimplemented_answer seen s \<longleftrightarrow> (\<exists>e. seen = Some (Fail e, s) \<and> code e = Unimplemented)"

definition tonic_bodyless :: "('s, 'c, 'q, 'h) tonic \<Rightarrow> bool" where
  "tonic_bodyless tn \<longleftrightarrow>
    (\<forall>cl path h bs s.
      gs_call (cl_inner cl) path = (\<lambda>_ s. Some (tn_empty_body tn h, s)) \<longrightarrow>
      map_of h ''grpc-status'' = Some ''12'' \<longrightarrow>
      length bs \<le> encoding_limit (cl_max_encoding_message_size cl) \<longrightarrow> tn_carries tn path bs s \<longrightarrow>
      unimplemented_answer (tn_client_unary tn cl path bs s) s \<and>
      unimplemented_answer (tn_client_streaming tn cl path bs s) s)"

definition tonic_ok :: "('s, 'c, 'q, 'h) tonic \<Rightarrow> bool" where
  "tonic_ok tn \<longleftrightarrow> tonic_unary tn \<and> tonic_streaming tn \<and> tonic_bodyless tn \<and>
    (\<forall>t. tn_render tn (Text t) = t) \<and> prost_ok (tn_prost tn)"

section \<open>Serving a method\<close>

text \<open>\<open>ProstCodec\<close> around a handler: decode the request, call, encode the response or its items.\<close>

definition serve_unary ::
  "('s, 'c, 'q, 'h) tonic \<Rightarrow> 'm codec \<Rightarrow> 'r codec \<Rightarrow> ('s, 'm, 'r) handler \<Rightarrow> 's served" where
  "serve_unary tn req resp handler body s =
    (case cd_decode req body of
       None \<Rightarrow> Some (Fail (tn_undecodable tn), s)
     | Some q \<Rightarrow> map_option (map_prod (map_outcome id (cd_encode resp)) id) (handler q s))"

definition serve_streaming ::
  "('s, 'c, 'q, 'h) tonic \<Rightarrow> 'm codec \<Rightarrow> 'r codec \<Rightarrow>
    ('s, 'm, (Status, 'r) result list) handler \<Rightarrow> 's streamed" where
  "serve_streaming tn req resp handler body s =
    (case cd_decode req body of
       None \<Rightarrow> Some (Fail (tn_undecodable tn), s)
     | Some q \<Rightarrow>
         map_option (map_prod (map_outcome id (map (map_sum id (cd_encode resp)))) id) (handler q s))"

section \<open>Calling a method\<close>

text \<open>
  The body of every client method: wait until the service is ready, send the encoded request to
  the path, and decode what comes back, a stream up to the first error.
\<close>

definition not_ready :: "Error \<Rightarrow> Status" where
  "not_ready e = Status CodeUnknown (Prefixed ''Service was not ready'' e)"

definition unary_call ::
  "('s, 'c, 'q, 'h) tonic \<Rightarrow> (('q, 'h, 's) GrpcService, 'c) Client \<Rightarrow> string \<Rightarrow> 'm codec \<Rightarrow>
    'r codec \<Rightarrow> ('s, 'm, 'r) handler" where
  "unary_call tn cl path req resp request s =
    (case map_err not_ready (gs_poll_ready (cl_inner cl)) of
       Err e \<Rightarrow> Some (Fail e, s)
     | Ok _ \<Rightarrow>
         map_option
           (map_prod (\<lambda>out. case out of
               Return bs \<Rightarrow>
                 (case cd_decode resp bs of None \<Rightarrow> Fail (tn_undecodable tn) | Some r \<Rightarrow> Return r)
             | Fail e \<Rightarrow> Fail e
             | Panic \<Rightarrow> Panic) id)
           (tn_client_unary tn cl path (cd_encode req request) s))"

fun read_items ::
  "('s, 'c, 'q, 'h) tonic \<Rightarrow> 'r codec \<Rightarrow> (Status, byte list) result list \<Rightarrow> (Status, 'r) result list" where
  "read_items tn resp [] = []"
| "read_items tn resp (Err e # items) = [Err e]"
| "read_items tn resp (Ok bs # items) =
    (case cd_decode resp bs of
       None \<Rightarrow> [Err (tn_undecodable tn)]
     | Some r \<Rightarrow> Ok r # read_items tn resp items)"

definition streaming_call ::
  "('s, 'c, 'q, 'h) tonic \<Rightarrow> (('q, 'h, 's) GrpcService, 'c) Client \<Rightarrow> string \<Rightarrow> 'm codec \<Rightarrow>
    'r codec \<Rightarrow> ('s, 'm, (Status, 'r) result list) handler" where
  "streaming_call tn cl path req resp request s =
    (case map_err not_ready (gs_poll_ready (cl_inner cl)) of
       Err e \<Rightarrow> Some (Fail e, s)
     | Ok _ \<Rightarrow>
         map_option (map_prod (map_outcome id (read_items tn resp)) id)
           (tn_client_streaming tn cl path (cd_encode req request) s))"

section \<open>A method over the wire\<close>

text \<open>
  The two codecs of a method. Inside, a call of the method through the stubs is the call of its
  handler, seen from outside.
\<close>

lemma map_outcome_eq_Return: "map_outcome f g out = Return r \<longleftrightarrow> (\<exists>x. out = Return x \<and> r = g x)"
  by (cases out) auto

lemma item_ok_map: "item_ok P (map_sum id f x) = item_ok (\<lambda>r. P (f r)) x"
  by (cases x) (simp_all add: item_ok_def)

locale rpc_method =
  fixes req :: "'m codec" and req_ok :: "'m \<Rightarrow> bool"
    and resp :: "'r codec" and resp_ok :: "'r \<Rightarrow> bool"
  assumes req_decodes: "req_ok m \<Longrightarrow> cd_decode req (cd_encode req m) = Some m"
    and resp_decodes: "resp_ok r \<Longrightarrow> cd_decode resp (cd_encode resp r) = Some r"
begin

text \<open>A response, or an item of one, that survives the wire.\<close>

abbreviation good where
  "good cl cfg r \<equiv> resp_ok r \<and> response_fits cl cfg (cd_encode resp r)"

lemma unary_over_wire:
  assumes "tonic_ok tn" "gs_poll_ready (cl_inner cl) = Ok ()"
    and "gs_call (cl_inner cl) path = tn_server_unary tn cfg (serve_unary tn req resp handler)"
    and "req_ok q" "request_fits cl cfg (cd_encode req q)"
    and "returns handler (good cl cfg) q s"
  shows "over_wire tn (tn_carries tn path (cd_encode req q) s) (unary_call tn cl path req resp q s) (handler q s)"
proof -
  let ?f = "serve_unary tn req resp handler" and ?sent = "tn_carries tn path (cd_encode req q) s"
  have f: "?f (cd_encode req q) s = map_option (map_prod (map_outcome id (cd_encode resp)) id) (handler q s)"
    by (simp add: serve_unary_def req_decodes [OF assms(4)])
  have "returns ?f (response_fits cl cfg) (cd_encode req q) s"
    using assms(6) by (fastforce simp: returns_def f map_outcome_eq_Return)
  then have wire: "over_wire tn ?sent (tn_client_unary tn cl path (cd_encode req q) s) (?f (cd_encode req q) s)"
    using assms(1,3,5) by (simp add: tonic_ok_def tonic_unary_def)
  show ?thesis
  proof (cases ?sent)
    case True
    with wire assms(2,6) show ?thesis
      unfolding f unary_call_def over_wire_def
      by (cases "handler q s"; cases "fst (the (handler q s))") (auto simp: returns_def resp_decodes)
  next
    case False
    with wire assms(2) show ?thesis
      unfolding unary_call_def over_wire_def by (auto split: outcome.splits option.splits)
  qed
qed

lemma read_items_encoded:
  "list_all (item_ok (good cl cfg)) items \<Longrightarrow>
    read_items tn resp (until_error tn (map (map_sum id (cd_encode resp)) items)) = until_error tn items"
  by (induction items rule: until_error.induct) (simp_all add: item_ok_def resp_decodes)

lemma streaming_over_wire:
  assumes "tonic_ok tn" "gs_poll_ready (cl_inner cl) = Ok ()"
    and "gs_call (cl_inner cl) path = tn_server_streaming tn cfg (serve_streaming tn req resp handler)"
    and "req_ok q" "request_fits cl cfg (cd_encode req q)"
    and "returns handler (list_all (item_ok (good cl cfg))) q s" "tn_carries tn path (cd_encode req q) s"
  shows "streaming_call tn cl path req resp q s =
    map_option (map_prod (\<lambda>out. as_seen tn (map_outcome id (until_error tn) out)) id) (handler q s)"
proof -
  let ?f = "serve_streaming tn req resp handler"
  have f: "?f (cd_encode req q) s =
      map_option (map_prod (map_outcome id (map (map_sum id (cd_encode resp)))) id) (handler q s)"
    by (simp add: serve_streaming_def req_decodes [OF assms(4)])
  have "list_all (item_ok (response_fits cl cfg)) (map (map_sum id (cd_encode resp)) items)"
    if "list_all (item_ok (good cl cfg)) items" for items
    using that by (auto simp: list_all_iff item_ok_map) (auto simp: item_ok_def split: sum.splits)
  then have "returns ?f (list_all (item_ok (response_fits cl cfg))) (cd_encode req q) s"
    using assms(6) by (fastforce simp: returns_def f map_outcome_eq_Return)
  then have "tn_client_streaming tn cl path (cd_encode req q) s =
      map_option (map_prod (\<lambda>out. as_seen tn (map_outcome id (until_error tn) out)) id) (?f (cd_encode req q) s)"
    using assms(1,3,5,7) by (simp add: tonic_ok_def tonic_streaming_def)
  then show ?thesis
    using assms(2,6) unfolding f streaming_call_def
    by (cases "handler q s"; cases "fst (the (handler q s))") (auto simp: returns_def read_items_encoded)
qed

end

lemma rpc_methodI: "codec_ok a c \<Longrightarrow> codec_ok b d \<Longrightarrow> rpc_method c a d b"
  by (simp add: rpc_method_def codec_ok_def)

text \<open>A call for a path that no method serves.\<close>

definition sendable :: "('s, 'c, 'q, 'h) tonic \<Rightarrow> ('t, 'c) Client \<Rightarrow> string \<Rightarrow> 'm codec \<Rightarrow> 'm \<Rightarrow> 's \<Rightarrow> bool" where
  "sendable tn cl path c q s \<longleftrightarrow>
    length (cd_encode c q) \<le> encoding_limit (cl_max_encoding_message_size cl) \<and> tn_carries tn path (cd_encode c q) s"

lemma call_bodyless:
  assumes "tonic_ok tn" "gs_poll_ready (cl_inner cl) = Ok ()"
    and "gs_call (cl_inner cl) path = (\<lambda>_ s. Some (tn_empty_body tn h, s))" "map_of h ''grpc-status'' = Some ''12''"
    and "sendable tn cl path req q s"
  shows "unimplemented_answer (unary_call tn cl path req resp q s) s"
    "unimplemented_answer (streaming_call tn cl path req resp' q s) s"
proof -
  have "tonic_bodyless tn" using assms(1) by (simp add: tonic_ok_def)
  then have "unimplemented_answer (tn_client_unary tn cl path (cd_encode req q) s) s \<and>
      unimplemented_answer (tn_client_streaming tn cl path (cd_encode req q) s) s"
    using assms(3-5) unfolding tonic_bodyless_def sendable_def by blast
  then show "unimplemented_answer (unary_call tn cl path req resp q s) s"
    "unimplemented_answer (streaming_call tn cl path req resp' q s) s"
    using assms(2) by (auto simp: unimplemented_answer_def unary_call_def streaming_call_def)
qed

end
