(* ===== verification/Endpoints.thy ===== *)
theory Endpoints
  imports Rpc
begin

text \<open>
  The two services of \<^verbatim>\<open>src/proto/systemtestrs/src/lib.rs\<close>, method by method: the generated traits as
  records of handlers, the arm of the server's dispatch and the method of the client for each
  method, and the servers as services a client can be connected to. Then the servers the
  programs set up: the coordinator's and the stub plugin's.
\<close>

section \<open>The coordinator service\<close>

text \<open>The trait \<open>CoordinatorService\<close>: an implementation is its handlers.\<close>

record 's CoordinatorService =
  cs_take_lease :: "('s, TakeLeaseRequest, TakeLeaseResponse) handler"
  cs_keepalive :: "('s, KeepaliveRequest, KeepaliveResponse) handler"
  cs_release_lease :: "('s, ReleaseRequest, ReleaseResponse) handler"
  cs_status :: "('s, StatusRequest, StatusResponse) handler"

text \<open>The arm of \<open>CoordinatorServiceServer::call\<close> for each method.\<close>

definition TakeLeaseSvc ::
  "('s, 'c, 'q, 'h) tonic \<Rightarrow> ('s CoordinatorService, 'c) Server \<Rightarrow> 'q \<Rightarrow> 's \<Rightarrow> ('h \<times> 's) option" where
  "TakeLeaseSvc tn srv =
    tn_server_unary tn (Grpc_config srv)
      (serve_unary tn (pb_TakeLeaseRequest (tn_prost tn)) (pb_TakeLeaseResponse (tn_prost tn)) (cs_take_lease (srv_inner srv)))"

definition KeepaliveSvc ::
  "('s, 'c, 'q, 'h) tonic \<Rightarrow> ('s CoordinatorService, 'c) Server \<Rightarrow> 'q \<Rightarrow> 's \<Rightarrow> ('h \<times> 's) option" where
  "KeepaliveSvc tn srv =
    tn_server_unary tn (Grpc_config srv)
      (serve_unary tn (pb_KeepaliveRequest (tn_prost tn)) (pb_KeepaliveResponse (tn_prost tn)) (cs_keepalive (srv_inner srv)))"

definition ReleaseLeaseSvc ::
  "('s, 'c, 'q, 'h) tonic \<Rightarrow> ('s CoordinatorService, 'c) Server \<Rightarrow> 'q \<Rightarrow> 's \<Rightarrow> ('h \<times> 's) option" where
  "ReleaseLeaseSvc tn srv =
    tn_server_unary tn (Grpc_config srv)
      (serve_unary tn (pb_ReleaseRequest (tn_prost tn)) (pb_ReleaseResponse (tn_prost tn)) (cs_release_lease (srv_inner srv)))"

definition StatusSvc ::
  "('s, 'c, 'q, 'h) tonic \<Rightarrow> ('s CoordinatorService, 'c) Server \<Rightarrow> 'q \<Rightarrow> 's \<Rightarrow> ('h \<times> 's) option" where
  "StatusSvc tn srv =
    tn_server_unary tn (Grpc_config srv)
      (serve_unary tn (pb_StatusRequest (tn_prost tn)) (pb_StatusResponse (tn_prost tn)) (cs_status (srv_inner srv)))"

text \<open>The server as a service: always ready, and a path no arm matches is answered without a body.\<close>

definition CoordinatorServiceServer_arm ::
  "('s, 'c, 'q, 'h) tonic \<Rightarrow> ('s CoordinatorService, 'c) Server \<Rightarrow> CoordinatorMethod \<Rightarrow> 'q \<Rightarrow> 's \<Rightarrow> ('h \<times> 's) option" where
  "CoordinatorServiceServer_arm tn srv m =
    (case m of
       TakeLease \<Rightarrow> TakeLeaseSvc tn srv
     | Keepalive \<Rightarrow> KeepaliveSvc tn srv
     | ReleaseLease \<Rightarrow> ReleaseLeaseSvc tn srv
     | Status_method \<Rightarrow> StatusSvc tn srv)"

definition CoordinatorServiceServer_service ::
  "('s, 'c, 'q, 'h) tonic \<Rightarrow> ('s CoordinatorService, 'c) Server \<Rightarrow> ('q, 'h, 's) GrpcService" where
  "CoordinatorServiceServer_service tn srv =
    \<lparr>gs_poll_ready = Ok (),
     gs_call = (\<lambda>path req s.
       case CoordinatorServiceServer_call (CoordinatorServiceServer_arm tn) srv path req of
         Handled call \<Rightarrow> call s
       | Bodyless headers \<Rightarrow> Some (tn_empty_body tn headers, s))\<rparr>"

text \<open>The client methods.\<close>

definition CoordinatorServiceClient_take_lease ::
  "('s, 'c, 'q, 'h) tonic \<Rightarrow> (('q, 'h, 's) GrpcService, 'c) Client \<Rightarrow> ('s, TakeLeaseRequest, TakeLeaseResponse) handler" where
  "CoordinatorServiceClient_take_lease tn cl =
    unary_call tn cl ''/systemtest.v1.CoordinatorService/TakeLease''
      (pb_TakeLeaseRequest (tn_prost tn)) (pb_TakeLeaseResponse (tn_prost tn))"

definition CoordinatorServiceClient_keepalive ::
  "('s, 'c, 'q, 'h) tonic \<Rightarrow> (('q, 'h, 's) GrpcService, 'c) Client \<Rightarrow> ('s, KeepaliveRequest, KeepaliveResponse) handler" where
  "CoordinatorServiceClient_keepalive tn cl =
    unary_call tn cl ''/systemtest.v1.CoordinatorService/Keepalive''
      (pb_KeepaliveRequest (tn_prost tn)) (pb_KeepaliveResponse (tn_prost tn))"

definition CoordinatorServiceClient_release_lease ::
  "('s, 'c, 'q, 'h) tonic \<Rightarrow> (('q, 'h, 's) GrpcService, 'c) Client \<Rightarrow> ('s, ReleaseRequest, ReleaseResponse) handler" where
  "CoordinatorServiceClient_release_lease tn cl =
    unary_call tn cl ''/systemtest.v1.CoordinatorService/ReleaseLease''
      (pb_ReleaseRequest (tn_prost tn)) (pb_ReleaseResponse (tn_prost tn))"

definition CoordinatorServiceClient_status ::
  "('s, 'c, 'q, 'h) tonic \<Rightarrow> (('q, 'h, 's) GrpcService, 'c) Client \<Rightarrow> ('s, StatusRequest, StatusResponse) handler" where
  "CoordinatorServiceClient_status tn cl =
    unary_call tn cl ''/systemtest.v1.CoordinatorService/Status''
      (pb_StatusRequest (tn_prost tn)) (pb_StatusResponse (tn_prost tn))"

text \<open>The path of a method reaches its arm; every other path gets the response without a body.\<close>

lemma CoordinatorService_reaches:
  "gs_call (CoordinatorServiceServer_service tn srv) (CoordinatorServiceClient_path m) = CoordinatorServiceServer_arm tn srv m"
  "gs_poll_ready (CoordinatorServiceServer_service tn srv) = Ok ()"
  by (simp_all add: CoordinatorServiceServer_service_def CoordinatorServiceServer_call_def)

lemma CoordinatorService_unrouted:
  "p \<notin> range CoordinatorServiceClient_path \<Longrightarrow>
    gs_call (CoordinatorServiceServer_service tn srv) p =
      (\<lambda>_ s. Some (tn_empty_body tn [(''grpc-status'', ''12''), (''content-type'', ''application/grpc'')], s))"
  by (intro ext)
    (simp add: CoordinatorServiceServer_service_def CoordinatorServiceServer_call_def unimplemented_response_def
      flip: coordinator_service.route_None)

lemmas CoordinatorService_arms =
  CoordinatorService_reaches(1) [of _ _ TakeLease, simplified CoordinatorServiceServer_arm_def CoordinatorServiceClient_path.simps CoordinatorMethod.case, unfolded TakeLeaseSvc_def]
  CoordinatorService_reaches(1) [of _ _ Keepalive, simplified CoordinatorServiceServer_arm_def CoordinatorServiceClient_path.simps CoordinatorMethod.case, unfolded KeepaliveSvc_def]
  CoordinatorService_reaches(1) [of _ _ ReleaseLease, simplified CoordinatorServiceServer_arm_def CoordinatorServiceClient_path.simps CoordinatorMethod.case, unfolded ReleaseLeaseSvc_def]
  CoordinatorService_reaches(1) [of _ _ Status_method, simplified CoordinatorServiceServer_arm_def CoordinatorServiceClient_path.simps CoordinatorMethod.case, unfolded StatusSvc_def]

section \<open>The plugin service\<close>

text \<open>The trait \<open>CoordinatorPlugin\<close>: an implementation is its handlers.\<close>

record 's CoordinatorPlugin =
  cp_describe_plugin :: "('s, Empty, DescribeResponses) handler"
  cp_get_resource_pool :: "('s, CreateRequest, ResourcePool) handler"
  cp_get_resource_requests :: "('s, CreateRequest, ResourceRequests) handler"
  cp_create_fixture :: "('s, CreateRequest, (Status, CreateProgress) result list) handler"
  cp_destroy_fixture :: "('s, DestroyRequest, DestroyResponse) handler"
  cp_health_check :: "('s, HealthCheckRequest, HealthCheckResponse) handler"

text \<open>The arm of \<open>CoordinatorPluginServer::call\<close> for each method.\<close>

definition DescribePluginSvc ::
  "('s, 'c, 'q, 'h) tonic \<Rightarrow> ('s CoordinatorPlugin, 'c) Server \<Rightarrow> 'q \<Rightarrow> 's \<Rightarrow> ('h \<times> 's) option" where
  "DescribePluginSvc tn srv =
    tn_server_unary tn (Grpc_config srv)
      (serve_unary tn (pb_Empty (tn_prost tn)) (pb_DescribeResponses (tn_prost tn)) (cp_describe_plugin (srv_inner srv)))"

definition GetResourcePoolSvc ::
  "('s, 'c, 'q, 'h) tonic \<Rightarrow> ('s CoordinatorPlugin, 'c) Server \<Rightarrow> 'q \<Rightarrow> 's \<Rightarrow> ('h \<times> 's) option" where
  "GetResourcePoolSvc tn srv =
    tn_server_unary tn (Grpc_config srv)
      (serve_unary tn (pb_CreateRequest (tn_prost tn)) (pb_ResourcePool (tn_prost tn)) (cp_get_resource_pool (srv_inner srv)))"

definition GetResourceRequestsSvc ::
  "('s, 'c, 'q, 'h) tonic \<Rightarrow> ('s CoordinatorPlugin, 'c) Server \<Rightarrow> 'q \<Rightarrow> 's \<Rightarrow> ('h \<times> 's) option" where
  "GetResourceRequestsSvc tn srv =
    tn_server_unary tn (Grpc_config srv)
      (serve_unary tn (pb_CreateRequest (tn_prost tn)) (pb_ResourceRequests (tn_prost tn)) (cp_get_resource_requests (srv_inner srv)))"

definition CreateFixtureSvc ::
  "('s, 'c, 'q, 'h) tonic \<Rightarrow> ('s CoordinatorPlugin, 'c) Server \<Rightarrow> 'q \<Rightarrow> 's \<Rightarrow> ('h \<times> 's) option" where
  "CreateFixtureSvc tn srv =
    tn_server_streaming tn (Grpc_config srv)
      (serve_streaming tn (pb_CreateRequest (tn_prost tn)) (pb_CreateProgress (tn_prost tn)) (cp_create_fixture (srv_inner srv)))"

definition DestroyFixtureSvc ::
  "('s, 'c, 'q, 'h) tonic \<Rightarrow> ('s CoordinatorPlugin, 'c) Server \<Rightarrow> 'q \<Rightarrow> 's \<Rightarrow> ('h \<times> 's) option" where
  "DestroyFixtureSvc tn srv =
    tn_server_unary tn (Grpc_config srv)
      (serve_unary tn (pb_DestroyRequest (tn_prost tn)) (pb_DestroyResponse (tn_prost tn)) (cp_destroy_fixture (srv_inner srv)))"

definition HealthCheckSvc ::
  "('s, 'c, 'q, 'h) tonic \<Rightarrow> ('s CoordinatorPlugin, 'c) Server \<Rightarrow> 'q \<Rightarrow> 's \<Rightarrow> ('h \<times> 's) option" where
  "HealthCheckSvc tn srv =
    tn_server_unary tn (Grpc_config srv)
      (serve_unary tn (pb_HealthCheckRequest (tn_prost tn)) (pb_HealthCheckResponse (tn_prost tn)) (cp_health_check (srv_inner srv)))"

text \<open>The server as a service: always ready, and a path no arm matches is answered without a body.\<close>

definition CoordinatorPluginServer_arm ::
  "('s, 'c, 'q, 'h) tonic \<Rightarrow> ('s CoordinatorPlugin, 'c) Server \<Rightarrow> PluginMethod \<Rightarrow> 'q \<Rightarrow> 's \<Rightarrow> ('h \<times> 's) option" where
  "CoordinatorPluginServer_arm tn srv m =
    (case m of
       DescribePlugin \<Rightarrow> DescribePluginSvc tn srv
     | GetResourcePool \<Rightarrow> GetResourcePoolSvc tn srv
     | GetResourceRequests \<Rightarrow> GetResourceRequestsSvc tn srv
     | CreateFixture \<Rightarrow> CreateFixtureSvc tn srv
     | DestroyFixture \<Rightarrow> DestroyFixtureSvc tn srv
     | HealthCheck \<Rightarrow> HealthCheckSvc tn srv)"

definition CoordinatorPluginServer_service ::
  "('s, 'c, 'q, 'h) tonic \<Rightarrow> ('s CoordinatorPlugin, 'c) Server \<Rightarrow> ('q, 'h, 's) GrpcService" where
  "CoordinatorPluginServer_service tn srv =
    \<lparr>gs_poll_ready = Ok (),
     gs_call = (\<lambda>path req s.
       case CoordinatorPluginServer_call (CoordinatorPluginServer_arm tn) (CoordinatorPluginServer_arm tn) srv path req of
         Handled call \<Rightarrow> call s
       | Bodyless headers \<Rightarrow> Some (tn_empty_body tn headers, s))\<rparr>"

text \<open>The client methods.\<close>

definition CoordinatorPluginClient_describe_plugin ::
  "('s, 'c, 'q, 'h) tonic \<Rightarrow> (('q, 'h, 's) GrpcService, 'c) Client \<Rightarrow> ('s, Empty, DescribeResponses) handler" where
  "CoordinatorPluginClient_describe_plugin tn cl =
    unary_call tn cl ''/systemtest.v1.CoordinatorPlugin/DescribePlugin''
      (pb_Empty (tn_prost tn)) (pb_DescribeResponses (tn_prost tn))"

definition CoordinatorPluginClient_get_resource_pool ::
  "('s, 'c, 'q, 'h) tonic \<Rightarrow> (('q, 'h, 's) GrpcService, 'c) Client \<Rightarrow> ('s, CreateRequest, ResourcePool) handler" where
  "CoordinatorPluginClient_get_resource_pool tn cl =
    unary_call tn cl ''/systemtest.v1.CoordinatorPlugin/GetResourcePool''
      (pb_CreateRequest (tn_prost tn)) (pb_ResourcePool (tn_prost tn))"

definition CoordinatorPluginClient_get_resource_requests ::
  "('s, 'c, 'q, 'h) tonic \<Rightarrow> (('q, 'h, 's) GrpcService, 'c) Client \<Rightarrow> ('s, CreateRequest, ResourceRequests) handler" where
  "CoordinatorPluginClient_get_resource_requests tn cl =
    unary_call tn cl ''/systemtest.v1.CoordinatorPlugin/GetResourceRequests''
      (pb_CreateRequest (tn_prost tn)) (pb_ResourceRequests (tn_prost tn))"

definition CoordinatorPluginClient_create_fixture ::
  "('s, 'c, 'q, 'h) tonic \<Rightarrow> (('q, 'h, 's) GrpcService, 'c) Client \<Rightarrow> ('s, CreateRequest, (Status, CreateProgress) result list) handler" where
  "CoordinatorPluginClient_create_fixture tn cl =
    streaming_call tn cl ''/systemtest.v1.CoordinatorPlugin/CreateFixture''
      (pb_CreateRequest (tn_prost tn)) (pb_CreateProgress (tn_prost tn))"

definition CoordinatorPluginClient_destroy_fixture ::
  "('s, 'c, 'q, 'h) tonic \<Rightarrow> (('q, 'h, 's) GrpcService, 'c) Client \<Rightarrow> ('s, DestroyRequest, DestroyResponse) handler" where
  "CoordinatorPluginClient_destroy_fixture tn cl =
    unary_call tn cl ''/systemtest.v1.CoordinatorPlugin/DestroyFixture''
      (pb_DestroyRequest (tn_prost tn)) (pb_DestroyResponse (tn_prost tn))"

definition CoordinatorPluginClient_health_check ::
  "('s, 'c, 'q, 'h) tonic \<Rightarrow> (('q, 'h, 's) GrpcService, 'c) Client \<Rightarrow> ('s, HealthCheckRequest, HealthCheckResponse) handler" where
  "CoordinatorPluginClient_health_check tn cl =
    unary_call tn cl ''/systemtest.v1.CoordinatorPlugin/HealthCheck''
      (pb_HealthCheckRequest (tn_prost tn)) (pb_HealthCheckResponse (tn_prost tn))"

text \<open>The path of a method reaches its arm; every other path gets the response without a body.\<close>

lemma CoordinatorPlugin_reaches:
  "gs_call (CoordinatorPluginServer_service tn srv) (CoordinatorPluginClient_path m) = CoordinatorPluginServer_arm tn srv m"
  "gs_poll_ready (CoordinatorPluginServer_service tn srv) = Ok ()"
  by (simp_all add: CoordinatorPluginServer_service_def CoordinatorPluginServer_call_def)

lemma CoordinatorPlugin_unrouted:
  "p \<notin> range CoordinatorPluginClient_path \<Longrightarrow>
    gs_call (CoordinatorPluginServer_service tn srv) p =
      (\<lambda>_ s. Some (tn_empty_body tn [(''grpc-status'', ''12''), (''content-type'', ''application/grpc'')], s))"
  by (intro ext)
    (simp add: CoordinatorPluginServer_service_def CoordinatorPluginServer_call_def unimplemented_response_def
      flip: coordinator_plugin.route_None)

lemmas CoordinatorPlugin_arms =
  CoordinatorPlugin_reaches(1) [of _ _ DescribePlugin, simplified CoordinatorPluginServer_arm_def CoordinatorPluginClient_path.simps PluginMethod.case, unfolded DescribePluginSvc_def]
  CoordinatorPlugin_reaches(1) [of _ _ GetResourcePool, simplified CoordinatorPluginServer_arm_def CoordinatorPluginClient_path.simps PluginMethod.case, unfolded GetResourcePoolSvc_def]
  CoordinatorPlugin_reaches(1) [of _ _ GetResourceRequests, simplified CoordinatorPluginServer_arm_def CoordinatorPluginClient_path.simps PluginMethod.case, unfolded GetResourceRequestsSvc_def]
  CoordinatorPlugin_reaches(1) [of _ _ CreateFixture, simplified CoordinatorPluginServer_arm_def CoordinatorPluginClient_path.simps PluginMethod.case, unfolded CreateFixtureSvc_def]
  CoordinatorPlugin_reaches(1) [of _ _ DestroyFixture, simplified CoordinatorPluginServer_arm_def CoordinatorPluginClient_path.simps PluginMethod.case, unfolded DestroyFixtureSvc_def]
  CoordinatorPlugin_reaches(1) [of _ _ HealthCheck, simplified CoordinatorPluginServer_arm_def CoordinatorPluginClient_path.simps PluginMethod.case, unfolded HealthCheckSvc_def]

section \<open>A client connected to a server\<close>

text \<open>
  What a request and the answers to it have to satisfy to fit the limits of both ends, and whether
  the transport carries the call.
\<close>

definition sent_fits :: "('t, 'c) Client \<Rightarrow> ('i, 'c) Server \<Rightarrow> 'm codec \<Rightarrow> 'm \<Rightarrow> bool" where
  "sent_fits cl srv c q = request_fits cl (Grpc_config srv) (cd_encode c q)"

definition answer_fits :: "('t, 'c) Client \<Rightarrow> ('i, 'c) Server \<Rightarrow> 'r codec \<Rightarrow> 'r \<Rightarrow> bool" where
  "answer_fits cl srv c r = response_fits cl (Grpc_config srv) (cd_encode c r)"

definition carried :: "('s, 'c, 'q, 'h) tonic \<Rightarrow> string \<Rightarrow> 'm codec \<Rightarrow> 'm \<Rightarrow> 's \<Rightarrow> bool" where
  "carried tn path c q s = tn_carries tn path (cd_encode c q) s"

lemma nothing_fits: "fieldless c \<Longrightarrow> response_fits cl cfg (cd_encode c r)"
  by (simp add: response_fits_def fieldless_def)

lemma fieldless_codec: "fieldless c \<Longrightarrow> codec_ok (\<lambda>_. True) c"
  by (simp add: fieldless_def)

lemma prost_fieldless:
  "prost_ok pr \<Longrightarrow> fieldless (pb_KeepaliveResponse pr)" "prost_ok pr \<Longrightarrow> fieldless (pb_ReleaseResponse pr)"
  "prost_ok pr \<Longrightarrow> fieldless (pb_DestroyResponse pr)" "prost_ok pr \<Longrightarrow> fieldless (pb_Empty pr)"
  by (simp_all add: prost_ok_def)

lemma prost_methods:
  "prost_ok pr \<Longrightarrow> rpc_method (pb_TakeLeaseRequest pr) take_lease_request_ok (pb_TakeLeaseResponse pr) take_lease_response_ok"
  "prost_ok pr \<Longrightarrow> rpc_method (pb_KeepaliveRequest pr) (\<lambda>_. True) (pb_KeepaliveResponse pr) (\<lambda>_. True)"
  "prost_ok pr \<Longrightarrow> rpc_method (pb_ReleaseRequest pr) (\<lambda>_. True) (pb_ReleaseResponse pr) (\<lambda>_. True)"
  "prost_ok pr \<Longrightarrow> rpc_method (pb_StatusRequest pr) (\<lambda>_. True) (pb_StatusResponse pr) status_response_ok"
  "prost_ok pr \<Longrightarrow> rpc_method (pb_Empty pr) (\<lambda>_. True) (pb_DescribeResponses pr) describe_responses_ok"
  "prost_ok pr \<Longrightarrow> rpc_method (pb_CreateRequest pr) create_request_ok (pb_ResourcePool pr) (\<lambda>_. True)"
  "prost_ok pr \<Longrightarrow> rpc_method (pb_CreateRequest pr) create_request_ok (pb_ResourceRequests pr) (\<lambda>_. True)"
  "prost_ok pr \<Longrightarrow> rpc_method (pb_CreateRequest pr) create_request_ok (pb_CreateProgress pr) create_progress_ok"
  "prost_ok pr \<Longrightarrow> rpc_method (pb_DestroyRequest pr) (\<lambda>_. True) (pb_DestroyResponse pr) (\<lambda>_. True)"
  "prost_ok pr \<Longrightarrow> rpc_method (pb_HealthCheckRequest pr) (\<lambda>_. True) (pb_HealthCheckResponse pr) (\<lambda>_. True)"
  by (simp_all add: prost_ok_def rpc_methodI fieldless_codec)

lemma tonic_prost: "tonic_ok tn \<Longrightarrow> prost_ok (tn_prost tn)"
  by (simp add: tonic_ok_def)

lemma returns_conj: "returns f (\<lambda>r. P r \<and> Q r) q s \<longleftrightarrow> returns f P q s \<and> returns f Q q s"
  by (auto simp: returns_def)

lemma returns_True: "returns f (\<lambda>_. True) q s"
  by (simp add: returns_def)

text \<open>For any implementation of the trait, a client method is the handler it is routed to.\<close>

lemma coordinator_client:
  assumes "tonic_ok tn" "cl_inner cl = CoordinatorServiceServer_service tn srv"
  shows "take_lease_request_ok a \<Longrightarrow>
      sent_fits cl srv (pb_TakeLeaseRequest (tn_prost tn)) a \<Longrightarrow>
      returns (cs_take_lease (srv_inner srv)) (\<lambda>r. take_lease_response_ok r \<and> answer_fits cl srv (pb_TakeLeaseResponse (tn_prost tn)) r) a s \<Longrightarrow>
      over_wire tn (carried tn (CoordinatorServiceClient_path TakeLease) (pb_TakeLeaseRequest (tn_prost tn)) a s)
        (CoordinatorServiceClient_take_lease tn cl a s) (cs_take_lease (srv_inner srv) a s)"
    and "sent_fits cl srv (pb_KeepaliveRequest (tn_prost tn)) b \<Longrightarrow>
      over_wire tn (carried tn (CoordinatorServiceClient_path Keepalive) (pb_KeepaliveRequest (tn_prost tn)) b s)
        (CoordinatorServiceClient_keepalive tn cl b s) (cs_keepalive (srv_inner srv) b s)"
    and "sent_fits cl srv (pb_ReleaseRequest (tn_prost tn)) c \<Longrightarrow>
      over_wire tn (carried tn (CoordinatorServiceClient_path ReleaseLease) (pb_ReleaseRequest (tn_prost tn)) c s)
        (CoordinatorServiceClient_release_lease tn cl c s) (cs_release_lease (srv_inner srv) c s)"
    and "sent_fits cl srv (pb_StatusRequest (tn_prost tn)) d \<Longrightarrow>
      returns (cs_status (srv_inner srv)) (\<lambda>r. status_response_ok r \<and> answer_fits cl srv (pb_StatusResponse (tn_prost tn)) r) d s \<Longrightarrow>
      over_wire tn (carried tn (CoordinatorServiceClient_path Status_method) (pb_StatusRequest (tn_prost tn)) d s)
        (CoordinatorServiceClient_status tn cl d s) (cs_status (srv_inner srv) d s)"
proof -
  note pr = tonic_prost [OF assms(1)] and ready = CoordinatorService_reaches(2)
  note rpc = prost_methods [OF pr, THEN rpc_method.unary_over_wire, OF assms(1)]
  note eqs = CoordinatorServiceClient_take_lease_def CoordinatorServiceClient_keepalive_def CoordinatorServiceClient_release_lease_def CoordinatorServiceClient_status_def
    CoordinatorService_arms ready assms(2) sent_fits_def answer_fits_def carried_def returns_def nothing_fits [OF prost_fieldless(1) [OF pr]]
    nothing_fits [OF prost_fieldless(2) [OF pr]]
  show "over_wire tn (carried tn (CoordinatorServiceClient_path TakeLease) (pb_TakeLeaseRequest (tn_prost tn)) a s)
        (CoordinatorServiceClient_take_lease tn cl a s) (cs_take_lease (srv_inner srv) a s)"
    if "take_lease_request_ok a" "sent_fits cl srv (pb_TakeLeaseRequest (tn_prost tn)) a" "returns (cs_take_lease (srv_inner srv)) (\<lambda>r. take_lease_response_ok r \<and> answer_fits cl srv (pb_TakeLeaseResponse (tn_prost tn)) r) a s"
    using rpc(1) [of cl "CoordinatorServiceClient_path TakeLease" "Grpc_config srv" "cs_take_lease (srv_inner srv)" a s] that
    by (simp add: eqs)
  show "over_wire tn (carried tn (CoordinatorServiceClient_path Keepalive) (pb_KeepaliveRequest (tn_prost tn)) b s)
        (CoordinatorServiceClient_keepalive tn cl b s) (cs_keepalive (srv_inner srv) b s)"
    if "sent_fits cl srv (pb_KeepaliveRequest (tn_prost tn)) b"
    using rpc(2) [of cl "CoordinatorServiceClient_path Keepalive" "Grpc_config srv" "cs_keepalive (srv_inner srv)" b s] that
    by (simp add: eqs)
  show "over_wire tn (carried tn (CoordinatorServiceClient_path ReleaseLease) (pb_ReleaseRequest (tn_prost tn)) c s)
        (CoordinatorServiceClient_release_lease tn cl c s) (cs_release_lease (srv_inner srv) c s)"
    if "sent_fits cl srv (pb_ReleaseRequest (tn_prost tn)) c"
    using rpc(3) [of cl "CoordinatorServiceClient_path ReleaseLease" "Grpc_config srv" "cs_release_lease (srv_inner srv)" c s] that
    by (simp add: eqs)
  show "over_wire tn (carried tn (CoordinatorServiceClient_path Status_method) (pb_StatusRequest (tn_prost tn)) d s)
        (CoordinatorServiceClient_status tn cl d s) (cs_status (srv_inner srv) d s)"
    if "sent_fits cl srv (pb_StatusRequest (tn_prost tn)) d" "returns (cs_status (srv_inner srv)) (\<lambda>r. status_response_ok r \<and> answer_fits cl srv (pb_StatusResponse (tn_prost tn)) r) d s"
    using rpc(4) [of cl "CoordinatorServiceClient_path Status_method" "Grpc_config srv" "cs_status (srv_inner srv)" d s] that
    by (simp add: eqs)
qed

lemma plugin_client:
  assumes "tonic_ok tn" "cl_inner cl = CoordinatorPluginServer_service tn srv"
  shows "sent_fits cl srv (pb_Empty (tn_prost tn)) a \<Longrightarrow>
      returns (cp_describe_plugin (srv_inner srv)) (\<lambda>r. describe_responses_ok r \<and> answer_fits cl srv (pb_DescribeResponses (tn_prost tn)) r) a s \<Longrightarrow>
      over_wire tn (carried tn (CoordinatorPluginClient_path DescribePlugin) (pb_Empty (tn_prost tn)) a s)
        (CoordinatorPluginClient_describe_plugin tn cl a s) (cp_describe_plugin (srv_inner srv) a s)"
    and "create_request_ok b \<Longrightarrow>
      sent_fits cl srv (pb_CreateRequest (tn_prost tn)) b \<Longrightarrow>
      returns (cp_get_resource_pool (srv_inner srv)) (answer_fits cl srv (pb_ResourcePool (tn_prost tn))) b s \<Longrightarrow>
      over_wire tn (carried tn (CoordinatorPluginClient_path GetResourcePool) (pb_CreateRequest (tn_prost tn)) b s)
        (CoordinatorPluginClient_get_resource_pool tn cl b s) (cp_get_resource_pool (srv_inner srv) b s)"
    and "create_request_ok b \<Longrightarrow>
      sent_fits cl srv (pb_CreateRequest (tn_prost tn)) b \<Longrightarrow>
      returns (cp_get_resource_requests (srv_inner srv)) (answer_fits cl srv (pb_ResourceRequests (tn_prost tn))) b s \<Longrightarrow>
      over_wire tn (carried tn (CoordinatorPluginClient_path GetResourceRequests) (pb_CreateRequest (tn_prost tn)) b s)
        (CoordinatorPluginClient_get_resource_requests tn cl b s) (cp_get_resource_requests (srv_inner srv) b s)"
    and "create_request_ok b \<Longrightarrow>
      sent_fits cl srv (pb_CreateRequest (tn_prost tn)) b \<Longrightarrow>
      returns (cp_create_fixture (srv_inner srv)) (list_all (item_ok (\<lambda>r. create_progress_ok r \<and> answer_fits cl srv (pb_CreateProgress (tn_prost tn)) r))) b s \<Longrightarrow>
      carried tn (CoordinatorPluginClient_path CreateFixture) (pb_CreateRequest (tn_prost tn)) b s \<Longrightarrow>
      CoordinatorPluginClient_create_fixture tn cl b s =
        map_option (map_prod (\<lambda>out. as_seen tn (map_outcome id (until_error tn) out)) id)
          (cp_create_fixture (srv_inner srv) b s)"
    and "sent_fits cl srv (pb_DestroyRequest (tn_prost tn)) c \<Longrightarrow>
      over_wire tn (carried tn (CoordinatorPluginClient_path DestroyFixture) (pb_DestroyRequest (tn_prost tn)) c s)
        (CoordinatorPluginClient_destroy_fixture tn cl c s) (cp_destroy_fixture (srv_inner srv) c s)"
    and "sent_fits cl srv (pb_HealthCheckRequest (tn_prost tn)) d \<Longrightarrow>
      returns (cp_health_check (srv_inner srv)) (answer_fits cl srv (pb_HealthCheckResponse (tn_prost tn))) d s \<Longrightarrow>
      over_wire tn (carried tn (CoordinatorPluginClient_path HealthCheck) (pb_HealthCheckRequest (tn_prost tn)) d s)
        (CoordinatorPluginClient_health_check tn cl d s) (cp_health_check (srv_inner srv) d s)"
proof -
  note pr = tonic_prost [OF assms(1)] and ready = CoordinatorPlugin_reaches(2)
  note rpc = prost_methods [OF pr, THEN rpc_method.unary_over_wire, OF assms(1)]
  note eqs = CoordinatorPluginClient_describe_plugin_def CoordinatorPluginClient_get_resource_pool_def CoordinatorPluginClient_get_resource_requests_def CoordinatorPluginClient_create_fixture_def CoordinatorPluginClient_destroy_fixture_def CoordinatorPluginClient_health_check_def
    CoordinatorPlugin_arms ready assms(2) sent_fits_def answer_fits_def carried_def returns_def nothing_fits [OF prost_fieldless(3) [OF pr]]
  show "over_wire tn (carried tn (CoordinatorPluginClient_path DescribePlugin) (pb_Empty (tn_prost tn)) a s)
        (CoordinatorPluginClient_describe_plugin tn cl a s) (cp_describe_plugin (srv_inner srv) a s)"
    if "sent_fits cl srv (pb_Empty (tn_prost tn)) a" "returns (cp_describe_plugin (srv_inner srv)) (\<lambda>r. describe_responses_ok r \<and> answer_fits cl srv (pb_DescribeResponses (tn_prost tn)) r) a s"
    using rpc(5) [of cl "CoordinatorPluginClient_path DescribePlugin" "Grpc_config srv" "cp_describe_plugin (srv_inner srv)" a s] that
    by (simp add: eqs)
  show "over_wire tn (carried tn (CoordinatorPluginClient_path GetResourcePool) (pb_CreateRequest (tn_prost tn)) b s)
        (CoordinatorPluginClient_get_resource_pool tn cl b s) (cp_get_resource_pool (srv_inner srv) b s)"
    if "create_request_ok b" "sent_fits cl srv (pb_CreateRequest (tn_prost tn)) b" "returns (cp_get_resource_pool (srv_inner srv)) (answer_fits cl srv (pb_ResourcePool (tn_prost tn))) b s"
    using rpc(6) [of cl "CoordinatorPluginClient_path GetResourcePool" "Grpc_config srv" "cp_get_resource_pool (srv_inner srv)" b s] that
    by (simp add: eqs)
  show "over_wire tn (carried tn (CoordinatorPluginClient_path GetResourceRequests) (pb_CreateRequest (tn_prost tn)) b s)
        (CoordinatorPluginClient_get_resource_requests tn cl b s) (cp_get_resource_requests (srv_inner srv) b s)"
    if "create_request_ok b" "sent_fits cl srv (pb_CreateRequest (tn_prost tn)) b" "returns (cp_get_resource_requests (srv_inner srv)) (answer_fits cl srv (pb_ResourceRequests (tn_prost tn))) b s"
    using rpc(7) [of cl "CoordinatorPluginClient_path GetResourceRequests" "Grpc_config srv" "cp_get_resource_requests (srv_inner srv)" b s] that
    by (simp add: eqs)
  show "CoordinatorPluginClient_create_fixture tn cl b s =
        map_option (map_prod (\<lambda>out. as_seen tn (map_outcome id (until_error tn) out)) id)
          (cp_create_fixture (srv_inner srv) b s)"
    if "create_request_ok b" "sent_fits cl srv (pb_CreateRequest (tn_prost tn)) b" "returns (cp_create_fixture (srv_inner srv)) (list_all (item_ok (\<lambda>r. create_progress_ok r \<and> answer_fits cl srv (pb_CreateProgress (tn_prost tn)) r))) b s" "carried tn (CoordinatorPluginClient_path CreateFixture) (pb_CreateRequest (tn_prost tn)) b s"
    using prost_methods(8) [OF pr, THEN rpc_method.streaming_over_wire, OF assms(1), of cl "CoordinatorPluginClient_path CreateFixture" "Grpc_config srv" "cp_create_fixture (srv_inner srv)" b s] that
    by (simp add: eqs)
  show "over_wire tn (carried tn (CoordinatorPluginClient_path DestroyFixture) (pb_DestroyRequest (tn_prost tn)) c s)
        (CoordinatorPluginClient_destroy_fixture tn cl c s) (cp_destroy_fixture (srv_inner srv) c s)"
    if "sent_fits cl srv (pb_DestroyRequest (tn_prost tn)) c"
    using rpc(9) [of cl "CoordinatorPluginClient_path DestroyFixture" "Grpc_config srv" "cp_destroy_fixture (srv_inner srv)" c s] that
    by (simp add: eqs)
  show "over_wire tn (carried tn (CoordinatorPluginClient_path HealthCheck) (pb_HealthCheckRequest (tn_prost tn)) d s)
        (CoordinatorPluginClient_health_check tn cl d s) (cp_health_check (srv_inner srv) d s)"
    if "sent_fits cl srv (pb_HealthCheckRequest (tn_prost tn)) d" "returns (cp_health_check (srv_inner srv)) (answer_fits cl srv (pb_HealthCheckResponse (tn_prost tn))) d s"
    using rpc(10) [of cl "CoordinatorPluginClient_path HealthCheck" "Grpc_config srv" "cp_health_check (srv_inner srv)" d s] that
    by (simp add: eqs)
qed

section \<open>The servers of the programs\<close>

definition outcome_of :: "('e, 'a) result \<Rightarrow> ('e, 'a) outcome" where
  "outcome_of r = (case r of Err e \<Rightarrow> Fail e | Ok a \<Rightarrow> Return a)"

lemma outcome_of_eq_Return [simp]: "outcome_of r = Return a \<longleftrightarrow> r = Ok a"
  by (cases r) (simp_all add: outcome_of_def)

text \<open>
  \<open>impl CoordinatorService for Coordinator\<close>, on its state and the trace of its effects; \<open>te\<close> is
  what the handler of one \<open>TakeLease\<close> reads and draws from outside.
\<close>

definition Coordinator_handlers :: "path \<Rightarrow> take_env \<Rightarrow> (State \<times> trace) CoordinatorService" where
  "Coordinator_handlers instance_dir te =
    \<lparr>cs_take_lease = take_lease instance_dir te,
     cs_keepalive = (\<lambda>req (s, w). Some (outcome_of (keepalive req s), s, w)),
     cs_release_lease = (\<lambda>req (s, w). case release_lease req s of (r, s') \<Rightarrow> Some (outcome_of r, s', w)),
     cs_status = (\<lambda>req (s, w). Some (outcome_of (status req s), s, w))\<rparr>"

text \<open>\<open>impl CoordinatorPlugin for StubPlugin\<close>, which has no state.\<close>

definition StubPlugin ::
  "(string \<Rightarrow> (Error, json_map) result) \<Rightarrow> (JsonValue \<Rightarrow> (Error, byte list) result) \<Rightarrow>
    unit CoordinatorPlugin" where
  "StubPlugin from_str to_vec =
    \<lparr>cp_describe_plugin = (\<lambda>req s. Some (outcome_of (StubPlugin_describe_plugin req), s)),
     cp_get_resource_pool = (\<lambda>req s. Some (outcome_of (StubPlugin_get_resource_pool req), s)),
     cp_get_resource_requests = (\<lambda>req s. Some (outcome_of (StubPlugin_get_resource_requests req), s)),
     cp_create_fixture = (\<lambda>req s. Some (StubPlugin_create_fixture from_str to_vec req, s)),
     cp_destroy_fixture = (\<lambda>req s. Some (outcome_of (StubPlugin_destroy_fixture req), s)),
     cp_health_check = (\<lambda>req s. Some (outcome_of (StubPlugin_health_check req), s))\<rparr>"

text \<open>
  The environment of a provisioning whose calls go through a client: what the client method
  returns is what the coordinator's call sees.
\<close>

definition seen_call :: "(unit, 'c, 'q, 'h) tonic \<Rightarrow> ((Status, 'r) outcome \<times> unit) option \<Rightarrow> (Status, 'r) result option" where
  "seen_call tn x =
    map_option (\<lambda>(out, _). case out of Return r \<Rightarrow> Ok r | Fail e \<Rightarrow> Err e | Panic \<Rightarrow> Err (tn_reset tn)) x"

definition socket_env ::
  "(unit, 'c, 'q, 'h) tonic \<Rightarrow> (('q, 'h, unit) GrpcService, 'c) Client \<Rightarrow> plugin_env \<Rightarrow> plugin_env" where
  "socket_env tn cl env =
    env\<lparr>env_describe_plugin := \<lambda>q. seen_call tn (CoordinatorPluginClient_describe_plugin tn cl q ()),
        env_create_fixture := \<lambda>q.
          map_option (map_sum id stream_of) (seen_call tn (CoordinatorPluginClient_create_fixture tn cl q ()))\<rparr>"

lemma socket_env_spawn [simp]:
  "PluginProcess_spawn (socket_env tn cl env) b s t = PluginProcess_spawn env b s t"
  unfolding socket_env_def by (rule calls_spawn)

lemma socket_env_starts [simp]: "plugin_starts (socket_env tn cl env) b s t pid = plugin_starts env b s t pid"
  by (simp add: plugin_starts_def socket_dir_ready_def socket_env_def split: option.splits)

lemma describe_plugin_over_socket:
  assumes "tonic_ok tn" "cl_inner cl = CoordinatorPluginServer_service tn srv"
    and "srv_inner srv = StubPlugin from_str to_vec"
    and "sent_fits cl srv (pb_Empty (tn_prost tn)) Empty"
      "carried tn (CoordinatorPluginClient_path DescribePlugin) (pb_Empty (tn_prost tn)) Empty ()"
    and "StubPlugin_describe_plugin Empty = Ok d" "answer_fits cl srv (pb_DescribeResponses (tn_prost tn)) d"
  shows "env_describe_plugin (socket_env tn cl env) Empty = Some (Ok d)"
proof -
  have "describe_responses_ok d"
    using assms(6) by (auto simp: StubPlugin_describe_plugin_def describe_responses_ok_def describe_response_ok_def)
  with assms(6,7) have "returns (cp_describe_plugin (srv_inner srv))
      (\<lambda>r. describe_responses_ok r \<and> answer_fits cl srv (pb_DescribeResponses (tn_prost tn)) r) Empty ()"
    by (simp add: assms(3) StubPlugin_def returns_def)
  from over_wireD [OF plugin_client(1) [OF assms(1,2,4) this] assms(5)] assms(6)
  have "CoordinatorPluginClient_describe_plugin tn cl Empty () = Some (Return d, ())"
    by (simp add: assms(3) StubPlugin_def outcome_of_def)
  then show ?thesis by (simp add: socket_env_def seen_call_def)
qed

text \<open>The message the stub's stream consists of.\<close>

definition stub_progress :: "byte list \<Rightarrow> CreateProgress" where
  "stub_progress blob =
    \<lparr>cp_status = CreateProgressStatus_as_i32 CreateProgressSucceeded, cp_element_infos = [],
     cp_result = Some
       \<lparr>fr_outputs = endpoints blob, fr_idle_timeout_seconds = 60, fr_instance_data = bytes_of ''stub'',
        fr_consumed = []\<rparr>\<rparr>"

lemma stub_create_fixture_items:
  assumes "ports_schema_blob from_str to_vec (ports_input_of q) = Some blob"
  shows "StubPlugin_create_fixture from_str to_vec q = Return [Ok (stub_progress blob)]"
  using assms by (simp add: StubPlugin_create_fixture_def Let_def stub_progress_def endpoints_def)

lemma stub_progress_ok: "create_progress_ok (stub_progress blob)"
  by (simp add: stub_progress_def create_progress_ok_def fixture_result_ok_def endpoints_def)

lemma create_fixture_over_socket:
  assumes "tonic_ok tn" "cl_inner cl = CoordinatorPluginServer_service tn srv"
    and "srv_inner srv = StubPlugin from_str to_vec"
    and "create_request_ok q" "sent_fits cl srv (pb_CreateRequest (tn_prost tn)) q"
      "carried tn (CoordinatorPluginClient_path CreateFixture) (pb_CreateRequest (tn_prost tn)) q ()"
    and "ports_schema_blob from_str to_vec (ports_input_of q) = Some blob"
      "answer_fits cl srv (pb_CreateProgress (tn_prost tn)) (stub_progress blob)"
  shows "env_create_fixture (socket_env tn cl env) q = Some (Ok (stream_of [Ok (stub_progress blob)]))"
proof -
  have items: "cp_create_fixture (srv_inner srv) q () = Some (Return [Ok (stub_progress blob)], ())"
    by (simp add: assms(3) StubPlugin_def stub_create_fixture_items [OF assms(7)])
  then have "returns (cp_create_fixture (srv_inner srv)) (list_all (item_ok
      (\<lambda>r. create_progress_ok r \<and> answer_fits cl srv (pb_CreateProgress (tn_prost tn)) r))) q ()"
    using assms(8) by (simp add: returns_def item_ok_def stub_progress_ok)
  from plugin_client(4) [OF assms(1,2,4,5) this assms(6)] items
  have "CoordinatorPluginClient_create_fixture tn cl q () = Some (Return [Ok (stub_progress blob)], ())" by simp
  then show ?thesis by (simp add: socket_env_def seen_call_def)
qed

text \<open>A client of the runner connected to the coordinator, and one of the coordinator to the stub.\<close>

definition runner_connected ::
  "(State \<times> trace, 'c, 'q, 'h) tonic \<Rightarrow> (('q, 'h, State \<times> trace) GrpcService, 'c) Client \<Rightarrow>
    ((State \<times> trace) CoordinatorService, 'c) Server \<Rightarrow> path \<Rightarrow> take_env \<Rightarrow> bool" where
  "runner_connected tn cl srv instance_dir te \<longleftrightarrow>
    tonic_ok tn \<and> cl_inner cl = CoordinatorServiceServer_service tn srv \<and>
    srv_inner srv = Coordinator_handlers instance_dir te"

definition stub_connected ::
  "(unit, 'c, 'q, 'h) tonic \<Rightarrow> (('q, 'h, unit) GrpcService, 'c) Client \<Rightarrow> (unit CoordinatorPlugin, 'c) Server \<Rightarrow>
    (string \<Rightarrow> (Error, json_map) result) \<Rightarrow> (JsonValue \<Rightarrow> (Error, byte list) result) \<Rightarrow> plugin_env \<Rightarrow> bool" where
  "stub_connected tn cl srv from_str to_vec env \<longleftrightarrow>
    tonic_ok tn \<and> cl_inner cl = CoordinatorPluginServer_service tn srv \<and>
    srv_inner srv = StubPlugin from_str to_vec \<and> (\<exists>env'. env = socket_env tn cl env') \<and>
    sent_fits cl srv (pb_Empty (tn_prost tn)) Empty \<and>
    carried tn (CoordinatorPluginClient_path DescribePlugin) (pb_Empty (tn_prost tn)) Empty () \<and>
    item_ok (answer_fits cl srv (pb_DescribeResponses (tn_prost tn))) (StubPlugin_describe_plugin Empty)"

text \<open>A \<open>CreateFixture\<close> that reaches the stub, whose answer reaches the coordinator.\<close>

definition create_carried ::
  "(unit, 'c, 'q, 'h) tonic \<Rightarrow> (('q, 'h, unit) GrpcService, 'c) Client \<Rightarrow> (unit CoordinatorPlugin, 'c) Server \<Rightarrow>
    CreateRequest \<Rightarrow> byte list \<Rightarrow> bool" where
  "create_carried tn cl srv q blob \<longleftrightarrow>
    sent_fits cl srv (pb_CreateRequest (tn_prost tn)) q \<and>
    carried tn (CoordinatorPluginClient_path CreateFixture) (pb_CreateRequest (tn_prost tn)) q () \<and>
    answer_fits cl srv (pb_CreateProgress (tn_prost tn)) (stub_progress blob)"

lemma stub_connected_describes:
  assumes "stub_connected tn cl srv from_str to_vec env"
  shows "env_describe_plugin env Empty = Some (StubPlugin_describe_plugin Empty)"
  using assms describe_plugin_over_socket [of tn cl srv from_str to_vec]
  by (cases "StubPlugin_describe_plugin Empty")
    (auto simp: stub_connected_def StubPlugin_describe_plugin_def item_ok_def)

lemma stub_connected_creates:
  assumes "stub_connected tn cl srv from_str to_vec env"
    and "create_request_ok q" "create_carried tn cl srv q blob"
    and "ports_schema_blob from_str to_vec (ports_input_of q) = Some blob"
  shows "create_fixture env q =
    Some (Ok \<lparr>fr_outputs = endpoints blob, fr_idle_timeout_seconds = 60,
      fr_instance_data = bytes_of ''stub'', fr_consumed = []\<rparr>)"
proof -
  have "env_create_fixture env q = Some (Ok (stream_of [Ok (stub_progress blob)]))"
    using assms create_fixture_over_socket [of tn cl srv from_str to_vec q blob]
    by (auto simp: stub_connected_def create_carried_def)
  then show ?thesis
    using stub_create_fixture [OF assms(4), of env]
    by (simp add: create_fixture_def stub_env_def stub_create_fixture_items [OF assms(4)])
qed

section \<open>An instance of prost\<close>

text \<open>The protobuf encoding that the attributes in the source denote, as \<open>Wire\<close> and \<open>Codec\<close> have it.\<close>

definition wire_codec :: "('m \<Rightarrow> field list) \<Rightarrow> (field list \<Rightarrow> 'm option) \<Rightarrow> 'm codec" where
  "wire_codec to_fields read = \<lparr>cd_encode = encode_message to_fields, cd_decode = decode_message read\<rparr>"

definition wire_prost :: prost where
  "wire_prost =
    \<lparr>pb_TakeLeaseRequest = wire_codec fields_TakeLeaseRequest read_TakeLeaseRequest,
     pb_TakeLeaseResponse = wire_codec fields_TakeLeaseResponse read_TakeLeaseResponse,
     pb_KeepaliveRequest = wire_codec fields_KeepaliveRequest read_KeepaliveRequest,
     pb_KeepaliveResponse = wire_codec fields_nothing (read_nothing KeepaliveResponse),
     pb_ReleaseRequest = wire_codec fields_ReleaseRequest read_ReleaseRequest,
     pb_ReleaseResponse = wire_codec fields_nothing (read_nothing ReleaseResponse),
     pb_StatusRequest = wire_codec fields_StatusRequest read_StatusRequest,
     pb_StatusResponse = wire_codec fields_StatusResponse read_StatusResponse,
     pb_Empty = wire_codec fields_nothing (read_nothing Empty),
     pb_DescribeResponses = wire_codec fields_DescribeResponses read_DescribeResponses,
     pb_CreateRequest = wire_codec fields_CreateRequest read_CreateRequest,
     pb_ResourcePool = wire_codec fields_ResourcePool read_ResourcePool,
     pb_ResourceRequests = wire_codec fields_ResourceRequests read_ResourceRequests,
     pb_CreateProgress = wire_codec fields_CreateProgress read_CreateProgress,
     pb_DestroyRequest = wire_codec fields_DestroyRequest read_DestroyRequest,
     pb_DestroyResponse = wire_codec fields_nothing (read_nothing DestroyResponse),
     pb_HealthCheckRequest = wire_codec fields_HealthCheckRequest read_HealthCheckRequest,
     pb_HealthCheckResponse = wire_codec fields_HealthCheckResponse read_HealthCheckResponse\<rparr>"

lemma wire_codec_ok: "message_codec to_fields read ok \<Longrightarrow> codec_ok ok (wire_codec to_fields read)"
  by (simp add: codec_ok_def wire_codec_def message_codec.decode_encode)

lemma wire_fieldless:
  "message_codec fields_nothing read (\<lambda>_. True) \<Longrightarrow> fieldless (wire_codec fields_nothing read)"
  by (simp add: fieldless_def wire_codec_ok) (simp add: wire_codec_def fields_nothing_def encode_message_def encode_fields_def)

lemma wire_prost_ok: "prost_ok wire_prost"
  unfolding prost_ok_def wire_prost_def prost.simps
  by (intro conjI wire_codec_ok wire_fieldless; unfold_locales)

interpretation take_lease_rpc: rpc_method "pb_TakeLeaseRequest wire_prost" take_lease_request_ok "pb_TakeLeaseResponse wire_prost" take_lease_response_ok
  by (rule prost_methods(1) [OF wire_prost_ok])

interpretation keepalive_rpc: rpc_method "pb_KeepaliveRequest wire_prost" "\<lambda>_. True" "pb_KeepaliveResponse wire_prost" "\<lambda>_. True"
  by (rule prost_methods(2) [OF wire_prost_ok])

interpretation release_lease_rpc: rpc_method "pb_ReleaseRequest wire_prost" "\<lambda>_. True" "pb_ReleaseResponse wire_prost" "\<lambda>_. True"
  by (rule prost_methods(3) [OF wire_prost_ok])

interpretation status_rpc: rpc_method "pb_StatusRequest wire_prost" "\<lambda>_. True" "pb_StatusResponse wire_prost" status_response_ok
  by (rule prost_methods(4) [OF wire_prost_ok])

interpretation describe_plugin_rpc: rpc_method "pb_Empty wire_prost" "\<lambda>_. True" "pb_DescribeResponses wire_prost" describe_responses_ok
  by (rule prost_methods(5) [OF wire_prost_ok])

interpretation get_resource_pool_rpc: rpc_method "pb_CreateRequest wire_prost" create_request_ok "pb_ResourcePool wire_prost" "\<lambda>_. True"
  by (rule prost_methods(6) [OF wire_prost_ok])

interpretation get_resource_requests_rpc: rpc_method "pb_CreateRequest wire_prost" create_request_ok "pb_ResourceRequests wire_prost" "\<lambda>_. True"
  by (rule prost_methods(7) [OF wire_prost_ok])

interpretation create_fixture_rpc: rpc_method "pb_CreateRequest wire_prost" create_request_ok "pb_CreateProgress wire_prost" create_progress_ok
  by (rule prost_methods(8) [OF wire_prost_ok])

interpretation destroy_fixture_rpc: rpc_method "pb_DestroyRequest wire_prost" "\<lambda>_. True" "pb_DestroyResponse wire_prost" "\<lambda>_. True"
  by (rule prost_methods(9) [OF wire_prost_ok])

interpretation health_check_rpc: rpc_method "pb_HealthCheckRequest wire_prost" "\<lambda>_. True" "pb_HealthCheckResponse wire_prost" "\<lambda>_. True"
  by (rule prost_methods(10) [OF wire_prost_ok])

section \<open>A tonic that loops back\<close>

text \<open>
  An instance of the hypotheses on tonic: the request is handed to the service as it is, and a
  response is the outcome of the method or the headers of a response without a body.
\<close>

type_synonym loop_response = "(Status, (Status, byte list) result list) outcome + (string \<times> string) list"

definition loop_serve ::
  "'c Config \<Rightarrow> 's streamed \<Rightarrow> byte list \<Rightarrow> 's \<Rightarrow> (loop_response \<times> 's) option" where
  "loop_serve cfg f body s =
    (if decoding_limit (cf_max_decoding_message_size cfg) < length body
     then Some (Inl (Fail (Status CodeUnknown (Text ''message too large''))), s)
     else map_option (map_prod Inl id) (f body s))"

definition loop_render :: "Detail \<Rightarrow> string" where
  "loop_render d = (case d of Text t \<Rightarrow> t | Prefixed t _ \<Rightarrow> t)"

definition loop_status :: "Status \<Rightarrow> Status" where
  "loop_status st = Status (code st) (Text (loop_render (detail st)))"

fun loop_items :: "(Status, byte list) result list \<Rightarrow> (Status, byte list) result list" where
  "loop_items [] = []"
| "loop_items (Err e # items) = [Err (loop_status e)]"
| "loop_items (Ok bs # items) = Ok bs # loop_items items"

definition loop_reset :: Status where
  "loop_reset = Status CodeUnknown (Text ''stream reset'')"

definition loop_call :: "((byte list, loop_response, 's) GrpcService, 'c) Client \<Rightarrow> string \<Rightarrow> 's streamed" where
  "loop_call cl path bs s =
    map_option (map_prod (\<lambda>h. case h of
        Inl (Return items) \<Rightarrow> Return (loop_items items)
      | Inl (Fail e) \<Rightarrow> Fail (loop_status e)
      | Inl Panic \<Rightarrow> Fail loop_reset
      | Inr headers \<Rightarrow>
          Fail (Status (if map_of headers ''grpc-status'' = Some ''12'' then Unimplemented else CodeUnknown) (Text ''''))) id)
      (gs_call (cl_inner cl) path bs s)"

definition loopback :: "('s, 'c, byte list, loop_response) tonic" where
  "loopback =
    \<lparr>tn_prost = wire_prost,
     tn_carries = (\<lambda>_ _ _. True),
     tn_server_unary = (\<lambda>cfg f. loop_serve cfg
       (\<lambda>body s. map_option (map_prod (map_outcome id (\<lambda>r. [Ok r])) id) (f body s))),
     tn_server_streaming = loop_serve,
     tn_empty_body = Inr,
     tn_client_unary = (\<lambda>cl path bs s.
       map_option (map_prod (\<lambda>out. case out of
           Return (Ok r # _) \<Rightarrow> Return r
         | Return (Err e # _) \<Rightarrow> Fail e
         | Return [] \<Rightarrow> Fail loop_reset
         | Fail e \<Rightarrow> Fail e
         | Panic \<Rightarrow> Panic) id) (loop_call cl path bs s)),
     tn_client_streaming = loop_call,
     tn_undecodable = Status Internal (Text ''undecodable''),
     tn_reset = loop_reset,
     tn_render = loop_render\<rparr>"

lemma loop_items_until_error: "loop_items items = until_error loopback items"
  by (induction items rule: loop_items.induct)
    (simp_all add: seen_status_def loop_status_def loopback_def)

lemma loopback_unary:
  assumes "gs_call (cl_inner cl) path = tn_server_unary loopback cfg f" "request_fits cl cfg bs"
  shows "tn_client_unary loopback cl path bs s = map_option (map_prod (as_seen loopback) id) (f bs s)"
  using assms
  by (cases "f bs s"; cases "fst (the (f bs s))")
    (auto simp: loopback_def loop_call_def loop_serve_def request_fits_def as_seen_def
      seen_status_def loop_status_def)

lemma loopback_streaming:
  assumes "gs_call (cl_inner cl) path = tn_server_streaming loopback cfg f" "request_fits cl cfg bs"
  shows "tn_client_streaming loopback cl path bs s =
    map_option (map_prod (\<lambda>out. as_seen loopback (map_outcome id (until_error loopback) out)) id) (f bs s)"
  using assms unfolding loop_items_until_error [abs_def, symmetric]
  by (cases "f bs s"; cases "fst (the (f bs s))")
    (auto simp: loopback_def loop_call_def loop_serve_def request_fits_def as_seen_def
      seen_status_def loop_status_def)

lemma loopback_prost [simp]: "tn_prost loopback = wire_prost" "tn_carries loopback path bs s"
  by (simp_all add: loopback_def)

lemma loopback_bodyless: "tonic_bodyless loopback"
  by (simp add: tonic_bodyless_def unimplemented_answer_def loopback_def loop_call_def)

lemma loopback_render: "tn_render loopback (Text t) = t"
  by (simp add: loopback_def loop_render_def)

lemma loopback_ok: "tonic_ok loopback"
  by (simp add: tonic_ok_def tonic_unary_def tonic_streaming_def over_wire_def loopback_unary loopback_streaming
      loopback_bodyless loopback_render wire_prost_ok)

end
