(* ===== verification/Calls.thy ===== *)
theory Calls
  imports Endpoints
begin

text \<open>
  The program as it is deployed: the runner's client calls the coordinator over gRPC, and the
  coordinator's client calls the plugin it has spawned over gRPC. The properties of the handlers
  carry over to what the callers see.
\<close>

section \<open>Calls of the runner\<close>

lemma runner_take:
  assumes "runner_connected tn cl srv dir te" "take_lease_request_ok req"
    and "sent_fits cl srv (pb_TakeLeaseRequest (tn_prost tn)) req"
    and "carried tn (CoordinatorServiceClient_path TakeLease) (pb_TakeLeaseRequest (tn_prost tn)) req (s, w)"
    and "take_lease dir te req (s, w) = Some (Return resp, s', w')"
    and "take_lease_response_ok resp" "answer_fits cl srv (pb_TakeLeaseResponse (tn_prost tn)) resp"
  shows "CoordinatorServiceClient_take_lease tn cl req (s, w) = Some (Return resp, s', w')"
proof -
  have con: "tonic_ok tn" "cl_inner cl = CoordinatorServiceServer_service tn srv"
    "cs_take_lease (srv_inner srv) = take_lease dir te"
    using assms(1) by (simp_all add: runner_connected_def Coordinator_handlers_def)
  have "returns (take_lease dir te)
      (\<lambda>r. take_lease_response_ok r \<and> answer_fits cl srv (pb_TakeLeaseResponse (tn_prost tn)) r) req (s, w)"
    using assms(5-7) by (simp add: returns_def)
  from over_wireD [OF coordinator_client(1) [OF con(1,2) assms(2,3)] assms(4)] this assms(5) con(3)
  show ?thesis by simp
qed

text \<open>The path each client method sends to, and that no path is one of both services.\<close>

lemma client_methods:
  "CoordinatorServiceClient_take_lease tn cl = unary_call tn cl (CoordinatorServiceClient_path TakeLease)
    (pb_TakeLeaseRequest (tn_prost tn)) (pb_TakeLeaseResponse (tn_prost tn))"
  "CoordinatorServiceClient_keepalive tn cl = unary_call tn cl (CoordinatorServiceClient_path Keepalive)
    (pb_KeepaliveRequest (tn_prost tn)) (pb_KeepaliveResponse (tn_prost tn))"
  "CoordinatorServiceClient_release_lease tn cl = unary_call tn cl (CoordinatorServiceClient_path ReleaseLease)
    (pb_ReleaseRequest (tn_prost tn)) (pb_ReleaseResponse (tn_prost tn))"
  "CoordinatorServiceClient_status tn cl = unary_call tn cl (CoordinatorServiceClient_path Status_method)
    (pb_StatusRequest (tn_prost tn)) (pb_StatusResponse (tn_prost tn))"
  "CoordinatorPluginClient_describe_plugin tn' cl' = unary_call tn' cl' (CoordinatorPluginClient_path DescribePlugin)
    (pb_Empty (tn_prost tn')) (pb_DescribeResponses (tn_prost tn'))"
  "CoordinatorPluginClient_get_resource_pool tn' cl' = unary_call tn' cl' (CoordinatorPluginClient_path GetResourcePool)
    (pb_CreateRequest (tn_prost tn')) (pb_ResourcePool (tn_prost tn'))"
  "CoordinatorPluginClient_get_resource_requests tn' cl' = unary_call tn' cl' (CoordinatorPluginClient_path GetResourceRequests)
    (pb_CreateRequest (tn_prost tn')) (pb_ResourceRequests (tn_prost tn'))"
  "CoordinatorPluginClient_create_fixture tn' cl' = streaming_call tn' cl' (CoordinatorPluginClient_path CreateFixture)
    (pb_CreateRequest (tn_prost tn')) (pb_CreateProgress (tn_prost tn'))"
  "CoordinatorPluginClient_destroy_fixture tn' cl' = unary_call tn' cl' (CoordinatorPluginClient_path DestroyFixture)
    (pb_DestroyRequest (tn_prost tn')) (pb_DestroyResponse (tn_prost tn'))"
  "CoordinatorPluginClient_health_check tn' cl' = unary_call tn' cl' (CoordinatorPluginClient_path HealthCheck)
    (pb_HealthCheckRequest (tn_prost tn')) (pb_HealthCheckResponse (tn_prost tn'))"
  by (simp_all add: CoordinatorServiceClient_take_lease_def CoordinatorServiceClient_keepalive_def
      CoordinatorServiceClient_release_lease_def CoordinatorServiceClient_status_def
      CoordinatorPluginClient_describe_plugin_def CoordinatorPluginClient_get_resource_pool_def
      CoordinatorPluginClient_get_resource_requests_def CoordinatorPluginClient_create_fixture_def
      CoordinatorPluginClient_destroy_fixture_def CoordinatorPluginClient_health_check_def)

lemma paths_disjoint:
  "CoordinatorServiceClient_path m \<notin> range CoordinatorPluginClient_path"
  "CoordinatorPluginClient_path m' \<notin> range CoordinatorServiceClient_path"
proof -
  have "CoordinatorServiceClient_path m \<noteq> CoordinatorPluginClient_path m'" for m m'
    by (cases m; cases m') simp_all
  then show "CoordinatorServiceClient_path m \<notin> range CoordinatorPluginClient_path"
    "CoordinatorPluginClient_path m' \<notin> range CoordinatorServiceClient_path" by (auto dest: sym)
qed

section \<open>A lease on a fixture of the stub\<close>

text \<open>The request the plugin has to get for a fixture, and the answer the runner has to get.\<close>

definition stub_request :: "FixtureDescription \<Rightarrow> TakeLeaseRequest \<Rightarrow> string \<Rightarrow> CreateRequest" where
  "stub_request desc req fixture_id =
    \<lparr>cq_impl_id = fd_impl_id desc, cq_inputs = fd_inputs desc,
     cq_metadata = Some \<lparr>cm_fixture_id = fixture_id, cm_client_id = tlq_client_id req,
       cm_owner = tlq_owner req, cm_labels = []\<rparr>\<rparr>"

definition granted :: "string \<Rightarrow> byte list \<Rightarrow> string list \<Rightarrow> TakeLeaseResponse" where
  "granted lease_id blob messages =
    \<lparr>tlr_status = LeaseStatus_as_i32 Succeeded, tlr_lease_id = lease_id, tlr_outputs = endpoints blob,
     tlr_messages = messages\<rparr>"

text \<open>
  The blob for the ports that a description asks for: its input \<open>ports\<close> is a JSON object, and the
  blob is the JSON of one entry per port, in the order of the names.
\<close>

definition asks_for_ports ::
  "(string \<Rightarrow> (Error, json_map) result) \<Rightarrow> (JsonValue \<Rightarrow> (Error, byte list) result) \<Rightarrow>
    FixtureDescription \<Rightarrow> json_map \<Rightarrow> byte list \<Rightarrow> bool" where
  "asks_for_ports from_str to_vec desc ports blob \<longleftrightarrow>
    (\<exists>str. btree_get (fd_inputs desc) ''ports'' = Some \<lparr>v_value = Some (Str str)\<rparr> \<and> from_str str = Ok ports) \<and>
    distinct (map fst ports) \<and>
    to_vec (JsonObject [(''ports'', JsonArray (map (\<lambda>(name, v). port_entry name (port_value v)) (sort_key fst ports)))]) =
      Ok blob"

lemma granted_ok: "take_lease_response_ok (granted l blob ms)"
  by (simp add: granted_def take_lease_response_ok_def endpoints_def)

lemma stub_blob:
  assumes "asks_for_ports from_str to_vec desc ports blob"
  shows "ports_schema_blob from_str to_vec (ports_input_of (stub_request desc req u)) = Some blob"
proof -
  obtain str where str: "btree_get (fd_inputs desc) ''ports'' = Some \<lparr>v_value = Some (Str str)\<rparr>" "from_str str = Ok ports"
    using assms unfolding asks_for_ports_def by blast
  have "port_entries ports = Some (map (\<lambda>(k, v). port_entry k (port_value v)) (sort_key fst ports))"
    using assms by (intro port_entries_eq) (simp add: asks_for_ports_def)
  moreover have "json_object [(''ports'', v)] = JsonObject [(''ports'', v)]" for v
    by (simp add: json_object_def)
  moreover have "ports_input_of (stub_request desc req u) = str"
    using str(1) by (simp add: ports_input_of_def stub_request_def)
  ultimately show ?thesis
    using assms str(2) by (simp add: ports_schema_blob_def asks_for_ports_def)
qed

text \<open>
  What a successful \<open>TakeLease\<close> needs of the request and the outside world when nothing can be
  reused and the plugin is the stub: a valid request, a plugin that starts, and calls that are
  carried.
\<close>

definition stub_provides ::
  "(unit, 'c, 'q, 'h) tonic \<Rightarrow> (('q, 'h, unit) GrpcService, 'c) Client \<Rightarrow> (unit CoordinatorPlugin, 'c) Server \<Rightarrow>
    path \<Rightarrow> take_env \<Rightarrow> TakeLeaseRequest \<Rightarrow> FixtureDescription \<Rightarrow> FixtureFingerprint \<Rightarrow> pid \<Rightarrow> byte list \<Rightarrow> bool" where
  "stub_provides tn cl srv dir te req desc fp pid blob \<longleftrightarrow>
    tlq_fixture req = Some desc \<and> desc_ok desc \<and>
    (\<exists>b. fd_plugin desc = Some (BinaryPath b) \<and> request_fingerprint te desc b = Ok fp \<and>
      plugin_starts (te_plugin te) b (plugin_socket_path dir (te_socket_uuid te)) (startup_timeout desc) pid) \<and>
    create_carried tn cl srv (stub_request desc req (te_fixture_uuid te)) blob"

lemma stub_lease:
  assumes stub: "stub_connected tn cl srv from_str to_vec (te_plugin te)"
    and prov: "stub_provides tn cl srv dir te req desc fp pid blob"
    and ports: "asks_for_ports from_str to_vec desc ports blob"
    and none: "try_reuse fp (tlq_client_id req) (te_lease_uuid te) s = None"
  obtains p result v s' w' where "pp_child p = pid" "fr_outputs result = endpoints blob"
    "live v = insert pid (live w)"
    "commit_fixture fp (new_record desc (tlq_client_id req) p result) (te_lease_uuid te) (s, v) =
      (granted (te_lease_uuid te) blob [], s', w')"
    "take_lease dir te req (s, w) = Some (Return (granted (te_lease_uuid te) blob []), s', w')"
proof -
  obtain b where b: "requested_fixture req = Ok (desc, b)" "request_fingerprint te desc b = Ok fp"
    "plugin_starts (te_plugin te) b (plugin_socket_path dir (te_socket_uuid te)) (startup_timeout desc) pid"
    and carried: "create_carried tn cl srv (stub_request desc req (te_fixture_uuid te)) blob" and ok: "desc_ok desc"
    using prov unfolding stub_provides_def by (auto simp: requested_fixture_Ok)
  let ?result = "\<lparr>fr_outputs = endpoints blob, fr_idle_timeout_seconds = 60,
      fr_instance_data = bytes_of ''stub'', fr_consumed = []\<rparr>"
  let ?p = "\<lparr>pp_child = pid, pp_client = Channel (plugin_socket_path dir (te_socket_uuid te))\<rparr>"
  have q: "make_create_request desc req (te_fixture_uuid te) = stub_request desc req (te_fixture_uuid te)"
    by (simp add: make_create_request_def stub_request_def FixtureId_into_string_def FixtureId_random_def)
  have "create_request_ok (stub_request desc req (te_fixture_uuid te))"
    using create_request_typed [OF ok, of req "te_fixture_uuid te"] by (simp add: q)
  from stub_connected_creates [OF stub this carried stub_blob [OF ports]]
  have create: "create_fixture (te_plugin te) (make_create_request desc req (te_fixture_uuid te)) = Some (Ok ?result)"
    by (simp only: q)
  obtain n where spawn: "PluginProcess_spawn (te_plugin te) b (plugin_socket_path dir (te_socket_uuid te))
      (startup_timeout desc) w = Some (Return ?p, w @ spawn_calls b (plugin_socket_path dir (te_socket_uuid te)) pid @
        replicate n (Sleep retry_interval))" (is "_ = Some (_, ?v)")
    using plugin_starts_spawns [OF b(3)] by metis
  have "\<exists>d. env_describe_plugin (te_plugin te) Empty = Some (Ok d)"
    using stub_connected_describes [OF stub] by (simp add: StubPlugin_describe_plugin_def)
  then have pr: "provision dir te req desc b w = Some (Return (?p, ?result), ?v)"
    using spawn create
    by (simp add: provision_def Let_def io_bind_eq_Return io_map_err_eq_Return provision_plugin_Return)
  obtain s' w' where commit: "commit_fixture fp (new_record desc (tlq_client_id req) ?p ?result)
      (te_lease_uuid te) (s, ?v) = (granted (te_lease_uuid te) blob [], s', w')"
    by (simp add: commit_fixture_def Let_def granted_def LeaseId_random_def new_record_def)
  with pr b none have "take_lease dir te req (s, w) = Some (Return (granted (te_lease_uuid te) blob []), s', w')"
    by (simp add: take_lease_def)
  with commit show thesis by (rule that [rotated 3]) simp_all
qed

section \<open>Default configurations\<close>

text \<open>The clients and servers of the program keep the default limits and send uncompressed.\<close>

lemma default_fits:
  "length (cd_encode c m) \<le> 1000 \<Longrightarrow> sent_fits (Client_new t) (Server_new i) c m"
  "length (cd_encode c m) \<le> 1000 \<Longrightarrow> answer_fits (Client_new t) (Server_new i) c m"
  by (simp_all add: sent_fits_def answer_fits_def request_fits_def response_fits_def Client_new_def
      Server_new_def Server_from_arc_def Grpc_config_def encoding_limit_def decoding_limit_def)

lemma Client_new_inner [simp]: "cl_inner (Client_new t) = t"
  by (simp add: Client_new_def)

lemma Server_new_inner [simp]: "srv_inner (Server_new i) = i"
  by (simp add: Server_new_def Server_from_arc_def)

lemma loopback_carried [simp]: "carried loopback path c q s"
  by (simp add: carried_def)

text \<open>The runner of the witnesses: a loop back to the coordinator.\<close>

definition loop_coordinator :: "path \<Rightarrow> take_env \<Rightarrow> ((State \<times> trace) CoordinatorService, unit) Server" where
  "loop_coordinator dir te = Server_new (Coordinator_handlers dir te)"

definition loop_runner ::
  "path \<Rightarrow> take_env \<Rightarrow> ((byte list, loop_response, State \<times> trace) GrpcService, unit) Client" where
  "loop_runner dir te =
    Client_new (CoordinatorServiceServer_service loopback (loop_coordinator dir te))"

lemma loop_runner_connected:
  "runner_connected loopback (loop_runner dir te) (loop_coordinator dir te) dir te"
  by (simp add: runner_connected_def loopback_ok loop_runner_def loop_coordinator_def)

lemma loop_runner_fits:
  "length (cd_encode c m) \<le> 1000 \<Longrightarrow> sent_fits (loop_runner dir te) (loop_coordinator dir' te') c m"
  "length (cd_encode c m) \<le> 1000 \<Longrightarrow> answer_fits (loop_runner dir te) (loop_coordinator dir' te') c m"
  by (simp_all add: loop_runner_def loop_coordinator_def default_fits)

text \<open>The plugin of the witnesses: a loop back to the stub.\<close>

definition loop_stub ::
  "(string \<Rightarrow> (Error, json_map) result) \<Rightarrow> (JsonValue \<Rightarrow> (Error, byte list) result) \<Rightarrow>
    (unit CoordinatorPlugin, unit) Server" where
  "loop_stub from_str to_vec = Server_new (StubPlugin from_str to_vec)"

definition loop_plugin ::
  "(string \<Rightarrow> (Error, json_map) result) \<Rightarrow> (JsonValue \<Rightarrow> (Error, byte list) result) \<Rightarrow>
    ((byte list, loop_response, unit) GrpcService, unit) Client" where
  "loop_plugin from_str to_vec = Client_new (CoordinatorPluginServer_service loopback (loop_stub from_str to_vec))"

definition loop_env ::
  "(string \<Rightarrow> (Error, json_map) result) \<Rightarrow> (JsonValue \<Rightarrow> (Error, byte list) result) \<Rightarrow>
    plugin_env \<Rightarrow> plugin_env" where
  "loop_env from_str to_vec env = socket_env loopback (loop_plugin from_str to_vec) env"

lemma loop_plugin_fits:
  "length (cd_encode c m) \<le> 1000 \<Longrightarrow>
    sent_fits (loop_plugin from_str to_vec) (loop_stub from_str' to_vec') c m"
  "length (cd_encode c m) \<le> 1000 \<Longrightarrow>
    answer_fits (loop_plugin from_str to_vec) (loop_stub from_str' to_vec') c m"
  by (simp_all add: loop_plugin_def loop_stub_def default_fits)

lemma loop_env_connected:
  "stub_connected loopback (loop_plugin from_str to_vec) (loop_stub from_str to_vec) from_str to_vec
    (loop_env from_str to_vec env)"
proof -
  have "length (cd_encode (pb_Empty wire_prost) Empty) \<le> 1000"
    "item_ok (\<lambda>d. length (cd_encode (pb_DescribeResponses wire_prost) d) \<le> 1000) (StubPlugin_describe_plugin Empty)"
    by code_simp+
  then have "sent_fits (loop_plugin from_str to_vec) (loop_stub from_str to_vec) (pb_Empty wire_prost) Empty"
    "item_ok (answer_fits (loop_plugin from_str to_vec) (loop_stub from_str to_vec) (pb_DescribeResponses wire_prost))
      (StubPlugin_describe_plugin Empty)"
    by (auto simp: loop_plugin_fits item_ok_def split: sum.splits)
  moreover have "cl_inner (loop_plugin from_str to_vec) = CoordinatorPluginServer_service loopback (loop_stub from_str to_vec)"
    "srv_inner (loop_stub from_str to_vec) = StubPlugin from_str to_vec"
    by (simp_all add: loop_plugin_def loop_stub_def)
  ultimately show ?thesis
    unfolding stub_connected_def loop_env_def by (auto simp: loopback_ok)
qed

section \<open>A demonstration request\<close>

lemma demo_request_ok: "take_lease_request_ok (demo_request c (demo_desc sc n))"
  by (simp add: take_lease_request_ok_def demo_request_def demo_desc_def desc_ok_def)

text \<open>The demonstration fixture with one port, under the policy \<open>sc\<close> with \<open>n\<close> connections.\<close>

definition ports_desc :: "UseScope \<Rightarrow> i64 \<Rightarrow> FixtureDescription" where
  "ports_desc sc n = (demo_desc sc n)\<lparr>fd_inputs := [(''ports'', \<lparr>v_value = Some (Str ''p'')\<rparr>)]\<rparr>"

definition ports_from_str :: "string \<Rightarrow> (Error, json_map) result" where
  "ports_from_str s = (if s = ''p'' then Ok [(''main'', JsonString ''6379'')] else Err (Anyhow ''json''))"

definition ports_to_vec :: "JsonValue \<Rightarrow> (Error, byte list) result" where
  "ports_to_vec v =
    (case v of JsonObject [(_, JsonArray es)] \<Rightarrow> Ok (map (\<lambda>_. 7) es) | _ \<Rightarrow> Err (Anyhow ''json''))"

definition ports_env :: "string \<Rightarrow> pid \<Rightarrow> take_env" where
  "ports_env u pid = (demo_env u pid [])\<lparr>te_plugin := loop_env ports_from_str ports_to_vec (demo_plugin pid [])\<rparr>"

lemma ports_env_simps [simp]:
  "te_plugin (ports_env u pid) = loop_env ports_from_str ports_to_vec (demo_plugin pid [])"
  "te_lease_uuid (ports_env u pid) = u" "te_fixture_uuid (ports_env u pid) = ''f''"
  by (simp_all add: ports_env_def demo_env_def)

lemma ports_desc_simps:
  "fd_plugin (ports_desc sc n) = Some (BinaryPath ''/plugin'')" "desc_ok (ports_desc sc n)"
  "fd_sharing (ports_desc sc n) = Some (\<lparr>s_maximum_concurrent_connections = n, s_use_scope = Some sc\<rparr>)"
  "startup_timeout (ports_desc sc n) = 300000"
  by (simp_all add: ports_desc_def demo_desc_def desc_ok_def startup_timeout_def)

lemma ports_fingerprint: "request_fingerprint (ports_env u pid) (ports_desc sc n) b = Ok demo_fp"
  using demo_fingerprint [of u pid "[]" sc n b]
  by (simp add: request_fingerprint_def ports_env_def ports_desc_def FixtureFingerprint_compute_def
      canonical_encoding_def demo_env_def demo_desc_def)

lemma ports_asked: "asks_for_ports ports_from_str ports_to_vec (ports_desc sc n) [(''main'', JsonString ''6379'')] [7]"
  by (simp add: asks_for_ports_def ports_desc_def ports_from_str_def ports_to_vec_def btree_get_def)

lemma ports_lengths:
  "length (cd_encode (pb_TakeLeaseRequest wire_prost) (demo_request ''A'' (ports_desc (Unrestricted Empty) 10))) \<le> 1000"
  "length (cd_encode (pb_TakeLeaseRequest wire_prost) (demo_request ''B'' (ports_desc (Unrestricted Empty) 10))) \<le> 1000"
  "length (cd_encode (pb_TakeLeaseResponse wire_prost) (granted ''a'' [7] [])) \<le> 1000"
  "length (cd_encode (pb_TakeLeaseResponse wire_prost) (granted ''b'' [7] [''connecting to existing fixture''])) \<le> 1000"
  "length (cd_encode (pb_CreateRequest wire_prost)
    (stub_request (ports_desc (Unrestricted Empty) 10) (demo_request ''A'' (ports_desc (Unrestricted Empty) 10)) ''f'')) \<le> 1000"
  "length (cd_encode (pb_CreateProgress wire_prost) (stub_progress [7])) \<le> 1000"
  by code_simp+

lemma ports_request_ok: "take_lease_request_ok (demo_request cl (ports_desc sc n))"
  by (simp add: take_lease_request_ok_def demo_request_def ports_desc_simps)

lemma ports_provided:
  "stub_provides loopback (loop_plugin ports_from_str ports_to_vec) (loop_stub ports_from_str ports_to_vec) dir
    (ports_env u pid) (demo_request ''A'' (ports_desc (Unrestricted Empty) 10)) (ports_desc (Unrestricted Empty) 10)
    demo_fp pid [7]"
proof -
  have "plugin_starts (loop_env ports_from_str ports_to_vec (demo_plugin pid [])) b s 300000 pid" for b s
    by (simp add: loop_env_def demo_starts)
  then show ?thesis
    using ports_lengths by (simp add: stub_provides_def ports_desc_simps ports_fingerprint create_carried_def
        loop_plugin_fits demo_request_def)
qed

section \<open>Properties\<close>

text \<open>
  C8. Calling the coordinator over gRPC is calling its handlers: for a client connected to the
  coordinator's server and messages within the limits of both ends, each client method returns
  what the handler returns on the coordinator's state and leaves the state the handler leaves,
  and a panic of the handler reaches the caller as an error, if the transport carries the call
  and its answer; if it does not, the caller gets no response.
\<close>

theorem coordinator_over_grpc:
  assumes "runner_connected tn cl srv dir te" "state_typed s" "plugin_typed (te_plugin te)"
    and "take_lease_request_ok a" "sent_fits cl srv (pb_TakeLeaseRequest (tn_prost tn)) a"
      "returns (take_lease dir te) (answer_fits cl srv (pb_TakeLeaseResponse (tn_prost tn))) a (s, w)"
    and "sent_fits cl srv (pb_KeepaliveRequest (tn_prost tn)) b" "sent_fits cl srv (pb_ReleaseRequest (tn_prost tn)) c"
    and "sent_fits cl srv (pb_StatusRequest (tn_prost tn)) d"
      "item_ok (answer_fits cl srv (pb_StatusResponse (tn_prost tn))) (status d s)"
  shows "over_wire tn (carried tn (CoordinatorServiceClient_path TakeLease) (pb_TakeLeaseRequest (tn_prost tn)) a (s, w))
      (CoordinatorServiceClient_take_lease tn cl a (s, w)) (take_lease dir te a (s, w)) \<and>
    over_wire tn (carried tn (CoordinatorServiceClient_path Keepalive) (pb_KeepaliveRequest (tn_prost tn)) b (s, w))
      (CoordinatorServiceClient_keepalive tn cl b (s, w)) (Some (outcome_of (keepalive b s), s, w)) \<and>
    over_wire tn (carried tn (CoordinatorServiceClient_path ReleaseLease) (pb_ReleaseRequest (tn_prost tn)) c (s, w))
      (CoordinatorServiceClient_release_lease tn cl c (s, w))
      (Some (Return ReleaseResponse, snd (release_lease c s), w)) \<and>
    over_wire tn (carried tn (CoordinatorServiceClient_path Status_method) (pb_StatusRequest (tn_prost tn)) d (s, w))
      (CoordinatorServiceClient_status tn cl d (s, w)) (Some (outcome_of (status d s), s, w))"
proof -
  have ok: "tonic_ok tn" "cl_inner cl = CoordinatorServiceServer_service tn srv"
    and inner: "srv_inner srv = Coordinator_handlers dir te"
    using assms(1) by (simp_all add: runner_connected_def)
  note client = coordinator_client [OF ok, where s = "(s, w)", unfolded inner Coordinator_handlers_def CoordinatorService.simps prod.case]
  have take: "returns (take_lease dir te)
      (\<lambda>r. take_lease_response_ok r \<and> answer_fits cl srv (pb_TakeLeaseResponse (tn_prost tn)) r) a (s, w)"
    using assms(6) take_lease_typed [OF assms(2,3)] by (fastforce simp: returns_def response_typed_def)
  have stat: "returns (\<lambda>req (s, w). Some (outcome_of (status req s), s, w))
      (\<lambda>r. status_response_ok r \<and> answer_fits cl srv (pb_StatusResponse (tn_prost tn)) r) d (s, w)"
    using assms(10) status_typed [OF assms(2)] by (auto simp: returns_def item_ok_def)
  have "fst (release_lease c s) = Ok ReleaseResponse"
    by (simp add: release_lease_def Let_def)
  then have release: "(case release_lease c s of (r, s') \<Rightarrow> Some (outcome_of r, s', w)) =
      Some (Return ReleaseResponse, snd (release_lease c s), w)"
    by (cases "release_lease c s") (simp add: outcome_of_def)
  show ?thesis
    using client(1) [OF assms(4,5) take] client(2) [OF assms(7)] client(3) [OF assms(8), unfolded release]
      client(4) [OF assms(9) stat]
    by blast
qed

theorem coordinator_over_grpc_witness:
  "CoordinatorServiceClient_take_lease loopback (loop_runner demo_dir (demo_env ''a'' 1 []))
      (demo_request ''A'' (demo_desc (Unrestricted Empty) 10)) (State_default, []) =
    Some (Return \<lparr>tlr_status = 2, tlr_lease_id = ''a'', tlr_outputs = [], tlr_messages = []\<rparr>,
      demo_state (Unrestricted Empty) 10, demo_trace 1)"
proof -
  let ?te = "demo_env ''a'' 1 []" and ?a = "demo_request ''A'' (demo_desc (Unrestricted Empty) 10)"
  have typed: "plugin_typed (te_plugin ?te)"
    by (simp add: plugin_typed_def demo_env_def demo_creates demo_result_def)
  have "length (cd_encode (pb_TakeLeaseRequest wire_prost) ?a) \<le> 1000"
    "length (cd_encode (pb_TakeLeaseResponse wire_prost)
      \<lparr>tlr_status = 2, tlr_lease_id = ''a'', tlr_outputs = [], tlr_messages = []\<rparr>) \<le> 1000"
    "length (cd_encode (pb_KeepaliveRequest wire_prost) \<lparr>kq_lease_id = ''a''\<rparr>) \<le> 1000"
    "length (cd_encode (pb_ReleaseRequest wire_prost) \<lparr>rq_lease_id = ''a''\<rparr>) \<le> 1000"
    "length (cd_encode (pb_StatusRequest wire_prost) \<lparr>sq_lease_id = ''a''\<rparr>) \<le> 1000"
    by code_simp+
  then show ?thesis
    using coordinator_over_grpc [OF loop_runner_connected State_default_typed typed demo_request_ok,
        of demo_dir "''A''" "Unrestricted Empty" 10 "[]" "\<lparr>kq_lease_id = ''a''\<rparr>" "\<lparr>rq_lease_id = ''a''\<rparr>" "\<lparr>sq_lease_id = ''a''\<rparr>"]
      demo_first_take
    by (simp add: loop_runner_fits returns_def status_def State_default_def result_simps item_ok_def over_wire_def)
qed

text \<open>
  C24. A server refuses the calls of the other service: every method of a coordinator client that
  is connected to a plugin's server, and every method of a plugin client that is connected to the
  coordinator's server, streaming or not, gets \<open>UNIMPLEMENTED\<close>, and no handler runs: the state of
  the server is unchanged.
\<close>

theorem wrong_service_refused:
  assumes "tonic_ok tn" "cl_inner cl = CoordinatorPluginServer_service tn plugin"
    and "tonic_ok tn'" "cl_inner cl' = CoordinatorServiceServer_service tn' coordinator"
  shows "(sendable tn cl (CoordinatorServiceClient_path TakeLease) (pb_TakeLeaseRequest (tn_prost tn)) a s \<longrightarrow>
      unimplemented_answer (CoordinatorServiceClient_take_lease tn cl a s) s) \<and>
    (sendable tn cl (CoordinatorServiceClient_path Keepalive) (pb_KeepaliveRequest (tn_prost tn)) b s \<longrightarrow>
      unimplemented_answer (CoordinatorServiceClient_keepalive tn cl b s) s) \<and>
    (sendable tn cl (CoordinatorServiceClient_path ReleaseLease) (pb_ReleaseRequest (tn_prost tn)) c s \<longrightarrow>
      unimplemented_answer (CoordinatorServiceClient_release_lease tn cl c s) s) \<and>
    (sendable tn cl (CoordinatorServiceClient_path Status_method) (pb_StatusRequest (tn_prost tn)) d s \<longrightarrow>
      unimplemented_answer (CoordinatorServiceClient_status tn cl d s) s) \<and>
    (sendable tn' cl' (CoordinatorPluginClient_path DescribePlugin) (pb_Empty (tn_prost tn')) e s' \<longrightarrow>
      unimplemented_answer (CoordinatorPluginClient_describe_plugin tn' cl' e s') s') \<and>
    (sendable tn' cl' (CoordinatorPluginClient_path GetResourcePool) (pb_CreateRequest (tn_prost tn')) f s' \<longrightarrow>
      unimplemented_answer (CoordinatorPluginClient_get_resource_pool tn' cl' f s') s') \<and>
    (sendable tn' cl' (CoordinatorPluginClient_path GetResourceRequests) (pb_CreateRequest (tn_prost tn')) f s' \<longrightarrow>
      unimplemented_answer (CoordinatorPluginClient_get_resource_requests tn' cl' f s') s') \<and>
    (sendable tn' cl' (CoordinatorPluginClient_path CreateFixture) (pb_CreateRequest (tn_prost tn')) f s' \<longrightarrow>
      unimplemented_answer (CoordinatorPluginClient_create_fixture tn' cl' f s') s') \<and>
    (sendable tn' cl' (CoordinatorPluginClient_path DestroyFixture) (pb_DestroyRequest (tn_prost tn')) g s' \<longrightarrow>
      unimplemented_answer (CoordinatorPluginClient_destroy_fixture tn' cl' g s') s') \<and>
    (sendable tn' cl' (CoordinatorPluginClient_path HealthCheck) (pb_HealthCheckRequest (tn_prost tn')) h s' \<longrightarrow>
      unimplemented_answer (CoordinatorPluginClient_health_check tn' cl' h s') s')"
proof -
  note refused = call_bodyless [where h = "[(''grpc-status'', ''12''), (''content-type'', ''application/grpc'')]"]
  note plugin = refused [OF assms(1)] and coordinator = refused [OF assms(3)]
  note unrouted = CoordinatorPlugin_unrouted [OF paths_disjoint(1)] CoordinatorService_unrouted [OF paths_disjoint(2)]
    CoordinatorPlugin_reaches(2) CoordinatorService_reaches(2)
  show ?thesis
    unfolding client_methods
    by (intro conjI impI plugin coordinator) (simp_all only: assms(2,4) unrouted, simp_all)
qed

theorem wrong_service_refused_witness:
  "unimplemented_answer (CoordinatorServiceClient_take_lease loopback (loop_plugin ports_from_str ports_to_vec)
      (demo_request ''A'' (ports_desc (Unrestricted Empty) 10)) ()) ()"
proof -
  have "sendable loopback (loop_plugin ports_from_str ports_to_vec) (CoordinatorServiceClient_path TakeLease)
      (pb_TakeLeaseRequest wire_prost) (demo_request ''A'' (ports_desc (Unrestricted Empty) 10)) ()"
    using ports_lengths(1) by (simp add: sendable_def loop_plugin_def Client_new_def encoding_limit_def)
  then show ?thesis
    using wrong_service_refused [OF loopback_ok _ loopback_ok,
        of "loop_plugin ports_from_str ports_to_vec" "loop_stub ports_from_str ports_to_vec"
          "loop_runner demo_dir (ports_env ''a'' 1)" "loop_coordinator demo_dir (ports_env ''a'' 1)"]
    by (simp add: loop_plugin_def loop_runner_def)
qed

text \<open>
  C17. Serving the stub plugin over gRPC changes nothing for the coordinator: when the calls go
  through a client connected to the stub's server, are carried and have messages within the
  limits, the coordinator's \<open>describe\<close> and \<open>create_fixture\<close> return what they return on the
  handlers themselves.
\<close>

theorem stub_plugin_over_grpc:
  assumes "stub_connected tn cl srv from_str to_vec env" "parses_maps from_str" "create_request_ok q"
    and "pred_option (create_carried tn cl srv q) (ports_schema_blob from_str to_vec (ports_input_of q))"
  shows "describe env = describe (stub_env from_str to_vec env') \<and>
    create_fixture env q = create_fixture (stub_env from_str to_vec env') q"
proof -
  obtain blob where blob: "ports_schema_blob from_str to_vec (ports_input_of q) = Some blob"
    using blob_eq [OF assms(2)] by blast
  show ?thesis
    using stub_connected_creates [OF assms(1,3) _ blob] assms(4) blob stub_connected_describes [OF assms(1)]
    by (simp add: stub_create_fixture [OF blob]) (simp add: describe_def stub_env_def)
qed

theorem stub_plugin_over_grpc_witness:
  "create_fixture (loop_env (\<lambda>_. Ok []) (\<lambda>_. Ok [7]) (demo_plugin 1 []))
      \<lparr>cq_impl_id = IMPL_ID, cq_inputs = [], cq_metadata = None\<rparr> =
    create_fixture (stub_env (\<lambda>_. Ok []) (\<lambda>_. Ok [7]) (demo_plugin 1 []))
      \<lparr>cq_impl_id = IMPL_ID, cq_inputs = [], cq_metadata = None\<rparr>"
proof -
  have "length (cd_encode (pb_CreateRequest wire_prost) \<lparr>cq_impl_id = IMPL_ID, cq_inputs = [], cq_metadata = None\<rparr>) \<le> 1000"
    "length (cd_encode (pb_CreateProgress wire_prost) (stub_progress [7])) \<le> 1000"
    by code_simp+
  then show ?thesis
    using stub_plugin_over_grpc [OF loop_env_connected, of "\<lambda>_. Ok []"
        "\<lparr>cq_impl_id = IMPL_ID, cq_inputs = [], cq_metadata = None\<rparr>" "\<lambda>_. Ok [7]"]
    by (simp add: parses_maps_def create_carried_def loop_plugin_fits create_request_ok_def ports_schema_blob_def
        port_entries_def)
qed

text \<open>
  C9. End to end: the runner takes a lease by gRPC from the coordinator, which spawns the stub
  plugin and calls it by gRPC. When nothing can be reused, the plugin starts and the calls are
  carried, the runner gets the JSON of the ports that the input \<open>ports\<close> of its fixture asks for, one entry per
  port in the order of the names, and the coordinator holds the lease it has answered with.
\<close>

theorem lease_over_grpc:
  assumes "runner_connected tn cl srv dir te" "stub_connected tn' cl' srv' from_str to_vec (te_plugin te)"
    and "take_lease_request_ok req" "sent_fits cl srv (pb_TakeLeaseRequest (tn_prost tn)) req"
      "carried tn (CoordinatorServiceClient_path TakeLease) (pb_TakeLeaseRequest (tn_prost tn)) req (s, w)"
    and "stub_provides tn' cl' srv' dir te req desc fp pid blob"
      "asks_for_ports from_str to_vec desc ports blob"
    and "try_reuse fp (tlq_client_id req) (te_lease_uuid te) s = None"
    and "answer_fits cl srv (pb_TakeLeaseResponse (tn_prost tn)) (granted (te_lease_uuid te) blob [])"
  shows "\<exists>s' w'. CoordinatorServiceClient_take_lease tn cl req (s, w) =
      Some (Return (granted (te_lease_uuid te) blob []), s', w') \<and>
    hash_get (st_leases s') (LeaseId (te_lease_uuid te)) = Some \<lparr>lr_fingerprint = fp\<rparr>"
proof -
  obtain p result v s' w' where
    "commit_fixture fp (new_record desc (tlq_client_id req) p result) (te_lease_uuid te) (s, v) =
      (granted (te_lease_uuid te) blob [], s', w')"
    and take: "take_lease dir te req (s, w) = Some (Return (granted (te_lease_uuid te) blob []), s', w')"
    using assms(2,6,7,8) by (rule stub_lease)
  with commit_fixture_eqs(2) runner_take [OF assms(1,3-5) take granted_ok assms(9)]
  show ?thesis by fastforce
qed

theorem lease_over_grpc_witness:
  "\<exists>s' w'. CoordinatorServiceClient_take_lease loopback (loop_runner demo_dir (ports_env ''a'' 1))
      (demo_request ''A'' (ports_desc (Unrestricted Empty) 10)) (State_default, []) =
    Some (Return (granted ''a'' [7] []), s', w')"
proof -
  have "try_reuse demo_fp c l State_default = None" for c l
    by (simp add: try_reuse_def State_default_def)
  then show ?thesis
    using lease_over_grpc [where te = "ports_env ''a'' 1" and dir = demo_dir and s = State_default and w = "[]",
        OF loop_runner_connected _ ports_request_ok _ _ ports_provided ports_asked] ports_lengths
    by (fastforce simp: loop_env_connected loop_runner_fits)
qed

end
