(* ===== verification/Spec2Isabelle.thy ===== *)
theory Spec2Isabelle
  imports Allocator Daemon Calls
begin

text \<open>
  A verification development for the Rust part of rules_systemtest: the local coordinator of
  leased test fixtures and its stub plugin.

  \<^bold>\<open>The program.\<close> A test runner asks a coordinator daemon for a lease on a fixture, described by
  a content-addressed recipe. The daemon (\<^verbatim>\<open>src/coordinator/src/bin/coordinator_local.rs\<close>) takes an
  exclusive lock on its directory, so that one daemon serves it, and runs the coordinator
  (\<^verbatim>\<open>coordinator.rs\<close>). The handler of \<open>TakeLease\<close> fingerprints the recipe (\<^verbatim>\<open>fixture.rs\<close>), attaches the
  lease to a cached fixture if the sharing policy and a free slot allow it, and otherwise spawns
  a plugin process, connects to its socket, has it create the fixture (\<^verbatim>\<open>plugin_client.rs\<close>) and
  caches the result. \<open>ReleaseLease\<close> gives the slot back, \<open>Keepalive\<close> and \<open>Status\<close> look a lease up
  (\<^verbatim>\<open>lease.rs\<close>). The stub plugin (\<^verbatim>\<open>src/plugins/dummy/src/main.rs\<close>) echoes the requested ports. All
  of them talk gRPC with the generated messages and stubs of \<^verbatim>\<open>src/proto/systemtestrs/src/lib.rs\<close>.

  \<^bold>\<open>The theories\<close>, from the bottom up:

  \<^item> \<open>Prelude\<close>: machine integers, results and outcomes, loops with an exit, paths, the containers
    \<open>BTreeMap\<close> and \<open>HashMap\<close> behind the locales \<open>lookup_store\<close> and \<open>removable_store\<close>, and runs of
    step relations with the locales \<open>inductive_invariant\<close>, \<open>history_invariant\<close> and \<open>simulation\<close>.
  \<^item> \<open>Proto\<close>: the messages as records, the oneofs and enumerations as datatypes; the locale
    \<open>proto_enum\<close> is what the three enumerations promise.
  \<^item> \<open>Wire\<close> and \<open>Codec\<close>: an instance of prost, which is a parameter elsewhere: an encoder of the
    fields that the attributes in the source name, and a decoder of what it writes; the round trip
    of a message is an interpretation of the locale \<open>message_codec\<close>.
  \<^item> \<open>Effects\<close>: statuses and errors, the trace of calls to the operating system, and the
    computations over it. \<open>None\<close> is a call that never comes back, \<open>Return\<close>, \<open>Fail\<close> and \<open>Panic\<close> are
    the ways it does.
  \<^item> \<open>Grpc\<close>: paths, dispatch and server configuration of the generated stubs; the locale
    \<open>grpc_service\<close> is what a client and a server of one service agree on.
  \<^item> \<open>Plugin_Client\<close>: spawning (\<open>start_child\<close>, then \<open>connect_child\<close> with the retry loop
    \<open>connect_with_retry\<close>), the destructor, and the calls to the plugin, which may stay without an
    answer; when each loop ends and what it returns.
  \<^item> \<open>Fixture\<close> and \<open>Lease\<close>: ids, records and fingerprints; equal fingerprints mean equal fixtures
    and the reverse, up to collisions of the hash.
  \<^item> \<open>Coordinator\<close>: the state, the four handlers, the state invariant, the processes a call
    leaves behind, and the reuse rule of the design (\<open>spec_admits\<close>), stated apart from the code, that
    reuse and release refine.
    \<open>TakeLease\<close> is composed of its two critical sections (\<open>try_reuse\<close>, \<open>commit_fixture\<close>) around
    \<open>provision\<close>, which runs without the lock.
  \<^item> \<open>Service\<close>: any number of handlers in flight, as a step relation \<open>service_step\<close>. Its steps run
    the code's own pieces: the critical sections, \<open>start_child\<close>, \<open>connect_child\<close> and
    \<open>provision_plugin\<close>. A handler may be cancelled at any await, and a child that nothing owns
    any more may exit and be reaped. The invariant on every interleaving, and the handler of
    \<open>Coordinator\<close> as one of the runs.
  \<^item> \<open>Allocator\<close>: the contract of the design as a transition system over the declared scopes and
    limits, the simulation of the service by it, and what follows: which client holds a lease, what a lease shows, and the account of
    the plugin processes.
  \<^item> \<open>Typing\<close>: the types the model does not carry itself (maps as lists of entries, enumerations
    as numbers), kept by every handler.
  \<^item> \<open>Daemon\<close>: the start of the daemon, one step per system call, on a host where daemons start,
    race for the lock, serve, exit and crash.
  \<^item> \<open>Dummy_Plugin\<close>: the handlers of the stub plugin, its ports blob and its \<open>main\<close>, and a lease
    taken end to end with the stub behind the socket.
  \<^item> \<open>Rpc\<close>: clients, and a call from the request of a client method through encoder, tonic,
    dispatch, decoder and handler and back; the locale \<open>rpc_method\<close> is the pair of codecs of a
    method, in which a call is shown to be the call of the handler.
  \<^item> \<open>Endpoints\<close>: the two generated services method by method (traits, arms of the dispatch, client
    methods), the coordinator and the stub plugin as their implementations, and an instance of the
    hypotheses on prost and tonic.
  \<^item> \<open>Calls\<close>: runner, coordinator and stub plugin connected by gRPC.
  \<^item> This theory: what daemons, coordinators and plugins guarantee together.

  \<^bold>\<open>What the theorems show.\<close> Under every interleaving, leases are routed to cached fixtures,
  slot counts stay within their bounds and every cached fixture owns the process id of a plugin of
  its own; without the replacement of a leased fixture, slot counts are exact and the sharing limit
  holds. Such runs are runs of the allocator of the design when the declared limits are at least
  one, a fixture that is not shared with all clients is held by its creator only, and a lease keeps
  its outputs until it is released. The process ids in use are always those of cached fixtures, of
  requests in flight and of the plugins that a failed connection or a cancellation has left behind;
  an id is in use until the coordinator kills the process or sees it exit, and a plugin that exits
  by itself is not noticed. A cached fixture is reused exactly when the design's rule allows it, if
  the declared limit is at least one; for a smaller limit the code admits one lease and the design
  none (\<open>limit_below_one_diverges\<close>). Each error of \<open>TakeLease\<close> has its cause and each cause its
  error, and errors leave the state alone. \<open>TakeLease\<close> stays without an answer exactly when the
  plugin leaves one of its two calls unanswered, or its stream stalls or runs on without a terminal
  message (\<open>take_lease_hangs_iff\<close>). Over gRPC a call that the transport carries is the call
  of the handler, and a server refuses the calls of the other service. From the start of a daemon,
  two runners get the outputs of one fixture, with one plugin. At most one daemon per
  directory gets past the lock, and a serving daemon keeps its socket. Some theorems state where
  the code falls short of its design: a fixture that is provisioned again replaces the cached one
  under its leases (\<open>overwrite_redirects_leases\<close>, \<open>concurrent_first_takes_collide\<close>,
  \<open>slot_limit_exceeded\<close>), a failed connection does not kill the plugin
  (\<open>failed_spawn_leaks_child\<close>), a plugin that does not finish holds the handler for ever
  (\<open>create_fixture_hangs_iff\<close>), and nothing is ever removed but by a release (\<open>nothing_expires\<close>).

  \<^bold>\<open>Parameters.\<close> Code outside the repository is an argument of the definitions that use it: the
  operating system, the clock, the transport and the answers of the plugin (\<open>plugin_env\<close>,
  \<open>daemon_os\<close>), SHA-256, the encoder of prost and the file system (\<open>take_env\<close>), JSON parsing and
  printing, and tonic with the codecs of prost. Of these the development assumes \<open>tonic_ok\<close>: a call
  within the limits of both ends is delivered if the transport carries it and yields no response
  otherwise, a panic of a handler and a response without a body reach the caller as a status, and
  prost decodes what it has encoded; \<open>loopback\<close> with \<open>wire_prost\<close> satisfies it. Random UUIDs are arguments
  too; that a fresh lease id is not in use is a hypothesis where it matters, as is that the system
  does not give a new process an id that is in use. A child that has exited keeps its id until its
  parent has seen the exit.

  \<^bold>\<open>Bounds and loops.\<close> Slot counts, limits and ports are 64-bit words. The two loops of the
  program are \<open>loop_from\<close>, whose value is \<open>None\<close> exactly when they never end, so no fuel is needed;
  \<open>daemon_main\<close> iterates its step function five times because no path of \<open>main\<close> is longer.
  Times are in milliseconds; an instant that the platform cannot represent is a panic.

  \<^bold>\<open>Not modelled.\<close> The Go runner and the Bazel rules, argument parsing, the loop of the tonic
  server, what tonic and prost do inside, deadlines of calls (a caller that gives up is the
  cancellation of its handler in \<open>Service\<close>), and poisoning of the state lock: no critical section
  panics, since \<open>slot_arithmetic_exact\<close> shows that the only arithmetic in them does not overflow.
  The constructors and builders of the plugin's client and server are those of the coordinator's
  and are modelled once.
\<close>

section \<open>Daemons and their coordinators\<close>

text \<open>A serving daemon runs a coordinator for the directory of its own socket.\<close>

definition own_coordinators :: "Host \<Rightarrow> bool" where
  "own_coordinators h \<longleftrightarrow>
    (\<forall>p args c. h_procs h p = Some (args, Serving c) \<longrightarrow> c = Coordinator_new (instance_dir args))"

lemma daemon_next_Serving:
  "daemon_next os args ph = Serving c \<Longrightarrow>
    c = Coordinator_new (instance_dir args) \<or> ph = Serving c"
  by (cases ph) (auto split: sum.splits option.splits)

lemma host_step_own:
  assumes "host_step h e h'" "own_coordinators h"
  shows "own_coordinators h'"
  using assms
proof (induction rule: host_step.induct)
  case (step h p args ph os ph')
  then show ?case by (auto simp: own_coordinators_def dest!: daemon_next_Serving [OF sym] daemon_next_Serving)
qed (auto simp: own_coordinators_def)

interpretation own: inductive_invariant host_step "\<lambda>_. True" own_coordinators
  by unfold_locales (rule host_step_own)

lemma serving_coordinator:
  assumes "run host_step Host_init es h" "h_procs h p = Some (args, Serving c)"
  shows "c = Coordinator_new (instance_dir args)"
proof -
  have "own_coordinators Host_init" by (simp add: own_coordinators_def Host_init_def)
  with own.run_keeps [OF assms(1)] have "own_coordinators h" by (simp add: list_all_iff)
  with assms(2) show ?thesis by (simp add: own_coordinators_def)
qed

lemma plugin_socket_path_inject:
  "plugin_socket_path d u = plugin_socket_path d' u' \<longleftrightarrow> d = d' \<and> take 8 u = take 8 u'"
  by (auto simp: plugin_socket_path_def)


section \<open>Calls to a serving daemon\<close>





section \<open>Properties that span components\<close>

text \<open>
  C37. Serving daemons do not interfere: every serving daemon starts a coordinator with an empty
  state for the directory of its socket, and two serving daemons never choose the same path
  for a plugin socket, whatever UUIDs they draw.
\<close>

theorem daemons_do_not_share_plugins:
  assumes "run host_step Host_init es h" "p \<noteq> q"
    and "h_procs h p = Some (args, Serving c)" "h_procs h q = Some (args', Serving c')"
  shows "c = Coordinator_new (instance_dir args) \<and> co_state c = sv_state Service_init \<and>
    plugin_socket_path (co_instance_dir c) u \<noteq> plugin_socket_path (co_instance_dir c') u'"
proof -
  have c: "c = Coordinator_new (instance_dir args)" "c' = Coordinator_new (instance_dir args')"
    using serving_coordinator [OF assms(1)] assms(3,4) by blast+
  have "lock_path args \<noteq> lock_path args'"
  proof
    assume eq: "lock_path args = lock_path args'"
    have "holds_lock h p (lock_path args)" "holds_lock h q (lock_path args')"
      using assms(3,4) by (auto simp: holds_lock_def)
    then have "p = q" unfolding eq by (rule holds_lock_unique [OF host_reachable_inv [OF assms(1)]])
    with assms(2) show False ..
  qed
  then show ?thesis
    by (simp add: c Coordinator_new_def Service_init_def plugin_socket_path_inject)
qed

theorem daemons_do_not_share_plugins_witness:
  "\<exists>es h c c'. run host_step Host_init es h \<and> h_procs h 0 = Some (example_args, Serving c) \<and>
    h_procs h 1 = Some (example_args\<lparr>ar_socket := Path True [''t'', ''c.sock'']\<rparr>, Serving c') \<and>
    plugin_socket_path (co_instance_dir c) ''01234567'' \<noteq> plugin_socket_path (co_instance_dir c') ''01234567''"
proof -
  let ?a = "example_args\<lparr>ar_socket := Path True [''t'', ''c.sock'']\<rparr>"
  have "run host_step example_host [Launch 1, Step 1, Step 1, Step 1, Step 1]
    (example_host\<lparr>h_procs := (h_procs example_host)(1 \<mapsto> (?a, Serving (Coordinator_new (instance_dir ?a)))),
       h_locks := (h_locks example_host)(lock_path ?a \<mapsto> 1),
       h_sockets := (h_sockets example_host)(ar_socket ?a \<mapsto> 1)\<rparr>)" (is "run _ _ _ ?h")
    by (rule fine_start) (simp_all add: example_host_def lock_path_def instance_dir_def)
  note r = run_append [OF example_run this]
  have 0: "h_procs ?h 0 = Some (example_args, Serving (Coordinator_new (Path True [''r''])))"
    by (simp add: example_host_def)
  have 1: "h_procs ?h 1 = Some (?a, Serving (Coordinator_new (instance_dir ?a)))" by simp
  have "(0 :: nat) \<noteq> 1" by simp
  from daemons_do_not_share_plugins [OF r this 0 1, of "''01234567''" "''01234567''"] r 0 1 show ?thesis
    by blast
qed



end
